(* ===== verification/Prelude.thy ===== *)
theory Prelude
  imports Main "HOL-Library.Word" "HOL-Library.Sublist" "HOL-Library.AList" "HOL-Library.Multiset"
begin

unbundle bit_operations_syntax

text \<open>
  What the components share: the error values of the Go code, the shape of a stateful Go call, the
  oracle through which a call reads the clock, the random source, a \<^verbatim>\<open>select\<close> and the order of a map
  iteration, and the functions of the Go standard library the sources call on strings and numbers.

  A Go call that may fail is a function of type \<open>'w \<Rightarrow> (error + 'a) \<times> 'w\<close>: the state is returned on
  the error path too, because what the call wrote before it failed stays written. A call that panics ends
  with \<open>NilDereference\<close> or \<open>Panic\<close>; no code of the program recovers, so no error handler sees these.

  Go strings are byte strings and are \<open>string\<close> here. \<^verbatim>\<open>strings.ToLower\<close>, \<^verbatim>\<open>strings.TrimSpace\<close> and
  \<^verbatim>\<open>strings.EqualFold\<close> are the functions on ASCII text; their Unicode tables are not modelled.
\<close>

named_theorems frame \<open>fields of the world a call does not write\<close>
named_theorems keep \<open>calls and the part of the world they leave alone\<close>

section \<open>Errors and stateful calls\<close>

datatype error =
    ErrNotFound
  | ErrUnauthorized
  | ErrForbidden
  | ErrConflict
  | ErrValidation
  | DeadlineExceeded
  | Canceled
  | NilDereference
  | Panic string
  | ErrText string
  | ErrStatus string string
  | ErrWrap string error

text \<open>
  \<open>ErrStatus reason message\<close> is a status error of the Kubernetes API, or an error of the database with its code, \<open>ErrWrap text e\<close> the result of
  \<^verbatim>\<open>fmt.Errorf\<close> with \<^verbatim>\<open>%w\<close>.
\<close>

fun Error :: "error \<Rightarrow> string" where
  "Error ErrNotFound = ''not found''"
| "Error ErrUnauthorized = ''unauthorized''"
| "Error ErrForbidden = ''forbidden''"
| "Error ErrConflict = ''conflict''"
| "Error ErrValidation = ''validation failed''"
| "Error DeadlineExceeded = ''context deadline exceeded''"
| "Error Canceled = ''context canceled''"
| "Error NilDereference = ''runtime error: invalid memory address or nil pointer dereference''"
| "Error (Panic s) = s"
| "Error (ErrText s) = s"
| "Error (ErrStatus r s) = s"
| "Error (ErrWrap s e) = s"

fun errors_Is :: "error \<Rightarrow> error \<Rightarrow> bool" where
  "errors_Is (ErrWrap s e) t = (ErrWrap s e = t \<or> errors_Is e t)"
| "errors_Is e t = (e = t)"

text \<open>\<^verbatim>\<open>fmt.Errorf("...: %w", err)\<close>\<close>

definition Errorf :: "string \<Rightarrow> error \<Rightarrow> error" where
  "Errorf pre e = ErrWrap (pre @ '': '' @ Error e) e"

type_synonym ('a, 'w) op = "'w \<Rightarrow> (error + 'a) \<times> 'w"

text \<open>\<^verbatim>\<open>x, err := f(); if err != nil { return nil, err }; ...\<close>\<close>

definition bindE :: "('a, 'w) op \<Rightarrow> ('a \<Rightarrow> ('b, 'w) op) \<Rightarrow> ('b, 'w) op" where
  "bindE f k w = (case f w of (Inl e, w') \<Rightarrow> (Inl e, w') | (Inr a, w') \<Rightarrow> k a w')"

definition is_panic :: "error \<Rightarrow> bool" where
  "is_panic e = (case e of NilDereference \<Rightarrow> True | Panic _ \<Rightarrow> True | _ \<Rightarrow> False)"

text \<open>
  \<^verbatim>\<open>x, err := f(); if err != nil { ... }; ...\<close>, with \<open>h\<close> the body of the test; a panic goes past it.
\<close>

definition catchE :: "('a, 'w) op \<Rightarrow> (error \<Rightarrow> ('b, 'w) op) \<Rightarrow> ('a \<Rightarrow> ('b, 'w) op) \<Rightarrow> ('b, 'w) op" where
  "catchE f h k w =
     (case f w of
        (Inl e, w') \<Rightarrow> if is_panic e then (Inl e, w') else h e w'
      | (Inr a, w') \<Rightarrow> k a w')"

definition ret :: "'a \<Rightarrow> ('a, 'w) op" where
  "ret a w = (Inr a, w)"

definition fail :: "error \<Rightarrow> ('a, 'w) op" where
  "fail e w = (Inl e, w)"

text \<open>A result that needs no world\<close>

definition ofSum :: "error + 'b \<Rightarrow> ('b, 'w) op" where
  "ofSum r w = (r, w)"

lemma bindE_Inl [simp]: "f w = (Inl e, w') \<Longrightarrow> bindE f k w = (Inl e, w')"
  by (simp add: bindE_def)

lemma bindE_Inr [simp]: "f w = (Inr a, w') \<Longrightarrow> bindE f k w = k a w'"
  by (simp add: bindE_def)

lemma bindE_ret [simp]: "bindE (ret a) k = k a"
  by (simp add: bindE_def ret_def fun_eq_iff)

lemma bindE_fail [simp]: "bindE (fail e) k = fail e"
  by (simp add: bindE_def fail_def fun_eq_iff)

lemma bindE_assoc: "bindE (bindE f g) h = bindE f (\<lambda>a. bindE (g a) h)"
  by (simp add: bindE_def fun_eq_iff split: prod.splits sum.splits)

lemma bindE_InrD:
  assumes "bindE f k w = (Inr b, w'')"
  obtains a w' where "f w = (Inr a, w')" and "k a w' = (Inr b, w'')"
  using assms by (auto simp: bindE_def split: prod.splits sum.splits)

section \<open>What a call leaves alone\<close>

text \<open>\<open>keeping v f\<close>: the call \<open>f\<close> does not change \<open>v\<close> of the world.\<close>

definition keeping :: "('w \<Rightarrow> 'v) \<Rightarrow> ('b, 'w) op \<Rightarrow> bool" where
  "keeping v f \<longleftrightarrow> (\<forall>w r w'. f w = (r, w') \<longrightarrow> v w' = v w)"

lemma keepingD: "keeping v f \<Longrightarrow> f w = (r, w') \<Longrightarrow> v w' = v w"
  by (simp add: keeping_def)

lemma keeping_ret [keep]: "keeping v (ret a)" and keeping_fail [keep]: "keeping v (fail e)"
  by (simp_all add: keeping_def ret_def fail_def)

lemma keeping_catch [keep]:
  assumes "keeping v f" and "\<And>e. keeping v (h e)" and "\<And>a. keeping v (k a)"
  shows "keeping v (catchE f h k)"
  unfolding keeping_def
proof (intro allI impI)
  fix w r w' assume run: "catchE f h k w = (r, w')"
  obtain r1 w1 where f1: "f w = (r1, w1)" by fastforce
  note F = keepingD [OF assms(1) f1]
  show "v w' = v w"
  proof (cases r1)
    case (Inl e)
    with run f1 have "(if is_panic e then (Inl e, w1) else h e w1) = (r, w')" by (simp add: catchE_def)
    with keepingD [OF assms(2) [of e], of w1 r w'] F show ?thesis by (cases "is_panic e") auto
  next
    case (Inr a)
    with run f1 have "k a w1 = (r, w')" by (simp add: catchE_def)
    with keepingD [OF assms(3) this] F show ?thesis by simp
  qed
qed

lemma bindE_catch: "bindE f k = catchE f fail k"
  by (simp add: fun_eq_iff bindE_def catchE_def fail_def split: prod.split sum.split)

lemma keeping_bind [keep]: "keeping v f \<Longrightarrow> (\<And>a. keeping v (k a)) \<Longrightarrow> keeping v (bindE f k)"
  unfolding bindE_catch by (intro keep)

lemma keeping_if [keep]: "(b \<Longrightarrow> keeping v f) \<Longrightarrow> (\<not> b \<Longrightarrow> keeping v g) \<Longrightarrow> keeping v (if b then f else g)"
  by simp

lemma keepingI: "(\<And>w. v (snd (f w)) = v w) \<Longrightarrow> keeping v f"
  unfolding keeping_def by (metis snd_conv)

section \<open>What a call reads from outside the program\<close>

text \<open>
  Times are nanoseconds since Go's zero time, so \<^verbatim>\<open>t.IsZero()\<close> is \<open>t = 0\<close>; durations are
  nanoseconds. The world of every component extends \<open>env\<close>: \<open>clk\<close> gives the result of each successive
  call of \<^verbatim>\<open>time.Now().UTC()\<close>, \<open>rnd\<close> and \<open>rnd_ok\<close> the bytes and the success of each
  \<^verbatim>\<open>rand.Read\<close>, \<open>sel\<close> what each \<^verbatim>\<open>select\<close> on \<^verbatim>\<open>ctx.Done()\<close> finds (\<open>Some e\<close>: the context is done with
  error \<open>e\<close>), and \<open>rank\<close> the order in which each \<^verbatim>\<open>range\<close> over a map visits the keys. The counters say
  how many of each have been read. All are arbitrary, so a theorem holds for every clock, every random
  source, every cancellation and every iteration order.
\<close>

type_synonym time = int
type_synonym duration = int

record env =
  clk :: "nat \<Rightarrow> time"
  ticks :: nat
  rnd :: "nat \<Rightarrow> nat \<Rightarrow> 8 word"
  rnd_ok :: "nat \<Rightarrow> bool"
  draws :: nat
  sel :: "nat \<Rightarrow> error option"
  sels :: nat
  rank :: "nat \<Rightarrow> string \<Rightarrow> nat"
  ranges :: nat

abbreviation IsZero :: "time \<Rightarrow> bool" where
  "IsZero t \<equiv> t = 0"

abbreviation second :: duration where
  "second \<equiv> 1000000000"

definition Now :: "'a env_scheme \<Rightarrow> time \<times> 'a env_scheme" where
  "Now w = (clk w (ticks w), w\<lparr>ticks := Suc (ticks w)\<rparr>)"

definition rand_Read :: "nat \<Rightarrow> 'a env_scheme \<Rightarrow> 8 word list option \<times> 'a env_scheme" where
  "rand_Read n w =
     (if rnd_ok w (draws w) then Some (map (rnd w (draws w)) [0..<n]) else None,
      w\<lparr>draws := Suc (draws w)\<rparr>)"

definition ctx_Done :: "'a env_scheme \<Rightarrow> error option \<times> 'a env_scheme" where
  "ctx_Done w = (sel w (sels w), w\<lparr>sels := Suc (sels w)\<rparr>)"

text \<open>\<^verbatim>\<open>for k, v := range m\<close>: the entries of the map in the order of this iteration.\<close>

definition range_map ::
  "(string \<times> 'v) list \<Rightarrow> 'a env_scheme \<Rightarrow> (string \<times> 'v) list \<times> 'a env_scheme" where
  "range_map m w =
     (sort_key (\<lambda>(k, v). rank w (ranges w) k) m, w\<lparr>ranges := Suc (ranges w)\<rparr>)"

lemma range_map_mset [simp]: "mset (fst (range_map m w)) = mset m"
  by (simp add: range_map_def)

lemma range_map_set [simp]: "set (fst (range_map m w)) = set m"
  by (simp add: range_map_def)

lemma find_SomeD: "find p xs = Some x \<Longrightarrow> x \<in> set xs \<and> p x"
  by (auto simp: find_Some_iff)

lemma snd_Now: "snd (Now w) = w\<lparr>ticks := Suc (ticks w)\<rparr>"
  by (simp add: Now_def)

text \<open>What a component keeps is the part of its world beyond \<open>env\<close>; reading the oracle leaves it alone.\<close>

lemma more_Now [frame]: "env.more (snd (Now w)) = env.more w"
  by (simp add: Now_def)

lemma more_rand_Read [frame]: "env.more (snd (rand_Read n w)) = env.more w"
  by (simp add: rand_Read_def)

lemma more_ctx_Done [frame]: "env.more (snd (ctx_Done w)) = env.more w"
  by (simp add: ctx_Done_def)

lemma more_range_map [frame]: "env.more (snd (range_map m w)) = env.more w"
  by (simp add: range_map_def)

lemma rand_Read_length: "fst (rand_Read n w) = Some bs \<Longrightarrow> length bs = n"
  by (auto simp: rand_Read_def split: if_splits)

section \<open>Strings\<close>

definition is_space :: "char \<Rightarrow> bool" where
  "is_space c \<longleftrightarrow> c \<in> {CHR 0x09, CHR 0x0A, CHR 0x0B, CHR 0x0C, CHR 0x0D, CHR 0x20}"

definition TrimFunc :: "(char \<Rightarrow> bool) \<Rightarrow> string \<Rightarrow> string" where
  "TrimFunc p s = rev (dropWhile p (rev (dropWhile p s)))"

definition TrimSpace :: "string \<Rightarrow> string" where
  "TrimSpace = TrimFunc is_space"

text \<open>\<^verbatim>\<open>strings.Trim(s, cutset)\<close>\<close>

definition Trim :: "string \<Rightarrow> string \<Rightarrow> string" where
  "Trim s cutset = TrimFunc (\<lambda>c. c \<in> set cutset) s"

definition lower_char :: "char \<Rightarrow> char" where
  "lower_char c = (let n = of_char c :: nat in if 65 \<le> n \<and> n \<le> 90 then char_of (n + 32) else c)"

definition ToLower :: "string \<Rightarrow> string" where
  "ToLower = map lower_char"

definition EqualFold :: "string \<Rightarrow> string \<Rightarrow> bool" where
  "EqualFold a b \<longleftrightarrow> ToLower a = ToLower b"

text \<open>\<^verbatim>\<open>strings.ReplaceAll\<close> with a one-byte pattern and a one-byte replacement, the only use made of it\<close>

definition ReplaceAll :: "string \<Rightarrow> char \<Rightarrow> char \<Rightarrow> string" where
  "ReplaceAll s old new = map (\<lambda>c. if c = old then new else c) s"

definition HasPrefix :: "string \<Rightarrow> string \<Rightarrow> bool" where
  "HasPrefix s p \<longleftrightarrow> take (length p) s = p"

definition TrimPrefix :: "string \<Rightarrow> string \<Rightarrow> string" where
  "TrimPrefix s p = (if HasPrefix s p then drop (length p) s else s)"

definition TrimSuffix :: "string \<Rightarrow> string \<Rightarrow> string" where
  "TrimSuffix s p = (if HasPrefix (rev s) (rev p) then take (length s - length p) s else s)"

fun Contains :: "string \<Rightarrow> string \<Rightarrow> bool" where
  "Contains [] sub = (sub = [])"
| "Contains (c # s) sub = (HasPrefix (c # s) sub \<or> Contains s sub)"

subsection \<open>Trimming and case\<close>

lemma TrimFunc_Nil [simp]: "TrimFunc p [] = []"
  by (simp add: TrimFunc_def)

lemma dropWhile_id: "(xs = [] \<or> \<not> p (hd xs)) \<Longrightarrow> dropWhile p xs = xs"
  by (cases xs) auto

lemma dropWhile_hd: "dropWhile p xs = [] \<or> \<not> p (hd (dropWhile p xs))"
  using hd_dropWhile by blast

lemma last_dropWhile_rev: "dropWhile p (rev xs) = [] \<or> \<not> p (last (rev (dropWhile p (rev xs))))"
  using dropWhile_hd [of p "rev xs"] by (auto simp: last_rev)

lemma TrimFunc_last: "TrimFunc p s \<noteq> [] \<Longrightarrow> \<not> p (last (TrimFunc p s))"
  using last_dropWhile_rev [of p "dropWhile p s"] by (auto simp: TrimFunc_def)

lemma TrimFunc_prefix: "prefix (TrimFunc p s) (dropWhile p s)"
proof -
  have "suffix (dropWhile p (rev (dropWhile p s))) (rev (dropWhile p s))"
    by (rule suffix_dropWhile)
  then show ?thesis
    by (simp add: TrimFunc_def suffix_to_prefix)
qed

lemma TrimFunc_hd: "TrimFunc p s \<noteq> [] \<Longrightarrow> \<not> p (hd (TrimFunc p s))"
  by (metis TrimFunc_prefix dropWhile_hd hd_append2 prefixE prefix_bot.extremum_uniqueI)

lemma TrimFunc_idem [simp]: "TrimFunc p (TrimFunc p s) = TrimFunc p s"
proof (cases "TrimFunc p s = []")
  case False
  then have "dropWhile p (TrimFunc p s) = TrimFunc p s"
    using TrimFunc_hd by (intro dropWhile_id) blast
  moreover have "dropWhile p (rev (TrimFunc p s)) = rev (TrimFunc p s)"
    using False TrimFunc_last by (intro dropWhile_id) (auto simp: hd_rev)
  ultimately show ?thesis
    by (simp add: TrimFunc_def [of p "TrimFunc p s"])
qed simp

lemma TrimFunc_set: "set (TrimFunc p s) \<subseteq> set s"
  by (auto simp: TrimFunc_def dest!: set_dropWhileD)

lemma TrimFunc_length: "length (TrimFunc p s) \<le> length s"
  by (metis TrimFunc_prefix le_trans length_dropWhile_le prefix_length_le)

lemma TrimFunc_empty_iff: "TrimFunc p s = [] \<longleftrightarrow> (\<forall>c \<in> set s. p c)"
proof
  assume "TrimFunc p s = []"
  then have "\<forall>c \<in> set (dropWhile p s). p c"
    by (simp add: TrimFunc_def)
  with dropWhile_hd [of p s] have "dropWhile p s = []"
    by (meson hd_in_set)
  then show "\<forall>c \<in> set s. p c"
    by simp
next
  assume "\<forall>c \<in> set s. p c"
  then have "dropWhile p s = []"
    by simp
  then show "TrimFunc p s = []"
    by (simp only: TrimFunc_def) simp
qed

lemma lower_char_idem [simp]: "lower_char (lower_char c) = lower_char c"
  by (auto simp: lower_char_def Let_def)

lemma ToLower_idem [simp]: "ToLower (ToLower s) = ToLower s"
  by (simp add: ToLower_def)

end
