(* ===== verification/GoLib.thy ===== *)
theory GoLib
  imports Prelude "HOL-Library.Char_ord" "HOL-Library.List_Lexorder"
begin

text \<open>
  The numeric side of the Go library that the sources use: \<^verbatim>\<open>int64\<close> and \<^verbatim>\<open>int32\<close> wrap-around,
  \<^verbatim>\<open>strconv.Itoa\<close>, \<^verbatim>\<open>strconv.Atoi\<close> and \<^verbatim>\<open>hex.EncodeToString\<close>, with the round trip of the decimal format
  and the shape of the hexadecimal one; and the sorted traversal of a \<^verbatim>\<open>map[string]string\<close>.
\<close>

section \<open>Widths\<close>

definition wrap64 :: "int \<Rightarrow> int" where
  "wrap64 x = (x + 2 ^ 63) mod 2 ^ 64 - 2 ^ 63"

definition wrap32 :: "int \<Rightarrow> int" where
  "wrap32 x = (x + 2 ^ 31) mod 2 ^ 32 - 2 ^ 31"

abbreviation fits64 :: "int \<Rightarrow> bool" where
  "fits64 x \<equiv> - (2 ^ 63) \<le> x \<and> x < 2 ^ 63"

lemma wrap64_id [simp]: "fits64 x \<Longrightarrow> wrap64 x = x"
  by (simp add: wrap64_def)

lemma wrap64_fits: "fits64 (wrap64 x)"
proof -
  have "0 \<le> (x + 2 ^ 63) mod 2 ^ 64" and "(x + 2 ^ 63) mod 2 ^ 64 < 2 ^ 64"
    by (rule pos_mod_sign, simp) (rule pos_mod_bound, simp)
  then show ?thesis by (simp add: wrap64_def)
qed

lemma wrap32_id [simp]: "- (2 ^ 31) \<le> x \<Longrightarrow> x < 2 ^ 31 \<Longrightarrow> wrap32 x = x"
  by (simp add: wrap32_def)

section \<open>Decimal\<close>

definition digit :: "nat \<Rightarrow> char" where
  "digit n = char_of (48 + n)"

fun dec :: "nat \<Rightarrow> string" where
  "dec n = (if n < 10 then [digit n] else dec (n div 10) @ [digit (n mod 10)])"

declare dec.simps [simp del]

definition Itoa :: "int \<Rightarrow> string" where
  "Itoa i = (if i < 0 then CHR ''-'' # dec (nat (- i)) else dec (nat i))"

definition is_digit :: "char \<Rightarrow> bool" where
  "is_digit c \<longleftrightarrow> 48 \<le> (of_char c :: nat) \<and> (of_char c :: nat) \<le> 57"

definition digit_val :: "char \<Rightarrow> nat" where
  "digit_val c = of_char c - 48"

fun undec :: "nat \<Rightarrow> string \<Rightarrow> nat option" where
  "undec acc [] = Some acc"
| "undec acc (c # cs) = (if is_digit c then undec (10 * acc + digit_val c) cs else None)"

definition quoted :: "string \<Rightarrow> string" where
  "quoted s = CHR 0x22 # s @ [CHR 0x22]"

definition Atoi :: "string \<Rightarrow> error + int" where
  "Atoi s =
     (let neg = HasPrefix s ''-'';
          ds = (if neg \<or> HasPrefix s ''+'' then tl s else s)
      in if ds = [] then Inl (ErrText (''strconv.Atoi: parsing '' @ quoted s @ '': invalid syntax''))
         else case undec 0 ds of
             None \<Rightarrow> Inl (ErrText (''strconv.Atoi: parsing '' @ quoted s @ '': invalid syntax''))
           | Some n \<Rightarrow>
               (let i = (if neg then - int n else int n)
                in if fits64 i then Inr i
                   else Inl (ErrText (''strconv.Atoi: parsing '' @ quoted s @ '': value out of range''))))"

lemma of_char_digit [simp]: "n < 10 \<Longrightarrow> (of_char (digit n) :: nat) = 48 + n"
  by (simp add: digit_def)

lemma is_digit_digit [simp]: "n < 10 \<Longrightarrow> is_digit (digit n)"
  by (simp add: is_digit_def)

lemma digit_val_digit [simp]: "n < 10 \<Longrightarrow> digit_val (digit n) = n"
  by (simp add: digit_val_def)

lemma undec_append:
  "undec acc (xs @ ys) = (case undec acc xs of None \<Rightarrow> None | Some a \<Rightarrow> undec a ys)"
  by (induction acc xs rule: undec.induct) auto

lemma undec_dec: "undec 0 (dec n) = Some n"
proof (induction n rule: dec.induct)
  case (1 n)
  show ?case
  proof (cases "n < 10")
    case True
    then show ?thesis by (simp add: dec.simps [of n])
  next
    case False
    with 1 have "undec 0 (dec (n div 10)) = Some (n div 10)" by simp
    with False show ?thesis by (simp add: dec.simps [of n] undec_append)
  qed
qed

lemma dec_nonempty [simp]: "dec n \<noteq> []"
  by (subst dec.simps) simp

lemma dec_digits: "c \<in> set (dec n) \<Longrightarrow> is_digit c"
proof (induction n rule: dec.induct)
  case (1 n)
  show ?case
  proof (cases "n < 10")
    case True
    with 1 show ?thesis by (simp add: dec.simps [of n])
  next
    case False
    with 1 show ?thesis by (auto simp: dec.simps [of n])
  qed
qed

lemma not_digit_chars [simp]:
  "\<not> is_digit (CHR ''-'')" "\<not> is_digit (CHR ''+'')" "\<not> is_digit (CHR 0x0A)" "\<not> is_digit (CHR 0x0D)"
  "\<not> is_digit (CHR '':'')"
  by (simp_all add: is_digit_def)

lemma dec_notin [simp]: "\<not> is_digit c \<Longrightarrow> c \<notin> set (dec n)"
  using dec_digits by blast

lemma HasPrefix_single: "HasPrefix s [c] \<longleftrightarrow> s \<noteq> [] \<and> hd s = c"
  by (cases s) (auto simp: HasPrefix_def)

lemma hd_dec_digit: "is_digit (hd (dec n))"
  by (rule dec_digits) (rule hd_in_set, rule dec_nonempty)

lemma Atoi_dec: "int n < 2 ^ 63 \<Longrightarrow> Atoi (dec n) = Inr (int n)"
proof -
  assume bound: "int n < 2 ^ 63"
  have "\<not> HasPrefix (dec n) ''-''" and "\<not> HasPrefix (dec n) ''+''"
    using hd_dec_digit [of n] by (auto simp: HasPrefix_single)
  with bound show ?thesis
    by (simp add: Atoi_def undec_dec)
qed

lemma Atoi_Itoa: "fits64 i \<Longrightarrow> Atoi (Itoa i) = Inr i"
proof (cases "i < 0")
  case True
  moreover assume "fits64 i"
  ultimately show ?thesis
    by (simp add: Itoa_def Atoi_def HasPrefix_single undec_dec)
next
  case False
  moreover assume "fits64 i"
  ultimately show ?thesis
    using Atoi_dec [of "nat i"] by (simp add: Itoa_def)
qed

lemma Itoa_chars: "c \<in> set (Itoa i) \<Longrightarrow> is_digit c \<or> c = CHR ''-''"
  by (auto simp: Itoa_def dest: dec_digits split: if_splits)

lemma Itoa_notin [simp]: "\<not> is_digit c \<Longrightarrow> c \<noteq> CHR ''-'' \<Longrightarrow> c \<notin> set (Itoa i)"
  using Itoa_chars by blast

lemma Itoa_nonempty [simp]: "Itoa i \<noteq> []"
  by (simp add: Itoa_def)

lemma dec_inj: "dec m = dec n \<Longrightarrow> m = n"
  by (metis option.inject undec_dec)

section \<open>Hexadecimal\<close>

definition hex_digit :: "nat \<Rightarrow> char" where
  "hex_digit n = (if n < 10 then char_of (48 + n) else char_of (87 + n))"

definition hex_byte :: "8 word \<Rightarrow> string" where
  "hex_byte b = [hex_digit (unat (drop_bit 4 b)), hex_digit (unat (b AND 0x0F))]"

definition hex_EncodeToString :: "8 word list \<Rightarrow> string" where
  "hex_EncodeToString bs = concat (map hex_byte bs)"

definition is_hex :: "char \<Rightarrow> bool" where
  "is_hex c \<longleftrightarrow> c \<in> set ''0123456789abcdef''"

lemma hex_digit_is_hex: "n < 16 \<Longrightarrow> is_hex (hex_digit n)"
proof -
  have "\<forall>n \<in> set [0..<16]. is_hex (hex_digit n)"
    by code_simp
  then show "n < 16 \<Longrightarrow> is_hex (hex_digit n)" by simp
qed

lemma nibble_bounds: "unat (drop_bit 4 (b :: 8 word)) < 16" "unat ((b :: 8 word) AND 0x0F) < 16"
proof -
  have "unat b < 2 ^ LENGTH(8)" by (rule unsigned_less)
  then have "unat b < 256" by simp
  then show "unat (drop_bit 4 b) < 16"
    by (simp only: unat_drop_bit_eq) (simp add: drop_bit_eq_div)
  have "unat (b AND 0x0F) \<le> unat (0x0F :: 8 word)"
    by (rule word_and_le1 [THEN word_le_nat_alt [THEN iffD1]])
  then show "unat (b AND 0x0F) < 16" by simp
qed

lemma hex_byte_length [simp]: "length (hex_byte b) = 2"
  by (simp add: hex_byte_def)

lemma hex_byte_is_hex: "c \<in> set (hex_byte b) \<Longrightarrow> is_hex c"
  using nibble_bounds [of b] by (auto simp: hex_byte_def hex_digit_is_hex)

lemma hex_length [simp]: "length (hex_EncodeToString bs) = 2 * length bs"
  by (induction bs) (simp_all add: hex_EncodeToString_def)

lemma hex_is_hex: "c \<in> set (hex_EncodeToString bs) \<Longrightarrow> is_hex c"
  by (auto simp: hex_EncodeToString_def dest: hex_byte_is_hex)

lemma hex_append: "hex_EncodeToString (xs @ ys) = hex_EncodeToString xs @ hex_EncodeToString ys"
  by (simp add: hex_EncodeToString_def)

lemma hex_nth:
  "i < length bs \<Longrightarrow> hex_EncodeToString bs ! (2 * i) = hex_byte (bs ! i) ! 0"
  "i < length bs \<Longrightarrow> hex_EncodeToString bs ! Suc (2 * i) = hex_byte (bs ! i) ! 1"
proof (induction bs arbitrary: i)
  case (Cons b bs)
  { case 1 with Cons.IH(1) show ?case
      by (cases i) (auto simp: hex_EncodeToString_def nth_append hex_byte_def) }
  { case 2 with Cons.IH(2) show ?case
      by (cases i) (auto simp: hex_EncodeToString_def nth_append hex_byte_def) }
qed simp_all

section \<open>JSON text\<close>

text \<open>How \<^verbatim>\<open>json.Marshal\<close> writes a string of ASCII text: HTML characters are escaped too.\<close>

definition json_char :: "char \<Rightarrow> string" where
  "json_char c =
     (if c = CHR 0x22 \<or> c = CHR 0x5C then [CHR 0x5C, c]
      else if c = CHR 0x08 then [CHR 0x5C, CHR ''b'']
      else if c = CHR 0x0C then [CHR 0x5C, CHR ''f'']
      else if c = CHR 0x0A then [CHR 0x5C, CHR ''n'']
      else if c = CHR 0x0D then [CHR 0x5C, CHR ''r'']
      else if c = CHR 0x09 then [CHR 0x5C, CHR ''t'']
      else if (of_char c :: nat) < 32 \<or> c \<in> set ''<>&''
      then CHR 0x5C # ''u00'' @ hex_byte (of_char c)
      else [c])"

definition json_string :: "string \<Rightarrow> string" where
  "json_string s = quoted (concat (map json_char s))"

fun join :: "string \<Rightarrow> string list \<Rightarrow> string" where
  "join sep [] = []"
| "join sep [x] = x"
| "join sep (x # y # zs) = x @ sep @ join sep (y # zs)"

text \<open>\<^verbatim>\<open>strings.Split\<close> with a one-byte separator\<close>

fun Split :: "string \<Rightarrow> char \<Rightarrow> string list" where
  "Split [] sep = [[]]"
| "Split (c # s) sep = (if c = sep then [] # Split s sep else (c # hd (Split s sep)) # tl (Split s sep))"

section \<open>String maps\<close>

text \<open>
  A \<^verbatim>\<open>map[string]string\<close>: \<open>None\<close> is the nil map, \<open>Some kvs\<close> a map with the entries \<open>kvs\<close>, whose
  keys are distinct. Nothing below depends on the order of \<open>kvs\<close> but through \<open>range_map\<close>.
\<close>

type_synonym gomap = "(string \<times> string) list option"

definition entries :: "gomap \<Rightarrow> (string \<times> string) list" where
  "entries m = (case m of None \<Rightarrow> [] | Some kvs \<Rightarrow> kvs)"

definition lookup :: "gomap \<Rightarrow> string \<Rightarrow> string" where
  "lookup m k = (case map_of (entries m) k of None \<Rightarrow> [] | Some v \<Rightarrow> v)"

definition wf_gomap :: "gomap \<Rightarrow> bool" where
  "wf_gomap m \<longleftrightarrow> distinct (map fst (entries m))"

text \<open>\<^verbatim>\<open>sort.Strings\<close> orders by bytes: the lexicographic order of the library on \<open>string\<close>.\<close>

definition sortedKeys :: "gomap \<Rightarrow> string list" where
  "sortedKeys m = sort (map fst (entries m))"

lemma set_sortedKeys [simp]: "set (sortedKeys m) = fst ` set (entries m)"
  by (simp add: sortedKeys_def)

lemma distinct_sortedKeys: "wf_gomap m \<Longrightarrow> distinct (sortedKeys m)"
  by (simp add: sortedKeys_def wf_gomap_def)

text \<open>The sorted traversal does not see the iteration order.\<close>

lemma sortedKeys_perm: "mset (entries m) = mset (entries m') \<Longrightarrow> sortedKeys m = sortedKeys m'"
  unfolding sortedKeys_def by (metis mset_map properties_for_sort sorted_sort mset_sort)

end
