(* ===== verification/Domain.thy ===== *)
theory Domain
  imports GoLib
begin

text \<open>
  The data model and the interfaces of \<^verbatim>\<open>internal/domain/types.go\<close>. A struct is a record, its fields
  prefixed by the struct they belong to; the string enumerations are datatypes; an interface is a
  record of the calls it offers, over the type \<open>'w\<close> of the world they act on. The job queue is found
  by type assertion to implement further interfaces (\<^verbatim>\<open>JobAcker\<close>, \<^verbatim>\<open>JobScheduler\<close>, ...): those are its
  optional fields. Pointers to times are \<open>time option\<close>.
\<close>

section \<open>Enumerations\<close>

datatype Role = RoleOwner | RoleAdmin | RoleMember

datatype DeploymentStatus =
    DeploymentStatusRequested
  | DeploymentStatusQueued
  | DeploymentStatusProvisioning
  | DeploymentStatusRunning
  | DeploymentStatusDegraded
  | DeploymentStatusRecovering
  | DeploymentStatusFailed
  | DeploymentStatusCancelled
  | DeploymentStatusDeleting
  | DeploymentStatusDeleted

fun status_string :: "DeploymentStatus \<Rightarrow> string" where
  "status_string DeploymentStatusRequested = ''requested''"
| "status_string DeploymentStatusQueued = ''queued''"
| "status_string DeploymentStatusProvisioning = ''provisioning''"
| "status_string DeploymentStatusRunning = ''running''"
| "status_string DeploymentStatusDegraded = ''degraded''"
| "status_string DeploymentStatusRecovering = ''recovering''"
| "status_string DeploymentStatusFailed = ''failed''"
| "status_string DeploymentStatusCancelled = ''cancelled''"
| "status_string DeploymentStatusDeleting = ''deleting''"
| "status_string DeploymentStatusDeleted = ''deleted''"

datatype JobType =
    JobTypeDeploymentCreate
  | JobTypeDeploymentDelete
  | JobTypeDeploymentSync
  | JobTypeOther string

datatype BackendCapability =
    BackendCapabilityDeploy
  | BackendCapabilityDelete
  | BackendCapabilityStatus
  | BackendCapabilitySync
  | BackendCapabilityDomains
  | BackendCapabilitySecrets
  | BackendCapabilityPersistentStorage
  | BackendCapabilityReplicas
  | BackendCapabilityDryRun

section \<open>Structs\<close>

record Actor =
  actor_UserID :: string
  actor_TenantID :: string
  actor_Email :: string
  actor_Role :: Role
  actor_APIKeyID :: string
  actor_IsPlatformAdmin :: bool

record User =
  user_ID :: string
  user_Email :: string
  user_DisplayName :: string
  user_DefaultTenantID :: string
  user_CreatedAt :: time
  user_UpdatedAt :: time

record Tenant =
  tenant_ID :: string
  tenant_Slug :: string
  tenant_Name :: string
  tenant_Plan :: string
  tenant_Status :: string
  tenant_CreatedAt :: time
  tenant_UpdatedAt :: time

record TenantMember =
  member_TenantID :: string
  member_UserID :: string
  member_Role :: Role
  member_CreatedAt :: time

record OpenClawConfig =
  oc_Enabled :: bool
  oc_GatewayBindAddress :: string
  oc_GatewayPort :: int
  oc_GatewayToken :: string
  oc_WorkspaceStorage :: string
  oc_ProviderAPIKeys :: gomap
  oc_AgentsMarkdown :: string
  oc_SettingsJSON :: string
  oc_ExtraEnv :: gomap
  oc_ExistingSecretName :: string

record InferenceFallbackProvider =
  fb_Name :: string
  fb_Model :: string
  fb_BaseURL :: string
  fb_Priority :: int
  fb_TimeoutSeconds :: int

record ReliabilityPolicy =
  rel_AutoRepair :: bool
  rel_MaxRepairAttempts :: int
  rel_HealthCheckPath :: string
  rel_HealthCheckTimeoutSeconds :: int
  rel_RollbackOnFailedHealthCheck :: bool
  rel_FallbackProviders :: "InferenceFallbackProvider list"

record AppConfig =
  cfg_Image :: string
  cfg_Port :: int
  cfg_Env :: gomap
  cfg_Replicas :: int
  cfg_CPURequest :: string
  cfg_MemoryRequest :: string
  cfg_CPULimit :: string
  cfg_MemoryLimit :: string
  cfg_Public :: bool
  cfg_Domain :: string
  cfg_ServiceAccountName :: string
  cfg_OpenClaw :: "OpenClawConfig option"
  cfg_Reliability :: ReliabilityPolicy

record App =
  app_ID :: string
  app_TenantID :: string
  app_Name :: string
  app_Slug :: string
  app_DesiredState :: string
  app_CurrentDeploymentID :: string
  app_Config :: AppConfig
  app_CreatedBy :: string
  app_CreatedAt :: time
  app_UpdatedAt :: time

record BackendRef =
  ref_Namespace :: string
  ref_Deployment :: string
  ref_Service :: string
  ref_IngressName :: string

record Deployment =
  dep_ID :: string
  dep_TenantID :: string
  dep_AppID :: string
  dep_Version :: int
  dep_ImageRef :: string
  dep_ConfigSnapshot :: AppConfig
  dep_Status :: DeploymentStatus
  dep_StatusReason :: string
  dep_Backend :: string
  dep_BackendRef :: BackendRef
  dep_RequestedBy :: string
  dep_RepairAttempts :: int
  dep_StartedAt :: "time option"
  dep_FinishedAt :: "time option"
  dep_CreatedAt :: time
  dep_UpdatedAt :: time

record BackendCapabilities =
  caps_Name :: string
  caps_DisplayName :: string
  caps_Capabilities :: "BackendCapability list"
  caps_Notes :: "string list"

record PlannedResource =
  pr_Kind :: string
  pr_Name :: string
  pr_Namespace :: string
  pr_Action :: string
  pr_Note :: string

record PlannedEnvVar =
  pe_Name :: string
  pe_Source :: string

record PlannedSecret =
  ps_Name :: string
  ps_Keys :: "string list"
  ps_Managed :: bool

record PlannedVolume =
  pv_Name :: string
  pv_Source :: string
  pv_MountPath :: string
  pv_Size :: string

record PlannedExposure =
  px_Public :: bool
  px_Host :: string
  px_ServiceName :: string
  px_Port :: int
  px_IngressName :: string

record DeploymentPlan =
  plan_Backend :: string
  plan_Version :: int
  plan_ImageRef :: string
  plan_BackendRef :: BackendRef
  plan_Capabilities :: BackendCapabilities
  plan_Resources :: "PlannedResource list"
  plan_Environment :: "PlannedEnvVar list"
  plan_Secrets :: "PlannedSecret list"
  plan_Volumes :: "PlannedVolume list"
  plan_Exposure :: PlannedExposure
  plan_Warnings :: "string list"

record DeploymentEvent =
  ev_ID :: string
  ev_DeploymentID :: string
  ev_TenantID :: string
  ev_Type :: string
  ev_Message :: string
  ev_CreatedAt :: time

record APIKey =
  key_ID :: string
  key_TenantID :: string
  key_UserID :: string
  key_Name :: string
  key_KeyPrefix :: string
  key_KeyHash :: string
  key_LastUsedAt :: "time option"
  key_ExpiresAt :: "time option"
  key_RevokedAt :: "time option"
  key_CreatedAt :: time

record AuthIdentity =
  ident_ID :: string
  ident_UserID :: string
  ident_Provider :: string
  ident_ProviderUserID :: string
  ident_AccessToken :: string
  ident_RefreshToken :: string
  ident_Metadata :: gomap
  ident_CreatedAt :: time
  ident_UpdatedAt :: time

record ExternalIdentity =
  ext_Provider :: string
  ext_ProviderUserID :: string
  ext_Email :: string
  ext_DisplayName :: string
  ext_Metadata :: gomap

record AdminSummary =
  sum_Users :: int
  sum_Tenants :: int
  sum_Apps :: int
  sum_Deployments :: int
  sum_FailedDeployments :: int
  sum_RepositoryDriver :: string

record AdminInstance =
  inst_App :: App
  inst_Deployment :: "Deployment option"
  inst_UserEmail :: string

record AuditLog =
  audit_ID :: string
  audit_TenantID :: string
  audit_ActorUserID :: string
  audit_ActorAPIKeyID :: string
  audit_Action :: string
  audit_ResourceType :: string
  audit_ResourceID :: string
  audit_Message :: string
  audit_CreatedAt :: time

record Job =
  job_ID :: string
  job_Type :: JobType
  job_TenantID :: string
  job_AppID :: string
  job_DeploymentID :: string
  job_Attempts :: int
  job_CreatedAt :: time
  job_AvailableAt :: time
  job_LeasedAt :: time
  job_LastError :: string

record DeadLetterJob =
  dl_ID :: string
  dl_Job :: Job
  dl_Reason :: string
  dl_FailedAt :: time
  dl_FinalAttempt :: int

record QueueStats =
  qs_Ready :: int
  qs_Processing :: int
  qs_Delayed :: int
  qs_DeadLetters :: int

record BackendStatus =
  bs_Status :: DeploymentStatus
  bs_Reason :: string
  bs_Ref :: BackendRef

section \<open>Interfaces\<close>

record 'w DeploymentBackend =
  be_Name :: string
  be_Capabilities :: BackendCapabilities
  be_Plan :: "App \<Rightarrow> int \<Rightarrow> (DeploymentPlan, 'w) op"
  be_Submit :: "App \<Rightarrow> Deployment \<Rightarrow> (BackendStatus, 'w) op"
  be_Delete :: "BackendRef \<Rightarrow> (unit, 'w) op"
  be_GetStatus :: "BackendRef \<Rightarrow> (BackendStatus, 'w) op"

record 'w JobScheduler =
  js_EnqueueAfter :: "Job \<Rightarrow> duration \<Rightarrow> (unit, 'w) op"
  js_PromoteDue :: "int \<Rightarrow> (int, 'w) op"

record 'w DeadLetterQueue =
  dlq_DeadLetter :: "DeadLetterJob \<Rightarrow> (unit, 'w) op"
  dlq_ListDeadLetters :: "int \<Rightarrow> (DeadLetterJob list, 'w) op"
  dlq_ReplayDeadLetter :: "string \<Rightarrow> (Job, 'w) op"

text \<open>
  \<^verbatim>\<open>Dequeue\<close> may block for ever, so it gives an option: \<open>None\<close> is a call that does not return.
\<close>

record 'w JobQueue =
  jq_Enqueue :: "Job \<Rightarrow> (unit, 'w) op"
  jq_Dequeue :: "'w \<Rightarrow> ((error + Job) \<times> 'w) option"
  jq_JobAcker :: "(Job \<Rightarrow> (unit, 'w) op) option"
  jq_JobScheduler :: "'w JobScheduler option"
  jq_JobLeaseReclaimer :: "(duration \<Rightarrow> int \<Rightarrow> (int, 'w) op) option"
  jq_DeadLetterQueue :: "'w DeadLetterQueue option"
  jq_JobQueueInspector :: "(QueueStats, 'w) op option"

record 'w HealthChecker =
  hc_Check :: "(unit, 'w) op"

record 'w Scheduler =
  sch_ScheduleDeployment :: "Deployment \<Rightarrow> (unit, 'w) op"
  sch_ScheduleDelete :: "Deployment \<Rightarrow> (unit, 'w) op"
  sch_ScheduleSync :: "Deployment \<Rightarrow> (unit, 'w) op"

record 'w UserRepository =
  ur_UpsertByEmail :: "string \<Rightarrow> string \<Rightarrow> (User, 'w) op"
  ur_GetByID :: "string \<Rightarrow> (User, 'w) op"

record 'w AuthIdentityRepository =
  air_Upsert :: "AuthIdentity \<Rightarrow> (unit, 'w) op"

record 'w TenantRepository =
  tr_CreatePersonalTenant :: "User \<Rightarrow> (Tenant, 'w) op"
  tr_GetByID :: "string \<Rightarrow> (Tenant, 'w) op"
  tr_AddMember :: "TenantMember \<Rightarrow> (unit, 'w) op"
  tr_GetMember :: "string \<Rightarrow> string \<Rightarrow> (TenantMember, 'w) op"

record 'w AppRepository =
  ar_Create :: "App \<Rightarrow> (unit, 'w) op"
  ar_Update :: "App \<Rightarrow> (unit, 'w) op"
  ar_GetByID :: "string \<Rightarrow> string \<Rightarrow> (App, 'w) op"
  ar_ListByTenant :: "string \<Rightarrow> (App list, 'w) op"

record 'w DeploymentRepository =
  dr_Create :: "Deployment \<Rightarrow> (unit, 'w) op"
  dr_Update :: "Deployment \<Rightarrow> (unit, 'w) op"
  dr_GetByID :: "string \<Rightarrow> string \<Rightarrow> (Deployment, 'w) op"
  dr_ListByApp :: "string \<Rightarrow> string \<Rightarrow> (Deployment list, 'w) op"
  dr_ListActive :: "int \<Rightarrow> (Deployment list, 'w) op"
  dr_NextVersion :: "string \<Rightarrow> string \<Rightarrow> (int, 'w) op"

record 'w EventRepository =
  er_Create :: "DeploymentEvent \<Rightarrow> (unit, 'w) op"
  er_ListByDeployment :: "string \<Rightarrow> string \<Rightarrow> (DeploymentEvent list, 'w) op"

record 'w APIKeyRepository =
  kr_Create :: "APIKey \<Rightarrow> (unit, 'w) op"
  kr_ListByTenant :: "string \<Rightarrow> (APIKey list, 'w) op"
  kr_Revoke :: "string \<Rightarrow> string \<Rightarrow> time \<Rightarrow> (unit, 'w) op"
  kr_GetByHash :: "string \<Rightarrow> (APIKey, 'w) op"

record 'w AdminRepository =
  adr_Summary :: "(AdminSummary, 'w) op"
  adr_ListAllInstances :: "(AdminInstance list, 'w) op"

record 'w AuditRepository =
  aur_Create :: "AuditLog \<Rightarrow> (unit, 'w) op"
  aur_ListByTenant :: "string \<Rightarrow> int \<Rightarrow> (AuditLog list, 'w) op"

record 'w AuthProvider =
  ap_Name :: string
  ap_BeginAuth :: "string \<Rightarrow> string \<Rightarrow> (string, 'w) op"
  ap_HandleCallback :: "string \<Rightarrow> string \<Rightarrow> (ExternalIdentity, 'w) op"

section \<open>Zero values\<close>

definition zeroBackendRef :: BackendRef where
  "zeroBackendRef = \<lparr>ref_Namespace = [], ref_Deployment = [], ref_Service = [], ref_IngressName = []\<rparr>"

definition zeroQueueStats :: QueueStats where
  "zeroQueueStats = \<lparr>qs_Ready = 0, qs_Processing = 0, qs_Delayed = 0, qs_DeadLetters = 0\<rparr>"

lemma status_string_inj: "status_string a = status_string b \<Longrightarrow> a = b"
  by (cases a; cases b) simp_all

end
