(* ===== verification/Idgen.thy ===== *)
theory Idgen
  imports Domain
begin

text \<open>
  \<^verbatim>\<open>internal/platform/idgen\<close>: the random identifiers of every record. \<open>uuid_of_bytes\<close> is the part of
  \<^verbatim>\<open>NewUUID\<close> after the read: version and variant bits, hexadecimal, hyphens. The lemmas give the
  RFC 4122 shape of the result and that no identifier holds the separator of the store's composite keys.
\<close>

definition unixEpoch :: time where
  "unixEpoch = 62135596800 * second"

definition New :: "string \<Rightarrow> 'a env_scheme \<Rightarrow> string \<times> 'a env_scheme" where
  "New pfx w =
     (case rand_Read 8 w of
        (None, w) \<Rightarrow> (let (now, w) = Now w in (pfx @ ''_'' @ Itoa (wrap64 (now - unixEpoch)), w))
      | (Some buf, w) \<Rightarrow> (pfx @ ''_'' @ hex_EncodeToString buf, w))"

definition slice :: "string \<Rightarrow> nat \<Rightarrow> nat \<Rightarrow> string" where
  "slice s i j = take (j - i) (drop i s)"

definition uuid_of_bytes :: "8 word list \<Rightarrow> string" where
  "uuid_of_bytes b =
     (let b = b[6 := (b ! 6 AND 0x0f) OR 0x40];
          b = b[8 := (b ! 8 AND 0x3f) OR 0x80];
          raw = hex_EncodeToString b
      in slice raw 0 8 @ ''-'' @ slice raw 8 12 @ ''-'' @ slice raw 12 16 @ ''-'' @
         slice raw 16 20 @ ''-'' @ slice raw 20 32)"

definition NewUUID :: "'a env_scheme \<Rightarrow> string \<times> 'a env_scheme" where
  "NewUUID w =
     (case rand_Read 16 w of
        (None, w) \<Rightarrow> New ''id'' w
      | (Some b, w) \<Rightarrow> (uuid_of_bytes b, w))"

lemma more_New [frame]: "env.more (snd (New pfx w)) = env.more w"
  by (simp add: New_def Let_def split: prod.splits option.splits)
     (metis more_Now more_rand_Read snd_conv)

lemma more_NewUUID [frame]: "env.more (snd (NewUUID w)) = env.more w"
  by (simp add: NewUUID_def split: prod.splits option.splits)
     (metis more_New more_rand_Read snd_conv)

section \<open>Shape\<close>

lemma length_slice: "j \<le> length s \<Longrightarrow> i \<le> j \<Longrightarrow> length (slice s i j) = j - i"
  by (simp add: slice_def)

lemma set_slice: "c \<in> set (slice s i j) \<Longrightarrow> c \<in> set s"
  unfolding slice_def by (meson in_set_dropD in_set_takeD)

lemma nth_slice: "k < j - i \<Longrightarrow> j \<le> length s \<Longrightarrow> slice s i j ! k = s ! (i + k)"
  by (simp add: slice_def)

text \<open>The high nibble of byte 6 is the version 4, that of byte 8 has the variant bits 10.\<close>

lemma version_nibble: "hex_byte ((b AND 0x0f) OR 0x40) ! 0 = CHR ''4''"
proof -
  have "drop_bit 4 ((b AND 0x0f) OR 0x40) = (4 :: 8 word)"
    by (rule bit_word_eqI) (auto simp: bit_simps numeral_eq_Suc less_Suc_eq)
  then show ?thesis by (simp add: hex_byte_def hex_digit_def) code_simp
qed

lemma variant_bits: "drop_bit 4 ((b AND 0x3f) OR 0x80) = (drop_bit 4 (b AND 0x30) OR 8 :: 8 word)"
  by (rule bit_word_eqI) (auto simp: bit_simps numeral_eq_Suc less_Suc_eq)

lemma variant_cases: "drop_bit 4 (b AND 0x30 :: 8 word) \<in> {0, 1, 2, 3}"
proof -
  have "unat (drop_bit 4 (b AND 0x30) :: 8 word) \<le> unat (0x03 :: 8 word)"
  proof -
    have "drop_bit 4 (b AND 0x30) = (drop_bit 4 b AND 0x03 :: 8 word)"
      by (rule bit_word_eqI) (auto simp: bit_simps numeral_eq_Suc less_Suc_eq)
    then show ?thesis
      by (metis word_and_le1 word_le_nat_alt)
  qed
  then have "unat (drop_bit 4 (b AND 0x30) :: 8 word) \<in> {0, 1, 2, 3}" by auto
  then show ?thesis by (auto simp: word_unat_eq_iff)
qed

lemma variant_nibble: "hex_byte ((b AND 0x3f) OR 0x80) ! 0 \<in> set ''89ab''"
proof -
  have "hex_digit (unat (c OR 8 :: 8 word)) \<in> set ''89ab''" if "c \<in> {0, 1, 2, 3}" for c
    using that by auto code_simp+
  from this [OF variant_cases [of b]] show ?thesis
    by (simp add: hex_byte_def variant_bits)
qed

lemma uuid_length: "length b = 16 \<Longrightarrow> length (uuid_of_bytes b) = 36"
  by (simp add: uuid_of_bytes_def Let_def length_slice)

lemma uuid_hyphens:
  "length b = 16 \<Longrightarrow> i \<in> {8, 13, 18, 23} \<Longrightarrow> uuid_of_bytes b ! i = CHR ''-''"
  by (auto simp: uuid_of_bytes_def Let_def length_slice nth_append)

lemma uuid_version: "length b = 16 \<Longrightarrow> uuid_of_bytes b ! 14 = CHR ''4''"
  using hex_nth(1) [of 6 "b[6 := (b ! 6 AND 0x0f) OR 0x40, 8 := (b ! 8 AND 0x3f) OR 0x80]"]
  by (simp add: uuid_of_bytes_def Let_def length_slice nth_append nth_slice version_nibble)

lemma uuid_variant: "length b = 16 \<Longrightarrow> uuid_of_bytes b ! 19 \<in> set ''89ab''"
  using hex_nth(1) [of 8 "b[6 := (b ! 6 AND 0x0f) OR 0x40, 8 := (b ! 8 AND 0x3f) OR 0x80]"]
    variant_nibble [of "b ! 8"]
  by (simp add: uuid_of_bytes_def Let_def length_slice nth_append nth_slice)

lemma uuid_chars: "c \<in> set (uuid_of_bytes b) \<Longrightarrow> is_hex c \<or> c = CHR ''-''"
  by (auto simp: uuid_of_bytes_def Let_def dest!: set_slice hex_is_hex)

lemma not_hex_colon [simp]: "\<not> is_hex (CHR '':'')"
  by (simp add: is_hex_def)

lemma New_no_colon: "CHR '':'' \<notin> set pfx \<Longrightarrow> CHR '':'' \<notin> set (fst (New pfx w))"
  by (auto simp: New_def Let_def split: prod.splits option.splits dest: hex_is_hex)

lemma NewUUID_no_colon: "CHR '':'' \<notin> set (fst (NewUUID w))"
proof (cases "rand_Read 16 w")
  case (Pair r w')
  then show ?thesis
    using New_no_colon [of "''id''" w'] uuid_chars
    by (cases r) (fastforce simp: NewUUID_def)+
qed

text \<open>A fresh identifier is never the empty string, which the store uses for an absent one.\<close>

lemma NewUUID_nonempty: "fst (NewUUID w) \<noteq> []"
  by (auto simp: NewUUID_def New_def uuid_of_bytes_def Let_def split: prod.splits option.splits)

end
