(* ===== verification/Contracts.thy ===== *)
theory Contracts
  imports Idgen
begin

text \<open>
  What the services and the worker rely on, stated once for every implementation: \<open>reliable_queue\<close> is the
  contract of a \<^verbatim>\<open>JobQueue\<close>, \<open>records\<close> that of the app, deployment and event repositories,
  \<open>control_plane\<close> puts both over one world, and \<open>hosted_plane\<close> adds a \<^verbatim>\<open>DeploymentBackend\<close>. Each states what a
  call does to an abstract view of the world. The memory queue and the memory store are shown to keep them
  in their own theories.
\<close>

section \<open>The contract of a job queue\<close>

text \<open>
  The abstract state is a bag: the jobs that wait (ready or delayed) up to their time stamps, the
  identifiers of the leased jobs, and the dead letters. A call that reports an error may have taken
  effect before the error reached the caller, as a call over a network can.
\<close>

definition job_core :: "Job \<Rightarrow> Job" where
  "job_core j = j\<lparr>job_CreatedAt := 0, job_AvailableAt := 0, job_LeasedAt := 0\<rparr>"

definition dl_core :: "DeadLetterJob \<Rightarrow> DeadLetterJob" where
  "dl_core d = d\<lparr>dl_Job := job_core (dl_Job d), dl_FailedAt := 0\<rparr>"

record bag =
  live :: "Job multiset"
  leases :: "string multiset"
  graves :: "DeadLetterJob multiset"

definition b_enq :: "Job \<Rightarrow> bag \<Rightarrow> bag" where
  "b_enq j b = b\<lparr>live := add_mset (job_core j) (live b)\<rparr>"

definition b_lease :: "Job \<Rightarrow> bag \<Rightarrow> bag" where
  "b_lease j b = b\<lparr>live := live b - {#job_core j#}, leases := add_mset (job_ID j) (leases b)\<rparr>"

definition b_ack :: "Job \<Rightarrow> bag \<Rightarrow> bag" where
  "b_ack j b = b\<lparr>leases := leases b - {#job_ID j#}\<rparr>"

definition b_bury :: "DeadLetterJob \<Rightarrow> bag \<Rightarrow> bag" where
  "b_bury d b = b\<lparr>graves := add_mset (dl_core d) (graves b)\<rparr>"

text \<open>The identifiers of the jobs that are still to be run or to be acknowledged.\<close>

definition owed :: "bag \<Rightarrow> string multiset" where
  "owed b = image_mset job_ID (live b) + leases b"

lemmas bag_ops = b_enq_def b_lease_def b_ack_def b_bury_def

lemma job_core_simps [simp]:
  "job_ID (job_core j) = job_ID j" "job_Type (job_core j) = job_Type j"
  "job_Attempts (job_core j) = job_Attempts j" "job_LastError (job_core j) = job_LastError j"
  "job_TenantID (job_core j) = job_TenantID j" "job_AppID (job_core j) = job_AppID j"
  "job_DeploymentID (job_core j) = job_DeploymentID j"
  "job_core (job_core j) = job_core j"
  "job_core (j\<lparr>job_CreatedAt := t\<rparr>) = job_core j"
  "job_core (j\<lparr>job_AvailableAt := t\<rparr>) = job_core j"
  "job_core (j\<lparr>job_LeasedAt := t\<rparr>) = job_core j"
  "job_core (j\<lparr>job_Attempts := n\<rparr>) = (job_core j)\<lparr>job_Attempts := n\<rparr>"
  "job_core (j\<lparr>job_LastError := m\<rparr>) = (job_core j)\<lparr>job_LastError := m\<rparr>"
  by (simp_all add: job_core_def)

lemma dl_core_simps [simp]:
  "dl_ID (dl_core d) = dl_ID d" "dl_Job (dl_core d) = job_core (dl_Job d)"
  "dl_Reason (dl_core d) = dl_Reason d" "dl_FinalAttempt (dl_core d) = dl_FinalAttempt d"
  "dl_core (d\<lparr>dl_FailedAt := t\<rparr>) = dl_core d"
  by (simp_all add: dl_core_def)

text \<open>
  The calls made on a queue by any number of workers and services, in the order in which they take
  effect. \<open>Wait\<close> is whatever else happens to the world that leaves the queue alone.
\<close>

datatype queue_call =
    Enqueued Job "error + unit"
  | EnqueuedAfter Job duration "error + unit"
  | Dequeued "error + Job"
  | Acked Job "error + unit"
  | Promoted int "error + int"
  | Reclaimed duration int "error + int"
  | Buried DeadLetterJob "error + unit"
  | Replayed string "error + Job"
  | Wait

inductive queue_step :: "'a env_scheme JobQueue \<Rightarrow> 'a env_scheme \<Rightarrow> queue_call \<Rightarrow> 'a env_scheme \<Rightarrow> bool"
  for Q where
  "jq_Enqueue Q j w = (r, w') \<Longrightarrow> queue_step Q w (Enqueued j r) w'"
| "jq_JobScheduler Q = Some s \<Longrightarrow> js_EnqueueAfter s j d w = (r, w') \<Longrightarrow> queue_step Q w (EnqueuedAfter j d r) w'"
| "jq_Dequeue Q w = Some (rj, w') \<Longrightarrow> queue_step Q w (Dequeued rj) w'"
| "jq_JobAcker Q = Some a \<Longrightarrow> a j w = (r, w') \<Longrightarrow> queue_step Q w (Acked j r) w'"
| "jq_JobScheduler Q = Some s \<Longrightarrow> js_PromoteDue s n w = (rn, w') \<Longrightarrow> queue_step Q w (Promoted n rn) w'"
| "jq_JobLeaseReclaimer Q = Some rc \<Longrightarrow> rc d n w = (rn, w') \<Longrightarrow> queue_step Q w (Reclaimed d n rn) w'"
| "jq_DeadLetterQueue Q = Some q \<Longrightarrow> dlq_DeadLetter q item w = (r, w') \<Longrightarrow> queue_step Q w (Buried item r) w'"
| "jq_DeadLetterQueue Q = Some q \<Longrightarrow> dlq_ReplayDeadLetter q i w = (rj, w') \<Longrightarrow> queue_step Q w (Replayed i rj) w'"
| "env.more w' = env.more w \<Longrightarrow> queue_step Q w Wait w'"

inductive queue_run ::
  "'a env_scheme JobQueue \<Rightarrow> 'a env_scheme \<Rightarrow> queue_call list \<Rightarrow> 'a env_scheme \<Rightarrow> bool"
  for Q where
  run_Nil: "queue_run Q w [] w"
| run_Cons: "queue_step Q w c w1 \<Longrightarrow> queue_run Q w1 cs w2 \<Longrightarrow> queue_run Q w (c # cs) w2"

text \<open>The jobs a call is sure to have put into the queue, those it may have put, and those it may have
  taken out for good.\<close>

fun accepted :: "queue_call \<Rightarrow> string multiset" where
  "accepted (Enqueued j (Inr _)) = {#job_ID j#}"
| "accepted (EnqueuedAfter j d (Inr _)) = {#job_ID j#}"
| "accepted (Replayed i (Inr j)) = {#job_ID j#}"
| "accepted _ = {#}"

fun offered :: "queue_call \<Rightarrow> string multiset" where
  "offered (Enqueued j r) = {#job_ID j#}"
| "offered (EnqueuedAfter j d r) = {#job_ID j#}"
| "offered (Replayed i (Inr j)) = {#job_ID j#}"
| "offered _ = {#}"

fun released :: "queue_call \<Rightarrow> string multiset" where
  "released (Acked j r) = {#job_ID j#}"
| "released _ = {#}"

text \<open>From bag to bag over a list of calls, no job is lost and none appears from nowhere.\<close>

definition accounted :: "bag \<Rightarrow> queue_call list \<Rightarrow> bag \<Rightarrow> bool" where
  "accounted b cs b' \<longleftrightarrow>
     owed b + sum_list (map accepted cs) \<subseteq># owed b' + sum_list (map released cs) \<and>
     owed b' \<subseteq># owed b + sum_list (map offered cs)"

lemma accounted_same: "owed b' = owed b \<Longrightarrow> accepted c = {#} \<Longrightarrow> accounted b [c] b'"
  by (simp add: accounted_def)

lemma subset_put_back: "M \<subseteq># add_mset x (M - {#x#})"
  by (cases "x \<in># M") (simp_all add: diff_single_trivial)

lemma accounted_ack: "b' = b_ack j b \<or> b' = b \<Longrightarrow> accounted b [Acked j r] b'"
  by (auto simp: accounted_def owed_def b_ack_def subset_put_back)

lemma accounted_trans:
  assumes "accounted b cs b1" and "accounted b1 cs' b2"
  shows "accounted b (cs @ cs') b2"
proof -
  have "A + a + a' \<subseteq># C + r + r'" if "A + a \<subseteq># B + r" "B + a' \<subseteq># C + r'" for A B C a a' r r' :: "string multiset"
  proof -
    from that(1) have "A + a + a' \<subseteq># B + r + a'" by simp
    also have "\<dots> = B + a' + r" by (simp add: ac_simps)
    also from that(2) have "\<dots> \<subseteq># C + r' + r" by simp
    finally show ?thesis by (simp add: ac_simps)
  qed
  moreover have "C \<subseteq># A + n + n'" if "B \<subseteq># A + n" "C \<subseteq># B + n'" for A B C n n' :: "string multiset"
    using that by (meson subset_mset.order_trans mset_subset_eq_mono_add_right_cancel)
  ultimately show ?thesis
    using assms unfolding accounted_def by (simp add: add.assoc [symmetric]) blast
qed

locale reliable_queue =
  fixes Q :: "'a env_scheme JobQueue"
    and ack :: "Job \<Rightarrow> (unit, 'a env_scheme) op"
    and sched :: "'a env_scheme JobScheduler"
    and reclaim :: "duration \<Rightarrow> int \<Rightarrow> (int, 'a env_scheme) op"
    and dlq :: "'a env_scheme DeadLetterQueue"
    and bag :: "'a env_scheme \<Rightarrow> bag"
  assumes acker: "jq_JobAcker Q = Some ack"
    and scheduler: "jq_JobScheduler Q = Some sched"
    and reclaimer: "jq_JobLeaseReclaimer Q = Some reclaim"
    and deadletters: "jq_DeadLetterQueue Q = Some dlq"
    and bag_env: "env.more w' = env.more w \<Longrightarrow> bag w' = bag w"
    and enqueue: "jq_Enqueue Q j w = (r, w') \<Longrightarrow>
      bag w' = b_enq j (bag w) \<or> (\<exists>e. r = Inl e) \<and> bag w' = bag w"
    and enqueue_after: "js_EnqueueAfter sched j d w = (r, w') \<Longrightarrow>
      bag w' = b_enq j (bag w) \<or> (\<exists>e. r = Inl e) \<and> bag w' = bag w"
    and dequeue_job: "jq_Dequeue Q w = Some (Inr j, w') \<Longrightarrow>
      job_core j \<in># live (bag w) \<and> bag w' = b_lease j (bag w)"
    and dequeue_err: "jq_Dequeue Q w = Some (Inl e, w') \<Longrightarrow> bag w' = bag w"
    and ack: "ack j w = (r, w') \<Longrightarrow>
      bag w' = b_ack j (bag w) \<or> (\<exists>e. r = Inl e) \<and> bag w' = bag w"
    and promote: "js_PromoteDue sched n w = (rn, w') \<Longrightarrow> bag w' = bag w"
    and reclaim: "reclaim d n w = (rn, w') \<Longrightarrow>
      owed (bag w') = owed (bag w) \<and> live (bag w) \<subseteq># live (bag w') \<and> graves (bag w') = graves (bag w)"
    and dead_letter: "dlq_DeadLetter dlq item w = (r, w') \<Longrightarrow>
      bag w' = b_bury item (bag w) \<or> (\<exists>e. r = Inl e) \<and> bag w' = bag w"
    and replay_job: "dlq_ReplayDeadLetter dlq i w = (Inr j, w') \<Longrightarrow>
      live (bag w') = add_mset (job_core j) (live (bag w)) \<and> leases (bag w') = leases (bag w)"
    and replay_err: "dlq_ReplayDeadLetter dlq i w = (Inl e, w') \<Longrightarrow> bag w' = bag w"
begin

lemma dequeue_owed: "jq_Dequeue Q w = Some (r, w') \<Longrightarrow> owed (bag w') = owed (bag w)"
proof (cases r)
  case (Inr j)
  moreover assume "jq_Dequeue Q w = Some (r, w')"
  ultimately have "job_core j \<in># live (bag w)" and b: "bag w' = b_lease j (bag w)"
    using dequeue_job by blast+
  then obtain L where "live (bag w) = add_mset (job_core j) L"
    by (meson multi_member_split)
  with b show ?thesis by (simp add: owed_def b_lease_def)
qed (use dequeue_err in \<open>auto\<close>)

text \<open>One call: what it accepted is owed unless it was released, and nothing is owed that was not offered.\<close>

lemma step_accounted:
  assumes "queue_step Q w c w'"
  shows "accounted (bag w) [c] (bag w')"
  using assms
proof (cases rule: queue_step.cases)
  case (1 j r)
  with enqueue [of j w r w'] show ?thesis
    by (cases r) (auto simp: accounted_def owed_def b_enq_def)
next
  case (2 s j d r)
  with scheduler enqueue_after [of j d w r w'] show ?thesis
    by (cases r) (auto simp: accounted_def owed_def b_enq_def)
next
  case (3 rj)
  then show ?thesis by (simp add: accounted_same dequeue_owed)
next
  case (4 a j r)
  with acker ack [of j w r w'] show ?thesis by (auto intro!: accounted_ack)
next
  case (5 s n rn)
  with scheduler promote [of n w rn w'] show ?thesis by (auto intro!: accounted_same)
next
  case (6 rc d n rn)
  with reclaimer reclaim [of d n w rn w'] show ?thesis by (auto intro!: accounted_same)
next
  case (7 q item r)
  with deadletters dead_letter [of item w r w'] show ?thesis
    by (auto intro!: accounted_same simp: owed_def b_bury_def)
next
  case (8 q i rj)
  with deadletters replay_job [of i w _ w'] replay_err [of i w _ w'] show ?thesis
    by (cases rj) (auto simp: accounted_def owed_def)
next
  case 9
  with bag_env [of w' w] show ?thesis by (simp add: accounted_same)
qed

lemma run_accounted: "queue_run Q w cs w' \<Longrightarrow> accounted (bag w) cs (bag w')"
proof (induction rule: queue_run.induct)
  case (run_Cons w c w1 cs w2)
  with step_accounted [of w c w1] accounted_trans [of "bag w" "[c]" "bag w1" cs "bag w2"] show ?case by simp
qed (simp add: accounted_def)

end

section \<open>The contract of the repositories\<close>

text \<open>
  The abstract state of the app, deployment and event repositories. A call that fails leaves it alone; a
  look-up gives only records of the tenant it was asked for.
\<close>

record view =
  v_apps :: "string \<rightharpoonup> App"
  v_deps :: "string \<rightharpoonup> Deployment"
  v_events :: "string \<Rightarrow> DeploymentEvent list"

definition put_app :: "App \<Rightarrow> view \<Rightarrow> view" where
  "put_app a v = v\<lparr>v_apps := (v_apps v)(app_ID a \<mapsto> a)\<rparr>"

definition put_dep :: "Deployment \<Rightarrow> view \<Rightarrow> view" where
  "put_dep d v = v\<lparr>v_deps := (v_deps v)(dep_ID d \<mapsto> d)\<rparr>"

definition put_event :: "DeploymentEvent \<Rightarrow> view \<Rightarrow> view" where
  "put_event e v = v\<lparr>v_events := (v_events v)(ev_DeploymentID e := v_events v (ev_DeploymentID e) @ [e])\<rparr>"

lemma put_simps [simp]:
  "v_apps (put_app a v) = (v_apps v)(app_ID a \<mapsto> a)" "v_deps (put_app a v) = v_deps v"
  "v_events (put_app a v) = v_events v"
  "v_apps (put_dep d v) = v_apps v" "v_deps (put_dep d v) = (v_deps v)(dep_ID d \<mapsto> d)"
  "v_events (put_dep d v) = v_events v"
  "v_apps (put_event e v) = v_apps v" "v_deps (put_event e v) = v_deps v"
  "v_events (put_event e v) = (v_events v)(ev_DeploymentID e := v_events v (ev_DeploymentID e) @ [e])"
  by (simp_all add: put_app_def put_dep_def put_event_def)

text \<open>Every record stands under its identifier, and no two apps of a tenant have the same slug.\<close>

definition ok_view :: "view \<Rightarrow> bool" where
  "ok_view v \<longleftrightarrow>
     (\<forall>i a. v_apps v i = Some a \<longrightarrow> app_ID a = i) \<and> (\<forall>i d. v_deps v i = Some d \<longrightarrow> dep_ID d = i) \<and>
     (\<forall>i j a b. v_apps v i = Some a \<longrightarrow> v_apps v j = Some b \<longrightarrow> app_TenantID a = app_TenantID b \<longrightarrow>
        app_Slug a = app_Slug b \<longrightarrow> i = j)"

text \<open>The records of every tenant but \<open>t\<close> are as they were.\<close>

definition others_kept :: "string \<Rightarrow> view \<Rightarrow> view \<Rightarrow> bool" where
  "others_kept t v v' \<longleftrightarrow>
     (\<forall>i a. v_apps v i = Some a \<longrightarrow> app_TenantID a \<noteq> t \<longrightarrow> v_apps v' i = Some a) \<and>
     (\<forall>i d. v_deps v i = Some d \<longrightarrow> dep_TenantID d \<noteq> t \<longrightarrow> v_deps v' i = Some d)"

lemma others_kept_refl [simp]: "others_kept t v v"
  by (simp add: others_kept_def)

lemma others_kept_trans: "others_kept t v v1 \<Longrightarrow> others_kept t v1 v2 \<Longrightarrow> others_kept t v v2"
  by (simp add: others_kept_def)

lemma others_kept_event [simp]: "others_kept t v (put_event e v') \<longleftrightarrow> others_kept t v v'"
  by (simp add: others_kept_def)

lemma ok_view_event [simp]: "ok_view (put_event e v) \<longleftrightarrow> ok_view v"
  by (simp add: ok_view_def)

lemma ok_view_ids:
  "ok_view v \<Longrightarrow> v_apps v i = Some a \<Longrightarrow> app_ID a = i" "ok_view v \<Longrightarrow> v_deps v i = Some d \<Longrightarrow> dep_ID d = i"
  by (simp_all add: ok_view_def)

text \<open>Writing a deployment of tenant \<open>t\<close> over one of tenant \<open>t\<close>, or under an identifier not in use.\<close>

lemma others_kept_put_dep:
  "dep_ID d = i \<Longrightarrow> (\<And>d'. v_deps v i = Some d' \<Longrightarrow> dep_TenantID d' = t) \<Longrightarrow> others_kept t v (put_dep d v)"
  by (auto simp: others_kept_def)

lemma others_kept_put_app:
  "app_ID a = i \<Longrightarrow> (\<And>a'. v_apps v i = Some a' \<Longrightarrow> app_TenantID a' = t) \<Longrightarrow> others_kept t v (put_app a v)"
  by (auto simp: others_kept_def)

lemma ok_view_put_dep: "ok_view v \<Longrightarrow> ok_view (put_dep d v)"
  by (auto simp: ok_view_def)

lemma ok_view_put_app:
  assumes "ok_view v"
    and "\<And>i b. v_apps v i = Some b \<Longrightarrow> i \<noteq> app_ID a \<Longrightarrow> app_TenantID b = app_TenantID a \<Longrightarrow> app_Slug b \<noteq> app_Slug a"
  shows "ok_view (put_app a v)"
proof -
  have "i = j" if "v_apps (put_app a v) i = Some x" "v_apps (put_app a v) j = Some y"
    and t: "app_TenantID x = app_TenantID y" and s: "app_Slug x = app_Slug y" for i j x y
  proof (cases "i = app_ID a \<or> j = app_ID a")
    case True
    with that assms(2) [of i x] assms(2) [of j y] show ?thesis by (auto split: if_splits)
  next
    case False
    with that assms(1) show ?thesis unfolding ok_view_def by simp
  qed
  moreover have "app_ID x = i" if "v_apps (put_app a v) i = Some x" for i x
    using that ok_view_ids(1) [OF assms(1)] by (auto split: if_splits)
  moreover have "dep_ID d = i" if "v_deps (put_app a v) i = Some d" for i d
    using that ok_view_ids(2) [OF assms(1)] by simp
  ultimately show ?thesis unfolding ok_view_def by blast
qed

text \<open>A call that either fails and changes nothing or does \<open>f\<close>.\<close>

definition all_or_nothing :: "(view \<Rightarrow> view) \<Rightarrow> view \<Rightarrow> error + unit \<Rightarrow> view \<Rightarrow> bool" where
  "all_or_nothing f v r v' \<longleftrightarrow> (case r of Inl e \<Rightarrow> v' = v | Inr _ \<Rightarrow> v' = f v)"

locale records =
  fixes A :: "'a env_scheme AppRepository"
    and D :: "'a env_scheme DeploymentRepository"
    and E :: "'a env_scheme EventRepository"
    and abs :: "'a env_scheme \<Rightarrow> view"
  assumes abs_env: "env.more w' = env.more w \<Longrightarrow> abs w' = abs w"
    and app_create: "ar_Create A a w = (r, w') \<Longrightarrow> all_or_nothing (put_app a) (abs w) r (abs w')"
    and app_create_slug: "ar_Create A a w = (Inr (), w') \<Longrightarrow> v_apps (abs w) i = Some b \<Longrightarrow>
      app_TenantID b = app_TenantID a \<Longrightarrow> app_Slug b \<noteq> app_Slug a"
    and app_update: "ar_Update A a w = (r, w') \<Longrightarrow> all_or_nothing (put_app a) (abs w) r (abs w')"
    and app_update_known: "ar_Update A a w = (Inr (), w') \<Longrightarrow> app_ID a \<in> dom (v_apps (abs w))"
    and app_get: "ar_GetByID A t i w = (ra, w') \<Longrightarrow>
      abs w' = abs w \<and> (\<forall>a. ra = Inr a \<longrightarrow> v_apps (abs w) i = Some a \<and> app_TenantID a = t)"
    and dep_create: "dr_Create D d w = (r, w') \<Longrightarrow> all_or_nothing (put_dep d) (abs w) r (abs w')"
    and dep_update: "dr_Update D d w = (r, w') \<Longrightarrow> all_or_nothing (put_dep d) (abs w) r (abs w')"
    and dep_update_known: "dr_Update D d w = (Inr (), w') \<Longrightarrow> dep_ID d \<in> dom (v_deps (abs w))"
    and dep_get: "dr_GetByID D t i w = (rd, w') \<Longrightarrow>
      abs w' = abs w \<and> (\<forall>d. rd = Inr d \<longrightarrow> v_deps (abs w) i = Some d \<and> dep_TenantID d = t)"
    and dep_active: "dr_ListActive D n w = (rds, w') \<Longrightarrow> abs w' = abs w"
    and next_version: "dr_NextVersion D t i w = (rv, w') \<Longrightarrow> abs w' = abs w"
    and event_create: "er_Create E ev w = (r, w') \<Longrightarrow> all_or_nothing (put_event ev) (abs w) r (abs w')"

text \<open>
  Repositories and queue over one world: the calls of the one do not touch the other. The queue's calls
  are the ones the services make.
\<close>

locale control_plane =
  records A D E abs + reliable_queue Q ack sched reclaim dlq bag
  for A :: "'a env_scheme AppRepository"
    and D :: "'a env_scheme DeploymentRepository"
    and E :: "'a env_scheme EventRepository"
    and abs :: "'a env_scheme \<Rightarrow> view"
    and Q :: "'a env_scheme JobQueue"
    and ack :: "Job \<Rightarrow> (unit, 'a env_scheme) op"
    and sched :: "'a env_scheme JobScheduler"
    and reclaim :: "duration \<Rightarrow> int \<Rightarrow> (int, 'a env_scheme) op"
    and dlq :: "'a env_scheme DeadLetterQueue"
    and bag :: "'a env_scheme \<Rightarrow> bag" +
  assumes bag_records:
      "ar_Create A a w = (r, w') \<Longrightarrow> bag w' = bag w" "ar_Update A a w = (r, w') \<Longrightarrow> bag w' = bag w"
      "ar_GetByID A t i w = (ra, w') \<Longrightarrow> bag w' = bag w"
      "dr_Create D d w = (r, w') \<Longrightarrow> bag w' = bag w" "dr_Update D d w = (r, w') \<Longrightarrow> bag w' = bag w"
      "dr_GetByID D t i w = (rd, w') \<Longrightarrow> bag w' = bag w"
      "dr_ListActive D n w = (rds, w') \<Longrightarrow> bag w' = bag w"
      "dr_NextVersion D t i w = (rv, w') \<Longrightarrow> bag w' = bag w"
      "er_Create E ev w = (r, w') \<Longrightarrow> bag w' = bag w"
    and abs_queue:
      "jq_Enqueue Q j w = (r, w') \<Longrightarrow> abs w' = abs w"
      "js_EnqueueAfter sched j t' w = (r, w') \<Longrightarrow> abs w' = abs w"

text \<open>A backend keeps its own state: none of its calls touches the repositories or the queue.\<close>

locale hosted_plane =
  control_plane A D E abs Q ack sched reclaim dlq bag
  for A :: "'a env_scheme AppRepository"
    and D :: "'a env_scheme DeploymentRepository"
    and E :: "'a env_scheme EventRepository"
    and abs :: "'a env_scheme \<Rightarrow> view"
    and Q :: "'a env_scheme JobQueue"
    and ack :: "Job \<Rightarrow> (unit, 'a env_scheme) op"
    and sched :: "'a env_scheme JobScheduler"
    and reclaim :: "duration \<Rightarrow> int \<Rightarrow> (int, 'a env_scheme) op"
    and dlq :: "'a env_scheme DeadLetterQueue"
    and bag :: "'a env_scheme \<Rightarrow> bag" +
  fixes B :: "'a env_scheme DeploymentBackend"
  assumes backend_frame:
      "be_Plan B a v w = (rp, w') \<Longrightarrow> abs w' = abs w \<and> bag w' = bag w"
      "be_Submit B a d w = (rs, w') \<Longrightarrow> abs w' = abs w \<and> bag w' = bag w"
      "be_Delete B ref w = (r, w') \<Longrightarrow> abs w' = abs w \<and> bag w' = bag w"
      "be_GetStatus B ref w = (rs, w') \<Longrightarrow> abs w' = abs w \<and> bag w' = bag w"

end
