(* ===== verification/MemQueue.thy ===== *)
theory MemQueue
  imports Contracts
begin

text \<open>
  \<^verbatim>\<open>internal/queue/memory/client.go\<close>: the in-memory job queue. Each method takes the mutex for its whole
  body, so it is one step on the state \<open>Client\<close>; \<^verbatim>\<open>Dequeue\<close> takes it once per poll and may block.
  The loops that filter \<^verbatim>\<open>delayed\<close> and \<^verbatim>\<open>processing\<close> in place are \<open>promote_loop\<close> and \<open>reclaim_loop\<close>.

  The lemmas give the loops a reference definition and interpret the contract \<open>reliable_queue\<close> (no call
  loses or duplicates a job) on \<open>mq_queue\<close>.
\<close>

section \<open>State and operations\<close>

record Client =
  ready :: "Job list"
  processing :: "Job list"
  delayed :: "Job list"
  dead :: "DeadLetterJob list"

record mq_world = env +
  mq :: Client

definition mq_NewClient :: Client where
  "mq_NewClient = \<lparr>ready = [], processing = [], delayed = [], dead = []\<rparr>"

definition stampCreated :: "Job \<Rightarrow> 'a env_scheme \<Rightarrow> Job \<times> 'a env_scheme" where
  "stampCreated job w =
     (if IsZero (job_CreatedAt job)
      then let (now, w) = Now w in (job\<lparr>job_CreatedAt := now\<rparr>, w) else (job, w))"

definition stampAvailable :: "Job \<Rightarrow> 'a env_scheme \<Rightarrow> Job \<times> 'a env_scheme" where
  "stampAvailable job w =
     (if IsZero (job_AvailableAt job)
      then let (now, w) = Now w in (job\<lparr>job_AvailableAt := now\<rparr>, w) else (job, w))"

definition mq_Enqueue :: "Job \<Rightarrow> (unit, 'a mq_world_scheme) op" where
  "mq_Enqueue job w =
     (let job = job\<lparr>job_LeasedAt := 0\<rparr>;
          (job, w) = stampCreated job w;
          (job, w) = stampAvailable job w
      in (Inr (), w\<lparr>mq := (mq w)\<lparr>ready := ready (mq w) @ [job]\<rparr>\<rparr>))"

fun promote_loop ::
  "int \<Rightarrow> time \<Rightarrow> Job list \<Rightarrow> int \<Rightarrow> Job list \<Rightarrow> Job list \<Rightarrow> int \<times> Job list \<times> Job list" where
  "promote_loop limit now [] promoted rdy kept = (promoted, rdy, kept)"
| "promote_loop limit now (job # js) promoted rdy kept =
     (if promoted < limit \<and> (IsZero (job_AvailableAt job) \<or> \<not> now < job_AvailableAt job)
      then promote_loop limit now js (promoted + 1) (rdy @ [job]) kept
      else promote_loop limit now js promoted rdy (kept @ [job]))"

definition mq_promoteDueLocked :: "int \<Rightarrow> 'a mq_world_scheme \<Rightarrow> int \<times> 'a mq_world_scheme" where
  "mq_promoteDueLocked limit w =
     (let limit = (if limit \<le> 0 then 100 else limit);
          (now, w) = Now w;
          (promoted, rdy, kept) = promote_loop limit now (delayed (mq w)) 0 (ready (mq w)) []
      in (promoted, w\<lparr>mq := (mq w)\<lparr>ready := rdy, delayed := kept\<rparr>\<rparr>))"

text \<open>One turn of the loop of \<^verbatim>\<open>Dequeue\<close>, from \<^verbatim>\<open>Lock\<close> to \<^verbatim>\<open>Unlock\<close>.\<close>

definition mq_Dequeue_poll :: "'a mq_world_scheme \<Rightarrow> Job option \<times> 'a mq_world_scheme" where
  "mq_Dequeue_poll w =
     (let (_, w) = mq_promoteDueLocked 100 w
      in case ready (mq w) of
           [] \<Rightarrow> (None, w)
         | job # rest \<Rightarrow>
             (let w = w\<lparr>mq := (mq w)\<lparr>ready := rest\<rparr>\<rparr>;
                  (now, w) = Now w;
                  job = job\<lparr>job_LeasedAt := now\<rparr>
              in (Some job, w\<lparr>mq := (mq w)\<lparr>processing := processing (mq w) @ [job]\<rparr>\<rparr>)))"

partial_function (option) mq_Dequeue ::
  "'a mq_world_scheme \<Rightarrow> ((error + Job) \<times> 'a mq_world_scheme) option" where
  "mq_Dequeue w =
     (case mq_Dequeue_poll w of
        (Some job, w) \<Rightarrow> Some (Inr job, w)
      | (None, w) \<Rightarrow>
          (case ctx_Done w of
             (Some e, w) \<Rightarrow> Some (Inl e, w)
           | (None, w) \<Rightarrow> mq_Dequeue w))"

fun remove_first :: "('a \<Rightarrow> bool) \<Rightarrow> 'a list \<Rightarrow> 'a list" where
  "remove_first p [] = []"
| "remove_first p (x # xs) = (if p x then xs else x # remove_first p xs)"

definition removeJob :: "Job list \<Rightarrow> Job \<Rightarrow> Job list" where
  "removeJob items job =
     (if \<exists>item \<in> set items. job_ID item = job_ID job \<and> job_LeasedAt item = job_LeasedAt job
      then remove_first (\<lambda>item. job_ID item = job_ID job \<and> job_LeasedAt item = job_LeasedAt job) items
      else remove_first (\<lambda>item. job_ID item = job_ID job) items)"

definition mq_Ack :: "Job \<Rightarrow> (unit, 'a mq_world_scheme) op" where
  "mq_Ack job w =
     (Inr (), w\<lparr>mq := (mq w)\<lparr>processing := removeJob (processing (mq w)) job\<rparr>\<rparr>)"

definition mq_EnqueueAfter :: "Job \<Rightarrow> duration \<Rightarrow> (unit, 'a mq_world_scheme) op" where
  "mq_EnqueueAfter job delay w =
     (let job = job\<lparr>job_LeasedAt := 0\<rparr>;
          (job, w) = stampCreated job w;
          (now, w) = Now w;
          job = job\<lparr>job_AvailableAt := now + delay\<rparr>
      in (Inr (), w\<lparr>mq := (mq w)\<lparr>delayed := delayed (mq w) @ [job]\<rparr>\<rparr>))"

definition mq_PromoteDue :: "int \<Rightarrow> (int, 'a mq_world_scheme) op" where
  "mq_PromoteDue limit w = (let (n, w) = mq_promoteDueLocked limit w in (Inr n, w))"

fun reclaim_loop ::
  "int \<Rightarrow> time \<Rightarrow> Job list \<Rightarrow> int \<Rightarrow> Job list \<Rightarrow> Job list \<Rightarrow> 'a env_scheme
    \<Rightarrow> (int \<times> Job list \<times> Job list) \<times> 'a env_scheme" where
  "reclaim_loop limit cutoff [] reclaimed rdy kept w = ((reclaimed, rdy, kept), w)"
| "reclaim_loop limit cutoff (job # js) reclaimed rdy kept w =
     (if reclaimed \<ge> limit \<or> (\<not> IsZero (job_LeasedAt job) \<and> cutoff < job_LeasedAt job)
      then reclaim_loop limit cutoff js reclaimed rdy (kept @ [job]) w
      else let (now, w) = Now w;
               job = job\<lparr>job_LeasedAt := 0, job_AvailableAt := now\<rparr>
           in reclaim_loop limit cutoff js (reclaimed + 1) (rdy @ [job]) kept w)"

definition mq_ReclaimStale :: "duration \<Rightarrow> int \<Rightarrow> (int, 'a mq_world_scheme) op" where
  "mq_ReclaimStale staleAfter limit w =
     (let limit = (if limit \<le> 0 then 100 else limit);
          staleAfter = (if staleAfter \<le> 0 then 10 * 60 * second else staleAfter);
          (now, w) = Now w;
          cutoff = now - staleAfter;
          ((reclaimed, rdy, kept), w) =
            reclaim_loop limit cutoff (processing (mq w)) 0 (ready (mq w)) [] w
      in (Inr reclaimed, w\<lparr>mq := (mq w)\<lparr>ready := rdy, processing := kept\<rparr>\<rparr>))"

definition mq_DeadLetter :: "DeadLetterJob \<Rightarrow> (unit, 'a mq_world_scheme) op" where
  "mq_DeadLetter item w =
     (let (item, w) = (if IsZero (dl_FailedAt item)
                       then let (now, w) = Now w in (item\<lparr>dl_FailedAt := now\<rparr>, w) else (item, w))
      in (Inr (), w\<lparr>mq := (mq w)\<lparr>dead := item # dead (mq w)\<rparr>\<rparr>))"

definition mq_ListDeadLetters :: "int \<Rightarrow> (DeadLetterJob list, 'a mq_world_scheme) op" where
  "mq_ListDeadLetters limit w =
     (let n = int (length (dead (mq w)));
          limit = (if limit \<le> 0 \<or> limit > n then n else limit)
      in (Inr (take (nat limit) (dead (mq w))), w))"

definition mq_ReplayDeadLetter :: "string \<Rightarrow> (Job, 'a mq_world_scheme) op" where
  "mq_ReplayDeadLetter dlid w =
     (case find (\<lambda>item. dl_ID item = dlid) (dead (mq w)) of
        None \<Rightarrow> (Inl ErrNotFound, w)
      | Some item \<Rightarrow>
          (let w = w\<lparr>mq := (mq w)\<lparr>dead := remove_first (\<lambda>item. dl_ID item = dlid) (dead (mq w))\<rparr>\<rparr>;
               job = (dl_Job item)\<lparr>job_Attempts := 0, job_LastError := [], job_LeasedAt := 0\<rparr>;
               (now, w) = Now w;
               job = job\<lparr>job_AvailableAt := now\<rparr>
           in (Inr job, w\<lparr>mq := (mq w)\<lparr>ready := ready (mq w) @ [job]\<rparr>\<rparr>)))"

definition mq_Stats :: "(QueueStats, 'a mq_world_scheme) op" where
  "mq_Stats w =
     (Inr \<lparr>qs_Ready = int (length (ready (mq w))),
           qs_Processing = int (length (processing (mq w))),
           qs_Delayed = int (length (delayed (mq w))),
           qs_DeadLetters = int (length (dead (mq w)))\<rparr>, w)"

definition mq_Check :: "(unit, 'a mq_world_scheme) op" where
  "mq_Check w = (Inr (), w)"

text \<open>The client as the \<^verbatim>\<open>JobQueue\<close> the services and the worker hold; it implements every extension.\<close>

definition mq_scheduler :: "'a mq_world_scheme JobScheduler" where
  "mq_scheduler = \<lparr>js_EnqueueAfter = mq_EnqueueAfter, js_PromoteDue = mq_PromoteDue\<rparr>"

definition mq_deadLetters :: "'a mq_world_scheme DeadLetterQueue" where
  "mq_deadLetters =
     \<lparr>dlq_DeadLetter = mq_DeadLetter, dlq_ListDeadLetters = mq_ListDeadLetters,
      dlq_ReplayDeadLetter = mq_ReplayDeadLetter\<rparr>"

definition mq_queue :: "'a mq_world_scheme JobQueue" where
  "mq_queue =
     \<lparr>jq_Enqueue = mq_Enqueue,
      jq_Dequeue = mq_Dequeue,
      jq_JobAcker = Some mq_Ack,
      jq_JobScheduler = Some mq_scheduler,
      jq_JobLeaseReclaimer = Some mq_ReclaimStale,
      jq_DeadLetterQueue = Some mq_deadLetters,
      jq_JobQueueInspector = Some mq_Stats\<rparr>"

section \<open>The loops against reference definitions\<close>

text \<open>\<open>drop_sat n p xs\<close> is \<open>xs\<close> without its first \<open>n\<close> elements that satisfy \<open>p\<close>.\<close>

fun drop_sat :: "nat \<Rightarrow> ('a \<Rightarrow> bool) \<Rightarrow> 'a list \<Rightarrow> 'a list" where
  "drop_sat 0 p xs = xs"
| "drop_sat (Suc n) p [] = []"
| "drop_sat (Suc n) p (x # xs) = (if p x then drop_sat n p xs else x # drop_sat (Suc n) p xs)"

lemma drop_sat_Nil [simp]: "drop_sat n p [] = []"
  by (cases n) auto

lemma drop_sat_skip [simp]: "\<not> p x \<Longrightarrow> drop_sat n p (x # xs) = x # drop_sat n p xs"
  by (cases n) auto

lemma filter_drop_sat: "filter p (drop_sat n p xs) = drop n (filter p xs)"
  by (induction n p xs rule: drop_sat.induct) auto

lemma filter_not_drop_sat: "filter (\<lambda>x. \<not> p x) (drop_sat n p xs) = filter (\<lambda>x. \<not> p x) xs"
  by (induction n p xs rule: drop_sat.induct) auto

lemma mset_drop_sat: "mset (take n (filter p xs)) + mset (drop_sat n p xs) = mset xs"
  by (induction n p xs rule: drop_sat.induct) auto

lemma drop_sat_all: "length (filter p xs) \<le> n \<Longrightarrow> drop_sat n p xs = filter (\<lambda>x. \<not> p x) xs"
  by (induction n p xs rule: drop_sat.induct) (auto simp: filter_id_conv filter_empty_conv)

definition due :: "time \<Rightarrow> Job \<Rightarrow> bool" where
  "due now job \<longleftrightarrow> IsZero (job_AvailableAt job) \<or> job_AvailableAt job \<le> now"

text \<open>How many of the elements that satisfy \<open>p\<close> a loop at count \<open>c\<close> still moves.\<close>

definition quota :: "int \<Rightarrow> int \<Rightarrow> ('a \<Rightarrow> bool) \<Rightarrow> 'a list \<Rightarrow> nat" where
  "quota limit c p xs = min (nat (limit - c)) (length (filter p xs))"

lemma quota_simps [simp]:
  "quota limit c p [] = 0"
  "quota limit limit p xs = 0"
  "\<not> p x \<Longrightarrow> quota limit c p (x # xs) = quota limit c p xs"
  "p x \<Longrightarrow> c < limit \<Longrightarrow> quota limit c p (x # xs) = Suc (quota limit (c + 1) p xs)"
  by (simp_all add: quota_def)

lemma promote_loop_spec:
  "p \<le> limit \<Longrightarrow>
   promote_loop limit now js p r k =
     (p + int (quota limit p (due now) js),
      r @ take (nat (limit - p)) (filter (due now) js),
      k @ drop_sat (nat (limit - p)) (due now) js)"
proof (induction js arbitrary: p r k)
  case (Cons j js)
  consider (go) "p < limit" "due now j" | (full) "p = limit" | (later) "\<not> due now j"
    using Cons.prems by linarith
  then show ?case
  proof cases
    case go
    then have "nat (limit - p) = Suc (nat (limit - (p + 1)))" by simp
    with go Cons.IH [of "p + 1"] show ?thesis by (auto simp: due_def)
  next
    case full
    with Cons.IH [of p] show ?thesis by simp
  next
    case later
    with Cons show ?thesis by (auto simp: due_def)
  qed
qed simp

definition stale :: "time \<Rightarrow> Job \<Rightarrow> bool" where
  "stale cutoff job \<longleftrightarrow> IsZero (job_LeasedAt job) \<or> job_LeasedAt job \<le> cutoff"

text \<open>What reclaiming does to each job: the lease is dropped and the job is available from the reading
  taken for it.\<close>

definition unleased :: "time \<Rightarrow> Job \<Rightarrow> Job" where
  "unleased now job = job\<lparr>job_LeasedAt := 0, job_AvailableAt := now\<rparr>"

lemma reclaim_loop_spec:
  "p \<le> limit \<Longrightarrow>
   reclaim_loop limit cutoff js p r k w =
     ((p + int (quota limit p (stale cutoff) js),
       r @ map2 unleased (map (clk w) [ticks w..<ticks w + quota limit p (stale cutoff) js])
             (filter (stale cutoff) js),
       k @ drop_sat (nat (limit - p)) (stale cutoff) js),
      w\<lparr>ticks := ticks w + quota limit p (stale cutoff) js\<rparr>)"
proof (induction js arbitrary: p r k w)
  case (Cons j js)
  consider (go) "p < limit" "stale cutoff j" | (full) "p = limit" | (fresh) "\<not> stale cutoff j"
    using Cons.prems by linarith
  then show ?case
  proof cases
    case go
    then have suc: "nat (limit - p) = Suc (nat (limit - (p + 1)))" by simp
    have up: "[a..<a + Suc n] = a # [Suc a..<Suc a + n]" for a n
      by (simp add: upt_conv_Cons del: upt_Suc)
    from go Cons.IH [of "p + 1"] show ?thesis
      by (auto simp: stale_def Now_def unleased_def suc up simp del: upt_Suc add_Suc_right)
  next
    case full
    with Cons.IH [of p] show ?thesis by simp
  next
    case fresh
    with Cons show ?thesis by (auto simp: stale_def)
  qed
qed simp

section \<open>The memory queue keeps the contract\<close>

definition mq_bag :: "'a mq_world_scheme \<Rightarrow> bag" where
  "mq_bag w =
     \<lparr>live = image_mset job_core (mset (ready (mq w)) + mset (delayed (mq w))),
      leases = image_mset job_ID (mset (processing (mq w))),
      graves = image_mset dl_core (mset (dead (mq w)))\<rparr>"

lemma mq_more: "env.more w' = env.more w \<Longrightarrow> mq w' = mq w"
  by (cases w, cases w') simp

lemma mq_Now [simp]: "mq (snd (Now w)) = mq w"
  by (simp add: Now_def)

lemma stampCreated_frame:
  "stampCreated j w = (j', w') \<Longrightarrow> job_core j' = job_core j \<and> env.more w' = env.more w"
  by (auto simp: stampCreated_def Now_def split: if_splits)

lemma stampAvailable_frame:
  "stampAvailable j w = (j', w') \<Longrightarrow> job_core j' = job_core j \<and> env.more w' = env.more w"
  by (auto simp: stampAvailable_def Now_def split: if_splits)

lemma mq_bag_env: "env.more w' = env.more w \<Longrightarrow> mq_bag w' = mq_bag w"
  by (drule mq_more) (simp add: mq_bag_def)

lemma mq_Enqueue_bag: "mq_bag (snd (mq_Enqueue j w)) = b_enq j (mq_bag w)"
proof -
  obtain j1 w1 where s1: "stampCreated (j\<lparr>job_LeasedAt := 0\<rparr>) w = (j1, w1)" by fastforce
  obtain j2 w2 where s2: "stampAvailable j1 w1 = (j2, w2)" by fastforce
  from stampCreated_frame [OF s1] stampAvailable_frame [OF s2]
  have "job_core j2 = job_core j" and "mq w2 = mq w"
    by (auto dest: mq_more)
  then show ?thesis
    by (simp add: mq_Enqueue_def s1 s2 mq_bag_def b_enq_def)
qed

lemma mq_EnqueueAfter_bag: "mq_bag (snd (mq_EnqueueAfter j d w)) = b_enq j (mq_bag w)"
proof -
  obtain j1 w1 where s1: "stampCreated (j\<lparr>job_LeasedAt := 0\<rparr>) w = (j1, w1)" by fastforce
  from stampCreated_frame [OF s1] have "job_core j1 = job_core j" and "mq w1 = mq w"
    by (auto dest: mq_more)
  then show ?thesis
    by (simp add: mq_EnqueueAfter_def s1 Now_def mq_bag_def b_enq_def)
qed

lemma promoteDueLocked_spec:
  "mq_promoteDueLocked limit w =
     (let l = (if limit \<le> 0 then 100 else limit); p = due (clk w (ticks w)); c = mq w
      in (int (quota l 0 p (delayed c)),
          w\<lparr>ticks := Suc (ticks w),
            mq := c\<lparr>ready := ready c @ take (nat l) (filter p (delayed c)),
                    delayed := drop_sat (nat l) p (delayed c)\<rparr>\<rparr>))"
  by (simp add: mq_promoteDueLocked_def Now_def Let_def promote_loop_spec)

lemma promote_bag: "mq_bag (snd (mq_promoteDueLocked limit w)) = mq_bag w"
proof -
  have "image_mset f (mset (take n (filter p xs))) + image_mset f (mset (drop_sat n p xs))
          = image_mset f (mset xs)" for n p xs and f :: "Job \<Rightarrow> Job"
    by (metis image_mset_union mset_drop_sat)
  then show ?thesis
    by (simp add: promoteDueLocked_spec Let_def mq_bag_def add.assoc)
qed

lemma Dequeue_poll_bag:
  "mq_Dequeue_poll w = (None, w') \<Longrightarrow> mq_bag w' = mq_bag w"
  "mq_Dequeue_poll w = (Some j, w') \<Longrightarrow>
     job_core j \<in># live (mq_bag w) \<and> mq_bag w' = b_lease j (mq_bag w)"
proof -
  obtain n w1 where p: "mq_promoteDueLocked 100 w = (n, w1)" by fastforce
  with promote_bag [of 100 w] have b: "mq_bag w1 = mq_bag w" by simp
  { assume "mq_Dequeue_poll w = (None, w')"
    with p b show "mq_bag w' = mq_bag w"
      by (auto simp: mq_Dequeue_poll_def Let_def split: list.splits prod.splits) }
  { assume "mq_Dequeue_poll w = (Some j, w')"
    with p have "job_core j \<in># live (mq_bag w1) \<and> mq_bag w' = b_lease j (mq_bag w1)"
      by (auto simp: mq_Dequeue_poll_def mq_bag_def b_lease_def Now_def Let_def split: list.splits)
    with b show "job_core j \<in># live (mq_bag w) \<and> mq_bag w' = b_lease j (mq_bag w)" by simp }
qed

lemma ctx_Done_bag: "mq_bag (snd (ctx_Done w)) = mq_bag w"
  by (rule mq_bag_env) (rule more_ctx_Done)

text \<open>What a call of \<^verbatim>\<open>Dequeue\<close> that returned leaves of the bag.\<close>

definition leased_post :: "bag \<Rightarrow> (error + Job) \<times> 'a mq_world_scheme \<Rightarrow> bool" where
  "leased_post b y \<longleftrightarrow>
     (case fst y of Inl e \<Rightarrow> mq_bag (snd y) = b
      | Inr j \<Rightarrow> job_core j \<in># live b \<and> mq_bag (snd y) = b_lease j b)"

lemma mq_Dequeue_bag: "mq_Dequeue w = Some y \<Longrightarrow> leased_post (mq_bag w) y"
proof (erule mq_Dequeue.raw_induct [rotated])
  fix f :: "'b mq_world_scheme \<Rightarrow> ((error + Job) \<times> 'b mq_world_scheme) option" and w y
  assume IH: "\<And>w y. f w = Some y \<Longrightarrow> leased_post (mq_bag w) y"
    and body: "(case mq_Dequeue_poll w of
        (Some job, w) \<Rightarrow> Some (Inr job, w)
      | (None, w) \<Rightarrow>
          (case ctx_Done w of (Some e, w) \<Rightarrow> Some (Inl e, w) | (None, w) \<Rightarrow> f w)) = Some y"
  obtain o1 w1 where p: "mq_Dequeue_poll w = (o1, w1)" by fastforce
  show "leased_post (mq_bag w) y"
  proof (cases o1)
    case None
    with p have b1: "mq_bag w1 = mq_bag w" using Dequeue_poll_bag(1) by blast
    obtain o2 w2 where d: "ctx_Done w1 = (o2, w2)" by fastforce
    with ctx_Done_bag [of w1] b1 have b2: "mq_bag w2 = mq_bag w" by simp
    show ?thesis using IH [of w2 y] body p d None b2
      by (cases o2) (auto simp: leased_post_def)
  next
    case (Some j)
    with p body Dequeue_poll_bag(2) [of w j w1] show ?thesis
      by (auto simp: leased_post_def)
  qed
qed

lemma remove_first_mset:
  "\<exists>x \<in> set xs. p x \<Longrightarrow> \<exists>x \<in> set xs. p x \<and> mset xs = add_mset x (mset (remove_first p xs))"
  by (induction xs) auto

lemma remove_first_none: "\<not> (\<exists>x \<in> set xs. p x) \<Longrightarrow> remove_first p xs = xs"
  by (induction xs) auto

lemma removeJob_mset:
  "image_mset job_ID (mset (removeJob xs j)) = image_mset job_ID (mset xs) - {#job_ID j#}"
proof -
  have rem: "image_mset job_ID (mset (remove_first q xs)) = image_mset job_ID (mset xs) - {#job_ID j#}"
    if ex: "\<exists>x \<in> set xs. q x" and q: "\<And>x. q x \<Longrightarrow> job_ID x = job_ID j" for q
  proof -
    from remove_first_mset [of xs q] ex
    obtain x where "q x" and "mset xs = add_mset x (mset (remove_first q xs))" by blast
    with q show ?thesis by simp
  qed
  show ?thesis
  proof (cases "\<exists>x \<in> set xs. job_ID x = job_ID j")
    case True
    then show ?thesis by (auto simp: removeJob_def intro!: rem)
  next
    case False
    then have "removeJob xs j = xs" by (auto simp: removeJob_def intro!: remove_first_none)
    moreover from False have "job_ID j \<notin># image_mset job_ID (mset xs)" by auto
    ultimately show ?thesis by (simp add: diff_single_trivial)
  qed
qed

lemma mq_Ack_bag: "mq_bag (snd (mq_Ack j w)) = b_ack j (mq_bag w)"
  by (simp add: mq_Ack_def mq_bag_def b_ack_def removeJob_mset)

lemma mset_map2_unleased:
  "length ts = length js \<Longrightarrow>
     image_mset job_core (mset (map2 unleased ts js)) = image_mset job_core (mset js)"
  by (induction ts js rule: list_induct2) (simp_all add: unleased_def)

lemma ids_core: "image_mset job_ID (image_mset job_core M) = image_mset job_ID M"
  by (simp add: multiset.map_comp comp_def)

lemma mq_DeadLetter_bag: "mq_bag (snd (mq_DeadLetter d w)) = b_bury d (mq_bag w)"
  by (simp add: mq_DeadLetter_def Now_def Let_def mq_bag_def b_bury_def)

lemma ReclaimStale_spec:
  "mq_ReclaimStale staleAfter limit w =
     (let l = (if limit \<le> 0 then 100 else limit);
          age = (if staleAfter \<le> 0 then 10 * 60 * second else staleAfter);
          p = stale (clk w (ticks w) - age); c = mq w; n = quota l 0 p (processing c)
      in (Inr (int n),
          w\<lparr>ticks := Suc (ticks w) + n,
            mq := c\<lparr>ready := ready c @ map2 unleased (map (clk w) [Suc (ticks w)..<Suc (ticks w) + n])
                                         (filter p (processing c)),
                    processing := drop_sat (nat l) p (processing c)\<rparr>\<rparr>))"
  by (simp add: mq_ReclaimStale_def Now_def Let_def reclaim_loop_spec del: upt_Suc)

lemma zip_take_length: "zip ts xs = zip ts (take (length ts) xs)"
proof (induction ts arbitrary: xs)
  case (Cons t ts)
  show ?case
  proof (cases xs)
    case (Cons y ys)
    with Cons.IH [of ys] show ?thesis by simp
  qed simp
qed simp

lemma mq_ReclaimStale_bag:
  assumes "mq_ReclaimStale d n w = (r, w')"
  shows "owed (mq_bag w') = owed (mq_bag w)"
    and "live (mq_bag w) \<subseteq># live (mq_bag w')"
    and "graves (mq_bag w') = graves (mq_bag w)"
proof -
  define l p c where "l = (if n \<le> 0 then 100 else n)"
    and "p = stale (clk w (ticks w) - (if d \<le> 0 then 10 * 60 * second else d))" and "c = mq w"
  define k where "k = quota l 0 p (processing c)"
  define moved where "moved = take k (filter p (processing c))"
  define ts where "ts = map (clk w) [Suc (ticks w)..<Suc (ticks w) + k]"
  have len: "length ts = length moved"
    by (simp add: ts_def moved_def k_def quota_def del: upt_Suc)
  have "mq w' = c\<lparr>ready := ready c @ map2 unleased ts (filter p (processing c)),
                  processing := drop_sat (nat l) p (processing c)\<rparr>"
    using assms by (auto simp: ReclaimStale_spec Let_def l_def p_def c_def k_def ts_def simp del: upt_Suc)
  moreover have "map2 unleased ts (filter p (processing c)) = map2 unleased ts moved"
    using zip_take_length [of ts "filter p (processing c)"] by (simp add: moved_def ts_def del: upt_Suc)
  ultimately have mq': "mq w' = c\<lparr>ready := ready c @ map2 unleased ts moved,
                                  processing := drop_sat (nat l) p (processing c)\<rparr>"
    by simp
  have "moved = take (nat l) (filter p (processing c))"
    by (simp add: moved_def k_def quota_def min_def)
  then have split: "mset moved + mset (drop_sat (nat l) p (processing c)) = mset (processing c)"
    using mset_drop_sat by blast
  have mv: "image_mset job_core (mset (map2 unleased ts moved)) = image_mset job_core (mset moved)"
    using len by (rule mset_map2_unleased)
  show "owed (mq_bag w') = owed (mq_bag w)"
    using arg_cong [OF split, of "image_mset job_ID"] mv
    by (simp add: owed_def mq_bag_def mq' ids_core c_def add.assoc add.left_commute)
  show "live (mq_bag w) \<subseteq># live (mq_bag w')" "graves (mq_bag w') = graves (mq_bag w)"
    by (simp_all add: mq_bag_def mq' c_def)
qed

interpretation mqi: reliable_queue mq_queue mq_Ack mq_scheduler mq_ReclaimStale mq_deadLetters mq_bag
proof unfold_locales
  fix d n w rn w' assume "mq_ReclaimStale d n w = (rn, w')"
  then show "owed (mq_bag w') = owed (mq_bag w) \<and> live (mq_bag w) \<subseteq># live (mq_bag w') \<and>
      graves (mq_bag w') = graves (mq_bag w)"
    using mq_ReclaimStale_bag by blast
next
  fix w j w' assume "jq_Dequeue mq_queue w = Some (Inr j, w')"
  then show "job_core j \<in># live (mq_bag w) \<and> mq_bag w' = b_lease j (mq_bag w)"
    using mq_Dequeue_bag by (fastforce simp: mq_queue_def leased_post_def)
next
  fix w e w' assume "jq_Dequeue mq_queue w = Some (Inl e, w')"
  then show "mq_bag w' = mq_bag w"
    using mq_Dequeue_bag by (fastforce simp: mq_queue_def leased_post_def)
next
  fix n w rn w' assume "js_PromoteDue mq_scheduler n w = (rn, w')"
  then show "mq_bag w' = mq_bag w"
    using promote_bag [of n w] by (auto simp: mq_scheduler_def mq_PromoteDue_def split: prod.splits)
next
  fix w w' :: "'a mq_world_scheme" assume "env.more w' = env.more w"
  then show "mq_bag w' = mq_bag w" by (rule mq_bag_env)
next
  fix j w r w' assume "jq_Enqueue mq_queue j w = (r, w')"
  then show "mq_bag w' = b_enq j (mq_bag w) \<or> (\<exists>e. r = Inl e) \<and> mq_bag w' = mq_bag w"
    using mq_Enqueue_bag [of j w] by (simp add: mq_queue_def)
next
  fix j d w r w' assume "js_EnqueueAfter mq_scheduler j d w = (r, w')"
  then show "mq_bag w' = b_enq j (mq_bag w) \<or> (\<exists>e. r = Inl e) \<and> mq_bag w' = mq_bag w"
    using mq_EnqueueAfter_bag [of j d w] by (simp add: mq_scheduler_def)
next
  fix j w r w' assume "mq_Ack j w = (r, w')"
  then show "mq_bag w' = b_ack j (mq_bag w) \<or> (\<exists>e. r = Inl e) \<and> mq_bag w' = mq_bag w"
    using mq_Ack_bag [of j w] by simp
next
  fix d w r w' assume "dlq_DeadLetter mq_deadLetters d w = (r, w')"
  then show "mq_bag w' = b_bury d (mq_bag w) \<or> (\<exists>e. r = Inl e) \<and> mq_bag w' = mq_bag w"
    using mq_DeadLetter_bag [of d w] by (simp add: mq_deadLetters_def)
next
  fix i w j w' assume "dlq_ReplayDeadLetter mq_deadLetters i w = (Inr j, w')"
  then show "live (mq_bag w') = add_mset (job_core j) (live (mq_bag w)) \<and> leases (mq_bag w') = leases (mq_bag w)"
    by (auto simp: mq_deadLetters_def mq_ReplayDeadLetter_def mq_bag_def Now_def Let_def split: option.splits)
next
  fix i w e w' assume "dlq_ReplayDeadLetter mq_deadLetters i w = (Inl e, w')"
  then show "mq_bag w' = mq_bag w"
    by (auto simp: mq_deadLetters_def mq_ReplayDeadLetter_def Now_def Let_def split: option.splits)
qed (simp_all add: mq_queue_def)

section \<open>Properties\<close>

text \<open>
  A promotion moves, in order, exactly the first \<open>limit\<close> jobs whose time has come from \<^verbatim>\<open>delayed\<close> to the
  end of \<^verbatim>\<open>ready\<close> (100 of them when the limit is not positive), keeps all others in order, and returns how
  many it moved. The in-place filtering loop equals this reference definition.
\<close>

theorem PromoteDue_exact:
  "mq_PromoteDue limit w =
     (let l = (if limit \<le> 0 then 100 else limit); now = clk w (ticks w); c = mq w;
          moved = take (nat l) (filter (due now) (delayed c))
      in (Inr (int (length moved)),
          w\<lparr>ticks := Suc (ticks w),
            mq := c\<lparr>ready := ready c @ moved, delayed := drop_sat (nat l) (due now) (delayed c)\<rparr>\<rparr>))"
  by (simp add: mq_PromoteDue_def promoteDueLocked_spec Let_def quota_def min.commute)

text \<open>A concrete world and a concrete job, on which the properties below are evaluated.\<close>

definition demo_world :: "Client \<Rightarrow> mq_world" where
  "demo_world c =
     \<lparr>clk = (\<lambda>n. unixEpoch + int n * second), ticks = 0, rnd = (\<lambda>_ _. 0), rnd_ok = (\<lambda>_. True), draws = 0,
      sel = (\<lambda>_. None), sels = 0, rank = (\<lambda>_ _. 0), ranges = 0, mq = c\<rparr>"

definition demo_job :: "string \<Rightarrow> time \<Rightarrow> time \<Rightarrow> Job" where
  "demo_job jid avail leased =
     \<lparr>job_ID = jid, job_Type = JobTypeDeploymentSync, job_TenantID = ''t'', job_AppID = ''a'',
      job_DeploymentID = ''d'', job_Attempts = 2, job_CreatedAt = 1, job_AvailableAt = avail,
      job_LeasedAt = leased, job_LastError = ''boom''\<rparr>"

text \<open>
  Reclaiming takes only stale leases. Every job whose lease is younger than the cutoff is still leased, in
  the same order; exactly the returned number of jobs left \<^verbatim>\<open>processing\<close>, at most the limit; and unless the
  limit was reached no stale lease remains.
\<close>

theorem ReclaimStale_only_stale:
  assumes "mq_ReclaimStale d limit w = (r, w')"
    and "l = (if limit \<le> 0 then 100 else limit)"
    and "fresh = (\<lambda>j. \<not> stale (clk w (ticks w) - (if d \<le> 0 then 10 * 60 * second else d)) j)"
  shows "\<exists>n. r = Inr n \<and> 0 \<le> n \<and> n \<le> l \<and>
     filter fresh (processing (mq w')) = filter fresh (processing (mq w)) \<and>
     length (processing (mq w')) + nat n = length (processing (mq w)) \<and>
     (n < l \<longrightarrow> processing (mq w') = filter fresh (processing (mq w)))"
proof -
  define p where "p = stale (clk w (ticks w) - (if d \<le> 0 then 10 * 60 * second else d))"
  define k where "k = quota l 0 p (processing (mq w))"
  have r: "r = Inr (int k)" and p': "processing (mq w') = drop_sat (nat l) p (processing (mq w))"
    and fr: "fresh = (\<lambda>j. \<not> p j)" and l: "0 < l"
    using assms by (auto simp: ReclaimStale_spec Let_def p_def k_def simp del: upt_Suc)
  have "int k \<le> l"
    using l by (simp add: k_def quota_def)
  moreover have "length (processing (mq w')) + k = length (processing (mq w))"
    using arg_cong [OF mset_drop_sat [of "nat l" p "processing (mq w)"], of size]
    by (simp add: p' k_def quota_def min.commute)
  moreover have "int k < l \<longrightarrow> processing (mq w') = filter fresh (processing (mq w))"
    by (auto simp: p' k_def fr quota_def intro!: drop_sat_all)
  ultimately show ?thesis
    by (simp add: r fr p' filter_not_drop_sat)
qed

theorem ReclaimStale_only_stale_witness:
  "let w = demo_world \<lparr>ready = [], processing = [demo_job ''old'' 1 5, demo_job ''new'' 1 (unixEpoch - second)],
             delayed = [], dead = []\<rparr>;
       (r, w') = mq_ReclaimStale 0 10 w
   in r = Inr 1 \<and> map job_ID (processing (mq w')) = [''new''] \<and> map job_ID (ready (mq w')) = [''old'']"
proof -
  define w where "w = demo_world \<lparr>ready = [], processing = [demo_job ''old'' 1 5,
     demo_job ''new'' 1 (unixEpoch - second)], delayed = [], dead = []\<rparr>"
  obtain r w' where e: "mq_ReclaimStale 0 10 w = (r, w')" by fastforce
  have run: "r = Inr 1" "map job_ID (ready (mq w')) = [''old'']"
    using e by (auto simp: w_def demo_world_def demo_job_def mq_ReclaimStale_def Now_def unixEpoch_def)
  from ReclaimStale_only_stale [OF e refl refl] run(1)
  have "processing (mq w') = filter (\<lambda>j. \<not> stale (clk w (ticks w) - 10 * 60 * second) j) (processing (mq w))"
    by simp
  then have "map job_ID (processing (mq w')) = [''new'']"
    by (simp add: w_def demo_world_def demo_job_def stale_def unixEpoch_def)
  with e run show ?thesis by (simp add: w_def)
qed

lemma Dequeue_poll_None:
  "ready (mq w) = [] \<Longrightarrow> filter (due (clk w (ticks w))) (delayed (mq w)) = [] \<Longrightarrow>
     mq_Dequeue_poll w = (None, w\<lparr>ticks := Suc (ticks w)\<rparr>)"
proof -
  assume r: "ready (mq w) = []" and d: "filter (due (clk w (ticks w))) (delayed (mq w)) = []"
  from d have "drop_sat n (due (clk w (ticks w))) (delayed (mq w)) = delayed (mq w)" for n
    by (simp add: drop_sat_all) (auto simp: filter_empty_conv filter_id_conv)
  with r d show ?thesis
    by (simp add: mq_Dequeue_poll_def promoteDueLocked_spec Let_def)
qed

lemma Dequeue_poll_Some:
  "ready (mq w) \<noteq> [] \<or> filter (due (clk w (ticks w))) (delayed (mq w)) \<noteq> [] \<Longrightarrow>
     \<exists>j w'. mq_Dequeue_poll w = (Some j, w')"
  by (auto simp: mq_Dequeue_poll_def promoteDueLocked_spec Let_def Now_def split: list.splits prod.splits)

text \<open>What can end a blocked \<^verbatim>\<open>Dequeue\<close> at its poll number \<open>k\<close>.\<close>

definition wakes :: "nat \<Rightarrow> 'a mq_world_scheme \<Rightarrow> bool" where
  "wakes k w \<longleftrightarrow> ready (mq w) \<noteq> [] \<or> sel w (sels w + k) \<noteq> None \<or>
     (\<exists>j \<in> set (delayed (mq w)). due (clk w (ticks w + k)) j)"

lemma wakes_poll: "wakes (Suc k) w \<Longrightarrow> ready (mq w) = [] \<Longrightarrow> wakes k (w\<lparr>ticks := Suc (ticks w), sels := Suc (sels w)\<rparr>)"
  by (simp add: wakes_def)

lemma Dequeue_ends: "wakes k w \<Longrightarrow> \<exists>x w'. mq_Dequeue w = Some (x, w') \<and> (isl x \<longrightarrow> (\<exists>n. sel w n \<noteq> None))"
proof (induction k arbitrary: w)
  case 0
  show ?case
  proof (cases "ready (mq w) \<noteq> [] \<or> filter (due (clk w (ticks w))) (delayed (mq w)) \<noteq> []")
    case True
    then show ?thesis using Dequeue_poll_Some [of w] by (subst mq_Dequeue.simps) auto
  next
    case False
    with 0 obtain e where "sel w (sels w) = Some e" by (auto simp: wakes_def filter_empty_conv)
    with False show ?thesis
      by (subst mq_Dequeue.simps) (auto simp: Dequeue_poll_None ctx_Done_def intro!: exI [of _ "sels w"])
  qed
next
  case (Suc k)
  show ?case
  proof (cases "ready (mq w) \<noteq> [] \<or> filter (due (clk w (ticks w))) (delayed (mq w)) \<noteq> []")
    case True
    then show ?thesis using Dequeue_poll_Some [of w] by (subst mq_Dequeue.simps) auto
  next
    case False
    with Suc.IH [OF wakes_poll [OF Suc.prems]] show ?thesis
      by (subst mq_Dequeue.simps) (auto simp: Dequeue_poll_None ctx_Done_def split: option.splits)
  qed
qed

text \<open>
  \<^verbatim>\<open>Dequeue\<close> returns. If a job is ready, or at some later poll a delayed job is due by the clock reading of
  that poll or the \<^verbatim>\<open>select\<close> of that poll finds the context done, then the call ends, with a job or with the
  context's error.
\<close>

theorem Dequeue_returns: "wakes k w \<Longrightarrow> \<exists>y. mq_Dequeue w = Some y"
  using Dequeue_ends [of k w] by blast

theorem Dequeue_returns_witness:
  "\<exists>y. mq_Dequeue (demo_world \<lparr>ready = [], processing = [],
         delayed = [demo_job ''j'' (unixEpoch + 7 * second) 0], dead = []\<rparr>) = Some y"
  by (rule Dequeue_returns [of 7]) (simp add: wakes_def demo_world_def demo_job_def due_def)

text \<open>
  First in, first out. When nothing is delayed, \<^verbatim>\<open>Dequeue\<close> returns the oldest ready job, stamped with the
  clock, and moves exactly that job to \<^verbatim>\<open>processing\<close>; \<^verbatim>\<open>Enqueue\<close> puts its job behind all ready ones.
\<close>

theorem Dequeue_fifo:
  assumes "delayed (mq w) = []" and "ready (mq w) = j # js"
  shows "\<exists>w' w'' k t. mq_Dequeue w = Some (Inr (j\<lparr>job_LeasedAt := t\<rparr>), w') \<and> t = clk w (Suc (ticks w)) \<and>
     mq w' = (mq w)\<lparr>ready := js, processing := processing (mq w) @ [j\<lparr>job_LeasedAt := t\<rparr>]\<rparr> \<and>
     mq_Enqueue new w = (Inr (), w'') \<and> job_core k = job_core new \<and>
     mq w'' = (mq w)\<lparr>ready := j # js @ [k]\<rparr>"
proof -
  obtain j1 w1 where s1: "stampCreated (new\<lparr>job_LeasedAt := 0\<rparr>) w = (j1, w1)" by fastforce
  obtain j2 w2 where s2: "stampAvailable j1 w1 = (j2, w2)" by fastforce
  have "job_core j2 = job_core new" and "mq w2 = mq w"
    using stampCreated_frame [OF s1] stampAvailable_frame [OF s2] by (auto dest: mq_more)
  with assms show ?thesis
    by (subst mq_Dequeue.simps)
       (auto simp: mq_Dequeue_poll_def promoteDueLocked_spec Let_def Now_def mq_Enqueue_def s1 s2)
qed

theorem Dequeue_fifo_witness:
  "\<exists>w'. mq_Dequeue (demo_world \<lparr>ready = [demo_job ''1'' 1 0, demo_job ''2'' 1 0], processing = [],
            delayed = [], dead = []\<rparr>) = Some (Inr (demo_job ''1'' 1 (unixEpoch + second)), w')"
  using Dequeue_fifo [of "demo_world \<lparr>ready = [demo_job ''1'' 1 0, demo_job ''2'' 1 0], processing = [],
            delayed = [], dead = []\<rparr>" "demo_job ''1'' 1 0" "[demo_job ''2'' 1 0]"]
  by (auto simp: demo_world_def demo_job_def)

text \<open>
  C1: over every sequence of calls, by any number of workers and services, the queue keeps its books: a job
  that was owed or accepted is still waiting or leased unless it was acknowledged, whatever was
  promoted, reclaimed, buried or replayed; and no job is owed that was not offered.
\<close>

theorem queue_no_job_lost:
  assumes "queue_run mq_queue w cs w'"
  shows "owed (mq_bag w) + sum_list (map accepted cs) \<subseteq># owed (mq_bag w') + sum_list (map released cs) \<and>
         owed (mq_bag w') \<subseteq># owed (mq_bag w) + sum_list (map offered cs)"
  using mqi.run_accounted [OF assms] by (simp add: accounted_def)

theorem queue_no_job_lost_witness:
  "let w = demo_world mq_NewClient; w1 = snd (mq_Enqueue (demo_job ''j'' 1 0) w);
       w2 = snd (mq_ReclaimStale 0 0 w1)
   in queue_run mq_queue w [Enqueued (demo_job ''j'' 1 0) (Inr ()), Reclaimed 0 0 (fst (mq_ReclaimStale 0 0 w1))] w2
      \<and> ''j'' \<in># owed (mq_bag w2)"
proof -
  define w w1 where "w = demo_world mq_NewClient" and "w1 = snd (mq_Enqueue (demo_job ''j'' 1 0) w)"
  define w2 where "w2 = snd (mq_ReclaimStale 0 0 w1)"
  have "mq_Enqueue (demo_job ''j'' 1 0) w = (Inr (), w1)"
    by (simp add: w1_def mq_Enqueue_def Let_def split: prod.splits)
  then have "queue_step mq_queue w (Enqueued (demo_job ''j'' 1 0) (Inr ())) w1"
    by (auto intro: queue_step.intros simp: mq_queue_def)
  moreover have "queue_step mq_queue w1 (Reclaimed 0 0 (fst (mq_ReclaimStale 0 0 w1))) w2"
    by (rule queue_step.intros(6) [of _ mq_ReclaimStale]) (simp_all add: mq_queue_def w2_def)
  ultimately have run: "queue_run mq_queue w
      [Enqueued (demo_job ''j'' 1 0) (Inr ()), Reclaimed 0 0 (fst (mq_ReclaimStale 0 0 w1))] w2"
    by (blast intro: queue_run.intros)
  from queue_no_job_lost [OF run] have "{#''j''#} \<subseteq># owed (mq_bag w2)"
    by (auto simp: demo_job_def dest: mset_subset_eq_insertD)
  with run show ?thesis by (simp add: w_def w1_def w2_def)
qed

text \<open>
  Acknowledging removes exactly one lease when the job is leased: the one with the same identifier and lease
  time if there is one. Otherwise the lease another worker holds on the job is removed in its place.
\<close>

theorem Ack_removes_lease:
  assumes "\<exists>x \<in> set (processing (mq w)). job_ID x = job_ID j"
  shows "\<exists>x w'. mq_Ack j w = (Inr (), w') \<and> x \<in> set (processing (mq w)) \<and> job_ID x = job_ID j \<and>
     mset (processing (mq w)) = add_mset x (mset (processing (mq w'))) \<and>
     ((\<exists>y \<in> set (processing (mq w)). job_ID y = job_ID j \<and> job_LeasedAt y = job_LeasedAt j) \<longleftrightarrow>
        job_LeasedAt x = job_LeasedAt j)"
proof (cases "\<exists>y \<in> set (processing (mq w)). job_ID y = job_ID j \<and> job_LeasedAt y = job_LeasedAt j")
  case True
  from remove_first_mset [OF True] True show ?thesis by (auto simp: mq_Ack_def removeJob_def)
next
  case False
  from remove_first_mset [OF assms] False show ?thesis by (auto simp: mq_Ack_def removeJob_def)
qed

theorem Ack_removes_lease_witness:
  "let w = demo_world \<lparr>ready = [], processing = [demo_job ''j'' 1 9], delayed = [], dead = []\<rparr>
   in \<exists>w'. mq_Ack (demo_job ''j'' 1 5) w = (Inr (), w') \<and> processing (mq w') = []"
  using Ack_removes_lease [of "demo_world \<lparr>ready = [], processing = [demo_job ''j'' 1 9], delayed = [], dead = []\<rparr>"
      "demo_job ''j'' 1 5"]
  by (auto simp: demo_world_def demo_job_def)

text \<open>
  A dead letter can be replayed. After burying a job, replaying its dead letter returns the job with its
  attempts and its error cleared, puts that job last in \<^verbatim>\<open>ready\<close> and leaves the other dead letters as they were;
  a second replay of an identifier that no other dead letter has is refused as not found.
\<close>

theorem bury_replay:
  assumes "mq_DeadLetter item w = (Inr (), w1)" and "mq_ReplayDeadLetter (dl_ID item) w1 = (r, w2)"
  shows "\<exists>j. r = Inr j \<and> job_Attempts j = 0 \<and> job_LastError j = [] \<and> job_LeasedAt j = 0 \<and>
     job_core j = (job_core (dl_Job item))\<lparr>job_Attempts := 0, job_LastError := []\<rparr> \<and>
     mq w2 = (mq w)\<lparr>ready := ready (mq w) @ [j]\<rparr> \<and>
     (dl_ID item \<notin> dl_ID ` set (dead (mq w)) \<longrightarrow> mq_ReplayDeadLetter (dl_ID item) w2 = (Inl ErrNotFound, w2))"
proof -
  define d' where "d' = (if IsZero (dl_FailedAt item) then item\<lparr>dl_FailedAt := clk w (ticks w)\<rparr> else item)"
  have d': "dl_ID d' = dl_ID item" "dl_Job d' = dl_Job item"
    by (simp_all add: d'_def)
  from assms(1) have w1: "mq w1 = (mq w)\<lparr>dead := d' # dead (mq w)\<rparr>"
    by (auto simp: mq_DeadLetter_def Now_def Let_def d'_def)
  define j where "j = (dl_Job d')\<lparr>job_Attempts := 0, job_LastError := [], job_LeasedAt := 0,
    job_AvailableAt := clk w1 (ticks w1)\<rparr>"
  from assms(2) have r: "r = Inr j" and w2: "mq w2 = (mq w)\<lparr>ready := ready (mq w) @ [j]\<rparr>"
    by (auto simp: mq_ReplayDeadLetter_def w1 d' Now_def Let_def j_def)
  have "mq_ReplayDeadLetter (dl_ID item) w2 = (Inl ErrNotFound, w2)" if "dl_ID item \<notin> dl_ID ` set (dead (mq w))"
  proof -
    from that have "find (\<lambda>x. dl_ID x = dl_ID item) (dead (mq w2)) = None"
      unfolding find_None_iff by (auto simp: w2 image_iff)
    then show ?thesis by (simp add: mq_ReplayDeadLetter_def)
  qed
  with r w2 d'(2) show ?thesis by (simp add: j_def)
qed

theorem bury_replay_witness:
  "let d = \<lparr>dl_ID = ''dl_1'', dl_Job = demo_job ''j'' 1 5, dl_Reason = ''boom'', dl_FailedAt = 0, dl_FinalAttempt = 5\<rparr>;
       w1 = snd (mq_DeadLetter d (demo_world mq_NewClient)); w2 = snd (mq_ReplayDeadLetter ''dl_1'' w1)
   in mq_ReplayDeadLetter ''dl_1'' w2 = (Inl ErrNotFound, w2)"
proof -
  define d where "d = \<lparr>dl_ID = ''dl_1'', dl_Job = demo_job ''j'' 1 5, dl_Reason = ''boom'', dl_FailedAt = 0,
    dl_FinalAttempt = 5\<rparr>"
  obtain w1 where b: "mq_DeadLetter d (demo_world mq_NewClient) = (Inr (), w1)"
    by (fastforce simp: mq_DeadLetter_def split: prod.splits)
  obtain r w2 where p: "mq_ReplayDeadLetter (dl_ID d) w1 = (r, w2)" by fastforce
  from bury_replay [OF b p] have "mq_ReplayDeadLetter (dl_ID d) w2 = (Inl ErrNotFound, w2)"
    by (auto simp: demo_world_def mq_NewClient_def)
  with b p show ?thesis by (simp add: d_def)
qed

end
