(* ===== verification/MemStore.thy ===== *)
theory MemStore
  imports MemQueue
begin

text \<open>
  \<^verbatim>\<open>internal/repositories/memory/store.go\<close>: the in-memory repositories over one shared \<open>State\<close>. A map is an
  association list with distinct keys, read with \<open>map_of\<close> and written with \<open>AList.update\<close>; an iteration
  over it goes through \<open>range_map\<close>, so its order is arbitrary. \<^verbatim>\<open>sort.Slice\<close> after such an iteration is
  \<open>sort_key\<close>: the order of equal keys is as arbitrary here as there. Every method copies what it stores and
  what it returns, so records are values.
\<close>

section \<open>State\<close>

record State =
  users :: "(string \<times> User) list"
  usersByEmail :: "(string \<times> string) list"
  tenants :: "(string \<times> Tenant) list"
  members :: "(string \<times> TenantMember) list"
  authIDs :: "(string \<times> AuthIdentity) list"
  apiKeys :: "(string \<times> APIKey) list"
  auditLogs :: "AuditLog list"
  apps :: "(string \<times> App) list"
  deployments :: "(string \<times> Deployment) list"
  events :: "(string \<times> DeploymentEvent list) list"
  deployVersion :: "(string \<times> int) list"

record store_world = mq_world +
  store :: State

definition NewState :: State where
  "NewState =
     \<lparr>users = [], usersByEmail = [], tenants = [], members = [], authIDs = [], apiKeys = [],
      auditLogs = [], apps = [], deployments = [], events = [], deployVersion = []\<rparr>"

definition memberKey :: "string \<Rightarrow> string \<Rightarrow> string" where
  "memberKey tenantID userID = tenantID @ '':'' @ userID"

definition sanitizeSlug :: "string \<Rightarrow> string" where
  "sanitizeSlug s =
     (let s = ToLower s;
          s = ReplaceAll s (CHR ''@'') (CHR ''-'');
          s = ReplaceAll s (CHR ''.'') (CHR ''-'');
          s = ReplaceAll s (CHR ''_'') (CHR ''-'')
      in if s = [] then ''tenant'' else s)"

fun fallbackString :: "string list \<Rightarrow> string" where
  "fallbackString [] = []"
| "fallbackString (value # vs) = (if TrimSpace value \<noteq> [] then value else fallbackString vs)"

section \<open>Users and tenants\<close>

definition mem_UpsertByEmail :: "string \<Rightarrow> string \<Rightarrow> (User, 'a store_world_scheme) op" where
  "mem_UpsertByEmail email displayName w =
     (let key = ToLower (TrimSpace email)
      in case map_of (usersByEmail (store w)) key of
           Some userID \<Rightarrow>
             (case map_of (users (store w)) userID of
                None \<Rightarrow> (Inl NilDereference, w)
              | Some user \<Rightarrow>
                  (let user = (if displayName \<noteq> [] then user\<lparr>user_DisplayName := displayName\<rparr> else user);
                       (now, w) = Now w;
                       user = user\<lparr>user_UpdatedAt := now\<rparr>
                   in (Inr user, w\<lparr>store := (store w)\<lparr>users := AList.update userID user (users (store w))\<rparr>\<rparr>)))
         | None \<Rightarrow>
             (let (now, w) = Now w;
                  (uid, w) = NewUUID w;
                  user = \<lparr>user_ID = uid, user_Email = key, user_DisplayName = displayName,
                          user_DefaultTenantID = [], user_CreatedAt = now, user_UpdatedAt = now\<rparr>
              in (Inr user, w\<lparr>store := (store w)\<lparr>users := AList.update uid user (users (store w)),
                                              usersByEmail := AList.update key uid (usersByEmail (store w))\<rparr>\<rparr>)))"

definition mem_User_GetByID :: "string \<Rightarrow> (User, 'a store_world_scheme) op" where
  "mem_User_GetByID userID w =
     (case map_of (users (store w)) userID of None \<Rightarrow> (Inl ErrNotFound, w) | Some user \<Rightarrow> (Inr user, w))"

definition mem_CreatePersonalTenant :: "User \<Rightarrow> (Tenant, 'a store_world_scheme) op" where
  "mem_CreatePersonalTenant user w =
     (let (now, w) = Now w;
          (tid, w) = NewUUID w;
          tenant = \<lparr>tenant_ID = tid, tenant_Slug = sanitizeSlug (user_Email user),
                    tenant_Name = fallbackString [user_DisplayName user, user_Email user],
                    tenant_Plan = ''free'', tenant_Status = ''active'', tenant_CreatedAt = now,
                    tenant_UpdatedAt = now\<rparr>;
          member = \<lparr>member_TenantID = tid, member_UserID = user_ID user, member_Role = RoleOwner,
                    member_CreatedAt = now\<rparr>;
          updatedUser = user\<lparr>user_DefaultTenantID := tid, user_UpdatedAt := now\<rparr>;
          s = store w
      in (Inr tenant,
          w\<lparr>store := s\<lparr>tenants := AList.update tid tenant (tenants s),
                        members := AList.update (memberKey tid (user_ID user)) member (members s),
                        users := AList.update (user_ID user) updatedUser (users s)\<rparr>\<rparr>))"

definition mem_Tenant_GetByID :: "string \<Rightarrow> (Tenant, 'a store_world_scheme) op" where
  "mem_Tenant_GetByID tenantID w =
     (case map_of (tenants (store w)) tenantID of None \<Rightarrow> (Inl ErrNotFound, w) | Some t \<Rightarrow> (Inr t, w))"

definition mem_AddMember :: "TenantMember \<Rightarrow> (unit, 'a store_world_scheme) op" where
  "mem_AddMember member w =
     (Inr (), w\<lparr>store := (store w)\<lparr>members :=
        AList.update (memberKey (member_TenantID member) (member_UserID member)) member (members (store w))\<rparr>\<rparr>)"

definition mem_GetMember :: "string \<Rightarrow> string \<Rightarrow> (TenantMember, 'a store_world_scheme) op" where
  "mem_GetMember tenantID userID w =
     (case map_of (members (store w)) (memberKey tenantID userID) of
        None \<Rightarrow> (Inl ErrForbidden, w) | Some m \<Rightarrow> (Inr m, w))"

definition mem_Identity_Upsert :: "AuthIdentity \<Rightarrow> (unit, 'a store_world_scheme) op" where
  "mem_Identity_Upsert identity w =
     (let key = ident_Provider identity @ '':'' @ ident_ProviderUserID identity
      in (Inr (), w\<lparr>store := (store w)\<lparr>authIDs := AList.update key identity (authIDs (store w))\<rparr>\<rparr>))"

section \<open>API keys\<close>

definition mem_Key_Create :: "APIKey \<Rightarrow> (unit, 'a store_world_scheme) op" where
  "mem_Key_Create key w =
     (Inr (), w\<lparr>store := (store w)\<lparr>apiKeys := AList.update (key_ID key) key (apiKeys (store w))\<rparr>\<rparr>)"

definition mem_Key_ListByTenant :: "string \<Rightarrow> (APIKey list, 'a store_world_scheme) op" where
  "mem_Key_ListByTenant tenantID w =
     (let (kvs, w) = range_map (apiKeys (store w)) w;
          out = filter (\<lambda>key. key_TenantID key = tenantID) (map snd kvs)
      in (Inr (sort_key (\<lambda>key. - key_CreatedAt key) out), w))"

definition mem_Key_Revoke :: "string \<Rightarrow> string \<Rightarrow> time \<Rightarrow> (unit, 'a store_world_scheme) op" where
  "mem_Key_Revoke tenantID keyID revokedAt w =
     (case map_of (apiKeys (store w)) keyID of
        None \<Rightarrow> (Inl ErrNotFound, w)
      | Some key \<Rightarrow>
          (if key_TenantID key \<noteq> tenantID then (Inl ErrNotFound, w)
           else (Inr (), w\<lparr>store := (store w)\<lparr>apiKeys :=
                   AList.update keyID (key\<lparr>key_RevokedAt := Some revokedAt\<rparr>) (apiKeys (store w))\<rparr>\<rparr>)))"

definition mem_GetByHash :: "string \<Rightarrow> (APIKey, 'a store_world_scheme) op" where
  "mem_GetByHash keyHash w =
     (let (kvs, w) = range_map (apiKeys (store w)) w
      in case find (\<lambda>(k, key). key_KeyHash key = keyHash) kvs of
           None \<Rightarrow> (Inl ErrNotFound, w)
         | Some (k, key) \<Rightarrow>
             (let (now, w) = Now w;
                  key = key\<lparr>key_LastUsedAt := Some now\<rparr>
              in (Inr key, w\<lparr>store := (store w)\<lparr>apiKeys := AList.update k key (apiKeys (store w))\<rparr>\<rparr>)))"

section \<open>Administration and audit\<close>

definition mem_Summary :: "(AdminSummary, 'a store_world_scheme) op" where
  "mem_Summary w =
     (let s = store w;
          failed = filter (\<lambda>dep. dep_Status dep = DeploymentStatusFailed) (map snd (deployments s))
      in (Inr \<lparr>sum_Users = int (length (users s)), sum_Tenants = int (length (tenants s)),
               sum_Apps = int (length (apps s)), sum_Deployments = int (length (deployments s)),
               sum_FailedDeployments = int (length failed), sum_RepositoryDriver = []\<rparr>, w))"

fun ownerEmails :: "(string \<times> User) list \<Rightarrow> (string \<times> TenantMember) list \<Rightarrow> (string \<times> string) list \<Rightarrow> (string \<times> string) list" where
  "ownerEmails us [] acc = acc"
| "ownerEmails us ((k, m) # ms) acc =
     ownerEmails us ms
       (if member_Role m = RoleOwner
        then (case map_of us (member_UserID m) of
                None \<Rightarrow> acc | Some u \<Rightarrow> AList.update (member_TenantID m) (user_Email u) acc)
        else acc)"

fun latestDeps :: "(string \<times> Deployment) list \<Rightarrow> (string \<times> Deployment) list \<Rightarrow> (string \<times> Deployment) list" where
  "latestDeps [] acc = acc"
| "latestDeps ((k, dep) # ds) acc =
     latestDeps ds
       (case map_of acc (dep_AppID dep) of
          None \<Rightarrow> AList.update (dep_AppID dep) dep acc
        | Some existing \<Rightarrow>
            if dep_Version dep > dep_Version existing then AList.update (dep_AppID dep) dep acc else acc)"

definition mem_ListAllInstances :: "(AdminInstance list, 'a store_world_scheme) op" where
  "mem_ListAllInstances w =
     (let (ms, w) = range_map (members (store w)) w;
          ownerEmail = ownerEmails (users (store w)) ms [];
          (ds, w) = range_map (deployments (store w)) w;
          latestDep = latestDeps ds [];
          (as, w) = range_map (apps (store w)) w;
          out = map (\<lambda>(k, app). \<lparr>inst_App = app, inst_Deployment = map_of latestDep (app_ID app),
                     inst_UserEmail = (case map_of ownerEmail (app_TenantID app) of None \<Rightarrow> [] | Some e \<Rightarrow> e)\<rparr>) as
      in (Inr (sort_key (\<lambda>inst. - app_CreatedAt (inst_App inst)) out), w))"

definition mem_Audit_Create :: "AuditLog \<Rightarrow> (unit, 'a store_world_scheme) op" where
  "mem_Audit_Create log w = (Inr (), w\<lparr>store := (store w)\<lparr>auditLogs := auditLogs (store w) @ [log]\<rparr>\<rparr>)"

text \<open>The loop runs \<^verbatim>\<open>i\<close> from the last index down; \<open>n\<close> is \<^verbatim>\<open>i + 1\<close>.\<close>

fun audit_loop :: "AuditLog list \<Rightarrow> string \<Rightarrow> int \<Rightarrow> nat \<Rightarrow> AuditLog list \<Rightarrow> AuditLog list" where
  "audit_loop logs tenantID limit 0 out = out"
| "audit_loop logs tenantID limit (Suc i) out =
     (if int (length out) < limit
      then audit_loop logs tenantID limit i
             (if audit_TenantID (logs ! i) = tenantID then out @ [logs ! i] else out)
      else out)"

definition mem_Audit_ListByTenant :: "string \<Rightarrow> int \<Rightarrow> (AuditLog list, 'a store_world_scheme) op" where
  "mem_Audit_ListByTenant tenantID limit w =
     (let limit = (if limit \<le> 0 then 50 else limit); logs = auditLogs (store w)
      in (Inr (audit_loop logs tenantID limit (length logs) []), w))"

section \<open>Apps\<close>

definition mem_App_Create :: "App \<Rightarrow> (unit, 'a store_world_scheme) op" where
  "mem_App_Create app w =
     (if \<exists>(k, existing) \<in> set (apps (store w)).
           app_TenantID existing = app_TenantID app \<and> app_Slug existing = app_Slug app
      then (Inl ErrConflict, w)
      else (Inr (), w\<lparr>store := (store w)\<lparr>apps := AList.update (app_ID app) app (apps (store w))\<rparr>\<rparr>))"

definition mem_App_Update :: "App \<Rightarrow> (unit, 'a store_world_scheme) op" where
  "mem_App_Update app w =
     (case map_of (apps (store w)) (app_ID app) of
        None \<Rightarrow> (Inl ErrNotFound, w)
      | Some _ \<Rightarrow> (Inr (), w\<lparr>store := (store w)\<lparr>apps := AList.update (app_ID app) app (apps (store w))\<rparr>\<rparr>))"

definition mem_App_GetByID :: "string \<Rightarrow> string \<Rightarrow> (App, 'a store_world_scheme) op" where
  "mem_App_GetByID tenantID appID w =
     (case map_of (apps (store w)) appID of
        None \<Rightarrow> (Inl ErrNotFound, w)
      | Some app \<Rightarrow> if app_TenantID app \<noteq> tenantID then (Inl ErrNotFound, w) else (Inr app, w))"

definition mem_App_ListByTenant :: "string \<Rightarrow> (App list, 'a store_world_scheme) op" where
  "mem_App_ListByTenant tenantID w =
     (let (kvs, w) = range_map (apps (store w)) w;
          out = filter (\<lambda>app. app_TenantID app = tenantID) (map snd kvs)
      in (Inr (sort_key app_CreatedAt out), w))"

section \<open>Deployments and events\<close>

definition mem_Dep_Create :: "Deployment \<Rightarrow> (unit, 'a store_world_scheme) op" where
  "mem_Dep_Create deployment w =
     (Inr (), w\<lparr>store := (store w)\<lparr>deployments :=
        AList.update (dep_ID deployment) deployment (deployments (store w))\<rparr>\<rparr>)"

definition mem_Dep_Update :: "Deployment \<Rightarrow> (unit, 'a store_world_scheme) op" where
  "mem_Dep_Update deployment w =
     (case map_of (deployments (store w)) (dep_ID deployment) of
        None \<Rightarrow> (Inl ErrNotFound, w)
      | Some _ \<Rightarrow> (Inr (), w\<lparr>store := (store w)\<lparr>deployments :=
          AList.update (dep_ID deployment) deployment (deployments (store w))\<rparr>\<rparr>))"

definition mem_Dep_GetByID :: "string \<Rightarrow> string \<Rightarrow> (Deployment, 'a store_world_scheme) op" where
  "mem_Dep_GetByID tenantID deploymentID w =
     (case map_of (deployments (store w)) deploymentID of
        None \<Rightarrow> (Inl ErrNotFound, w)
      | Some d \<Rightarrow> if dep_TenantID d \<noteq> tenantID then (Inl ErrNotFound, w) else (Inr d, w))"

definition mem_ListByApp :: "string \<Rightarrow> string \<Rightarrow> (Deployment list, 'a store_world_scheme) op" where
  "mem_ListByApp tenantID appID w =
     (let (kvs, w) = range_map (deployments (store w)) w;
          out = filter (\<lambda>d. dep_TenantID d = tenantID \<and> dep_AppID d = appID) (map snd kvs)
      in (Inr (sort_key dep_Version out), w))"

definition is_active :: "DeploymentStatus \<Rightarrow> bool" where
  "is_active s \<longleftrightarrow> s \<in> {DeploymentStatusQueued, DeploymentStatusProvisioning, DeploymentStatusRunning,
     DeploymentStatusDegraded, DeploymentStatusRecovering, DeploymentStatusDeleting}"

definition mem_ListActive :: "int \<Rightarrow> (Deployment list, 'a store_world_scheme) op" where
  "mem_ListActive limit w =
     (let limit = (if limit \<le> 0 then 100 else limit);
          (kvs, w) = range_map (deployments (store w)) w;
          out = filter (\<lambda>d. is_active (dep_Status d)) (map snd kvs);
          out = sort_key dep_UpdatedAt out;
          out = (if int (length out) > limit then take (nat limit) out else out)
      in (Inr out, w))"

definition mem_NextVersion :: "string \<Rightarrow> string \<Rightarrow> (int, 'a store_world_scheme) op" where
  "mem_NextVersion tenantID appID w =
     (let key = tenantID @ '':'' @ appID;
          v = (case map_of (deployVersion (store w)) key of None \<Rightarrow> 0 | Some v \<Rightarrow> v) + 1
      in (Inr v, w\<lparr>store := (store w)\<lparr>deployVersion := AList.update key v (deployVersion (store w))\<rparr>\<rparr>))"

definition event_list :: "State \<Rightarrow> string \<Rightarrow> DeploymentEvent list" where
  "event_list s deploymentID = (case map_of (events s) deploymentID of None \<Rightarrow> [] | Some es \<Rightarrow> es)"

definition mem_Event_Create :: "DeploymentEvent \<Rightarrow> (unit, 'a store_world_scheme) op" where
  "mem_Event_Create event w =
     (Inr (), w\<lparr>store := (store w)\<lparr>events :=
        AList.update (ev_DeploymentID event) (event_list (store w) (ev_DeploymentID event) @ [event])
          (events (store w))\<rparr>\<rparr>)"

definition mem_ListByDeployment :: "string \<Rightarrow> string \<Rightarrow> (DeploymentEvent list, 'a store_world_scheme) op" where
  "mem_ListByDeployment tenantID deploymentID w =
     (Inr (filter (\<lambda>event. ev_TenantID event = tenantID) (event_list (store w) deploymentID)), w)"

section \<open>The repositories as the services hold them\<close>

definition mem_users :: "'a store_world_scheme UserRepository" where
  "mem_users = \<lparr>ur_UpsertByEmail = mem_UpsertByEmail, ur_GetByID = mem_User_GetByID\<rparr>"

definition mem_tenants :: "'a store_world_scheme TenantRepository" where
  "mem_tenants =
     \<lparr>tr_CreatePersonalTenant = mem_CreatePersonalTenant, tr_GetByID = mem_Tenant_GetByID,
      tr_AddMember = mem_AddMember, tr_GetMember = mem_GetMember\<rparr>"

definition mem_keys :: "'a store_world_scheme APIKeyRepository" where
  "mem_keys =
     \<lparr>kr_Create = mem_Key_Create, kr_ListByTenant = mem_Key_ListByTenant, kr_Revoke = mem_Key_Revoke,
      kr_GetByHash = mem_GetByHash\<rparr>"

definition mem_admin :: "'a store_world_scheme AdminRepository" where
  "mem_admin = \<lparr>adr_Summary = mem_Summary, adr_ListAllInstances = mem_ListAllInstances\<rparr>"

definition mem_audit :: "'a store_world_scheme AuditRepository" where
  "mem_audit = \<lparr>aur_Create = mem_Audit_Create, aur_ListByTenant = mem_Audit_ListByTenant\<rparr>"

definition mem_apps :: "'a store_world_scheme AppRepository" where
  "mem_apps =
     \<lparr>ar_Create = mem_App_Create, ar_Update = mem_App_Update, ar_GetByID = mem_App_GetByID,
      ar_ListByTenant = mem_App_ListByTenant\<rparr>"

definition mem_deployments :: "'a store_world_scheme DeploymentRepository" where
  "mem_deployments =
     \<lparr>dr_Create = mem_Dep_Create, dr_Update = mem_Dep_Update, dr_GetByID = mem_Dep_GetByID,
      dr_ListByApp = mem_ListByApp, dr_ListActive = mem_ListActive, dr_NextVersion = mem_NextVersion\<rparr>"

definition mem_events :: "'a store_world_scheme EventRepository" where
  "mem_events = \<lparr>er_Create = mem_Event_Create, er_ListByDeployment = mem_ListByDeployment\<rparr>"

section \<open>The repositories keep their contract\<close>

definition mem_abs :: "'a store_world_scheme \<Rightarrow> view" where
  "mem_abs w =
     \<lparr>v_apps = map_of (apps (store w)), v_deps = map_of (deployments (store w)), v_events = event_list (store w)\<rparr>"

lemma store_more: "env.more w' = env.more w \<Longrightarrow> store w' = store w"
  by (cases w, cases w') simp

lemma mq_world_more: "env.more w' = env.more w \<Longrightarrow> mq_world.more w' = mq_world.more w"
  by (cases w, cases w') simp

lemma store_Now [simp]: "store (snd (Now w)) = store w"
  by (simp add: Now_def)

lemma mem_abs_simps [simp]:
  "v_apps (mem_abs w) = map_of (apps (store w))" "v_deps (mem_abs w) = map_of (deployments (store w))"
  "v_events (mem_abs w) = event_list (store w)"
  by (simp_all add: mem_abs_def)

lemma mem_abs_store: "store w' = store w \<Longrightarrow> mem_abs w' = mem_abs w"
  by (simp add: mem_abs_def)

lemma event_list_update:
  "event_list (s\<lparr>events := AList.update i (event_list s i @ [e]) (events s)\<rparr>) =
     (event_list s)(i := event_list s i @ [e])"
  by (auto simp: event_list_def fun_eq_iff update_conv')

lemma event_list_frame [simp]:
  "event_list (s\<lparr>apps := x\<rparr>) = event_list s" "event_list (s\<lparr>deployments := y\<rparr>) = event_list s"
  "event_list (s\<lparr>deployVersion := z\<rparr>) = event_list s"
  by (simp_all add: event_list_def fun_eq_iff)

lemmas mem_repo_defs = mem_apps_def mem_deployments_def mem_events_def mem_App_Create_def mem_App_Update_def
  mem_App_GetByID_def mem_Dep_Create_def mem_Dep_Update_def mem_Dep_GetByID_def mem_ListActive_def
  mem_NextVersion_def mem_Event_Create_def range_map_def

lemma mem_abs_put:
  "mem_abs (w\<lparr>store := (store w)\<lparr>apps := AList.update (app_ID a) a (apps (store w))\<rparr>\<rparr>) = put_app a (mem_abs w)"
  "mem_abs (w\<lparr>store := (store w)\<lparr>deployments := AList.update (dep_ID d) d (deployments (store w))\<rparr>\<rparr>) =
     put_dep d (mem_abs w)"
  "mem_abs (w\<lparr>store := (store w)\<lparr>events := AList.update (ev_DeploymentID e)
       (event_list (store w) (ev_DeploymentID e) @ [e]) (events (store w))\<rparr>\<rparr>) = put_event e (mem_abs w)"
  by (simp_all add: mem_abs_def put_app_def put_dep_def put_event_def update_conv' event_list_update)

lemma mem_abs_frame [simp]:
  "mem_abs (w\<lparr>ticks := n\<rparr>) = mem_abs w" "mem_abs (w\<lparr>draws := n\<rparr>) = mem_abs w"
  "mem_abs (w\<lparr>sels := n\<rparr>) = mem_abs w" "mem_abs (w\<lparr>ranges := n\<rparr>) = mem_abs w"
  "mem_abs (w\<lparr>mq := q\<rparr>) = mem_abs w"
  "mem_abs (w\<lparr>store := (store w)\<lparr>deployVersion := vs\<rparr>\<rparr>) = mem_abs w"
  by (simp_all add: mem_abs_def)

interpretation mem: records mem_apps mem_deployments mem_events mem_abs
proof unfold_locales
  fix w w' :: "'a store_world_scheme" assume "env.more w' = env.more w"
  then show "mem_abs w' = mem_abs w" by (intro mem_abs_store store_more)
next
  fix a :: App and w :: "'a store_world_scheme" and w' i b
  assume "ar_Create mem_apps a w = (Inr (), w')" and "v_apps (mem_abs w) i = Some b"
    and "app_TenantID b = app_TenantID a"
  then show "app_Slug b \<noteq> app_Slug a"
    by (auto simp: mem_repo_defs split: if_splits dest!: map_of_SomeD)
qed (auto simp: mem_repo_defs mem_abs_put all_or_nothing_def Let_def split: if_splits option.splits)

lemma mq_bag_frame [simp]:
  "mq_bag (w\<lparr>ticks := n\<rparr>) = mq_bag w" "mq_bag (w\<lparr>draws := n\<rparr>) = mq_bag w"
  "mq_bag (w\<lparr>sels := n\<rparr>) = mq_bag w" "mq_bag (w\<lparr>ranges := n\<rparr>) = mq_bag w"
  by (simp_all add: mq_bag_def)

lemma mq_bag_store [simp]: "mq_bag (w\<lparr>store := s\<rparr>) = mq_bag w"
  by (simp add: mq_bag_def)

lemma mem_abs_Enqueue: "mem_abs (snd (mq_Enqueue j w)) = mem_abs w"
  by (simp add: mq_Enqueue_def stampCreated_def stampAvailable_def Now_def Let_def)

lemma mem_abs_EnqueueAfter: "mem_abs (snd (mq_EnqueueAfter j d w)) = mem_abs w"
  by (simp add: mq_EnqueueAfter_def stampCreated_def Now_def Let_def)

interpretation mcp: control_plane mem_apps mem_deployments mem_events mem_abs
  mq_queue mq_Ack mq_scheduler mq_ReclaimStale mq_deadLetters mq_bag
proof unfold_locales
  fix j r and w w' :: "'a store_world_scheme" assume "jq_Enqueue mq_queue j w = (r, w')"
  then show "mem_abs w' = mem_abs w" using mem_abs_Enqueue [of j w] by (simp add: mq_queue_def)
next
  fix j d r and w w' :: "'a store_world_scheme" assume "js_EnqueueAfter mq_scheduler j d w = (r, w')"
  then show "mem_abs w' = mem_abs w" using mem_abs_EnqueueAfter [of j d w] by (simp add: mq_scheduler_def)
qed (auto simp: mem_repo_defs Let_def split: if_splits option.splits)

section \<open>The invariant of the store\<close>

definition keyed :: "('k \<Rightarrow> 'v \<Rightarrow> bool) \<Rightarrow> ('k \<times> 'v) list \<Rightarrow> bool" where
  "keyed P m \<longleftrightarrow> distinct (map fst m) \<and> (\<forall>(k, v) \<in> set m. P k v)"

text \<open>
  Every map has distinct keys and holds each record under its own identifier, and every e-mail points to a
  user, so \<^verbatim>\<open>*r.state.users[userID]\<close> in \<^verbatim>\<open>UpsertByEmail\<close> never dereferences nil.
\<close>

definition wf_store :: "State \<Rightarrow> bool" where
  "wf_store s \<longleftrightarrow>
     keyed (\<lambda>k u. user_ID u = k) (users s) \<and>
     keyed (\<lambda>e uid. uid \<in> fst ` set (users s)) (usersByEmail s) \<and>
     keyed (\<lambda>k t. tenant_ID t = k) (tenants s) \<and>
     keyed (\<lambda>k m. memberKey (member_TenantID m) (member_UserID m) = k) (members s) \<and>
     keyed (\<lambda>k x. True) (authIDs s) \<and>
     keyed (\<lambda>k x. key_ID x = k) (apiKeys s) \<and>
     keyed (\<lambda>k a. app_ID a = k) (apps s) \<and>
     keyed (\<lambda>k d. dep_ID d = k) (deployments s) \<and>
     keyed (\<lambda>k es. \<forall>e \<in> set es. ev_DeploymentID e = k) (events s) \<and>
     keyed (\<lambda>k v. True) (deployVersion s)"

lemma keyed_Nil [simp]: "keyed P []"
  by (simp add: keyed_def)

lemma keyed_lookup: "keyed P m \<Longrightarrow> map_of m k = Some v \<Longrightarrow> P k v"
  by (auto simp: keyed_def dest!: map_of_SomeD)

lemma keyed_ran: "keyed P m \<Longrightarrow> ran (map_of m) = snd ` set m"
  by (simp add: keyed_def ran_distinct)

lemma wf_NewState: "wf_store NewState"
  by (simp add: wf_store_def NewState_def)

lemma set_update_subset: "set (AList.update k v m) \<subseteq> insert (k, v) (set m)"
  by (induction m) auto

lemma keyed_update: "keyed P m \<Longrightarrow> P k v \<Longrightarrow> keyed P (AList.update k v m)"
  using set_update_subset [of k v m] by (auto simp: keyed_def distinct_update)

lemma keyed_mono: "keyed P m \<Longrightarrow> (\<And>k v. P k v \<Longrightarrow> R k v) \<Longrightarrow> keyed R m"
  by (auto simp: keyed_def)

lemma fst_set_update: "fst ` set (AList.update k v m) = insert k (fst ` set m)"
  using dom_update [of k v m] by (simp add: image_comp)

text \<open>A writer of the repository keeps the invariant.\<close>

definition keeps_store :: "('b, 'a store_world_scheme) op \<Rightarrow> bool" where
  "keeps_store f \<longleftrightarrow> (\<forall>w. wf_store (store w) \<longrightarrow> wf_store (store (snd (f w))))"

lemma keeps_storeI: "(\<And>w. wf_store (store w) \<Longrightarrow> wf_store (store (snd (f w)))) \<Longrightarrow> keeps_store f"
  by (simp add: keeps_store_def)

lemma store_NewUUID: "store (snd (NewUUID w)) = store w"
  by (rule store_more) (rule more_NewUUID)

lemma wf_write:
  assumes "wf_store s"
  shows "user_ID u = i \<Longrightarrow> wf_store (s\<lparr>users := AList.update i u (users s)\<rparr>)"
    and "tenant_ID t = i \<Longrightarrow> wf_store (s\<lparr>tenants := AList.update i t (tenants s)\<rparr>)"
    and "memberKey (member_TenantID m) (member_UserID m) = i \<Longrightarrow> wf_store (s\<lparr>members := AList.update i m (members s)\<rparr>)"
    and "wf_store (s\<lparr>authIDs := AList.update i x (authIDs s)\<rparr>)"
    and "key_ID k = i \<Longrightarrow> wf_store (s\<lparr>apiKeys := AList.update i k (apiKeys s)\<rparr>)"
    and "wf_store (s\<lparr>auditLogs := ls\<rparr>)"
    and "app_ID a = i \<Longrightarrow> wf_store (s\<lparr>apps := AList.update i a (apps s)\<rparr>)"
    and "dep_ID d = i \<Longrightarrow> wf_store (s\<lparr>deployments := AList.update i d (deployments s)\<rparr>)"
    and "\<forall>e \<in> set es. ev_DeploymentID e = i \<Longrightarrow> wf_store (s\<lparr>events := AList.update i es (events s)\<rparr>)"
    and "wf_store (s\<lparr>deployVersion := AList.update i v (deployVersion s)\<rparr>)"
    and "i \<in> fst ` set (users s) \<Longrightarrow> wf_store (s\<lparr>usersByEmail := AList.update e i (usersByEmail s)\<rparr>)"
  using assms unfolding wf_store_def
  by (simp_all add: keyed_update fst_set_update keyed_mono [of "\<lambda>e uid. uid \<in> fst ` set (users s)"])

lemma wf_lookup:
  assumes "wf_store s"
  shows "map_of (users s) i = Some u \<Longrightarrow> user_ID u = i"
    and "map_of (usersByEmail s) e = Some i \<Longrightarrow> \<exists>u. map_of (users s) i = Some u"
    and "map_of (apiKeys s) i = Some k \<Longrightarrow> key_ID k = i"
    and "map_of (apps s) i = Some a \<Longrightarrow> app_ID a = i"
    and "map_of (deployments s) i = Some d \<Longrightarrow> dep_ID d = i"
    and "x \<in> set (event_list s i) \<Longrightarrow> ev_DeploymentID x = i"
proof -
  note k = assms [unfolded wf_store_def]
  show "map_of (users s) i = Some u \<Longrightarrow> user_ID u = i"
    using k keyed_lookup [of "\<lambda>k u. user_ID u = k"] by blast
  show "map_of (usersByEmail s) e = Some i \<Longrightarrow> \<exists>u. map_of (users s) i = Some u"
    using k keyed_lookup [of "\<lambda>e uid. uid \<in> fst ` set (users s)" "usersByEmail s" e i]
    by (metis map_of_eq_None_iff not_Some_eq)
  show "map_of (apiKeys s) i = Some k \<Longrightarrow> key_ID k = i"
    using k keyed_lookup [of "\<lambda>k x. key_ID x = k"] by blast
  show "map_of (apps s) i = Some a \<Longrightarrow> app_ID a = i"
    using k keyed_lookup [of "\<lambda>k x. app_ID x = k"] by blast
  show "map_of (deployments s) i = Some d \<Longrightarrow> dep_ID d = i"
    using k keyed_lookup [of "\<lambda>k x. dep_ID x = k"] by blast
  show "x \<in> set (event_list s i) \<Longrightarrow> ev_DeploymentID x = i"
    using k keyed_lookup [of "\<lambda>k es. \<forall>e \<in> set es. ev_DeploymentID e = k" "events s" i]
    by (cases "map_of (events s) i") (simp_all add: event_list_def)
qed

lemma wf_UpsertByEmail: "keeps_store (mem_UpsertByEmail email displayName)"
proof (rule keeps_storeI)
  fix w :: "'a store_world_scheme" assume wf: "wf_store (store w)"
  note ids = wf_lookup(1) [OF wf]
  have new: "wf_store ((store w)\<lparr>users := AList.update (user_ID u) u (users (store w)),
      usersByEmail := AList.update key (user_ID u) (usersByEmail (store w))\<rparr>)" for u key
    using wf_write(11) [OF wf_write(1) [OF wf], of u "user_ID u" "user_ID u" key] by (simp add: fst_set_update)
  obtain t w1 where n: "Now w = (t, w1)" by fastforce
  obtain uid w2 where u: "NewUUID w1 = (uid, w2)" by fastforce
  have s: "store w1 = store w" "store w2 = store w"
    using store_Now [of w] store_NewUUID [of w1] by (simp_all add: n u)
  show "wf_store (store (snd (mem_UpsertByEmail email displayName w)))"
    using wf ids new [where u = "\<lparr>user_ID = uid, user_Email = ToLower (TrimSpace email), user_DisplayName = displayName,
                    user_DefaultTenantID = [], user_CreatedAt = t, user_UpdatedAt = t\<rparr>"
        and key = "ToLower (TrimSpace email)"]
    by (auto simp: mem_UpsertByEmail_def Let_def n u s intro!: wf_write(1) split: option.splits)
qed

lemma wf_CreatePersonalTenant: "keeps_store (mem_CreatePersonalTenant user)"
proof (rule keeps_storeI)
  fix w :: "'a store_world_scheme" assume wf: "wf_store (store w)"
  obtain t w1 where n: "Now w = (t, w1)" by fastforce
  obtain tid w2 where u: "NewUUID w1 = (tid, w2)" by fastforce
  have s: "store w2 = store w"
    using store_Now [of w] store_NewUUID [of w1] by (simp add: n u)
  have "wf_store ((store w)\<lparr>tenants := AList.update tid x (tenants (store w)),
           members := AList.update (memberKey tid (user_ID user)) m (members (store w)),
           users := AList.update (user_ID user) y (users (store w))\<rparr>)"
    if "tenant_ID x = tid" "member_TenantID m = tid" "member_UserID m = user_ID user" "user_ID y = user_ID user"
    for x m y
    using wf_write(1) [OF wf_write(3) [OF wf_write(2) [OF wf that(1)], of m "memberKey tid (user_ID user)"], of y] that
    by simp
  then show "wf_store (store (snd (mem_CreatePersonalTenant user w)))"
    by (simp add: mem_CreatePersonalTenant_def Let_def n u s)
qed

text \<open>
  C26: every operation of the memory repositories that writes keeps the store well formed, whatever the
  identifiers, clocks and iteration orders: distinct keys, every record under its own identifier, every
  event under its deployment, and every e-mail pointing to an existing user.
\<close>

theorem store_invariant:
  "keeps_store (mem_UpsertByEmail email displayName) \<and> keeps_store (mem_CreatePersonalTenant user) \<and>
   keeps_store (mem_AddMember member) \<and> keeps_store (mem_Identity_Upsert identity) \<and>
   keeps_store (mem_Key_Create key) \<and> keeps_store (mem_Key_Revoke tenantID keyID revokedAt) \<and>
   keeps_store (mem_GetByHash keyHash) \<and> keeps_store (mem_Audit_Create log) \<and>
   keeps_store (mem_App_Create app) \<and> keeps_store (mem_App_Update app) \<and>
   keeps_store (mem_Dep_Create deployment) \<and> keeps_store (mem_Dep_Update deployment) \<and>
   keeps_store (mem_NextVersion tenantID appID) \<and> keeps_store (mem_Event_Create event)"
proof (intro conjI)
  show "keeps_store (mem_Key_Revoke tenantID keyID revokedAt)"
    by (rule keeps_storeI) (auto simp: mem_Key_Revoke_def wf_lookup(3) intro!: wf_write split: option.splits)
  show "keeps_store (mem_GetByHash keyHash)"
  proof (rule keeps_storeI)
    fix w assume wf: "wf_store (store w)"
    then have k: "(k, key) \<in> set (apiKeys (store w)) \<Longrightarrow> key_ID key = k" for k key
      by (auto simp: wf_store_def keyed_def)
    show "wf_store (store (snd (mem_GetByHash keyHash w)))"
      using wf by (auto simp: mem_GetByHash_def range_map_def Now_def Let_def k
          intro!: wf_write split: option.splits prod.splits dest!: find_SomeD)
  qed
  show "keeps_store (mem_Event_Create event)"
    by (rule keeps_storeI) (auto simp: mem_Event_Create_def wf_lookup(6) intro!: wf_write)
qed (auto intro!: keeps_storeI wf_write wf_UpsertByEmail wf_CreatePersonalTenant
      simp: mem_AddMember_def mem_Identity_Upsert_def mem_Key_Create_def mem_Audit_Create_def
        mem_App_Create_def mem_App_Update_def mem_Dep_Create_def mem_Dep_Update_def mem_NextVersion_def Let_def
      split: option.splits)

section \<open>Functional properties\<close>

definition demo_store_world :: "Client \<Rightarrow> State \<Rightarrow> store_world" where
  "demo_store_world c s =
     \<lparr>clk = (\<lambda>n. unixEpoch + int n * second), ticks = 0, rnd = (\<lambda>n _. of_nat n), rnd_ok = (\<lambda>_. True), draws = 0,
      sel = (\<lambda>_. None), sels = 0, rank = (\<lambda>_ _. 0), ranges = 0, mq = c, store = s\<rparr>"

lemma Upsert_result:
  assumes "wf_store (store w)"
  shows "\<exists>u w'. mem_UpsertByEmail email name w = (Inr u, w') \<and> wf_store (store w') \<and>
     map_of (usersByEmail (store w')) (ToLower (TrimSpace email)) = Some (user_ID u) \<and>
     map_of (users (store w')) (user_ID u) = Some u \<and>
     (\<forall>i. map_of (usersByEmail (store w)) (ToLower (TrimSpace email)) = Some i \<longrightarrow>
        user_ID u = i \<and> map fst (users (store w')) = map fst (users (store w)) \<and>
        usersByEmail (store w') = usersByEmail (store w))"
proof (cases "map_of (usersByEmail (store w)) (ToLower (TrimSpace email))")
  case None
  obtain t w1 where n: "Now w = (t, w1)" by fastforce
  obtain uid w2 where u: "NewUUID w1 = (uid, w2)" by fastforce
  have "store w2 = store w"
    using store_Now [of w] store_NewUUID [of w1] by (simp add: n u)
  moreover have "wf_store (store (snd (mem_UpsertByEmail email name w)))"
    using wf_UpsertByEmail assms by (auto simp: keeps_store_def)
  ultimately show ?thesis
    using None by (auto simp: mem_UpsertByEmail_def Let_def n u update_conv')
next
  case (Some i)
  with wf_lookup(2) [OF assms] obtain u where u: "map_of (users (store w)) i = Some u" by blast
  then have "i \<in> fst ` set (users (store w))" by (metis map_of_eq_None_iff option.distinct(1))
  moreover from u have "user_ID u = i" using wf_lookup(1) [OF assms] by blast
  moreover have "wf_store (store (snd (mem_UpsertByEmail email name w)))"
    using wf_UpsertByEmail assms by (auto simp: keeps_store_def)
  ultimately show ?thesis
    using Some u by (auto simp: mem_UpsertByEmail_def Let_def Now_def update_conv' update_keys)
qed

text \<open>
  Signing in again finds the same user. On a well-formed store \<^verbatim>\<open>UpsertByEmail\<close> always succeeds, and a second
  call with the same address up to case and surrounding blanks returns the same user and creates none.
\<close>

theorem Upsert_same_user:
  assumes "wf_store (store w)" and "ToLower (TrimSpace email') = ToLower (TrimSpace email)"
  shows "\<exists>u w1 u' w2. mem_UpsertByEmail email name w = (Inr u, w1) \<and>
     mem_UpsertByEmail email' name' w1 = (Inr u', w2) \<and> user_ID u' = user_ID u \<and>
     map fst (users (store w2)) = map fst (users (store w1)) \<and> wf_store (store w2)"
proof -
  from Upsert_result [OF assms(1), of email name] obtain u w1 where
    1: "mem_UpsertByEmail email name w = (Inr u, w1)" "wf_store (store w1)"
       "map_of (usersByEmail (store w1)) (ToLower (TrimSpace email')) = Some (user_ID u)"
    using assms(2) by auto
  from Upsert_result [OF 1(2), of email' name'] 1(3) show ?thesis
    using 1(1) by auto
qed

theorem Upsert_same_user_witness:
  "\<exists>u w1 u' w2. mem_UpsertByEmail ''a@b.c'' ''A'' (demo_store_world mq_NewClient NewState) = (Inr u, w1) \<and>
     mem_UpsertByEmail '' A@B.c '' [] w1 = (Inr u', w2) \<and> user_ID u' = user_ID u"
proof -
  have "ToLower (TrimSpace '' A@B.c '') = ToLower (TrimSpace ''a@b.c'')" by code_simp
  with Upsert_same_user [of "demo_store_world mq_NewClient NewState" "'' A@B.c ''" "''a@b.c''" "''A''" "[]"]
  show ?thesis using wf_NewState by (auto simp: demo_store_world_def)
qed

lemma audit_loop_spec:
  "n \<le> length logs \<Longrightarrow> int (length out) \<le> limit \<Longrightarrow>
   audit_loop logs t limit n out =
     out @ take (nat limit - length out) (filter (\<lambda>l. audit_TenantID l = t) (rev (take n logs)))"
proof (induction n arbitrary: out)
  case (Suc i)
  then have "rev (take (Suc i) logs) = logs ! i # rev (take i logs)"
    by (simp add: take_Suc_conv_app_nth)
  moreover have "nat limit - length out = Suc (nat limit - Suc (length out))" if "int (length out) < limit"
    using that by linarith
  ultimately show ?case
    using Suc by (auto simp: not_less)
qed simp

text \<open>
  The audit log of a tenant is its most recent entries, newest first, at most \<open>limit\<close> of them (50 when the
  limit is not positive), and reading it changes nothing.
\<close>

theorem audit_ListByTenant_newest:
  "mem_Audit_ListByTenant tenantID limit w =
     (Inr (take (nat (if limit \<le> 0 then 50 else limit))
             (filter (\<lambda>l. audit_TenantID l = tenantID) (rev (auditLogs (store w))))), w)"
  by (simp add: mem_Audit_ListByTenant_def Let_def audit_loop_spec)

text \<open>
  \<^verbatim>\<open>ListActive\<close> returns the active deployments that were not touched for the longest time: it is a prefix, of
  the length the limit allows, of all active deployments ordered by their last update.
\<close>

theorem ListActive_oldest_first:
  "\<exists>out rest w'. mem_ListActive limit w = (Inr out, w') \<and> store w' = store w \<and> mq w' = mq w \<and>
     mset (out @ rest) = mset (filter (\<lambda>d. is_active (dep_Status d)) (map snd (deployments (store w)))) \<and>
     sorted (map dep_UpdatedAt (out @ rest)) \<and>
     length out = min (nat (if limit \<le> 0 then 100 else limit)) (length (out @ rest))"
proof -
  define l where "l = (if limit \<le> 0 then 100 else limit)"
  define kvs where "kvs = fst (range_map (deployments (store w)) w)"
  define full where "full = sort_key dep_UpdatedAt (filter (\<lambda>d. is_active (dep_Status d)) (map snd kvs))"
  have "mset full = mset (filter (\<lambda>d. is_active (dep_Status d)) (map snd (deployments (store w))))"
    by (simp add: full_def kvs_def mset_filter)
  moreover have "sorted (map dep_UpdatedAt full)"
    by (simp add: full_def)
  moreover have "mem_ListActive limit w = (Inr (take (nat l) full), w\<lparr>ranges := Suc (ranges w)\<rparr>)"
    by (auto simp: mem_ListActive_def full_def kvs_def l_def range_map_def Let_def)
  ultimately show ?thesis
    by (intro exI [of _ "take (nat l) full"] exI [of _ "drop (nat l) full"]) (auto simp: l_def min_def)
qed

text \<open>\<open>d\<close> is the deployment of the app \<open>i\<close> with the greatest version among \<open>ds\<close>; \<open>None\<close> when it has none.\<close>

definition is_latest :: "Deployment set \<Rightarrow> string \<Rightarrow> Deployment option \<Rightarrow> bool" where
  "is_latest ds i r \<longleftrightarrow>
     (case r of
        None \<Rightarrow> (\<forall>d \<in> ds. dep_AppID d \<noteq> i)
      | Some d \<Rightarrow> d \<in> ds \<and> dep_AppID d = i \<and> (\<forall>d' \<in> ds. dep_AppID d' = i \<longrightarrow> dep_Version d' \<le> dep_Version d))"

lemma latestDeps_spec:
  "(\<And>i. is_latest P i (map_of acc i)) \<Longrightarrow> is_latest (P \<union> snd ` set ds) i (map_of (latestDeps ds acc) i)"
proof (induction ds acc arbitrary: P rule: latestDeps.induct)
  case (2 k dep ds acc)
  define acc' where "acc' = (case map_of acc (dep_AppID dep) of None \<Rightarrow> AList.update (dep_AppID dep) dep acc
     | Some existing \<Rightarrow> if dep_Version dep > dep_Version existing then AList.update (dep_AppID dep) dep acc else acc)"
  have step: "is_latest (insert dep P) j (map_of acc' j)" for j
    using "2.prems" [of j] by (cases "map_of acc j") (fastforce simp: acc'_def is_latest_def update_conv' split: option.splits)+
  have "is_latest (insert dep P \<union> snd ` set ds) i (map_of (latestDeps ds acc') i)"
    unfolding acc'_def by (rule "2.IH") (fold acc'_def, rule step)
  then show ?case by (simp add: acc'_def)
qed simp

text \<open>
  The instance overview of the administrator lists every app exactly once, the most recently created first,
  each with the deployment of the greatest version the store has for it.
\<close>

theorem ListAllInstances_latest:
  "\<exists>out w'. mem_ListAllInstances w = (Inr out, w') \<and> store w' = store w \<and>
     mset (map inst_App out) = mset (map snd (apps (store w))) \<and>
     sorted (rev (map (\<lambda>x. app_CreatedAt (inst_App x)) out)) \<and>
     list_all (\<lambda>x. is_latest (snd ` set (deployments (store w))) (app_ID (inst_App x)) (inst_Deployment x)) out"
proof -
  have lat: "is_latest (snd ` set ds) i (map_of (latestDeps ds []) i)" for ds i
    using latestDeps_spec [of "{}" "[]" ds i] by (simp add: is_latest_def)
  have desc: "sorted (rev (map f (sort_key (\<lambda>x. - f x) xs)))" for f :: "AdminInstance \<Rightarrow> int" and xs
  proof -
    have "sorted (map (\<lambda>x. - f x) (sort_key (\<lambda>x. - f x) xs))" by simp
    then show ?thesis by (simp add: sorted_wrt_rev sorted_map sorted_wrt_map)
  qed
  obtain ms w1 where 1: "range_map (members (store w)) w = (ms, w1)" by fastforce
  obtain ds w2 where 2: "range_map (deployments (store w1)) w1 = (ds, w2)" by fastforce
  obtain as w3 where 3: "range_map (apps (store w2)) w2 = (as, w3)" by fastforce
  have s: "store w1 = store w" "store w2 = store w" "store w3 = store w"
    using 1 2 3 by (auto simp: range_map_def)
  have perm: "mset as = mset (apps (store w))" and dset: "set ds = set (deployments (store w))"
    using 2 3 by (auto simp: range_map_def s)
  define mk where "mk = (\<lambda>(k :: string, app). \<lparr>inst_App = app, inst_Deployment = map_of (latestDeps ds []) (app_ID app),
     inst_UserEmail = (case map_of (ownerEmails (users (store w1)) ms []) (app_TenantID app) of
        None \<Rightarrow> [] | Some e \<Rightarrow> e)\<rparr>)"
  define out where "out = sort_key (\<lambda>x. - app_CreatedAt (inst_App x)) (map mk as)"
  have "mem_ListAllInstances w = (Inr out, w3)"
    by (simp add: mem_ListAllInstances_def 1 2 3 out_def mk_def)
  moreover have "mset (map inst_App out) = mset (map snd (apps (store w)))"
  proof -
    have "inst_App \<circ> mk = snd" by (auto simp: mk_def)
    then have "mset (map inst_App out) = image_mset snd (mset as)"
      by (simp add: out_def multiset.map_comp)
    then show ?thesis by (simp add: perm)
  qed
  moreover have "list_all (\<lambda>x. is_latest (snd ` set (deployments (store w))) (app_ID (inst_App x)) (inst_Deployment x)) out"
    using lat [of ds] by (auto simp: out_def list_all_iff mk_def dset)
  moreover have "sorted (rev (map (\<lambda>x. app_CreatedAt (inst_App x)) out))"
    using desc unfolding out_def .
  ultimately show ?thesis using s by blast
qed

lemma memberKey_inj:
  "CHR '':'' \<notin> set t \<Longrightarrow> CHR '':'' \<notin> set t' \<Longrightarrow> memberKey t u = memberKey t' u' \<Longrightarrow> t = t' \<and> u = u'"
proof (induction t arbitrary: t')
  case Nil
  then show ?case by (cases t') (auto simp: memberKey_def)
next
  case (Cons c t)
  then show ?case by (cases t') (auto simp: memberKey_def)
qed

end
