(* ===== verification/AppService.thy ===== *)
theory AppService
  imports MemStore
begin

text \<open>
  \<^verbatim>\<open>internal/services/app_service.go\<close>: creating and changing apps, and the defaults of a configuration.
  A service is the record of the interfaces it holds. \<^verbatim>\<open>normalizeConfig\<close> writes through the pointer
  \<^verbatim>\<open>cfg.OpenClaw\<close> and \<^verbatim>\<open>normalizeReliability\<close> through the slice \<^verbatim>\<open>FallbackProviders\<close>; the definitions return the
  written values.
\<close>

section \<open>Operations\<close>

record 'w AppService =
  as_apps :: "'w AppRepository"
  as_tenants :: "'w TenantRepository"

record CreateAppInput =
  ca_Name :: string
  ca_Slug :: string
  ca_Config :: AppConfig

record UpdateAppInput =
  ua_Name :: "string option"
  ua_DesiredState :: "string option"
  ua_Config :: "AppConfig option"

definition normalizeSlug :: "string \<Rightarrow> string" where
  "normalizeSlug s =
     (let s = TrimSpace (ToLower s);
          s = ReplaceAll s (CHR '' '') (CHR ''-'')
      in s)"

fun normFallbacks :: "nat \<Rightarrow> InferenceFallbackProvider list \<Rightarrow> InferenceFallbackProvider list" where
  "normFallbacks i [] = []"
| "normFallbacks i (p # ps) =
     (let p = (if fb_Priority p \<le> 0 then p\<lparr>fb_Priority := int i + 1\<rparr> else p);
          p = (if fb_TimeoutSeconds p \<le> 0 then p\<lparr>fb_TimeoutSeconds := 20\<rparr> else p)
      in p # normFallbacks (Suc i) ps)"

definition normalizeReliability :: "ReliabilityPolicy \<Rightarrow> ReliabilityPolicy" where
  "normalizeReliability policy =
     (let policy = (if \<not> rel_AutoRepair policy \<and> rel_MaxRepairAttempts policy = 0 \<and>
                      rel_HealthCheckPath policy = [] \<and> length (rel_FallbackProviders policy) = 0
                    then policy\<lparr>rel_AutoRepair := True\<rparr> else policy);
          policy = (if rel_MaxRepairAttempts policy \<le> 0 then policy\<lparr>rel_MaxRepairAttempts := 3\<rparr> else policy);
          policy = (if rel_HealthCheckTimeoutSeconds policy \<le> 0
                    then policy\<lparr>rel_HealthCheckTimeoutSeconds := 3\<rparr> else policy)
      in policy\<lparr>rel_FallbackProviders := normFallbacks 0 (rel_FallbackProviders policy)\<rparr>)"

definition zeroOpenClaw :: OpenClawConfig where
  "zeroOpenClaw =
     \<lparr>oc_Enabled = False, oc_GatewayBindAddress = [], oc_GatewayPort = 0, oc_GatewayToken = [],
      oc_WorkspaceStorage = [], oc_ProviderAPIKeys = None, oc_AgentsMarkdown = [], oc_SettingsJSON = [],
      oc_ExtraEnv = None, oc_ExistingSecretName = []\<rparr>"

text \<open>\<^verbatim>\<open>if x == zero { x = d }\<close>\<close>

definition dflt :: "'a \<Rightarrow> 'a \<Rightarrow> 'a \<Rightarrow> 'a" where
  "dflt zero d x = (if x = zero then d else x)"

text \<open>The block under \<^verbatim>\<open>if isOpenClaw\<close>.\<close>

definition openClawDefaults :: "OpenClawConfig \<Rightarrow> OpenClawConfig" where
  "openClawDefaults oc = oc
     \<lparr>oc_Enabled := True,
      oc_GatewayPort := dflt 0 18789 (oc_GatewayPort oc),
      oc_GatewayBindAddress := dflt [] ''0.0.0.0'' (oc_GatewayBindAddress oc),
      oc_WorkspaceStorage := dflt [] ''10Gi'' (oc_WorkspaceStorage oc),
      oc_ProviderAPIKeys := dflt None (Some []) (oc_ProviderAPIKeys oc),
      oc_ExtraEnv := dflt None (Some []) (oc_ExtraEnv oc)\<rparr>"

definition normalizeOpenClaw :: "AppConfig \<Rightarrow> AppConfig" where
  "normalizeOpenClaw cfg =
     (let oc = (case cfg_OpenClaw cfg of None \<Rightarrow> zeroOpenClaw\<lparr>oc_Enabled := True\<rparr> | Some oc \<Rightarrow> oc)
      in cfg\<lparr>cfg_Image := dflt [] ''ghcr.io/openclaw/openclaw:latest'' (cfg_Image cfg),
             cfg_Port := dflt 0 18789 (cfg_Port cfg),
             cfg_OpenClaw := Some (openClawDefaults oc)\<rparr>)"

definition normalizeConfig :: "AppConfig \<Rightarrow> AppConfig" where
  "normalizeConfig cfg =
     (let isOpenClaw = (cfg_OpenClaw cfg \<noteq> None \<or> Contains (ToLower (cfg_Image cfg)) ''openclaw'');
          cfg = (if isOpenClaw then normalizeOpenClaw cfg else cfg)
      in cfg\<lparr>cfg_Port := dflt 0 3000 (cfg_Port cfg),
             cfg_Replicas := dflt 0 1 (cfg_Replicas cfg),
             cfg_CPURequest := dflt [] ''250m'' (cfg_CPURequest cfg),
             cfg_MemoryRequest := dflt [] ''256Mi'' (cfg_MemoryRequest cfg),
             cfg_CPULimit := dflt [] ''500m'' (cfg_CPULimit cfg),
             cfg_MemoryLimit := dflt [] ''512Mi'' (cfg_MemoryLimit cfg),
             cfg_Env := dflt None (Some []) (cfg_Env cfg),
             cfg_Reliability := normalizeReliability (cfg_Reliability cfg)\<rparr>)"

definition CreateApp :: "'a env_scheme AppService \<Rightarrow> Actor \<Rightarrow> CreateAppInput \<Rightarrow> (App, 'a env_scheme) op" where
  "CreateApp s actor inp =
     (if TrimSpace (ca_Name inp) = [] \<or> TrimSpace (ca_Slug inp) = [] then fail ErrValidation
      else bindE (tr_GetMember (as_tenants s) (actor_TenantID actor) (actor_UserID actor)) (\<lambda>_ w.
        let (now, w) = Now w;
            (uid, w) = NewUUID w;
            app = \<lparr>app_ID = uid, app_TenantID = actor_TenantID actor, app_Name = ca_Name inp,
                   app_Slug = normalizeSlug (ca_Slug inp), app_DesiredState = ''active'',
                   app_CurrentDeploymentID = [], app_Config = normalizeConfig (ca_Config inp),
                   app_CreatedBy = actor_UserID actor, app_CreatedAt = now, app_UpdatedAt = now\<rparr>
        in bindE (ar_Create (as_apps s) app) (\<lambda>_. ret app) w))"

definition ListApps :: "'w AppService \<Rightarrow> Actor \<Rightarrow> (App list, 'w) op" where
  "ListApps s actor = ar_ListByTenant (as_apps s) (actor_TenantID actor)"

definition GetApp :: "'w AppService \<Rightarrow> Actor \<Rightarrow> string \<Rightarrow> (App, 'w) op" where
  "GetApp s actor appID = ar_GetByID (as_apps s) (actor_TenantID actor) appID"

text \<open>The fields the input sets.\<close>

definition applyUpdate :: "UpdateAppInput \<Rightarrow> App \<Rightarrow> App" where
  "applyUpdate inp app =
     (let app = (case ua_Name inp of None \<Rightarrow> app | Some n \<Rightarrow> app\<lparr>app_Name := TrimSpace n\<rparr>);
          app = (case ua_DesiredState inp of None \<Rightarrow> app | Some d \<Rightarrow> app\<lparr>app_DesiredState := TrimSpace d\<rparr>)
      in case ua_Config inp of None \<Rightarrow> app | Some c \<Rightarrow> app\<lparr>app_Config := normalizeConfig c\<rparr>)"

definition UpdateApp ::
  "'a env_scheme AppService \<Rightarrow> Actor \<Rightarrow> string \<Rightarrow> UpdateAppInput \<Rightarrow> (App, 'a env_scheme) op" where
  "UpdateApp s actor appID inp =
     bindE (ar_GetByID (as_apps s) (actor_TenantID actor) appID) (\<lambda>app w.
       let app = applyUpdate inp app;
           (now, w) = Now w;
           app = app\<lparr>app_UpdatedAt := now\<rparr>
       in bindE (ar_Update (as_apps s) app) (\<lambda>_. ret app) w)"

section \<open>Normalisation\<close>

definition wf_policy :: "ReliabilityPolicy \<Rightarrow> bool" where
  "wf_policy p \<longleftrightarrow> 0 < rel_MaxRepairAttempts p \<and> 0 < rel_HealthCheckTimeoutSeconds p \<and>
     (\<forall>f \<in> set (rel_FallbackProviders p). 0 < fb_Priority f \<and> 0 < fb_TimeoutSeconds f)"

definition wf_openclaw :: "OpenClawConfig \<Rightarrow> bool" where
  "wf_openclaw oc \<longleftrightarrow> oc_Enabled oc \<and> oc_GatewayPort oc \<noteq> 0 \<and> oc_GatewayBindAddress oc \<noteq> [] \<and>
     oc_WorkspaceStorage oc \<noteq> [] \<and> oc_ProviderAPIKeys oc \<noteq> None \<and> oc_ExtraEnv oc \<noteq> None"

text \<open>A configuration with every default filled in, as the backend expects it.\<close>

definition wf_config :: "AppConfig \<Rightarrow> bool" where
  "wf_config c \<longleftrightarrow> cfg_Port c \<noteq> 0 \<and> cfg_Replicas c \<noteq> 0 \<and> cfg_CPURequest c \<noteq> [] \<and>
     cfg_MemoryRequest c \<noteq> [] \<and> cfg_CPULimit c \<noteq> [] \<and> cfg_MemoryLimit c \<noteq> [] \<and> cfg_Env c \<noteq> None \<and>
     wf_policy (cfg_Reliability c) \<and>
     (cfg_OpenClaw c \<noteq> None \<or> Contains (ToLower (cfg_Image c)) ''openclaw'' \<longrightarrow>
        cfg_Image c \<noteq> [] \<and> (\<exists>oc. cfg_OpenClaw c = Some oc \<and> wf_openclaw oc))"

lemma normFallbacks_wf: "f \<in> set (normFallbacks i ps) \<Longrightarrow> 0 < fb_Priority f \<and> 0 < fb_TimeoutSeconds f"
  by (induction i ps rule: normFallbacks.induct) (auto simp: Let_def)

lemma normFallbacks_id:
  "\<forall>f \<in> set ps. 0 < fb_Priority f \<and> 0 < fb_TimeoutSeconds f \<Longrightarrow> normFallbacks i ps = ps"
  by (induction i ps rule: normFallbacks.induct) (auto simp: Let_def)

lemma normalizeReliability_wf: "wf_policy (normalizeReliability p)"
  by (auto simp: normalizeReliability_def wf_policy_def Let_def dest: normFallbacks_wf)

lemma normalizeReliability_id: "wf_policy p \<Longrightarrow> normalizeReliability p = p"
  by (simp add: normalizeReliability_def wf_policy_def Let_def normFallbacks_id)

lemma dflt_neq [simp]: "d \<noteq> zero \<Longrightarrow> dflt zero d x \<noteq> zero"
  by (simp add: dflt_def)

lemma dflt_id [simp]: "x \<noteq> zero \<Longrightarrow> dflt zero d x = x"
  by (simp add: dflt_def)

lemma openClawDefaults_wf: "wf_openclaw (openClawDefaults oc)"
  by (simp add: wf_openclaw_def openClawDefaults_def)

lemma openClawDefaults_id: "wf_openclaw oc \<Longrightarrow> openClawDefaults oc = oc"
  by (simp add: wf_openclaw_def openClawDefaults_def)

lemma normalizeOpenClaw_id:
  "cfg_Image c \<noteq> [] \<Longrightarrow> cfg_Port c \<noteq> 0 \<Longrightarrow> cfg_OpenClaw c = Some oc \<Longrightarrow> wf_openclaw oc \<Longrightarrow> normalizeOpenClaw c = c"
  by (simp add: normalizeOpenClaw_def openClawDefaults_id)

lemma normalizeConfig_id: "wf_config c \<Longrightarrow> normalizeConfig c = c"
  unfolding wf_config_def normalizeConfig_def
  by (auto simp: normalizeReliability_id normalizeOpenClaw_id)

lemma normalizeConfig_wf: "wf_config (normalizeConfig c)"
proof (cases "cfg_OpenClaw c \<noteq> None \<or> Contains (ToLower (cfg_Image c)) ''openclaw''")
  case True
  then show ?thesis
    by (simp add: wf_config_def normalizeConfig_def normalizeReliability_wf normalizeOpenClaw_def Let_def
        openClawDefaults_wf)
next
  case False
  then show ?thesis
    by (simp add: wf_config_def normalizeConfig_def normalizeReliability_wf)
qed

text \<open>
  C28: normalising a configuration fills in every default the backend relies on, and doing it again changes
  nothing; in particular the writes through the shared slice and pointer of a configuration that was
  normalised before write what is already there.
\<close>

theorem normalizeConfig_complete:
  "wf_config (normalizeConfig c) \<and> normalizeConfig (normalizeConfig c) = normalizeConfig c \<and>
   normalizeReliability (cfg_Reliability (normalizeConfig c)) = cfg_Reliability (normalizeConfig c)"
proof -
  have "wf_policy (cfg_Reliability (normalizeConfig c))"
    using normalizeConfig_wf [of c] by (simp add: wf_config_def)
  then show ?thesis
    by (simp add: normalizeConfig_wf normalizeConfig_id normalizeReliability_id)
qed

text \<open>
  Auto-repair cannot be switched off by the switch alone: a policy that only sets \<^verbatim>\<open>auto_repair\<close> to false is
  normalised to one with three repair attempts and auto-repair on.
\<close>

theorem auto_repair_off_ignored:
  "normalizeReliability \<lparr>rel_AutoRepair = False, rel_MaxRepairAttempts = 0, rel_HealthCheckPath = [],
      rel_HealthCheckTimeoutSeconds = t, rel_RollbackOnFailedHealthCheck = b, rel_FallbackProviders = []\<rparr> =
   \<lparr>rel_AutoRepair = True, rel_MaxRepairAttempts = 3, rel_HealthCheckPath = [],
      rel_HealthCheckTimeoutSeconds = (if t \<le> 0 then 3 else t), rel_RollbackOnFailedHealthCheck = b,
      rel_FallbackProviders = []\<rparr>"
  by (simp add: normalizeReliability_def)

section \<open>Creating and changing apps\<close>

lemma TrimSpace_ReplaceAll:
  "TrimSpace (ReplaceAll (TrimSpace s) (CHR '' '') (CHR ''-'')) = ReplaceAll (TrimSpace s) (CHR '' '') (CHR ''-'')"
proof -
  let ?t = "ReplaceAll (TrimSpace s) (CHR '' '') (CHR ''-'')"
  have "\<not> is_space (hd ?t)" "\<not> is_space (last ?t)" if "?t \<noteq> []"
    using that TrimFunc_hd [of is_space s] TrimFunc_last [of is_space s]
    by (auto simp: ReplaceAll_def TrimSpace_def hd_map last_map is_space_def)
  then have "dropWhile is_space ?t = ?t" "dropWhile is_space (rev ?t) = rev ?t"
    by (intro dropWhile_id; auto simp: hd_rev)+
  then have "TrimFunc is_space ?t = ?t" by (simp add: TrimFunc_def [of is_space ?t])
  then show ?thesis by (simp add: TrimSpace_def)
qed

lemma ToLower_ReplaceAll:
  "ToLower t = t \<Longrightarrow> ToLower (ReplaceAll t (CHR '' '') (CHR ''-'')) = ReplaceAll t (CHR '' '') (CHR ''-'')"
  by (induction t) (auto simp: ToLower_def ReplaceAll_def lower_char_def Let_def)

lemma ToLower_fixed: "ToLower t = t \<longleftrightarrow> (\<forall>c \<in> set t. lower_char c = c)"
  by (induction t) (auto simp: ToLower_def)

lemma ToLower_TrimSpace: "ToLower t = t \<Longrightarrow> ToLower (TrimSpace t) = TrimSpace t"
  using TrimFunc_set [of is_space t] by (auto simp: ToLower_fixed TrimSpace_def)

lemma normalizeSlug_idem: "normalizeSlug (normalizeSlug s) = normalizeSlug s"
proof -
  let ?t = "TrimSpace (ToLower s)"
  have low: "ToLower ?t = ?t" by (rule ToLower_TrimSpace) simp
  have "ReplaceAll (ReplaceAll x (CHR '' '') (CHR ''-'')) (CHR '' '') (CHR ''-'') =
        ReplaceAll x (CHR '' '') (CHR ''-'')" for x
    by (simp add: ReplaceAll_def)
  with low TrimSpace_ReplaceAll [of "ToLower s"] show ?thesis
    by (simp add: normalizeSlug_def ToLower_ReplaceAll)
qed

definition mem_AppService :: "'a store_world_scheme AppService" where
  "mem_AppService = \<lparr>as_apps = mem_apps, as_tenants = mem_tenants\<rparr>"

text \<open>What a slug is taken means in the store.\<close>

definition slug_taken :: "State \<Rightarrow> string \<Rightarrow> string \<Rightarrow> bool" where
  "slug_taken s t slug \<longleftrightarrow> (\<exists>a \<in> snd ` set (apps s). app_TenantID a = t \<and> app_Slug a = slug)"

text \<open>
  C27: creating an app in the memory store, on every branch. A blank name or slug is a validation error, an actor
  who is not a member of the tenant is forbidden, a slug the tenant already uses is a conflict, and none of
  the three changes the store; otherwise the app is stored with a normalised slug and configuration, the
  tenant reads back exactly that app, and any other tenant is told it does not exist.
\<close>

theorem CreateApp_branches:
  "case CreateApp mem_AppService actor inp w of
     (r, w') \<Rightarrow>
       (if TrimSpace (ca_Name inp) = [] \<or> TrimSpace (ca_Slug inp) = []
        then r = Inl ErrValidation \<and> w' = w
        else if map_of (members (store w)) (memberKey (actor_TenantID actor) (actor_UserID actor)) = None
        then r = Inl ErrForbidden \<and> w' = w
        else if slug_taken (store w) (actor_TenantID actor) (normalizeSlug (ca_Slug inp))
        then r = Inl ErrConflict \<and> store w' = store w
        else \<exists>app. r = Inr app \<and> app_TenantID app = actor_TenantID actor \<and>
               app_Slug app = normalizeSlug (ca_Slug inp) \<and> app_Config app = normalizeConfig (ca_Config inp) \<and>
               store w' = (store w)\<lparr>apps := AList.update (app_ID app) app (apps (store w))\<rparr> \<and>
               mem_App_GetByID t (app_ID app) w' =
                 ((if t = actor_TenantID actor then Inr app else Inl ErrNotFound), w'))"
proof -
  obtain now w1 where n: "Now w = (now, w1)" by fastforce
  obtain uid w2 where u: "NewUUID w1 = (uid, w2)" by fastforce
  have s: "store w2 = store w"
    using store_Now [of w] store_NewUUID [of w1] by (simp add: n u)
  define app where "app = \<lparr>app_ID = uid, app_TenantID = actor_TenantID actor, app_Name = ca_Name inp,
    app_Slug = normalizeSlug (ca_Slug inp), app_DesiredState = ''active'', app_CurrentDeploymentID = [],
    app_Config = normalizeConfig (ca_Config inp), app_CreatedBy = actor_UserID actor, app_CreatedAt = now,
    app_UpdatedAt = now\<rparr>"
  have run: "CreateApp mem_AppService actor inp w =
      (if TrimSpace (ca_Name inp) = [] \<or> TrimSpace (ca_Slug inp) = [] then (Inl ErrValidation, w)
       else case map_of (members (store w)) (memberKey (actor_TenantID actor) (actor_UserID actor)) of
              None \<Rightarrow> (Inl ErrForbidden, w)
            | Some m \<Rightarrow> bindE (mem_App_Create app) (\<lambda>_. ret app) w2)"
    by (simp add: CreateApp_def mem_AppService_def mem_tenants_def mem_apps_def mem_GetMember_def fail_def bindE_def
        n u app_def Let_def split: option.split)
  have taken: "(\<exists>(k, x) \<in> set (apps (store w2)). app_TenantID x = app_TenantID app \<and> app_Slug x = app_Slug app) \<longleftrightarrow>
      slug_taken (store w) (actor_TenantID actor) (normalizeSlug (ca_Slug inp))"
    by (force simp: slug_taken_def s app_def)
  have new: "bindE (mem_App_Create app) (\<lambda>_. ret app) w2 =
      (if slug_taken (store w) (actor_TenantID actor) (normalizeSlug (ca_Slug inp)) then (Inl ErrConflict, w2)
       else (Inr app, w2\<lparr>store := (store w)\<lparr>apps := AList.update (app_ID app) app (apps (store w))\<rparr>\<rparr>))"
    by (simp only: bindE_def mem_App_Create_def taken) (simp add: ret_def s)
  have f: "app_TenantID app = actor_TenantID actor" "app_Slug app = normalizeSlug (ca_Slug inp)"
    "app_Config app = normalizeConfig (ca_Config inp)"
    by (simp_all add: app_def)
  have got: "mem_App_GetByID t (app_ID app)
        (w2\<lparr>store := (store w)\<lparr>apps := AList.update (app_ID app) app (apps (store w))\<rparr>\<rparr>) =
      ((if t = actor_TenantID actor then Inr app else Inl ErrNotFound),
       w2\<lparr>store := (store w)\<lparr>apps := AList.update (app_ID app) app (apps (store w))\<rparr>\<rparr>)"
    by (auto simp: mem_App_GetByID_def update_conv' f)
  show ?thesis
    unfolding run new using got by (auto simp: s f intro!: exI [of _ app] split: option.split)
qed

lemma applyUpdate_simps [simp]:
  "app_ID (applyUpdate inp a) = app_ID a" "app_TenantID (applyUpdate inp a) = app_TenantID a"
  "app_Slug (applyUpdate inp a) = app_Slug a"
  "app_CurrentDeploymentID (applyUpdate inp a) = app_CurrentDeploymentID a"
  by (simp_all add: applyUpdate_def Let_def split: option.split)

text \<open>Over every implementation of the repositories: changing an app writes only the tenant's own app and keeps
  the identifiers and the slugs as they were.\<close>

context records
begin

lemma UpdateApp_view:
  assumes "UpdateApp \<lparr>as_apps = A, as_tenants = T\<rparr> actor i inp w = (r, w')"
    and ok: "ok_view (abs w)"
  shows "ok_view (abs w') \<and> others_kept (actor_TenantID actor) (abs w) (abs w') \<and> v_deps (abs w') = v_deps (abs w) \<and>
     (\<forall>a. r = Inr a \<longrightarrow> app_TenantID a = actor_TenantID actor \<and> v_apps (abs w') i = Some a)"
proof -
  obtain r1 w1 where g: "ar_GetByID A (actor_TenantID actor) i w = (r1, w1)" by fastforce
  note get = app_get [OF g]
  show ?thesis
  proof (cases r1)
    case (Inl e)
    with assms g get show ?thesis by (auto simp: UpdateApp_def)
  next
    case (Inr a)
    with get have a: "v_apps (abs w) i = Some a" "app_TenantID a = actor_TenantID actor" by auto
    then have "app_ID a = i" using ok_view_ids(1) [OF ok] by blast
    obtain now w2 where n: "Now w1 = (now, w2)" by fastforce
    then have abs2: "abs w2 = abs w"
      using get abs_env [of w2 w1] more_Now [of w1] by simp
    define a' where "a' = (applyUpdate inp a)\<lparr>app_UpdatedAt := now\<rparr>"
    have a': "app_ID a' = i" "app_TenantID a' = app_TenantID a" "app_Slug a' = app_Slug a"
      using \<open>app_ID a = i\<close> by (simp_all add: a'_def)
    have run: "UpdateApp \<lparr>as_apps = A, as_tenants = T\<rparr> actor i inp w = bindE (ar_Update A a') (\<lambda>_. ret a') w2"
      using Inr g n by (simp add: UpdateApp_def Let_def a'_def)
    have put: "ok_view (put_app a' (abs w))" "others_kept (actor_TenantID actor) (abs w) (put_app a' (abs w))"
    proof -
      show "ok_view (put_app a' (abs w))"
        using ok a a' unfolding ok_view_def [of "abs w"] by (intro ok_view_put_app [OF ok]) metis
      show "others_kept (actor_TenantID actor) (abs w) (put_app a' (abs w))"
        using a a' by (intro others_kept_put_app) auto
    qed
    obtain r3 w3 where p: "ar_Update A a' w2 = (r3, w3)" by fastforce
    with app_update [OF p] assms(1) ok put abs2 a a' show ?thesis
      by (cases r3) (auto simp: run all_or_nothing_def ret_def)
  qed
qed

end

end
