(* ===== verification/DeploymentService.thy ===== *)
theory DeploymentService
  imports AppService
begin

text \<open>
  \<^verbatim>\<open>internal/services/scheduler_service.go\<close> and \<^verbatim>\<open>internal/services/deployment_service.go\<close>: the life cycle of a
  deployment as the API and the worker drive it. \<^verbatim>\<open>MarkDeploymentStatus\<close> and \<^verbatim>\<open>QueueAutoRepair\<close> write through
  the pointer they are given before they can fail, so they return the deployment beside the result.
\<close>

section \<open>Scheduler\<close>

record 'w SchedulerService =
  ss_queue :: "'w JobQueue"

definition newJob :: "JobType \<Rightarrow> Deployment \<Rightarrow> 'a env_scheme \<Rightarrow> Job \<times> 'a env_scheme" where
  "newJob typ deployment w =
     (let (uid, w) = NewUUID w;
          (now, w) = Now w
      in (\<lparr>job_ID = uid, job_Type = typ, job_TenantID = dep_TenantID deployment,
           job_AppID = dep_AppID deployment, job_DeploymentID = dep_ID deployment, job_Attempts = 0,
           job_CreatedAt = now, job_AvailableAt = 0, job_LeasedAt = 0, job_LastError = []\<rparr>, w))"

definition ScheduleDeployment :: "'a env_scheme SchedulerService \<Rightarrow> Deployment \<Rightarrow> (unit, 'a env_scheme) op" where
  "ScheduleDeployment s deployment w =
     (let (job, w) = newJob JobTypeDeploymentCreate deployment w in jq_Enqueue (ss_queue s) job w)"

definition ScheduleDelete :: "'a env_scheme SchedulerService \<Rightarrow> Deployment \<Rightarrow> (unit, 'a env_scheme) op" where
  "ScheduleDelete s deployment w =
     (let (job, w) = newJob JobTypeDeploymentDelete deployment w in jq_Enqueue (ss_queue s) job w)"

definition ScheduleSync :: "'a env_scheme SchedulerService \<Rightarrow> Deployment \<Rightarrow> (unit, 'a env_scheme) op" where
  "ScheduleSync s deployment w =
     (let (job, w) = newJob JobTypeDeploymentSync deployment w
      in case jq_JobScheduler (ss_queue s) of
           Some js \<Rightarrow> js_EnqueueAfter js job (2 * second) w
         | None \<Rightarrow> jq_Enqueue (ss_queue s) job w)"

definition NewSchedulerService :: "'a env_scheme JobQueue \<Rightarrow> 'a env_scheme Scheduler" where
  "NewSchedulerService q =
     (let s = \<lparr>ss_queue = q\<rparr>
      in \<lparr>sch_ScheduleDeployment = ScheduleDeployment s, sch_ScheduleDelete = ScheduleDelete s,
          sch_ScheduleSync = ScheduleSync s\<rparr>)"

section \<open>Deployment service\<close>

record 'w DeploymentService =
  ds_apps :: "'w AppRepository"
  ds_deployments :: "'w DeploymentRepository"
  ds_events :: "'w EventRepository"
  ds_scheduler :: "'w Scheduler"
  ds_backend :: "'w DeploymentBackend option"
  ds_backendName :: string

definition NewDeploymentService ::
  "'w AppRepository \<Rightarrow> 'w DeploymentRepository \<Rightarrow> 'w EventRepository \<Rightarrow> 'w Scheduler \<Rightarrow> 'w DeploymentService" where
  "NewDeploymentService a d e s =
     \<lparr>ds_apps = a, ds_deployments = d, ds_events = e, ds_scheduler = s, ds_backend = None,
      ds_backendName = ''kubernetes''\<rparr>"

definition SetBackend :: "'w DeploymentService \<Rightarrow> 'w DeploymentBackend option \<Rightarrow> 'w DeploymentService" where
  "SetBackend s b =
     (case b of None \<Rightarrow> s\<lparr>ds_backend := None\<rparr>
      | Some backend \<Rightarrow> s\<lparr>ds_backend := Some backend, ds_backendName := be_Name backend\<rparr>)"

definition BackendCapabilities_of :: "'w DeploymentService \<Rightarrow> BackendCapabilities" where
  "BackendCapabilities_of s =
     (case ds_backend s of
        None \<Rightarrow> \<lparr>caps_Name = ds_backendName s, caps_DisplayName = ds_backendName s, caps_Capabilities = [],
                 caps_Notes = []\<rparr>
      | Some backend \<Rightarrow> be_Capabilities backend)"

definition PlanDeployment :: "'w DeploymentService \<Rightarrow> Actor \<Rightarrow> string \<Rightarrow> (DeploymentPlan, 'w) op" where
  "PlanDeployment s actor appID =
     (case ds_backend s of
        None \<Rightarrow> fail ErrValidation
      | Some backend \<Rightarrow>
          bindE (ar_GetByID (ds_apps s) (actor_TenantID actor) appID) (\<lambda>app.
          bindE (dr_NextVersion (ds_deployments s) (actor_TenantID actor) appID) (\<lambda>version.
          be_Plan backend app version)))"

definition newEvent ::
  "Deployment \<Rightarrow> string \<Rightarrow> string \<Rightarrow> time \<Rightarrow> 'a env_scheme \<Rightarrow> DeploymentEvent \<times> 'a env_scheme" where
  "newEvent deployment typ message at w =
     (let (uid, w) = NewUUID w
      in (\<lparr>ev_ID = uid, ev_DeploymentID = dep_ID deployment, ev_TenantID = dep_TenantID deployment,
           ev_Type = typ, ev_Message = message, ev_CreatedAt = at\<rparr>, w))"

definition newEventNow ::
  "Deployment \<Rightarrow> string \<Rightarrow> string \<Rightarrow> 'a env_scheme \<Rightarrow> DeploymentEvent \<times> 'a env_scheme" where
  "newEventNow deployment typ message w =
     (let (uid, w) = NewUUID w;
          (at, w) = Now w
      in (\<lparr>ev_ID = uid, ev_DeploymentID = dep_ID deployment, ev_TenantID = dep_TenantID deployment,
           ev_Type = typ, ev_Message = message, ev_CreatedAt = at\<rparr>, w))"

definition CreateDeployment ::
  "'a env_scheme DeploymentService \<Rightarrow> Actor \<Rightarrow> string \<Rightarrow> (Deployment, 'a env_scheme) op" where
  "CreateDeployment s actor appID =
     bindE (ar_GetByID (ds_apps s) (actor_TenantID actor) appID) (\<lambda>app.
     bindE (dr_NextVersion (ds_deployments s) (actor_TenantID actor) appID) (\<lambda>version w.
       let (now, w) = Now w;
           (uid, w) = NewUUID w;
           deployment =
             \<lparr>dep_ID = uid, dep_TenantID = actor_TenantID actor, dep_AppID = app_ID app, dep_Version = version,
              dep_ImageRef = cfg_Image (app_Config app), dep_ConfigSnapshot = app_Config app,
              dep_Status = DeploymentStatusQueued, dep_StatusReason = [], dep_Backend = ds_backendName s,
              dep_BackendRef = zeroBackendRef, dep_RequestedBy = actor_UserID actor, dep_RepairAttempts = 0,
              dep_StartedAt = None, dep_FinishedAt = None, dep_CreatedAt = now, dep_UpdatedAt = now\<rparr>
       in bindE (dr_Create (ds_deployments s) deployment) (\<lambda>_ w.
            let (event, w) = newEvent deployment ''queued'' ''deployment queued'' now w
            in bindE (er_Create (ds_events s) event) (\<lambda>_.
               bindE (sch_ScheduleDeployment (ds_scheduler s) deployment) (\<lambda>_.
               ret deployment)) w) w))"

definition GetDeployment :: "'w DeploymentService \<Rightarrow> Actor \<Rightarrow> string \<Rightarrow> (Deployment, 'w) op" where
  "GetDeployment s actor deploymentID = dr_GetByID (ds_deployments s) (actor_TenantID actor) deploymentID"

definition ListDeployments :: "'w DeploymentService \<Rightarrow> Actor \<Rightarrow> string \<Rightarrow> (Deployment list, 'w) op" where
  "ListDeployments s actor appID = dr_ListByApp (ds_deployments s) (actor_TenantID actor) appID"

definition ListEvents :: "'w DeploymentService \<Rightarrow> Actor \<Rightarrow> string \<Rightarrow> (DeploymentEvent list, 'w) op" where
  "ListEvents s actor deploymentID = er_ListByDeployment (ds_events s) (actor_TenantID actor) deploymentID"

definition RetryDeployment ::
  "'a env_scheme DeploymentService \<Rightarrow> Actor \<Rightarrow> string \<Rightarrow> (Deployment, 'a env_scheme) op" where
  "RetryDeployment s actor deploymentID =
     bindE (dr_GetByID (ds_deployments s) (actor_TenantID actor) deploymentID) (\<lambda>deployment w.
       if dep_Status deployment \<noteq> DeploymentStatusFailed \<and> dep_Status deployment \<noteq> DeploymentStatusCancelled
       then (Inl ErrValidation, w)
       else
         let (now, w) = Now w;
             deployment = deployment\<lparr>dep_Status := DeploymentStatusQueued, dep_StatusReason := [],
               dep_FinishedAt := None, dep_RepairAttempts := 0, dep_UpdatedAt := now\<rparr>
         in bindE (dr_Update (ds_deployments s) deployment) (\<lambda>_ w.
              let (event, w) = newEventNow deployment ''retry_queued'' ''deployment retry queued'' w
              in bindE (er_Create (ds_events s) event) (\<lambda>_.
                 bindE (sch_ScheduleDeployment (ds_scheduler s) deployment) (\<lambda>_.
                 ret deployment)) w) w)"

text \<open>The fields \<^verbatim>\<open>MarkDeploymentStatus\<close> writes.\<close>

definition marked :: "time \<Rightarrow> DeploymentStatus \<Rightarrow> string \<Rightarrow> Deployment \<Rightarrow> Deployment" where
  "marked now status reason deployment =
     (let d = deployment\<lparr>dep_Status := status, dep_StatusReason := reason, dep_UpdatedAt := now\<rparr>;
          d = (if status = DeploymentStatusProvisioning \<and> dep_StartedAt d = None
               then d\<lparr>dep_StartedAt := Some now\<rparr> else d);
          d = (if status = DeploymentStatusRunning then d\<lparr>dep_RepairAttempts := 0\<rparr> else d)
      in if status = DeploymentStatusRunning \<or> status = DeploymentStatusFailed \<or>
            status = DeploymentStatusCancelled \<or> status = DeploymentStatusDeleted
         then d\<lparr>dep_FinishedAt := Some now\<rparr> else d)"

definition MarkDeploymentStatus ::
  "'a env_scheme DeploymentService \<Rightarrow> Deployment \<Rightarrow> DeploymentStatus \<Rightarrow> string \<Rightarrow> 'a env_scheme
    \<Rightarrow> ((error + unit) \<times> Deployment) \<times> 'a env_scheme" where
  "MarkDeploymentStatus s deployment status reason w =
     (let (now, w) = Now w;
          deployment = marked now status reason deployment;
          (r, w) = bindE (dr_Update (ds_deployments s) deployment) (\<lambda>_ w.
                     let (event, w) = newEvent deployment (status_string status) reason now w
                     in er_Create (ds_events s) event w) w
      in ((r, deployment), w))"

definition QueueAutoRepair ::
  "'a env_scheme DeploymentService \<Rightarrow> Deployment \<Rightarrow> string \<Rightarrow> 'a env_scheme
    \<Rightarrow> ((error + unit) \<times> Deployment) \<times> 'a env_scheme" where
  "QueueAutoRepair s deployment reason w =
     (let policy = normalizeReliability (cfg_Reliability (dep_ConfigSnapshot deployment));
          deployment = deployment\<lparr>dep_ConfigSnapshot := (dep_ConfigSnapshot deployment)
            \<lparr>cfg_Reliability := (cfg_Reliability (dep_ConfigSnapshot deployment))
              \<lparr>rel_FallbackProviders := rel_FallbackProviders policy\<rparr>\<rparr>\<rparr>
      in if \<not> rel_AutoRepair policy then ((Inl ErrValidation, deployment), w)
         else
           let policy = (if rel_MaxRepairAttempts policy \<le> 0 then policy\<lparr>rel_MaxRepairAttempts := 3\<rparr> else policy)
           in if dep_RepairAttempts deployment \<ge> rel_MaxRepairAttempts policy
              then MarkDeploymentStatus s deployment DeploymentStatusFailed
                     (''auto-repair limit reached: '' @ reason) w
              else
                let (now, w) = Now w;
                    deployment = deployment\<lparr>dep_RepairAttempts := dep_RepairAttempts deployment + 1,
                      dep_Status := DeploymentStatusRecovering,
                      dep_StatusReason := ''auto-repair queued: '' @ reason,
                      dep_FinishedAt := None, dep_UpdatedAt := now\<rparr>;
                    (r, w) = bindE (dr_Update (ds_deployments s) deployment) (\<lambda>_ w.
                               let (event, w) = newEvent deployment ''auto_repair_queued''
                                     (dep_StatusReason deployment) now w
                               in bindE (er_Create (ds_events s) event) (\<lambda>_.
                                  sch_ScheduleDeployment (ds_scheduler s) deployment) w) w
                in ((r, deployment), w))"

definition CancelDeployment ::
  "'a env_scheme DeploymentService \<Rightarrow> Actor \<Rightarrow> string \<Rightarrow> (Deployment, 'a env_scheme) op" where
  "CancelDeployment s actor deploymentID =
     bindE (dr_GetByID (ds_deployments s) (actor_TenantID actor) deploymentID) (\<lambda>deployment w.
       if dep_Status deployment \<notin> {DeploymentStatusQueued, DeploymentStatusProvisioning}
       then (Inl ErrValidation, w)
       else case MarkDeploymentStatus s deployment DeploymentStatusCancelled ''deployment cancelled'' w of
              ((Inl e, _), w) \<Rightarrow> (Inl e, w)
            | ((Inr _, deployment), w) \<Rightarrow> (Inr deployment, w))"

definition DeleteDeployment ::
  "'a env_scheme DeploymentService \<Rightarrow> Actor \<Rightarrow> string \<Rightarrow> (Deployment, 'a env_scheme) op" where
  "DeleteDeployment s actor deploymentID =
     bindE (dr_GetByID (ds_deployments s) (actor_TenantID actor) deploymentID) (\<lambda>deployment w.
       if dep_Status deployment = DeploymentStatusDeleted \<or> dep_Status deployment = DeploymentStatusDeleting
       then (Inr deployment, w)
       else case MarkDeploymentStatus s deployment DeploymentStatusDeleting ''deployment deletion queued'' w of
              ((Inl e, _), w) \<Rightarrow> (Inl e, w)
            | ((Inr _, deployment), w) \<Rightarrow>
                bindE (sch_ScheduleDelete (ds_scheduler s) deployment) (\<lambda>_. ret deployment) w)"

section \<open>What an operation does to the plane\<close>

definition serves ::
  "'w AppRepository \<Rightarrow> 'w DeploymentRepository \<Rightarrow> 'w EventRepository \<Rightarrow> 'w Scheduler \<Rightarrow> 'w DeploymentService \<Rightarrow> bool" where
  "serves a d e sc s \<longleftrightarrow> ds_apps s = a \<and> ds_deployments s = d \<and> ds_events s = e \<and> ds_scheduler s = sc"

text \<open>A job for a deployment, and an event of it.\<close>

definition job_for :: "JobType \<Rightarrow> Deployment \<Rightarrow> Job \<Rightarrow> bool" where
  "job_for typ d j \<longleftrightarrow> job_Type j = typ \<and> job_TenantID j = dep_TenantID d \<and> job_AppID j = dep_AppID d \<and>
     job_DeploymentID j = dep_ID d \<and> job_Attempts j = 0"

definition event_of :: "Deployment \<Rightarrow> string \<Rightarrow> string \<Rightarrow> DeploymentEvent \<Rightarrow> bool" where
  "event_of d typ msg e \<longleftrightarrow> ev_DeploymentID e = dep_ID d \<and> ev_TenantID e = dep_TenantID d \<and> ev_Type e = typ \<and>
     ev_Message e = msg"

text \<open>The deployment is written and the event recorded; what is left when a call on the way fails.\<close>

definition logged :: "Deployment \<Rightarrow> string \<Rightarrow> string \<Rightarrow> view \<Rightarrow> view \<Rightarrow> bool" where
  "logged d typ msg v v' \<longleftrightarrow> (\<exists>e. event_of d typ msg e \<and> v' = put_event e (put_dep d v))"

definition touches :: "Deployment \<Rightarrow> view \<Rightarrow> view \<Rightarrow> bool" where
  "touches d v v' \<longleftrightarrow> v' = v \<or> v' = put_dep d v \<or> (\<exists>e. ev_DeploymentID e = dep_ID d \<and> v' = put_event e (put_dep d v))"

definition queues :: "JobType \<Rightarrow> Deployment \<Rightarrow> bag \<Rightarrow> bag \<Rightarrow> bool" where
  "queues typ d b b' \<longleftrightarrow> (\<exists>j. job_for typ d j \<and> b' = b_enq j b)"

lemma logged_touches: "logged d typ msg v v' \<Longrightarrow> touches d v v'"
  by (auto simp: logged_def touches_def event_of_def)

lemma touches_refl [simp]: "touches d v v"
  by (simp add: touches_def)

lemma touches_ok: "touches d v v' \<Longrightarrow> ok_view v \<Longrightarrow> ok_view v'"
  by (auto simp: touches_def ok_view_put_dep)

lemma touches_others:
  "touches d v v' \<Longrightarrow> v_deps v (dep_ID d) = Some d0 \<Longrightarrow> dep_TenantID d0 = t \<Longrightarrow> others_kept t v v'"
  by (auto simp: touches_def intro!: others_kept_put_dep)

lemma marked_simps [simp]:
  "dep_ID (marked now st rsn d) = dep_ID d" "dep_TenantID (marked now st rsn d) = dep_TenantID d"
  "dep_AppID (marked now st rsn d) = dep_AppID d" "dep_Version (marked now st rsn d) = dep_Version d"
  "dep_Status (marked now st rsn d) = st" "dep_StatusReason (marked now st rsn d) = rsn"
  "dep_ConfigSnapshot (marked now st rsn d) = dep_ConfigSnapshot d"
  "dep_BackendRef (marked now st rsn d) = dep_BackendRef d" "dep_UpdatedAt (marked now st rsn d) = now"
  "dep_RepairAttempts (marked now st rsn d) = (if st = DeploymentStatusRunning then 0 else dep_RepairAttempts d)"
  by (simp_all add: marked_def Let_def)

lemma newJob_for: "newJob typ d w = (j, w') \<Longrightarrow> job_for typ d j \<and> env.more w' = env.more w"
  using more_NewUUID [of w] more_Now [of "snd (NewUUID w)"]
  by (auto simp: newJob_def job_for_def Let_def split_beta)

lemma newEvent_of: "newEvent d typ msg at w = (e, w') \<Longrightarrow> event_of d typ msg e \<and> env.more w' = env.more w"
  using more_NewUUID [of w] by (auto simp: newEvent_def event_of_def Let_def split_beta)

lemma newEventNow_of: "newEventNow d typ msg w = (e, w') \<Longrightarrow> event_of d typ msg e \<and> env.more w' = env.more w"
  using more_NewUUID [of w] more_Now [of "snd (NewUUID w)"]
  by (auto simp: newEventNow_def event_of_def Let_def split_beta)

lemma more_NowD: "Now w = (t, w') \<Longrightarrow> env.more w' = env.more w"
  using more_Now [of w] by simp

lemma more_NewUUID_D: "NewUUID w = (t, w') \<Longrightarrow> env.more w' = env.more w"
  using more_NewUUID [of w] by simp

text \<open>The outcome of a tenant's request on deployment \<open>i\<close>: refused with nothing changed, or the tenant's own
  deployment, in a status that admits the request, was written and its event and job recorded, with what
  may be missing when a call on the way failed.\<close>

definition outcome ::
  "string \<Rightarrow> string \<Rightarrow> DeploymentStatus set \<Rightarrow> (Deployment \<Rightarrow> Deployment \<Rightarrow> bool) \<Rightarrow> string \<Rightarrow> string \<Rightarrow> JobType option
    \<Rightarrow> error + Deployment \<Rightarrow> view \<Rightarrow> bag \<Rightarrow> view \<Rightarrow> bag \<Rightarrow> bool" where
  "outcome t i from P ty msg jt r v b v' b' \<longleftrightarrow>
     (\<exists>e. r = Inl e \<and> v' = v \<and> b' = b) \<or>
     (\<exists>d d'. v_deps v i = Some d \<and> dep_TenantID d = t \<and> dep_Status d \<in> from \<and> P d d' \<and>
        (r = Inr d' \<and> logged d' ty msg v v' \<and> (case jt of None \<Rightarrow> b' = b | Some j \<Rightarrow> queues j d' b b') \<or>
         (\<exists>e. r = Inl e) \<and> touches d' v v' \<and> (b' = b \<or> (\<exists>j. jt = Some j \<and> queues j d' b b'))))"

definition requeued :: "Deployment \<Rightarrow> Deployment \<Rightarrow> bool" where
  "requeued d d' \<longleftrightarrow> (\<exists>now. d' = d\<lparr>dep_Status := DeploymentStatusQueued, dep_StatusReason := [],
     dep_FinishedAt := None, dep_RepairAttempts := 0, dep_UpdatedAt := now\<rparr>)"

definition marked_as :: "DeploymentStatus \<Rightarrow> string \<Rightarrow> Deployment \<Rightarrow> Deployment \<Rightarrow> bool" where
  "marked_as st rsn d d' \<longleftrightarrow> (\<exists>now. d' = marked now st rsn d)"

lemma outcome_intros:
  assumes "v_deps v i = Some d" "dep_TenantID d = t" "dep_Status d \<in> from" "P d d'"
  shows "logged d' ty msg v v' \<Longrightarrow> queues j d' b b' \<Longrightarrow> outcome t i from P ty msg (Some j) (Inr d') v b v' b'"
    and "touches d' v v' \<Longrightarrow> b' = b \<or> queues j d' b b' \<Longrightarrow> outcome t i from P ty msg (Some j) (Inl e) v b v' b'"
  using assms by (auto simp: outcome_def)

lemma outcome_safe:
  assumes "outcome t i from P ty msg jt r v b v' b'" and "ok_view v"
    and "\<And>d d'. P d d' \<Longrightarrow> dep_ID d' = dep_ID d \<and> dep_TenantID d' = dep_TenantID d"
  shows "ok_view v' \<and> others_kept t v v' \<and> (\<forall>d. r = Inr d \<longrightarrow> dep_TenantID d = t \<and> v_deps v' i = Some d)"
proof -
  have "ok_view v' \<and> others_kept t v v' \<and> dep_ID d' = i \<and> dep_TenantID d' = t"
    if "v_deps v i = Some d" "dep_TenantID d = t" "P d d'" "touches d' v v'" for d d'
  proof -
    from that assms(3) ok_view_ids(2) [OF assms(2)] have "dep_ID d' = i" "dep_TenantID d' = t" by auto
    with that touches_ok [OF that(4) assms(2)] touches_others [OF that(4)] show ?thesis by auto
  qed
  note T = this
  from assms(1) consider (refused) e where "r = Inl e" "v' = v"
    | (written) d d' where "v_deps v i = Some d" "dep_TenantID d = t" "P d d'" "r = Inr d'" "logged d' ty msg v v'"
    | (partial) d d' e where "v_deps v i = Some d" "dep_TenantID d = t" "P d d'" "r = Inl e" "touches d' v v'"
    unfolding outcome_def by blast
  then show ?thesis
  proof cases
    case refused
    with assms(2) show ?thesis by simp
  next
    case written
    with T [OF written(1-3) logged_touches [OF written(5)]] show ?thesis by (auto simp: logged_def)
  next
    case partial
    with T [OF partial(1-3) partial(5)] show ?thesis by simp
  qed
qed

lemma bindE_ret_tail:
  "bindE p (\<lambda>_ w. case mk w of (e, w) \<Rightarrow> bindE (c e) (\<lambda>_. bindE q (\<lambda>_. ret d)) w) w =
     (case bindE p (\<lambda>_ w. case mk w of (e, w) \<Rightarrow> bindE (c e) (\<lambda>_. q) w) w of
        (Inl x, w') \<Rightarrow> (Inl x, w') | (Inr _, w') \<Rightarrow> (Inr d, w'))"
  by (simp add: bindE_def ret_def split: prod.splits sum.splits)

text \<open>The deployment a request for app \<open>a\<close> creates.\<close>

definition snapshot_of :: "App \<Rightarrow> Deployment \<Rightarrow> bool" where
  "snapshot_of a d \<longleftrightarrow> dep_TenantID d = app_TenantID a \<and> dep_AppID d = app_ID a \<and> dep_ImageRef d = cfg_Image (app_Config a) \<and>
     dep_ConfigSnapshot d = app_Config a \<and> dep_Status d = DeploymentStatusQueued \<and> dep_RepairAttempts d = 0 \<and>
     dep_BackendRef d = zeroBackendRef \<and> dep_StartedAt d = None \<and> dep_FinishedAt d = None"

definition created ::
  "string \<Rightarrow> string \<Rightarrow> error + Deployment \<Rightarrow> view \<Rightarrow> bag \<Rightarrow> view \<Rightarrow> bag \<Rightarrow> bool" where
  "created t i r v b v' b' \<longleftrightarrow>
     (\<exists>e. r = Inl e \<and> v' = v \<and> b' = b) \<or>
     (\<exists>a d. v_apps v i = Some a \<and> app_TenantID a = t \<and> snapshot_of a d \<and>
        (r = Inr d \<and> logged d ''queued'' ''deployment queued'' v v' \<and> queues JobTypeDeploymentCreate d b b' \<or>
         (\<exists>e. r = Inl e) \<and> touches d v v' \<and> (b' = b \<or> queues JobTypeDeploymentCreate d b b')))"

text \<open>What an auto-repair makes of a deployment under its policy.\<close>

definition repaired :: "Deployment \<Rightarrow> Deployment \<Rightarrow> bool" where
  "repaired d d' \<longleftrightarrow> dep_ID d' = dep_ID d \<and> dep_TenantID d' = dep_TenantID d \<and> dep_AppID d' = dep_AppID d \<and>
     dep_Version d' = dep_Version d \<and> dep_BackendRef d' = dep_BackendRef d \<and>
     normalizeReliability (cfg_Reliability (dep_ConfigSnapshot d')) =
       normalizeReliability (cfg_Reliability (dep_ConfigSnapshot d)) \<and>
     (dep_RepairAttempts d' = dep_RepairAttempts d \<or>
      dep_RepairAttempts d' = dep_RepairAttempts d + 1 \<and> dep_Status d' = DeploymentStatusRecovering \<and>
        dep_RepairAttempts d' \<le> rel_MaxRepairAttempts (normalizeReliability (cfg_Reliability (dep_ConfigSnapshot d))))"

lemma normalizeReliability_fallbacks:
  "normalizeReliability (p\<lparr>rel_FallbackProviders := rel_FallbackProviders (normalizeReliability p)\<rparr>) = normalizeReliability p"
proof -
  have idem: "normFallbacks i (normFallbacks i ps) = normFallbacks i ps" for i ps
    using normFallbacks_wf by (intro normFallbacks_id) blast
  have len: "length (normFallbacks i ps) = length ps" for i ps
    by (induction i ps rule: normFallbacks.induct) (auto simp: Let_def)
  then have nil: "normFallbacks i ps = [] \<longleftrightarrow> ps = []" for i ps
    by (metis length_0_conv)
  show ?thesis by (simp add: normalizeReliability_def Let_def idem nil)
qed

context control_plane
begin

lemma env_frame: "env.more w' = env.more w \<Longrightarrow> abs w' = abs w \<and> bag w' = bag w"
  using abs_env bag_env by blast

lemma enqueue_job:
  assumes "job_for typ d j" and "jq_Enqueue Q j w = (r, w')"
  shows "abs w' = abs w \<and> (queues typ d (bag w) (bag w') \<or> (\<exists>e. r = Inl e) \<and> bag w' = bag w)"
  using abs_queue(1) [OF assms(2)] enqueue [OF assms(2)] assms(1) by (auto simp: queues_def)

lemma schedule_create:
  assumes "sch_ScheduleDeployment (NewSchedulerService Q) d w = (r, w')"
  shows "abs w' = abs w \<and> (queues JobTypeDeploymentCreate d (bag w) (bag w') \<or> (\<exists>e. r = Inl e) \<and> bag w' = bag w)"
proof -
  obtain j w1 where j: "newJob JobTypeDeploymentCreate d w = (j, w1)" by fastforce
  with newJob_for [OF j] env_frame [of w1 w] enqueue_job [of JobTypeDeploymentCreate d j w1 r w'] assms
  show ?thesis by (simp add: NewSchedulerService_def Let_def ScheduleDeployment_def)
qed

lemma schedule_delete:
  assumes "sch_ScheduleDelete (NewSchedulerService Q) d w = (r, w')"
  shows "abs w' = abs w \<and> (queues JobTypeDeploymentDelete d (bag w) (bag w') \<or> (\<exists>e. r = Inl e) \<and> bag w' = bag w)"
proof -
  obtain j w1 where j: "newJob JobTypeDeploymentDelete d w = (j, w1)" by fastforce
  with newJob_for [OF j] env_frame [of w1 w] enqueue_job [of JobTypeDeploymentDelete d j w1 r w'] assms
  show ?thesis by (simp add: NewSchedulerService_def Let_def ScheduleDelete_def)
qed

lemma schedule_sync:
  assumes "sch_ScheduleSync (NewSchedulerService Q) d w = (r, w')"
  shows "abs w' = abs w \<and> (queues JobTypeDeploymentSync d (bag w) (bag w') \<or> (\<exists>e. r = Inl e) \<and> bag w' = bag w)"
proof -
  obtain j w1 where j: "newJob JobTypeDeploymentSync d w = (j, w1)" by fastforce
  with assms scheduler have e: "js_EnqueueAfter sched j (2 * second) w1 = (r, w')"
    by (simp add: NewSchedulerService_def Let_def ScheduleSync_def)
  from abs_queue(2) [OF e] enqueue_after [OF e] newJob_for [OF j] env_frame [of w1 w]
  show ?thesis by (auto simp: queues_def)
qed

text \<open>Writing a deployment and its event, the tail of every operation.\<close>

lemma put_and_log:
  assumes put: "\<And>w r w'. put w = (r, w') \<Longrightarrow> all_or_nothing (put_dep d) (abs w) r (abs w') \<and> bag w' = bag w"
    and mk: "\<And>w e w'. mk w = (e, w') \<Longrightarrow> event_of d typ msg e \<and> env.more w' = env.more w"
    and run: "bindE put (\<lambda>_ w. let (e, w) = mk w in er_Create E e w) w = (r, w')"
  shows "bag w' = bag w \<and> (if r = Inr () then logged d typ msg (abs w) (abs w') else touches d (abs w) (abs w'))"
proof -
  obtain r1 w1 where u: "put w = (r1, w1)" by fastforce
  note upd = put [OF u]
  show ?thesis
  proof (cases r1)
    case (Inl e)
    with u upd run show ?thesis by (auto simp: all_or_nothing_def)
  next
    case (Inr x)
    obtain ev w2 where n: "mk w1 = (ev, w2)" by fastforce
    with Inr u run have c: "er_Create E ev w2 = (r, w')" by simp
    from mk [OF n] env_frame [of w2 w1] upd Inr
    have "abs w2 = put_dep d (abs w)" "bag w2 = bag w" "event_of d typ msg ev"
      by (auto simp: all_or_nothing_def)
    with event_create [OF c] bag_records(9) [OF c] show ?thesis
      by (cases r) (auto simp: all_or_nothing_def logged_def touches_def event_of_def)
  qed
qed

lemma put_log_schedule:
  assumes put: "\<And>w r w'. put w = (r, w') \<Longrightarrow> all_or_nothing (put_dep d) (abs w) r (abs w') \<and> bag w' = bag w"
    and mk: "\<And>w e w'. mk w = (e, w') \<Longrightarrow> event_of d typ msg e \<and> env.more w' = env.more w"
    and run: "bindE put (\<lambda>_ w. let (e, w) = mk w
       in bindE (er_Create E e) (\<lambda>_. sch_ScheduleDeployment (NewSchedulerService Q) d) w) w = (r, w')"
  shows "if r = Inr () then logged d typ msg (abs w) (abs w') \<and> queues JobTypeDeploymentCreate d (bag w) (bag w')
     else touches d (abs w) (abs w') \<and> (bag w' = bag w \<or> queues JobTypeDeploymentCreate d (bag w) (bag w'))"
proof -
  obtain r1 w1 where t: "bindE put (\<lambda>_ w. let (e, w) = mk w in er_Create E e w) w = (r1, w1)" by fastforce
  have same: "bindE put (\<lambda>_ w. let (e, w) = mk w
             in bindE (er_Create E e) (\<lambda>_. sch_ScheduleDeployment (NewSchedulerService Q) d) w) w =
      (case r1 of Inl e \<Rightarrow> (Inl e, w1) | Inr _ \<Rightarrow> sch_ScheduleDeployment (NewSchedulerService Q) d w1)"
    using t by (auto simp: bindE_def split: prod.splits sum.splits)
  note u = put_and_log [OF put mk t]
  show ?thesis
  proof (cases r1)
    case (Inl e)
    with same run u show ?thesis by auto
  next
    case (Inr x)
    with same run have "sch_ScheduleDeployment (NewSchedulerService Q) d w1 = (r, w')" by simp
    from schedule_create [OF this] u Inr show ?thesis by (auto dest: logged_touches)
  qed
qed

lemma update_puts: "dr_Update D d w = (r, w') \<Longrightarrow> all_or_nothing (put_dep d) (abs w) r (abs w') \<and> bag w' = bag w"
  using dep_update bag_records(5) by blast

lemma create_puts: "dr_Create D d w = (r, w') \<Longrightarrow> all_or_nothing (put_dep d) (abs w) r (abs w') \<and> bag w' = bag w"
  using dep_create bag_records(4) by blast

lemma now_frame: "Now w = (now, w1) \<Longrightarrow> abs w1 = abs w \<and> bag w1 = bag w"
  by (rule env_frame) (rule more_NowD)

lemma uuid_frame: "NewUUID w = (i, w1) \<Longrightarrow> abs w1 = abs w \<and> bag w1 = bag w"
  by (rule env_frame) (rule more_NewUUID_D)

lemma mark_view:
  assumes "serves A D E sc s" and "MarkDeploymentStatus s d st rsn w = ((r, d'), w')"
  shows "bag w' = bag w \<and> (\<exists>now. d' = marked now st rsn d) \<and>
     (if r = Inr () then logged d' (status_string st) rsn (abs w) (abs w') else touches d' (abs w) (abs w'))"
proof -
  obtain now w1 where n: "Now w = (now, w1)" by fastforce
  define d1 where "d1 = marked now st rsn d"
  obtain r1 w2 where run: "bindE (dr_Update D d1) (\<lambda>_ w. let (e, w) = newEvent d1 (status_string st) rsn now w
     in er_Create E e w) w1 = (r1, w2)" by fastforce
  have "MarkDeploymentStatus s d st rsn w = ((r1, d1), w2)"
    using assms(1) n run by (simp add: MarkDeploymentStatus_def serves_def d1_def Let_def)
  with assms(2) put_and_log [OF update_puts newEvent_of run] now_frame [OF n] show ?thesis
    by (auto simp: d1_def)
qed

lemma retry_outcome:
  assumes sv: "serves A D E (NewSchedulerService Q) s"
    and run: "RetryDeployment s actor i w = (r, w')"
  shows "outcome (actor_TenantID actor) i {DeploymentStatusFailed, DeploymentStatusCancelled} requeued
     ''retry_queued'' ''deployment retry queued'' (Some JobTypeDeploymentCreate) r (abs w) (bag w) (abs w') (bag w')"
proof -
  obtain r1 w1 where g: "dr_GetByID D (actor_TenantID actor) i w = (r1, w1)" by fastforce
  note get = dep_get [OF g] bag_records(6) [OF g]
  have sv': "ds_deployments s = D" "ds_events s = E" "ds_scheduler s = NewSchedulerService Q"
    using sv by (simp_all add: serves_def)
  show ?thesis
  proof (cases r1)
    case (Inl e)
    with g get run sv' show ?thesis by (auto simp: RetryDeployment_def outcome_def)
  next
    case (Inr d)
    show ?thesis
    proof (cases "dep_Status d \<in> {DeploymentStatusFailed, DeploymentStatusCancelled}")
      case False
      with Inr g get run sv' show ?thesis by (auto simp: RetryDeployment_def outcome_def)
    next
      case True
      obtain now w2 where n: "Now w1 = (now, w2)" by fastforce
      define d' where "d' = d\<lparr>dep_Status := DeploymentStatusQueued, dep_StatusReason := [], dep_FinishedAt := None,
        dep_RepairAttempts := 0, dep_UpdatedAt := now\<rparr>"
      obtain r3 w3 where b: "bindE (dr_Update D d') (\<lambda>_ w. let (e, w) = newEventNow d' ''retry_queued'' ''deployment retry queued'' w
         in bindE (er_Create E e) (\<lambda>_. sch_ScheduleDeployment (NewSchedulerService Q) d') w) w2 = (r3, w3)" by fastforce
      have "RetryDeployment s actor i w = (case r3 of Inl e \<Rightarrow> (Inl e, w3) | Inr _ \<Rightarrow> (Inr d', w3))"
        using True Inr g n b sv' by (auto simp: RetryDeployment_def d'_def [symmetric] bindE_ret_tail split: sum.split)
      moreover note put_log_schedule [OF update_puts newEventNow_of b]
      moreover have "requeued d d'" by (auto simp: requeued_def d'_def)
      ultimately show ?thesis
        using run get Inr True now_frame [OF n] by (auto simp: outcome_def split: sum.splits if_splits)
    qed
  qed
qed

lemma cancel_outcome:
  assumes sv: "serves A D E sc s"
    and run: "CancelDeployment s actor i w = (r, w')"
  shows "outcome (actor_TenantID actor) i {DeploymentStatusQueued, DeploymentStatusProvisioning}
     (marked_as DeploymentStatusCancelled ''deployment cancelled'')
     ''cancelled'' ''deployment cancelled'' None r (abs w) (bag w) (abs w') (bag w')"
proof -
  obtain r1 w1 where g: "dr_GetByID D (actor_TenantID actor) i w = (r1, w1)" by fastforce
  note get = dep_get [OF g] bag_records(6) [OF g]
  have sv': "ds_deployments s = D" using sv by (simp add: serves_def)
  show ?thesis
  proof (cases "\<exists>d. r1 = Inr d \<and> dep_Status d \<in> {DeploymentStatusQueued, DeploymentStatusProvisioning}")
    case False
    with g get run sv' show ?thesis by (cases r1) (auto simp: CancelDeployment_def outcome_def)
  next
    case True
    then obtain d where d: "r1 = Inr d" "dep_Status d \<in> {DeploymentStatusQueued, DeploymentStatusProvisioning}" by blast
    obtain r2 d' w2 where m: "MarkDeploymentStatus s d DeploymentStatusCancelled ''deployment cancelled'' w1 = ((r2, d'), w2)"
      by (metis surj_pair)
    from mark_view [OF sv m] have "marked_as DeploymentStatusCancelled ''deployment cancelled'' d d'"
      by (auto simp: marked_as_def)
    with mark_view [OF sv m] get d g run m sv' show ?thesis
      by (cases r2) (auto simp: CancelDeployment_def outcome_def)
  qed
qed

lemma delete_outcome:
  assumes sv: "serves A D E (NewSchedulerService Q) s"
    and run: "DeleteDeployment s actor i w = (r, w')"
  shows "(\<exists>d. r = Inr d \<and> v_deps (abs w) i = Some d \<and> dep_TenantID d = actor_TenantID actor \<and>
            dep_Status d \<in> {DeploymentStatusDeleted, DeploymentStatusDeleting} \<and> abs w' = abs w \<and> bag w' = bag w) \<or>
     outcome (actor_TenantID actor) i (- {DeploymentStatusDeleted, DeploymentStatusDeleting})
     (marked_as DeploymentStatusDeleting ''deployment deletion queued'') ''deleting'' ''deployment deletion queued''
     (Some JobTypeDeploymentDelete) r (abs w) (bag w) (abs w') (bag w')"
proof -
  obtain r1 w1 where g: "dr_GetByID D (actor_TenantID actor) i w = (r1, w1)" by fastforce
  note get = dep_get [OF g] bag_records(6) [OF g]
  have sv': "ds_deployments s = D" "ds_scheduler s = NewSchedulerService Q" using sv by (simp_all add: serves_def)
  show ?thesis
  proof (cases "\<exists>d. r1 = Inr d \<and> dep_Status d \<notin> {DeploymentStatusDeleted, DeploymentStatusDeleting}")
    case False
    with g get run sv' show ?thesis by (cases r1) (auto simp: DeleteDeployment_def outcome_def)
  next
    case True
    then obtain d where d: "r1 = Inr d" "dep_Status d \<notin> {DeploymentStatusDeleted, DeploymentStatusDeleting}" by blast
    obtain r2 d' w2 where m: "MarkDeploymentStatus s d DeploymentStatusDeleting ''deployment deletion queued'' w1 = ((r2, d'), w2)"
      by (metis surj_pair)
    obtain r3 w3 where q: "sch_ScheduleDelete (NewSchedulerService Q) d' w2 = (r3, w3)" by fastforce
    have body: "DeleteDeployment s actor i w =
        (case r2 of Inl e \<Rightarrow> (Inl e, w2) | Inr _ \<Rightarrow> (case r3 of Inl e \<Rightarrow> (Inl e, w3) | Inr _ \<Rightarrow> (Inr d', w3)))"
      using d g m sv' q by (auto simp: DeleteDeployment_def ret_def split: sum.split)
    from mark_view [OF sv m] have mk: "marked_as DeploymentStatusDeleting ''deployment deletion queued'' d d'"
      by (auto simp: marked_as_def)
    have old: "v_deps (abs w) i = Some d" "dep_TenantID d = actor_TenantID actor"
      "dep_Status d \<in> - {DeploymentStatusDeleted, DeploymentStatusDeleting}" using get d by auto
    note I = outcome_intros [where P = "marked_as DeploymentStatusDeleting ''deployment deletion queued''", OF old mk]
    note mv = mark_view [OF sv m] and sc = schedule_delete [OF q]
    show ?thesis
    proof (rule disjI2, cases r2)
      case (Inl e)
      with body run have "r = Inl e" "w' = w2" by auto
      with mv get Inl I(2) show "outcome (actor_TenantID actor) i (- {DeploymentStatusDeleted, DeploymentStatusDeleting})
         (marked_as DeploymentStatusDeleting ''deployment deletion queued'') ''deleting'' ''deployment deletion queued''
         (Some JobTypeDeploymentDelete) r (abs w) (bag w) (abs w') (bag w')" by simp
    next
      case (Inr x)
      then have l: "logged d' ''deleting'' ''deployment deletion queued'' (abs w) (abs w2)" using mv get by simp
      have "abs w3 = abs w2" "bag w2 = bag w" using mv get sc by auto
      with l sc body run Inr I(1) I(2) logged_touches [OF l]
      show "outcome (actor_TenantID actor) i (- {DeploymentStatusDeleted, DeploymentStatusDeleting})
         (marked_as DeploymentStatusDeleting ''deployment deletion queued'') ''deleting'' ''deployment deletion queued''
         (Some JobTypeDeploymentDelete) r (abs w) (bag w) (abs w') (bag w')"
        by (cases r3) auto
    qed
  qed
qed

lemma create_outcome:
  assumes sv: "serves A D E (NewSchedulerService Q) s"
    and run: "CreateDeployment s actor i w = (r, w')"
  shows "created (actor_TenantID actor) i r (abs w) (bag w) (abs w') (bag w')"
proof -
  have sv': "ds_apps s = A" "ds_deployments s = D" "ds_events s = E" "ds_scheduler s = NewSchedulerService Q"
    using sv by (simp_all add: serves_def)
  obtain r1 w1 where g: "ar_GetByID A (actor_TenantID actor) i w = (r1, w1)" by fastforce
  note get = app_get [OF g] bag_records(3) [OF g]
  obtain r2 w2 where v: "dr_NextVersion D (actor_TenantID actor) i w1 = (r2, w2)" by fastforce
  note ver = next_version [OF v] bag_records(8) [OF v]
  show ?thesis
  proof (cases "\<exists>a n. r1 = Inr a \<and> r2 = Inr n")
    case False
    with g v get ver run sv' show ?thesis
      by (cases r1; cases r2) (auto simp: CreateDeployment_def created_def)
  next
    case True
    then obtain a n where an: "r1 = Inr a" "r2 = Inr n" by blast
    obtain now w3 where t: "Now w2 = (now, w3)" by fastforce
    obtain uid w4 where u: "NewUUID w3 = (uid, w4)" by fastforce
    define d where "d = \<lparr>dep_ID = uid, dep_TenantID = actor_TenantID actor, dep_AppID = app_ID a, dep_Version = n,
      dep_ImageRef = cfg_Image (app_Config a), dep_ConfigSnapshot = app_Config a,
      dep_Status = DeploymentStatusQueued, dep_StatusReason = [], dep_Backend = ds_backendName s,
      dep_BackendRef = zeroBackendRef, dep_RequestedBy = actor_UserID actor, dep_RepairAttempts = 0,
      dep_StartedAt = None, dep_FinishedAt = None, dep_CreatedAt = now, dep_UpdatedAt = now\<rparr>"
    obtain r5 w5 where b: "bindE (dr_Create D d) (\<lambda>_ w. let (e, w) = newEvent d ''queued'' ''deployment queued'' now w
       in bindE (er_Create E e) (\<lambda>_. sch_ScheduleDeployment (NewSchedulerService Q) d) w) w4 = (r5, w5)" by fastforce
    have "CreateDeployment s actor i w = (case r5 of Inl e \<Rightarrow> (Inl e, w5) | Inr _ \<Rightarrow> (Inr d, w5))"
      using an g v t u b sv' by (simp add: CreateDeployment_def Let_def d_def [symmetric] bindE_ret_tail split: sum.split)
    moreover have "snapshot_of a d" using an get by (simp add: snapshot_of_def d_def)
    moreover note put_log_schedule [OF create_puts newEvent_of [of d "''queued''" "''deployment queued''" now] b]
    ultimately show ?thesis
      using run get ver an now_frame [OF t] uuid_frame [OF u] by (auto simp: created_def split: sum.splits if_splits)
  qed
qed

lemma repair_view:
  assumes sv: "serves A D E (NewSchedulerService Q) s"
    and run: "QueueAutoRepair s d rsn w = ((r, d'), w')"
  shows "repaired d d' \<and> touches d' (abs w) (abs w') \<and>
     (bag w' = bag w \<or> queues JobTypeDeploymentCreate d' (bag w) (bag w')) \<and>
     (r = Inr () \<longrightarrow>
        logged d' ''auto_repair_queued'' (''auto-repair queued: '' @ rsn) (abs w) (abs w') \<and>
          dep_Status d' = DeploymentStatusRecovering \<and> dep_RepairAttempts d' = dep_RepairAttempts d + 1 \<and>
          queues JobTypeDeploymentCreate d' (bag w) (bag w') \<or>
        logged d' ''failed'' (''auto-repair limit reached: '' @ rsn) (abs w) (abs w') \<and>
          dep_Status d' = DeploymentStatusFailed \<and> bag w' = bag w)"
proof -
  define pol where "pol = normalizeReliability (cfg_Reliability (dep_ConfigSnapshot d))"
  define d1 where "d1 = d\<lparr>dep_ConfigSnapshot := (dep_ConfigSnapshot d)
    \<lparr>cfg_Reliability := (cfg_Reliability (dep_ConfigSnapshot d))\<lparr>rel_FallbackProviders := rel_FallbackProviders pol\<rparr>\<rparr>\<rparr>"
  have max: "\<not> rel_MaxRepairAttempts pol \<le> 0"
    using normalizeReliability_wf [of "cfg_Reliability (dep_ConfigSnapshot d)"] by (simp add: pol_def wf_policy_def)
  have d1: "dep_ID d1 = dep_ID d" "dep_TenantID d1 = dep_TenantID d" "dep_AppID d1 = dep_AppID d"
    "dep_Version d1 = dep_Version d" "dep_BackendRef d1 = dep_BackendRef d" "dep_RepairAttempts d1 = dep_RepairAttempts d"
    "normalizeReliability (cfg_Reliability (dep_ConfigSnapshot d1)) = pol"
    using normalizeReliability_fallbacks by (simp_all add: d1_def pol_def)
  have sv': "ds_deployments s = D" "ds_events s = E" "ds_scheduler s = NewSchedulerService Q"
    using sv by (simp_all add: serves_def)
  consider (off) "\<not> rel_AutoRepair pol"
    | (limit) "rel_AutoRepair pol" "dep_RepairAttempts d \<ge> rel_MaxRepairAttempts pol"
    | (go) "rel_AutoRepair pol" "dep_RepairAttempts d < rel_MaxRepairAttempts pol" by linarith
  then show ?thesis
  proof cases
    case off
    with run d1 show ?thesis
      by (auto simp: QueueAutoRepair_def repaired_def pol_def [symmetric] d1_def [symmetric])
  next
    case limit
    with run max d1(6) have m: "MarkDeploymentStatus s d1 DeploymentStatusFailed (''auto-repair limit reached: '' @ rsn) w = ((r, d'), w')"
      by (simp add: QueueAutoRepair_def pol_def [symmetric] d1_def [symmetric])
    note mv = mark_view [OF sv m]
    from mv obtain now where d': "d' = marked now DeploymentStatusFailed (''auto-repair limit reached: '' @ rsn) d1" by blast
    have "touches d' (abs w) (abs w')"
      using mv logged_touches [of d'] by (cases "r = Inr ()") (simp_all only: simp_thms if_True if_False, blast)
    moreover have "repaired d d'" using d1 by (simp add: d' repaired_def pol_def [symmetric])
    moreover have "dep_Status d' = DeploymentStatusFailed" by (simp add: d')
    moreover have "r = Inr () \<Longrightarrow> logged d' ''failed'' (''auto-repair limit reached: '' @ rsn) (abs w) (abs w')"
      using mv by (simp only: status_string.simps if_True refl simp_thms)
    ultimately show ?thesis using mv by blast
  next
    case go
    obtain now w1 where n: "Now w = (now, w1)" by fastforce
    define d2 where "d2 = d1\<lparr>dep_RepairAttempts := dep_RepairAttempts d1 + 1, dep_Status := DeploymentStatusRecovering,
      dep_StatusReason := ''auto-repair queued: '' @ rsn, dep_FinishedAt := None, dep_UpdatedAt := now\<rparr>"
    obtain r2 w2 where b: "bindE (dr_Update D d2) (\<lambda>_ w. let (e, w) = newEvent d2 ''auto_repair_queued''
         (''auto-repair queued: '' @ rsn) now w
       in bindE (er_Create E e) (\<lambda>_. sch_ScheduleDeployment (NewSchedulerService Q) d2) w) w1 = (r2, w2)" by fastforce
    have "QueueAutoRepair s d rsn w = ((r2, d2), w2)"
      using go max d1(6) n b sv'
      by (simp add: QueueAutoRepair_def pol_def [symmetric] d1_def [symmetric] d2_def [symmetric] Let_def)
        (simp add: d2_def)
    with run have same: "d' = d2" "r = r2" "w' = w2" by auto
    have "repaired d d2"
      using d1 go by (simp add: repaired_def d2_def pol_def [symmetric])
    moreover have "dep_Status d2 = DeploymentStatusRecovering" "dep_RepairAttempts d2 = dep_RepairAttempts d + 1"
      by (simp_all add: d2_def d1)
    moreover note put_log_schedule [OF update_puts
        newEvent_of [of d2 "''auto_repair_queued''" "''auto-repair queued: '' @ rsn" now] b]
    ultimately show ?thesis
      using now_frame [OF n] unfolding same by (auto split: if_splits dest: logged_touches)
  qed
qed

end

section \<open>The service over the memory store and queue\<close>

definition mem_DeploymentService ::
  "'a store_world_scheme DeploymentBackend option \<Rightarrow> 'a store_world_scheme DeploymentService" where
  "mem_DeploymentService b =
     SetBackend (NewDeploymentService mem_apps mem_deployments mem_events (NewSchedulerService mq_queue)) b"

lemma mem_serves: "serves mem_apps mem_deployments mem_events (NewSchedulerService mq_queue) (mem_DeploymentService b)"
  by (simp add: serves_def mem_DeploymentService_def SetBackend_def NewDeploymentService_def split: option.split)

lemmas mem_retry = mcp.retry_outcome [OF mem_serves]
  and mem_cancel = mcp.cancel_outcome [OF mem_serves]
  and mem_delete = mcp.delete_outcome [OF mem_serves]
  and mem_create = mcp.create_outcome [OF mem_serves]
  and mem_mark = mcp.mark_view [OF mem_serves]
  and mem_repair = mcp.repair_view [OF mem_serves]

lemma wf_ok_view: "wf_store (store w) \<Longrightarrow>
    (\<And>i j a b. map_of (apps (store w)) i = Some a \<Longrightarrow> map_of (apps (store w)) j = Some b \<Longrightarrow>
       app_TenantID a = app_TenantID b \<Longrightarrow> app_Slug a = app_Slug b \<Longrightarrow> i = j) \<Longrightarrow> ok_view (mem_abs w)"
  using wf_lookup(4) wf_lookup(5) unfolding ok_view_def mem_abs_simps by blast

lemmas mem_service_simps = mem_serves [unfolded serves_def, THEN conjunct1]
  mem_serves [unfolded serves_def, THEN conjunct2, THEN conjunct1]
  mem_serves [unfolded serves_def, THEN conjunct2, THEN conjunct2, THEN conjunct1]
  mem_serves [unfolded serves_def, THEN conjunct2, THEN conjunct2, THEN conjunct2]

lemma mem_schedule_ok: "fst (sch_ScheduleDeployment (NewSchedulerService mq_queue) d w) = Inr ()"
  by (simp add: NewSchedulerService_def Let_def ScheduleDeployment_def mq_queue_def mq_Enqueue_def split_beta)

lemma mem_schedule_delete_ok: "fst (sch_ScheduleDelete (NewSchedulerService mq_queue) d w) = Inr ()"
  by (simp add: NewSchedulerService_def Let_def ScheduleDelete_def mq_queue_def mq_Enqueue_def split_beta)

lemma mem_event_ok: "er_Create mem_events e w =
    (Inr (), w\<lparr>store := (store w)\<lparr>events := AList.update (ev_DeploymentID e)
       (event_list (store w) (ev_DeploymentID e) @ [e]) (events (store w))\<rparr>\<rparr>)"
  by (simp add: mem_events_def mem_Event_Create_def)

text \<open>On the memory store nothing on the way fails once the deployment is known.\<close>

lemma mem_tail_ok:
  assumes "fst (put w) = Inr ()"
  shows "fst (bindE put (\<lambda>_ w. case mk w of (e, w) \<Rightarrow> bindE (er_Create mem_events e)
     (\<lambda>_. sch_ScheduleDeployment (NewSchedulerService mq_queue) d) w) w) = Inr ()"
  using assms mem_schedule_ok by (auto simp: bindE_def mem_event_ok split: prod.splits sum.splits)

lemma mem_update_ok: "v_deps (mem_abs w) (dep_ID d) \<noteq> None \<Longrightarrow> fst (dr_Update mem_deployments d w) = Inr ()"
  by (auto simp: mem_deployments_def mem_Dep_Update_def)

lemma mem_mark_ok:
  assumes "v_deps (mem_abs w) (dep_ID d) \<noteq> None"
  shows "fst (fst (MarkDeploymentStatus (mem_DeploymentService b) d st rsn w)) = Inr ()"
proof -
  obtain now w1 where n: "Now w = (now, w1)" by fastforce
  have "v_deps (mem_abs w1) (dep_ID (marked now st rsn d)) \<noteq> None"
    using assms mcp.now_frame [OF n] by simp
  from mem_update_ok [OF this] show ?thesis
    by (auto simp: MarkDeploymentStatus_def n mem_service_simps bindE_def Let_def mem_event_ok split_beta split: sum.splits prod.splits)
qed

lemma mem_get_dep:
  "dr_GetByID mem_deployments t i w =
     (case v_deps (mem_abs w) i of
        Some d \<Rightarrow> if dep_TenantID d = t then (Inr d, w) else (Inl ErrNotFound, w)
      | None \<Rightarrow> (Inl ErrNotFound, w))"
  by (auto simp: mem_deployments_def mem_Dep_GetByID_def split: option.splits)

lemma mem_get_app:
  "ar_GetByID mem_apps t i w =
     (case v_apps (mem_abs w) i of
        Some a \<Rightarrow> if app_TenantID a = t then (Inr a, w) else (Inl ErrNotFound, w)
      | None \<Rightarrow> (Inl ErrNotFound, w))"
  by (auto simp: mem_apps_def mem_App_GetByID_def split: option.splits)

definition verKey :: "string \<Rightarrow> string \<Rightarrow> string" where
  "verKey t i = t @ '':'' @ i"

definition counter :: "State \<Rightarrow> string \<Rightarrow> string \<Rightarrow> int" where
  "counter s t i = (case map_of (deployVersion s) (verKey t i) of None \<Rightarrow> 0 | Some v \<Rightarrow> v)"

lemma counter_update:
  "counter (s\<lparr>deployVersion := AList.update (verKey t i) v (deployVersion s)\<rparr>) t' i' =
     (if verKey t' i' = verKey t i then v else counter s t' i')"
  by (simp add: counter_def update_conv')

lemma mem_next_version:
  "\<exists>w'. dr_NextVersion mem_deployments t i w = (Inr (counter (store w) t i + 1), w') \<and>
     counter (store w') t i = counter (store w) t i + 1 \<and> (\<forall>t' i'. counter (store w) t' i' \<le> counter (store w') t' i') \<and>
     mem_abs w' = mem_abs w \<and> deployments (store w') = deployments (store w) \<and> apps (store w') = apps (store w)"
proof -
  let ?v = "counter (store w) t i + 1"
  let ?w = "w\<lparr>store := (store w)\<lparr>deployVersion := AList.update (verKey t i) ?v (deployVersion (store w))\<rparr>\<rparr>"
  have "dr_NextVersion mem_deployments t i w = (Inr ?v, ?w)"
    by (simp add: mem_deployments_def mem_NextVersion_def counter_def verKey_def Let_def)
  moreover have "counter (store w) t' i' \<le> counter (store ?w) t' i'" for t' i'
  proof (cases "verKey t' i' = verKey t i")
    case True
    then have "counter (store w) t' i' = counter (store w) t i" by (simp only: counter_def)
    with True show ?thesis by (simp add: counter_update)
  qed (simp add: counter_update)
  moreover have "counter (store ?w) t i = ?v"
    by (simp add: counter_update)
  ultimately show ?thesis by auto
qed

lemma counter_frame: "deployVersion s' = deployVersion s \<Longrightarrow> counter s' t i = counter s t i"
  by (simp add: counter_def)

lemma dv_mem:
  "deployVersion (store (snd (dr_Create mem_deployments d w))) = deployVersion (store w)"
  "deployVersion (store (snd (er_Create mem_events e w))) = deployVersion (store w)"
  by (simp_all add: mem_deployments_def mem_Dep_Create_def mem_event_ok)

lemma store_schedule: "store (snd (sch_ScheduleDeployment (NewSchedulerService mq_queue) d w)) = store w"
proof -
  obtain j w1 where j: "newJob JobTypeDeploymentCreate d w = (j, w1)" by fastforce
  then have "store w1 = store w" using newJob_for store_more by blast
  then show ?thesis
    using j by (simp add: NewSchedulerService_def Let_def ScheduleDeployment_def mq_queue_def mq_Enqueue_def
        stampCreated_def stampAvailable_def Now_def)
qed

lemma store_newEvent: "newEvent d ty m t w = (e, w') \<Longrightarrow> store w' = store w"
  using newEvent_of store_more by blast

lemma CreateDeployment_run:
  assumes "v_apps (mem_abs w) i = Some a" and "app_TenantID a = actor_TenantID actor"
  shows "\<exists>d w'. CreateDeployment (mem_DeploymentService b) actor i w = (Inr d, w') \<and>
     dep_Version d = counter (store w) (actor_TenantID actor) i + 1 \<and>
     counter (store w') (actor_TenantID actor) i = counter (store w) (actor_TenantID actor) i + 1 \<and>
     (\<forall>t' i'. counter (store w) t' i' \<le> counter (store w') t' i')"
proof -
  obtain w1 where v: "dr_NextVersion mem_deployments (actor_TenantID actor) i w =
      (Inr (counter (store w) (actor_TenantID actor) i + 1), w1)"
    and c: "counter (store w1) (actor_TenantID actor) i = counter (store w) (actor_TenantID actor) i + 1"
      "\<forall>t' i'. counter (store w) t' i' \<le> counter (store w1) t' i'"
    using mem_next_version [of "actor_TenantID actor" i w] by blast
  obtain now w2 where n: "Now w1 = (now, w2)" by fastforce
  obtain uid w3 where u: "NewUUID w2 = (uid, w3)" by fastforce
  have s3: "store w3 = store w1"
    using store_more [OF more_NewUUID_D [OF u]] store_more [OF more_NowD [OF n]] by simp
  define d where "d = \<lparr>dep_ID = uid, dep_TenantID = actor_TenantID actor, dep_AppID = app_ID a,
      dep_Version = counter (store w) (actor_TenantID actor) i + 1,
      dep_ImageRef = cfg_Image (app_Config a), dep_ConfigSnapshot = app_Config a,
      dep_Status = DeploymentStatusQueued, dep_StatusReason = [],
      dep_Backend = ds_backendName (mem_DeploymentService b),
      dep_BackendRef = zeroBackendRef, dep_RequestedBy = actor_UserID actor, dep_RepairAttempts = 0,
      dep_StartedAt = None, dep_FinishedAt = None, dep_CreatedAt = now, dep_UpdatedAt = now\<rparr>"
  obtain w4 where p: "dr_Create mem_deployments d w3 = (Inr (), w4)"
    by (simp add: mem_deployments_def mem_Dep_Create_def)
  obtain e w5 where ev: "newEvent d ''queued'' ''deployment queued'' now w4 = (e, w5)" by fastforce
  obtain w6 where ec: "er_Create mem_events e w5 = (Inr (), w6)" by (simp add: mem_event_ok)
  obtain w7 where sc: "sch_ScheduleDeployment (NewSchedulerService mq_queue) d w6 = (Inr (), w7)"
    using mem_schedule_ok [of d w6] by (metis prod.collapse)
  have "CreateDeployment (mem_DeploymentService b) actor i w = (Inr d, w7)"
    using assms v n u p ev ec sc
    by (simp add: CreateDeployment_def mem_service_simps mem_get_app Let_def d_def [symmetric] ret_def)
  moreover have "deployVersion (store w7) = deployVersion (store w1)"
    using dv_mem(1) [of d w3] dv_mem(2) [of e w5] store_schedule [of d w6] store_newEvent [OF ev] s3 p ec sc by simp
  then have "counter (store w7) = counter (store w1)" by (simp add: counter_def fun_eq_iff)
  ultimately show ?thesis using c by (auto simp: d_def)
qed

text \<open>
  C21: creating a deployment of an app of the actor's tenant succeeds on the memory store: it stores a queued
  deployment that snapshots the app's configuration under the next version, records one event, enqueues
  exactly one job to create it, and changes nothing else of the apps, deployments, events and jobs. For an
  app the tenant does not have, it is refused and nothing changes.
\<close>

theorem CreateDeployment_effects:
  "case CreateDeployment (mem_DeploymentService b) actor i w of (r, w') \<Rightarrow>
    (case v_apps (mem_abs w) i of
       Some a \<Rightarrow>
         if app_TenantID a = actor_TenantID actor
         then \<exists>d e j. r = Inr d \<and> snapshot_of a d \<and> dep_Version d = counter (store w) (actor_TenantID actor) i + 1 \<and>
                event_of d ''queued'' ''deployment queued'' e \<and> mem_abs w' = put_event e (put_dep d (mem_abs w)) \<and>
                job_for JobTypeDeploymentCreate d j \<and> mq_bag w' = b_enq j (mq_bag w)
         else r = Inl ErrNotFound \<and> w' = w
     | None \<Rightarrow> r = Inl ErrNotFound \<and> w' = w)"
proof (cases "\<exists>a. v_apps (mem_abs w) i = Some a \<and> app_TenantID a = actor_TenantID actor")
  case True
  then obtain a where a: "v_apps (mem_abs w) i = Some a" "app_TenantID a = actor_TenantID actor" by blast
  with CreateDeployment_run [of w i a actor b] obtain d w' where
    "CreateDeployment (mem_DeploymentService b) actor i w = (Inr d, w')"
    "dep_Version d = counter (store w) (actor_TenantID actor) i + 1" by auto
  with mem_create [of b actor i w "Inr d" w'] a show ?thesis
    by (auto simp: created_def logged_def queues_def)
next
  case False
  then show ?thesis
    by (auto simp: CreateDeployment_def mem_service_simps mem_get_app split: option.splits)
qed

lemma RetryDeployment_run:
  assumes "v_deps (mem_abs w) i = Some d" "dep_ID d = i" "dep_TenantID d = actor_TenantID actor"
    and "dep_Status d \<in> {DeploymentStatusFailed, DeploymentStatusCancelled}"
  shows "\<exists>d' w'. RetryDeployment (mem_DeploymentService b) actor i w = (Inr d', w')"
proof -
  obtain now w1 where n: "Now w = (now, w1)" by fastforce
  define d' where "d' = d\<lparr>dep_Status := DeploymentStatusQueued, dep_StatusReason := [], dep_FinishedAt := None,
    dep_RepairAttempts := 0, dep_UpdatedAt := now\<rparr>"
  have "v_deps (mem_abs w1) (dep_ID d') \<noteq> None"
    using assms(1,2) mcp.now_frame [OF n] by (simp add: d'_def)
  note mem_tail_ok [where put = "dr_Update mem_deployments d'" and mk = "newEventNow d' ''retry_queued'' ''deployment retry queued''" and d = d',
      OF mem_update_ok [OF this]]
  with assms n show ?thesis
    by (auto simp: RetryDeployment_def mem_service_simps mem_get_dep d'_def [symmetric] bindE_ret_tail split: prod.splits sum.splits)
qed

text \<open>
  C22: retrying, on every branch. Only the tenant's own deployment can be retried, and only when it failed or was
  cancelled; then it is queued again with its error, its end and its repair count cleared, one event and
  exactly one job are recorded. Every other request is refused and changes nothing.
\<close>

theorem RetryDeployment_guarded:
  assumes "ok_view (mem_abs w)" and "RetryDeployment (mem_DeploymentService b) actor i w = (r, w')"
  shows "case v_deps (mem_abs w) i of
     Some d \<Rightarrow>
       if dep_TenantID d = actor_TenantID actor
       then if dep_Status d \<in> {DeploymentStatusFailed, DeploymentStatusCancelled}
            then \<exists>d' e j. r = Inr d' \<and> requeued d d' \<and> event_of d' ''retry_queued'' ''deployment retry queued'' e \<and>
                   mem_abs w' = put_event e (put_dep d' (mem_abs w)) \<and>
                   job_for JobTypeDeploymentCreate d' j \<and> mq_bag w' = b_enq j (mq_bag w)
            else r = Inl ErrValidation \<and> w' = w
       else r = Inl ErrNotFound \<and> w' = w
   | None \<Rightarrow> r = Inl ErrNotFound \<and> w' = w"
proof (cases "\<exists>d. v_deps (mem_abs w) i = Some d \<and> dep_TenantID d = actor_TenantID actor \<and>
    dep_Status d \<in> {DeploymentStatusFailed, DeploymentStatusCancelled}")
  case True
  then obtain d where d: "v_deps (mem_abs w) i = Some d" "dep_TenantID d = actor_TenantID actor"
    "dep_Status d \<in> {DeploymentStatusFailed, DeploymentStatusCancelled}" by blast
  with RetryDeployment_run [of w i d actor b] ok_view_ids(2) [OF assms(1) d(1)] assms(2)
  obtain d' where "r = Inr d'" by auto
  with mem_retry [OF assms(2)] d show ?thesis
    by (auto simp: outcome_def logged_def queues_def)
next
  case False
  with assms(2) show ?thesis
    by (auto simp: RetryDeployment_def mem_service_simps mem_get_dep split: option.splits if_splits)
qed

text \<open>Concrete records for the evaluations below.\<close>

definition demo_config :: AppConfig where
  "demo_config = normalizeConfig
     \<lparr>cfg_Image = ''nginx'', cfg_Port = 0, cfg_Env = None, cfg_Replicas = 0, cfg_CPURequest = [],
      cfg_MemoryRequest = [], cfg_CPULimit = [], cfg_MemoryLimit = [], cfg_Public = False, cfg_Domain = [],
      cfg_ServiceAccountName = [], cfg_OpenClaw = None,
      cfg_Reliability = \<lparr>rel_AutoRepair = True, rel_MaxRepairAttempts = 2, rel_HealthCheckPath = [],
        rel_HealthCheckTimeoutSeconds = 0, rel_RollbackOnFailedHealthCheck = False,
        rel_FallbackProviders = []\<rparr>\<rparr>"

definition demo_app :: App where
  "demo_app =
     \<lparr>app_ID = ''a'', app_TenantID = ''t'', app_Name = ''demo'', app_Slug = ''demo'', app_DesiredState = ''active'',
      app_CurrentDeploymentID = [], app_Config = demo_config, app_CreatedBy = ''u'', app_CreatedAt = 1,
      app_UpdatedAt = 1\<rparr>"

definition demo_dep :: "DeploymentStatus \<Rightarrow> int \<Rightarrow> Deployment" where
  "demo_dep st n =
     \<lparr>dep_ID = ''d'', dep_TenantID = ''t'', dep_AppID = ''a'', dep_Version = 1, dep_ImageRef = ''nginx'',
      dep_ConfigSnapshot = demo_config, dep_Status = st, dep_StatusReason = [], dep_Backend = ''kubernetes'',
      dep_BackendRef = zeroBackendRef, dep_RequestedBy = ''u'', dep_RepairAttempts = n, dep_StartedAt = None,
      dep_FinishedAt = None, dep_CreatedAt = 1, dep_UpdatedAt = 1\<rparr>"

definition demo_actor :: "string \<Rightarrow> Actor" where
  "demo_actor t = \<lparr>actor_UserID = ''u'', actor_TenantID = t, actor_Email = ''u@x'', actor_Role = RoleOwner,
     actor_APIKeyID = [], actor_IsPlatformAdmin = False\<rparr>"

definition demo_plane :: "DeploymentStatus \<Rightarrow> int \<Rightarrow> store_world" where
  "demo_plane st n = demo_store_world mq_NewClient
     (NewState\<lparr>apps := [(''a'', demo_app)], deployments := [(''d'', demo_dep st n)], deployVersion := [(''t:a'', 1)]\<rparr>)"

lemma demo_plane_view:
  "v_apps (mem_abs (demo_plane st n)) = [''a'' \<mapsto> demo_app]" "v_deps (mem_abs (demo_plane st n)) = [''d'' \<mapsto> demo_dep st n]"
  "store (demo_plane st n) = NewState\<lparr>apps := [(''a'', demo_app)], deployments := [(''d'', demo_dep st n)],
     deployVersion := [(''t:a'', 1)]\<rparr>"
  by (simp_all add: demo_plane_def demo_store_world_def NewState_def)

lemma demo_plane_ok: "ok_view (mem_abs (demo_plane st n))" "wf_store (store (demo_plane st n))"
  by (auto simp: ok_view_def demo_plane_view demo_app_def demo_dep_def wf_store_def keyed_def NewState_def
      simp del: mem_abs_simps split: if_splits)

theorem RetryDeployment_guarded_witness:
  "\<exists>d' w'. RetryDeployment (mem_DeploymentService None) (demo_actor ''t'') ''d'' (demo_plane DeploymentStatusFailed 2) = (Inr d', w') \<and>
     dep_Status d' = DeploymentStatusQueued \<and> dep_RepairAttempts d' = 0"
proof -
  obtain r w' where e: "RetryDeployment (mem_DeploymentService None) (demo_actor ''t'') ''d''
      (demo_plane DeploymentStatusFailed 2) = (r, w')" by fastforce
  from RetryDeployment_guarded [OF demo_plane_ok(1) e] e show ?thesis
    by (auto simp: demo_plane_view demo_dep_def demo_actor_def requeued_def simp del: mem_abs_simps)
qed

text \<open>
  Cancelling, on every branch. Only the tenant's own deployment can be cancelled, and only while it is queued
  or being provisioned; it is then marked cancelled with an end time and one event, and no job is added or
  removed. Every other request is refused and changes nothing.
\<close>

theorem CancelDeployment_guarded:
  assumes "ok_view (mem_abs w)" and "CancelDeployment (mem_DeploymentService b) actor i w = (r, w')"
  shows "case v_deps (mem_abs w) i of
     Some d \<Rightarrow>
       if dep_TenantID d = actor_TenantID actor
       then if dep_Status d \<in> {DeploymentStatusQueued, DeploymentStatusProvisioning}
            then \<exists>d' e now. r = Inr d' \<and> d' = marked now DeploymentStatusCancelled ''deployment cancelled'' d \<and>
                   dep_FinishedAt d' = Some now \<and> event_of d' ''cancelled'' ''deployment cancelled'' e \<and>
                   mem_abs w' = put_event e (put_dep d' (mem_abs w)) \<and> mq_bag w' = mq_bag w
            else r = Inl ErrValidation \<and> w' = w
       else r = Inl ErrNotFound \<and> w' = w
   | None \<Rightarrow> r = Inl ErrNotFound \<and> w' = w"
proof (cases "\<exists>d. v_deps (mem_abs w) i = Some d \<and> dep_TenantID d = actor_TenantID actor \<and>
    dep_Status d \<in> {DeploymentStatusQueued, DeploymentStatusProvisioning}")
  case True
  then obtain d where d: "v_deps (mem_abs w) i = Some d" "dep_TenantID d = actor_TenantID actor"
    "dep_Status d \<in> {DeploymentStatusQueued, DeploymentStatusProvisioning}" by blast
  with ok_view_ids(2) [OF assms(1) d(1)] have "v_deps (mem_abs w) (dep_ID d) \<noteq> None" by simp
  from mem_mark_ok [OF this, of b DeploymentStatusCancelled "''deployment cancelled''"] d assms(2)
  obtain d' where "r = Inr d'"
    by (auto simp: CancelDeployment_def mem_service_simps mem_get_dep split: prod.splits sum.splits)
  with mem_cancel [OF assms(2)] d show ?thesis
    by (auto simp: outcome_def logged_def marked_as_def marked_def)
next
  case False
  with assms(2) show ?thesis
    by (auto simp: CancelDeployment_def mem_service_simps mem_get_dep split: option.splits if_splits)
qed

theorem CancelDeployment_guarded_witness:
  "\<exists>w'. CancelDeployment (mem_DeploymentService None) (demo_actor ''t'') ''d'' (demo_plane DeploymentStatusRunning 0) =
     (Inl ErrValidation, w')"
proof -
  obtain r w' where e: "CancelDeployment (mem_DeploymentService None) (demo_actor ''t'') ''d''
      (demo_plane DeploymentStatusRunning 0) = (r, w')" by fastforce
  from CancelDeployment_guarded [OF demo_plane_ok(1) e] e show ?thesis
    by (auto simp: demo_plane_view demo_dep_def demo_actor_def simp del: mem_abs_simps)
qed

lemma DeleteDeployment_run:
  assumes "v_deps (mem_abs w) i = Some d" "dep_ID d = i" "dep_TenantID d = actor_TenantID actor"
  shows "\<exists>d' w'. DeleteDeployment (mem_DeploymentService b) actor i w = (Inr d', w')"
proof -
  obtain r d' w1 where m: "MarkDeploymentStatus (mem_DeploymentService b) d DeploymentStatusDeleting
      ''deployment deletion queued'' w = ((r, d'), w1)" by (metis surj_pair)
  have "r = Inr ()"
    using mem_mark_ok [of w d b DeploymentStatusDeleting "''deployment deletion queued''"] assms m by simp
  with m mem_schedule_delete_ok [of d' w1] assms show ?thesis
    by (auto simp: DeleteDeployment_def mem_service_simps mem_get_dep bindE_def ret_def split: prod.splits sum.splits)
qed

text \<open>
  C23: deleting twice is deleting once. The first request on the tenant's own deployment marks it as being deleted
  and enqueues one job to delete it, unless it is being deleted or is deleted already; the second returns
  the same deployment and changes neither the records nor the queue.
\<close>

theorem DeleteDeployment_idempotent:
  assumes "ok_view (mem_abs w)" and "v_deps (mem_abs w) i = Some d" and "dep_TenantID d = actor_TenantID actor"
  shows "\<exists>d' w1 w2. DeleteDeployment (mem_DeploymentService b) actor i w = (Inr d', w1) \<and>
     dep_Status d' \<in> {DeploymentStatusDeleting, DeploymentStatusDeleted} \<and>
     (if dep_Status d \<in> {DeploymentStatusDeleting, DeploymentStatusDeleted}
      then d' = d \<and> mem_abs w1 = mem_abs w \<and> mq_bag w1 = mq_bag w
      else queues JobTypeDeploymentDelete d' (mq_bag w) (mq_bag w1)) \<and>
     DeleteDeployment (mem_DeploymentService b) actor i w1 = (Inr d', w2) \<and>
     mem_abs w2 = mem_abs w1 \<and> mq_bag w2 = mq_bag w1"
proof -
  from ok_view_ids(2) [OF assms(1,2)] have i: "dep_ID d = i" by simp
  from DeleteDeployment_run [OF assms(2) i assms(3)] obtain d' w1 where
    e1: "DeleteDeployment (mem_DeploymentService b) actor i w = (Inr d', w1)" by blast
  have st: "dep_Status d' \<in> {DeploymentStatusDeleting, DeploymentStatusDeleted} \<and> v_deps (mem_abs w1) i = Some d' \<and>
      dep_TenantID d' = actor_TenantID actor \<and>
      (if dep_Status d \<in> {DeploymentStatusDeleting, DeploymentStatusDeleted}
       then d' = d \<and> mem_abs w1 = mem_abs w \<and> mq_bag w1 = mq_bag w
       else queues JobTypeDeploymentDelete d' (mq_bag w) (mq_bag w1))"
    using mem_delete [OF e1] assms i by (auto simp: outcome_def marked_as_def logged_def simp del: mem_abs_simps)
  have "DeleteDeployment (mem_DeploymentService b) actor i w1 = (Inr d', w1)"
    using st by (auto simp: DeleteDeployment_def mem_service_simps mem_get_dep simp del: mem_abs_simps)
  with e1 st show ?thesis by blast
qed

theorem DeleteDeployment_idempotent_witness:
  "\<exists>d' w1. DeleteDeployment (mem_DeploymentService None) (demo_actor ''t'') ''d'' (demo_plane DeploymentStatusRunning 0) = (Inr d', w1) \<and>
     queues JobTypeDeploymentDelete d' (mq_bag (demo_plane DeploymentStatusRunning 0)) (mq_bag w1)"
  using DeleteDeployment_idempotent [of "demo_plane DeploymentStatusRunning 0" "''d''"
      "demo_dep DeploymentStatusRunning 0" "demo_actor ''t''" None] demo_plane_ok(1)
  by (auto simp: demo_plane_view demo_dep_def demo_actor_def simp del: mem_abs_simps)

text \<open>
  A dry run is not free of effects on the memory store. Planning a deployment uses up a version: the deployment
  created after a plan has the version counter plus two, whatever backend drew up the plan.
\<close>

theorem PlanDeployment_uses_version:
  assumes "v_apps (mem_abs w) i = Some a" and "app_TenantID a = actor_TenantID actor"
    and "\<And>app v w. store (snd (be_Plan backend app v w)) = store w"
    and "PlanDeployment (mem_DeploymentService (Some backend)) actor i w = (p, w1)"
  shows "\<exists>d w2. CreateDeployment (mem_DeploymentService (Some backend)) actor i w1 = (Inr d, w2) \<and>
     dep_Version d = counter (store w) (actor_TenantID actor) i + 2"
proof -
  obtain w' where v: "dr_NextVersion mem_deployments (actor_TenantID actor) i w =
      (Inr (counter (store w) (actor_TenantID actor) i + 1), w')"
    and c: "counter (store w') (actor_TenantID actor) i = counter (store w) (actor_TenantID actor) i + 1"
    and a: "mem_abs w' = mem_abs w"
    using mem_next_version [of "actor_TenantID actor" i w] by blast
  have b: "ds_backend (mem_DeploymentService (Some backend)) = Some backend"
    by (simp add: mem_DeploymentService_def SetBackend_def)
  have "be_Plan backend a (counter (store w) (actor_TenantID actor) i + 1) w' = (p, w1)"
    using assms(1,2,4) v by (simp add: PlanDeployment_def b mem_service_simps mem_get_app del: mem_abs_simps)
  then have s: "store w1 = store w'" using assms(3) by (metis snd_conv)
  then have "mem_abs w1 = mem_abs w" using mem_abs_store a by metis
  with CreateDeployment_run [of w1 i a actor "Some backend"] assms(1,2) c s show ?thesis by auto
qed

definition demo_backend :: "store_world DeploymentBackend" where
  "demo_backend = \<lparr>be_Name = ''kubernetes'', be_Capabilities = \<lparr>caps_Name = ''kubernetes'', caps_DisplayName = ''Kubernetes'',
       caps_Capabilities = [], caps_Notes = []\<rparr>,
     be_Plan = (\<lambda>_ _. fail ErrValidation),
     be_Submit = (\<lambda>_ _. ret \<lparr>bs_Status = DeploymentStatusRunning, bs_Reason = ''ready'', bs_Ref = zeroBackendRef\<rparr>),
     be_Delete = (\<lambda>_. ret ()),
     be_GetStatus = (\<lambda>ref. ret \<lparr>bs_Status = DeploymentStatusFailed, bs_Reason = ''crash'', bs_Ref = ref\<rparr>)\<rparr>"

theorem PlanDeployment_uses_version_witness:
  "\<exists>d w2. CreateDeployment (mem_DeploymentService (Some demo_backend)) (demo_actor ''t'') ''a''
       (snd (PlanDeployment (mem_DeploymentService (Some demo_backend)) (demo_actor ''t'') ''a'' (demo_plane DeploymentStatusRunning 0))) =
     (Inr d, w2) \<and> dep_Version d = 3"
proof -
  have c: "counter (store (demo_plane DeploymentStatusRunning 0)) ''t'' ''a'' = 1"
    by (simp add: counter_def verKey_def demo_plane_view)
  show ?thesis
    using PlanDeployment_uses_version [of "demo_plane DeploymentStatusRunning 0" "''a''" demo_app "demo_actor ''t''" demo_backend
        "fst (PlanDeployment (mem_DeploymentService (Some demo_backend)) (demo_actor ''t'') ''a'' (demo_plane DeploymentStatusRunning 0))"
        "snd (PlanDeployment (mem_DeploymentService (Some demo_backend)) (demo_actor ''t'') ''a'' (demo_plane DeploymentStatusRunning 0))"] c
    by (auto simp: demo_plane_view demo_app_def demo_actor_def demo_backend_def fail_def simp del: mem_abs_simps)
qed

text \<open>Every deployment has a version the counter of its app has reached.\<close>

definition versions_ok :: "State \<Rightarrow> bool" where
  "versions_ok s \<longleftrightarrow> (\<forall>i d. map_of (deployments s) i = Some d \<longrightarrow> dep_Version d \<le> counter s (dep_TenantID d) (dep_AppID d))"



end
