(* ===== verification/Handlers.thy ===== *)
theory Handlers
  imports DeploymentService
begin

text \<open>
  \<^verbatim>\<open>internal/worker/handlers\<close>: what the worker does with a job of each type, and
  \<^verbatim>\<open>internal/services/reliability_service.go\<close>: the administrator's view of the queue and the periodic
  reconciliation that schedules jobs for the active deployments.
\<close>

section \<open>The three handlers\<close>

record 'w DeploymentCreateHandler =
  ch_apps :: "'w AppRepository"
  ch_deployments :: "'w DeploymentRepository"
  ch_backend :: "'w DeploymentBackend"
  ch_service :: "'w DeploymentService"
  ch_scheduler :: "'w Scheduler"

record 'w DeploymentDeleteHandler =
  dh_apps :: "'w AppRepository"
  dh_deployments :: "'w DeploymentRepository"
  dh_backend :: "'w DeploymentBackend"
  dh_service :: "'w DeploymentService"

record 'w DeploymentSyncHandler =
  sh_apps :: "'w AppRepository"
  sh_deployments :: "'w DeploymentRepository"
  sh_backend :: "'w DeploymentBackend"
  sh_scheduler :: "'w Scheduler"
  sh_service :: "'w DeploymentService"

text \<open>\<^verbatim>\<open>if err := MarkDeploymentStatus(...); err != nil { return err }\<close>\<close>

definition markE ::
  "'a env_scheme DeploymentService \<Rightarrow> Deployment \<Rightarrow> DeploymentStatus \<Rightarrow> string \<Rightarrow> (Deployment, 'a env_scheme) op" where
  "markE s deployment status reason w =
     (case MarkDeploymentStatus s deployment status reason w of
        ((Inl e, _), w) \<Rightarrow> (Inl e, w)
      | ((Inr _, deployment), w) \<Rightarrow> (Inr deployment, w))"

text \<open>\<^verbatim>\<open>_ = MarkDeploymentStatus(..., failed, err.Error()); return err\<close>\<close>

definition markFailed ::
  "'a env_scheme DeploymentService \<Rightarrow> Deployment \<Rightarrow> error \<Rightarrow> (unit, 'a env_scheme) op" where
  "markFailed s deployment err w =
     (let (_, w) = MarkDeploymentStatus s deployment DeploymentStatusFailed (Error err) w in (Inl err, w))"

definition create_Handle :: "'a env_scheme DeploymentCreateHandler \<Rightarrow> Job \<Rightarrow> (unit, 'a env_scheme) op" where
  "create_Handle h job =
     bindE (dr_GetByID (ch_deployments h) (job_TenantID job) (job_DeploymentID job)) (\<lambda>deployment.
       if dep_Status deployment \<in> {DeploymentStatusCancelled, DeploymentStatusDeleting, DeploymentStatusDeleted}
       then ret ()
       else
         bindE (ar_GetByID (ch_apps h) (job_TenantID job) (job_AppID job)) (\<lambda>app.
         bindE (markE (ch_service h) deployment DeploymentStatusProvisioning ''creating kubernetes resources'')
           (\<lambda>deployment.
             catchE (be_Submit (ch_backend h) app deployment) (markFailed (ch_service h) deployment) (\<lambda>status.
               bindE (markE (ch_service h) (deployment\<lparr>dep_BackendRef := bs_Ref status\<rparr>)
                        (bs_Status status) (bs_Reason status)) (\<lambda>deployment.
               bindE (if bs_Status status = DeploymentStatusRunning
                      then ar_Update (ch_apps h) (app\<lparr>app_CurrentDeploymentID := dep_ID deployment\<rparr>)
                      else ret ()) (\<lambda>_.
               if bs_Status status = DeploymentStatusRunning \<or> bs_Status status = DeploymentStatusProvisioning
               then sch_ScheduleSync (ch_scheduler h) deployment
               else ret ()))))))"

definition delete_Handle :: "'a env_scheme DeploymentDeleteHandler \<Rightarrow> Job \<Rightarrow> (unit, 'a env_scheme) op" where
  "delete_Handle h job =
     bindE (dr_GetByID (dh_deployments h) (job_TenantID job) (job_DeploymentID job)) (\<lambda>deployment.
       catchE (be_Delete (dh_backend h) (dep_BackendRef deployment)) (markFailed (dh_service h) deployment) (\<lambda>_.
         bindE (markE (dh_service h) deployment DeploymentStatusDeleted ''deployment deleted'') (\<lambda>deployment.
           catchE (ar_GetByID (dh_apps h) (job_TenantID job) (job_AppID job)) (\<lambda>_. ret ()) (\<lambda>app.
             if app_CurrentDeploymentID app = dep_ID deployment
             then ar_Update (dh_apps h) (app\<lparr>app_CurrentDeploymentID := []\<rparr>)
             else ret ()))))"

text \<open>From the second \<^verbatim>\<open>MarkDeploymentStatus\<close> of the synchronisation on.\<close>

definition sync_apply ::
  "'a env_scheme DeploymentSyncHandler \<Rightarrow> Job \<Rightarrow> BackendStatus \<Rightarrow> Deployment \<Rightarrow> (unit, 'a env_scheme) op" where
  "sync_apply h job status deployment =
     bindE (markE (sh_service h) deployment (bs_Status status) (bs_Reason status)) (\<lambda>deployment.
       if bs_Status status \<in> {DeploymentStatusProvisioning, DeploymentStatusDegraded, DeploymentStatusRecovering}
       then sch_ScheduleSync (sh_scheduler h) deployment
       else if bs_Status status \<noteq> DeploymentStatusRunning then ret ()
       else
         bindE (ar_GetByID (sh_apps h) (job_TenantID job) (job_AppID job)) (\<lambda>app.
           if app_CurrentDeploymentID app = dep_ID deployment then ret ()
           else ar_Update (sh_apps h) (app\<lparr>app_CurrentDeploymentID := dep_ID deployment\<rparr>)))"

definition sync_Handle :: "'a env_scheme DeploymentSyncHandler \<Rightarrow> Job \<Rightarrow> (unit, 'a env_scheme) op" where
  "sync_Handle h job =
     bindE (dr_GetByID (sh_deployments h) (job_TenantID job) (job_DeploymentID job)) (\<lambda>deployment.
       if dep_Status deployment \<in> {DeploymentStatusCancelled, DeploymentStatusDeleted} then ret ()
       else
         bindE (be_GetStatus (sh_backend h) (dep_BackendRef deployment)) (\<lambda>status w.
           let deployment = deployment\<lparr>dep_BackendRef := bs_Ref status\<rparr>
           in if bs_Status status = DeploymentStatusFailed
              then case QueueAutoRepair (sh_service h) deployment (bs_Reason status) w of
                     ((Inr _, _), w) \<Rightarrow> (Inr (), w)
                   | ((Inl _, deployment), w) \<Rightarrow> sync_apply h job status deployment w
              else sync_apply h job status deployment w))"

section \<open>Reliability service\<close>

record 'w ReliabilityService =
  rs_queue :: "'w JobQueue"
  rs_deployments :: "'w DeploymentRepository"
  rs_scheduler :: "'w Scheduler"

record ReconcileResult =
  rr_Scanned :: int
  rr_Scheduled :: int
  rr_Skipped :: int

definition queueStats :: "'w ReliabilityService \<Rightarrow> (QueueStats, 'w) op" where
  "queueStats s = (case jq_JobQueueInspector (rs_queue s) of None \<Rightarrow> ret zeroQueueStats | Some stats \<Rightarrow> stats)"

definition Status :: "'w ReliabilityService \<Rightarrow> Actor \<Rightarrow> (QueueStats, 'w) op" where
  "Status s actor = (if \<not> actor_IsPlatformAdmin actor then fail ErrForbidden else queueStats s)"

definition ListDeadLetters :: "'w ReliabilityService \<Rightarrow> Actor \<Rightarrow> int \<Rightarrow> (DeadLetterJob list, 'w) op" where
  "ListDeadLetters s actor limit =
     (if \<not> actor_IsPlatformAdmin actor then fail ErrForbidden
      else case jq_DeadLetterQueue (rs_queue s) of
             None \<Rightarrow> fail ErrValidation | Some deadLetters \<Rightarrow> dlq_ListDeadLetters deadLetters limit)"

definition ReplayDeadLetter :: "'w ReliabilityService \<Rightarrow> Actor \<Rightarrow> string \<Rightarrow> (Job, 'w) op" where
  "ReplayDeadLetter s actor dlid =
     (if \<not> actor_IsPlatformAdmin actor then fail ErrForbidden
      else case jq_DeadLetterQueue (rs_queue s) of
             None \<Rightarrow> fail ErrValidation | Some deadLetters \<Rightarrow> dlq_ReplayDeadLetter deadLetters dlid)"

text \<open>The boolean is the first result of the Go function: whether anything was to be scheduled.\<close>

definition scheduleReconcile :: "'w ReliabilityService \<Rightarrow> Deployment \<Rightarrow> 'w \<Rightarrow> (bool \<times> (error + unit)) \<times> 'w" where
  "scheduleReconcile s deployment w =
     (case dep_Status deployment of
        DeploymentStatusQueued \<Rightarrow>
          (let (r, w) = sch_ScheduleDeployment (rs_scheduler s) deployment w in ((True, r), w))
      | DeploymentStatusDeleting \<Rightarrow>
          (let (r, w) = sch_ScheduleDelete (rs_scheduler s) deployment w in ((True, r), w))
      | st \<Rightarrow>
          if st \<in> {DeploymentStatusProvisioning, DeploymentStatusRunning, DeploymentStatusDegraded,
                   DeploymentStatusRecovering}
          then if ref_Deployment (dep_BackendRef deployment) = [] \<or> ref_Namespace (dep_BackendRef deployment) = []
               then let (r, w) = sch_ScheduleDeployment (rs_scheduler s) deployment w in ((True, r), w)
               else let (r, w) = sch_ScheduleSync (rs_scheduler s) deployment w in ((True, r), w)
          else ((False, Inr ()), w))"

fun reconcile_loop ::
  "'w ReliabilityService \<Rightarrow> Deployment list \<Rightarrow> ReconcileResult \<Rightarrow> 'w \<Rightarrow> (error option \<times> ReconcileResult) \<times> 'w" where
  "reconcile_loop s [] result w = ((None, result), w)"
| "reconcile_loop s (deployment # ds) result w =
     (case scheduleReconcile s deployment w of
        ((_, Inl err), w) \<Rightarrow> ((Some err, result), w)
      | ((True, Inr _), w) \<Rightarrow> reconcile_loop s ds (result\<lparr>rr_Scheduled := rr_Scheduled result + 1\<rparr>) w
      | ((False, Inr _), w) \<Rightarrow> reconcile_loop s ds (result\<lparr>rr_Skipped := rr_Skipped result + 1\<rparr>) w)"

text \<open>\<^verbatim>\<open>ReconcileOnce\<close> returns its partial result beside an error of the loop; \<open>None\<close> is the nil result.\<close>

definition ReconcileOnce ::
  "'w ReliabilityService \<Rightarrow> int \<Rightarrow> 'w \<Rightarrow> (error option \<times> ReconcileResult option) \<times> 'w" where
  "ReconcileOnce s limit w =
     (let limit = (if limit \<le> 0 then 100 else limit)
      in case dr_ListActive (rs_deployments s) limit w of
           (Inl err, w) \<Rightarrow> ((Some err, None), w)
         | (Inr items, w) \<Rightarrow>
             (case reconcile_loop s items \<lparr>rr_Scanned = int (length items), rr_Scheduled = 0, rr_Skipped = 0\<rparr> w of
                ((err, result), w) \<Rightarrow> ((err, Some result), w)))"

definition ReconcileActive ::
  "'w ReliabilityService \<Rightarrow> Actor \<Rightarrow> int \<Rightarrow> 'w \<Rightarrow> (error option \<times> ReconcileResult option) \<times> 'w" where
  "ReconcileActive s actor limit w =
     (if \<not> actor_IsPlatformAdmin actor then ((Some ErrForbidden, None), w) else ReconcileOnce s limit w)"

definition PromoteDue :: "'w ReliabilityService \<Rightarrow> 'w \<Rightarrow> 'w" where
  "PromoteDue s w =
     (let w = (case jq_JobScheduler (rs_queue s) of
                 None \<Rightarrow> w | Some scheduled \<Rightarrow> snd (js_PromoteDue scheduled 100 w))
      in case jq_JobLeaseReclaimer (rs_queue s) of
           None \<Rightarrow> w | Some reclaimer \<Rightarrow> snd (reclaimer (10 * 60 * second) 100 w))"

section \<open>A logic for the handlers\<close>

text \<open>
  \<open>triple av bv t P f Q\<close>: started with well-formed records and \<open>P\<close>, the call \<open>f\<close> keeps the records well
  formed, leaves the other tenants' records alone, only adds jobs to the queue, and establishes \<open>Q\<close> when it
  succeeds.
\<close>

definition grows :: "bag \<Rightarrow> bag \<Rightarrow> bool" where
  "grows b b' \<longleftrightarrow> live b \<subseteq># live b' \<and> leases b' = leases b \<and> graves b' = graves b"

definition triple ::
  "('w \<Rightarrow> view) \<Rightarrow> ('w \<Rightarrow> bag) \<Rightarrow> string \<Rightarrow> (view \<Rightarrow> bool) \<Rightarrow> ('b, 'w) op \<Rightarrow> ('b \<Rightarrow> view \<Rightarrow> bool) \<Rightarrow> bool" where
  "triple av bv t P f Q \<longleftrightarrow>
     (\<forall>w r w'. ok_view (av w) \<longrightarrow> P (av w) \<longrightarrow> f w = (r, w') \<longrightarrow>
        ok_view (av w') \<and> others_kept t (av w) (av w') \<and> grows (bv w) (bv w') \<and>
        (\<forall>a. r = Inr a \<longrightarrow> Q a (av w')))"

lemma grows_refl [simp]: "grows b b"
  by (simp add: grows_def)

lemma grows_trans: "grows b b1 \<Longrightarrow> grows b1 b2 \<Longrightarrow> grows b b2"
  by (auto simp: grows_def)

lemma grows_queues: "queues j d b b' \<Longrightarrow> grows b b'"
  by (auto simp: queues_def grows_def b_enq_def)

lemma tripleI:
  assumes "\<And>w r w'. ok_view (av w) \<Longrightarrow> P (av w) \<Longrightarrow> f w = (r, w') \<Longrightarrow>
     ok_view (av w') \<and> others_kept t (av w) (av w') \<and> grows (bv w) (bv w') \<and> (\<forall>a. r = Inr a \<longrightarrow> Q a (av w'))"
  shows "triple av bv t P f Q"
  using assms unfolding triple_def by blast

lemma triple_weaken: "triple av bv t P' f Q' \<Longrightarrow> (\<And>v. P v \<Longrightarrow> P' v) \<Longrightarrow> (\<And>a v. Q' a v \<Longrightarrow> Q a v) \<Longrightarrow> triple av bv t P f Q"
  unfolding triple_def by blast

lemma triple_ret: "(\<And>v. P v \<Longrightarrow> Q a v) \<Longrightarrow> triple av bv t P (ret a) Q"
  by (rule tripleI) (auto simp: ret_def)

lemma triple_catch:
  assumes f: "triple av bv t P f R" and fe: "\<And>w e w'. ok_view (av w) \<Longrightarrow> P (av w) \<Longrightarrow> f w = (Inl e, w') \<Longrightarrow> H (av w')"
    and h: "\<And>e. triple av bv t H (h e) Q" and k: "\<And>a. triple av bv t (R a) (k a) Q"
  shows "triple av bv t P (catchE f h k) Q"
proof (rule tripleI)
  fix w r w' assume ok: "ok_view (av w)" and P: "P (av w)" and run: "catchE f h k w = (r, w')"
  obtain r1 w1 where f1: "f w = (r1, w1)" by fastforce
  note F = f [unfolded triple_def, rule_format, OF ok P f1]
  show "ok_view (av w') \<and> others_kept t (av w) (av w') \<and> grows (bv w) (bv w') \<and> (\<forall>a. r = Inr a \<longrightarrow> Q a (av w'))"
  proof (cases r1)
    case (Inl e)
    have run1: "(if is_panic e then (Inl e, w1) else h e w1) = (r, w')"
      using run by (simp add: catchE_def f1 Inl)
    show ?thesis
    proof (cases "is_panic e")
      case True
      with run1 F show ?thesis by auto
    next
      case False
      with run1 have "h e w1 = (r, w')" by simp
      from h [of e, unfolded triple_def, rule_format, OF _ fe [OF ok P] this] F f1 Inl
      show ?thesis by (blast intro: others_kept_trans grows_trans)
    qed
  next
    case (Inr a)
    with run f1 have "k a w1 = (r, w')" by (simp add: catchE_def)
    from k [of a, unfolded triple_def, rule_format, OF _ _ this] F f1 Inr
    show ?thesis by (blast intro: others_kept_trans grows_trans)
  qed
qed

lemma triple_bind:
  assumes "triple av bv t P f R" and "\<And>a. triple av bv t (R a) (k a) Q"
  shows "triple av bv t P (bindE f k) Q"
proof -
  have "bindE f k = catchE f fail k"
    by (simp add: fun_eq_iff bindE_def catchE_def fail_def split: prod.split sum.split)
  moreover have "triple av bv t (\<lambda>_. True) (fail e) Q" for e
    by (rule tripleI) (auto simp: fail_def)
  ultimately show ?thesis
    using triple_catch [where H = "\<lambda>_. True" and h = fail] assms by metis
qed

lemma triple_if: "(b \<Longrightarrow> triple av bv t P f Q) \<Longrightarrow> (\<not> b \<Longrightarrow> triple av bv t P g Q) \<Longrightarrow> triple av bv t P (if b then f else g) Q"
  by simp

text \<open>A deployment (an app) in hand that is tenant \<open>t\<close>'s, also in the store.\<close>

definition owns :: "string \<Rightarrow> Deployment \<Rightarrow> view \<Rightarrow> bool" where
  "owns t d v \<longleftrightarrow> dep_TenantID d = t \<and> (\<exists>d0. v_deps v (dep_ID d) = Some d0 \<and> dep_TenantID d0 = t)"

definition owns_app :: "string \<Rightarrow> App \<Rightarrow> view \<Rightarrow> bool" where
  "owns_app t a v \<longleftrightarrow> app_TenantID a = t \<and>
     (\<exists>a0. v_apps v (app_ID a) = Some a0 \<and> app_TenantID a0 = t \<and> app_Slug a0 = app_Slug a)"

lemma owns_simps [simp]:
  "owns t (d\<lparr>dep_BackendRef := r\<rparr>) v = owns t d v"
  "owns t (marked now st rsn d) v = owns t d v"
  "owns t d (put_event e v) = owns t d v"
  "owns_app t a (put_dep d v) = owns_app t a v" "owns_app t a (put_event e v) = owns_app t a v"
  "owns_app t (a\<lparr>app_CurrentDeploymentID := i\<rparr>) = owns_app t a"
  by (simp_all add: owns_def owns_app_def fun_eq_iff)

lemma owns_touches:
  assumes "owns t d v" and "dep_ID d' = dep_ID d" and "dep_TenantID d' = t" and "touches d' v v'" and "ok_view v"
  shows "ok_view v' \<and> others_kept t v v' \<and> owns t d' v' \<and> (owns_app t a v \<longrightarrow> owns_app t a v')"
  using assms touches_ok [OF assms(4,5)] touches_others [OF assms(4)]
  by (auto simp: owns_def owns_app_def touches_def)

context hosted_plane
begin

abbreviation "tr \<equiv> triple abs bag"

lemma get_dep_tr: "tr t P (dr_GetByID D t i) (\<lambda>d v. P v \<and> owns t d v \<and> dep_ID d = i)"
proof (rule tripleI)
  fix w r w' assume ok: "ok_view (abs w)" and P: "P (abs w)" and g: "dr_GetByID D t i w = (r, w')"
  from dep_get [OF g] bag_records(6) [OF g] ok P
  show "ok_view (abs w') \<and> others_kept t (abs w) (abs w') \<and> grows (bag w) (bag w') \<and>
      (\<forall>d. r = Inr d \<longrightarrow> P (abs w') \<and> owns t d (abs w') \<and> dep_ID d = i)"
    by (auto simp: owns_def dest: ok_view_ids(2))
qed

lemma get_app_tr: "tr t P (ar_GetByID A t i) (\<lambda>a v. P v \<and> owns_app t a v)"
proof (rule tripleI)
  fix w r w' assume ok: "ok_view (abs w)" and P: "P (abs w)" and g: "ar_GetByID A t i w = (r, w')"
  from app_get [OF g] bag_records(3) [OF g] ok P
  show "ok_view (abs w') \<and> others_kept t (abs w) (abs w') \<and> grows (bag w) (bag w') \<and>
      (\<forall>a. r = Inr a \<longrightarrow> P (abs w') \<and> owns_app t a (abs w'))"
    by (auto simp: owns_app_def dest: ok_view_ids(1))
qed

lemma frame_tr:
  assumes "\<And>w r w'. f w = (r, w') \<Longrightarrow> abs w' = abs w \<and> grows (bag w) (bag w')"
  shows "tr t P f (\<lambda>_. P)"
  by (rule tripleI) (use assms in \<open>fastforce\<close>)

lemma submit_tr: "tr t P (be_Submit B a d) (\<lambda>_. P)"
  by (rule frame_tr) (use backend_frame(2) in fastforce)

lemma backend_delete_tr: "tr t P (be_Delete B ref) (\<lambda>_. P)"
  by (rule frame_tr) (use backend_frame(3) in fastforce)

lemma status_tr: "tr t P (be_GetStatus B ref) (\<lambda>_. P)"
  by (rule frame_tr) (use backend_frame(4) in fastforce)

lemma sync_tr: "tr t P (sch_ScheduleSync (NewSchedulerService Q) d) (\<lambda>_. P)"
  by (rule frame_tr) (use schedule_sync grows_queues grows_refl in metis)

lemma mark_tr:
  assumes "serves A D E sc s"
  shows "tr t (owns t d) (markE s d st rsn) (\<lambda>d' v. owns t d' v \<and> dep_ID d' = dep_ID d)"
    and "tr t (\<lambda>v. owns t d v \<and> owns_app t a v) (markE s d st rsn)
       (\<lambda>d' v. owns t d' v \<and> dep_ID d' = dep_ID d \<and> owns_app t a v)"
    and "tr t (owns t d) (markFailed s d e) (\<lambda>_ _. True)"
proof -
  have step: "bag w' = bag w \<and> dep_ID d' = dep_ID d \<and> ok_view (abs w') \<and> others_kept t (abs w) (abs w') \<and>
      owns t d' (abs w') \<and> (owns_app t a (abs w) \<longrightarrow> owns_app t a (abs w'))"
    if "ok_view (abs w)" "owns t d (abs w)" and m: "MarkDeploymentStatus s d st' rsn' w = ((r, d'), w')" for w w' r d' st' rsn' a
  proof -
    note mv = mark_view [OF assms m]
    from mv obtain now where d': "d' = marked now st' rsn' d" by blast
    have "touches d' (abs w) (abs w')" using mv logged_touches by (metis (full_types))
    with owns_touches [OF that(2), of d' "abs w'" a] that d' mv show ?thesis by (auto simp: owns_def)
  qed
  have all: "ok_view (abs w') \<and> others_kept t (abs w) (abs w') \<and> grows (bag w) (bag w') \<and>
      (\<forall>d'. r = Inr d' \<longrightarrow> owns t d' (abs w') \<and> dep_ID d' = dep_ID d \<and> (owns_app t a (abs w) \<longrightarrow> owns_app t a (abs w')))"
    if "ok_view (abs w)" "owns t d (abs w)" and run: "markE s d st rsn w = (r, w')" for w r w'
  proof -
    obtain r0 d' w1 where m: "MarkDeploymentStatus s d st rsn w = ((r0, d'), w1)" by (metis surj_pair)
    from step [OF that(1,2) m, of a] run show ?thesis by (cases r0) (auto simp: markE_def m)
  qed
  show "tr t (owns t d) (markE s d st rsn) (\<lambda>d' v. owns t d' v \<and> dep_ID d' = dep_ID d)"
    by (rule tripleI) (use all in blast)
  show "tr t (\<lambda>v. owns t d v \<and> owns_app t a v) (markE s d st rsn)
       (\<lambda>d' v. owns t d' v \<and> dep_ID d' = dep_ID d \<and> owns_app t a v)"
    by (rule tripleI) (use all in blast)
  show "tr t (owns t d) (markFailed s d e) (\<lambda>_ _. True)"
  proof (rule tripleI)
    fix w r w' assume o: "ok_view (abs w)" "owns t d (abs w)" and run: "markFailed s d e w = (r, w')"
    obtain r0 d' w1 where m: "MarkDeploymentStatus s d DeploymentStatusFailed (Error e) w = ((r0, d'), w1)"
      by (metis surj_pair)
    from step [OF o m] run
    show "ok_view (abs w') \<and> others_kept t (abs w) (abs w') \<and> grows (bag w) (bag w') \<and> (\<forall>a. r = Inr a \<longrightarrow> True)"
      by (auto simp: markFailed_def m)
  qed
qed

lemma update_app_tr: "tr t (owns_app t a) (ar_Update A a) (\<lambda>_ _. True)"
proof (rule tripleI)
  fix w r w' assume ok: "ok_view (abs w)" and o: "owns_app t a (abs w)" and u: "ar_Update A a w = (r, w')"
  have "ok_view (put_app a (abs w))"
  proof (rule ok_view_put_app [OF ok])
    fix i b assume "v_apps (abs w) i = Some b" "i \<noteq> app_ID a" "app_TenantID b = app_TenantID a"
    with ok o show "app_Slug b \<noteq> app_Slug a"
      unfolding ok_view_def owns_app_def by metis
  qed
  moreover have "others_kept t (abs w) (put_app a (abs w))"
    using o by (intro others_kept_put_app) (auto simp: owns_app_def)
  ultimately show "ok_view (abs w') \<and> others_kept t (abs w) (abs w') \<and> grows (bag w) (bag w') \<and> (\<forall>a. r = Inr a \<longrightarrow> True)"
    using app_update [OF u] bag_records(2) [OF u] ok by (cases r) (auto simp: all_or_nothing_def)
qed

lemma set_current_tr: "tr t (owns_app t a) (ar_Update A (a\<lparr>app_CurrentDeploymentID := i\<rparr>)) (\<lambda>_ _. True)"
  using update_app_tr [of t "a\<lparr>app_CurrentDeploymentID := i\<rparr>"] by simp

lemma create_tail_tr:
  assumes "serves A D E (NewSchedulerService Q) s"
  shows "tr t (\<lambda>v. owns t d v \<and> owns_app t a v)
     (bindE (markE s (d\<lparr>dep_BackendRef := ref\<rparr>) st rsn) (\<lambda>d.
      bindE (if st = DeploymentStatusRunning then ar_Update A (a\<lparr>app_CurrentDeploymentID := dep_ID d\<rparr>) else ret ()) (\<lambda>_.
      if st = DeploymentStatusRunning \<or> st = DeploymentStatusProvisioning
      then sch_ScheduleSync (NewSchedulerService Q) d else ret ())))
     (\<lambda>_ _. True)"
proof (rule triple_bind)
  show "tr t (\<lambda>v. owns t d v \<and> owns_app t a v) (markE s (d\<lparr>dep_BackendRef := ref\<rparr>) st rsn) (\<lambda>d' v. owns_app t a v)"
    by (rule triple_weaken [OF mark_tr(2) [OF assms, where a = a]]) auto
  show "tr t (owns_app t a)
      (bindE (if st = DeploymentStatusRunning then ar_Update A (a\<lparr>app_CurrentDeploymentID := dep_ID d'\<rparr>) else ret ()) (\<lambda>_.
       if st = DeploymentStatusRunning \<or> st = DeploymentStatusProvisioning
       then sch_ScheduleSync (NewSchedulerService Q) d' else ret ()))
      (\<lambda>_ _. True)" for d'
    by (rule triple_bind [where R = "\<lambda>_ _. True"]; intro triple_if set_current_tr triple_ret sync_tr TrueI)
qed

lemma create_tr:
  assumes "serves A D E (NewSchedulerService Q) s"
  shows "tr (job_TenantID j) (\<lambda>_. True)
     (create_Handle \<lparr>ch_apps = A, ch_deployments = D, ch_backend = B, ch_service = s, ch_scheduler = NewSchedulerService Q\<rparr> j)
     (\<lambda>_ _. True)"
proof -
  let ?t = "job_TenantID j"
  have submit: "tr ?t (\<lambda>v. owns ?t d v \<and> owns_app ?t a v)
     (catchE (be_Submit B a d) (markFailed s d) (\<lambda>st.
       bindE (markE s (d\<lparr>dep_BackendRef := bs_Ref st\<rparr>) (bs_Status st) (bs_Reason st)) (\<lambda>d.
       bindE (if bs_Status st = DeploymentStatusRunning then ar_Update A (a\<lparr>app_CurrentDeploymentID := dep_ID d\<rparr>) else ret ()) (\<lambda>_.
       if bs_Status st = DeploymentStatusRunning \<or> bs_Status st = DeploymentStatusProvisioning
       then sch_ScheduleSync (NewSchedulerService Q) d else ret ())))) (\<lambda>_ _. True)" for d a
  proof (rule triple_catch [where H = "owns ?t d"], rule submit_tr)
    show "\<And>w e w'. owns ?t d (abs w) \<and> owns_app ?t a (abs w) \<Longrightarrow> be_Submit B a d w = (Inl e, w') \<Longrightarrow> owns ?t d (abs w')"
      using backend_frame(2) by simp
  qed (rule mark_tr(3) [OF assms], rule create_tail_tr [OF assms])
  have prov: "tr ?t (\<lambda>v. owns ?t d v \<and> owns_app ?t a v)
     (markE s d DeploymentStatusProvisioning ''creating kubernetes resources'') (\<lambda>d v. owns ?t d v \<and> owns_app ?t a v)" for d a
    by (rule triple_weaken [OF mark_tr(2) [OF assms, where a = a]]) auto
  have app: "tr ?t (owns ?t d) (ar_GetByID A ?t (job_AppID j)) (\<lambda>a v. owns ?t d v \<and> owns_app ?t a v)" for d
    by (rule get_app_tr)
  have dep: "tr ?t (\<lambda>_. True) (dr_GetByID D ?t (job_DeploymentID j)) (owns ?t)"
    by (rule triple_weaken [OF get_dep_tr]) auto
  show ?thesis
    unfolding create_Handle_def DeploymentCreateHandler.select_convs
    by (rule triple_bind [OF dep], rule triple_if, rule triple_ret, rule TrueI,
        rule triple_bind [OF app], rule triple_bind [OF prov], rule submit)
qed

lemma delete_tr:
  assumes "serves A D E sc s"
  shows "tr (job_TenantID j) (\<lambda>_. True)
     (delete_Handle \<lparr>dh_apps = A, dh_deployments = D, dh_backend = B, dh_service = s\<rparr> j) (\<lambda>_ _. True)"
proof -
  let ?t = "job_TenantID j"
  have app: "tr ?t (\<lambda>_. True) (catchE (ar_GetByID A ?t (job_AppID j)) (\<lambda>_. ret ()) (\<lambda>a.
      if app_CurrentDeploymentID a = dep_ID d then ar_Update A (a\<lparr>app_CurrentDeploymentID := []\<rparr>) else ret ())) (\<lambda>_ _. True)" for d
  proof (rule triple_catch [where H = "\<lambda>_. True"])
    show "tr ?t (\<lambda>_. True) (ar_GetByID A ?t (job_AppID j)) (owns_app ?t)"
      by (rule triple_weaken [OF get_app_tr]) auto
  qed (auto intro: triple_ret set_current_tr)
  have gone: "tr ?t (owns ?t d) (markE s d DeploymentStatusDeleted ''deployment deleted'') (\<lambda>_ _. True)" for d
    by (rule triple_weaken [OF mark_tr(1) [OF assms]]) auto
  have del: "tr ?t (owns ?t d) (catchE (be_Delete B (dep_BackendRef d)) (markFailed s d) (\<lambda>_.
     bindE (markE s d DeploymentStatusDeleted ''deployment deleted'') (\<lambda>d.
       catchE (ar_GetByID A ?t (job_AppID j)) (\<lambda>_. ret ()) (\<lambda>a.
      if app_CurrentDeploymentID a = dep_ID d then ar_Update A (a\<lparr>app_CurrentDeploymentID := []\<rparr>) else ret ())))) (\<lambda>_ _. True)" for d
  proof (rule triple_catch [where H = "owns ?t d"], rule backend_delete_tr)
    show "\<And>w e w'. owns ?t d (abs w) \<Longrightarrow> be_Delete B (dep_BackendRef d) w = (Inl e, w') \<Longrightarrow> owns ?t d (abs w')"
      using backend_frame(3) by simp
  qed (rule mark_tr(3) [OF assms], rule triple_bind [OF gone app])
  have dep: "tr ?t (\<lambda>_. True) (dr_GetByID D ?t (job_DeploymentID j)) (owns ?t)"
    by (rule triple_weaken [OF get_dep_tr]) auto
  show ?thesis
    unfolding delete_Handle_def DeploymentDeleteHandler.select_convs by (rule triple_bind [OF dep del])
qed

lemma sync_apply_tr:
  assumes "serves A D E sc s"
  shows "tr (job_TenantID j) (owns (job_TenantID j) d)
     (sync_apply \<lparr>sh_apps = A, sh_deployments = D, sh_backend = B, sh_scheduler = NewSchedulerService Q, sh_service = s\<rparr> j st d)
     (\<lambda>_ _. True)"
proof -
  let ?t = "job_TenantID j"
  have mk: "tr ?t (owns ?t d) (markE s d x y) (\<lambda>_ _. True)" for x y
    by (rule triple_weaken [OF mark_tr(1) [OF assms]]) auto
  have app: "tr ?t (\<lambda>_. True) (ar_GetByID A ?t (job_AppID j)) (owns_app ?t)"
    by (rule triple_weaken [OF get_app_tr]) auto
  show ?thesis
    unfolding sync_apply_def DeploymentSyncHandler.select_convs
    by (rule triple_bind [OF mk], intro triple_if triple_bind [OF app] triple_ret TrueI sync_tr set_current_tr)
qed

lemma repair_keeps:
  assumes sv: "serves A D E (NewSchedulerService Q) s" and ok: "ok_view (abs w)" and o: "owns t d (abs w)"
    and run: "QueueAutoRepair s d rsn w = ((r, d'), w')"
  shows "ok_view (abs w') \<and> others_kept t (abs w) (abs w') \<and> grows (bag w) (bag w') \<and> owns t d' (abs w')"
proof -
  note rv = repair_view [OF sv run]
  from rv o have "dep_ID d' = dep_ID d" "dep_TenantID d' = t" by (auto simp: repaired_def owns_def)
  with owns_touches [OF o, of d' "abs w'"] rv ok grows_queues show ?thesis by fastforce
qed

lemma sync_Handle_tr:
  assumes sv: "serves A D E (NewSchedulerService Q) s"
  shows "tr (job_TenantID j) (\<lambda>_. True)
     (sync_Handle \<lparr>sh_apps = A, sh_deployments = D, sh_backend = B, sh_scheduler = NewSchedulerService Q, sh_service = s\<rparr> j)
     (\<lambda>_ _. True)"
proof -
  let ?t = "job_TenantID j"
  let ?h = "\<lparr>sh_apps = A, sh_deployments = D, sh_backend = B, sh_scheduler = NewSchedulerService Q, sh_service = s\<rparr>"
  have apply_tr: "tr ?t (owns ?t d) (sync_apply ?h j st d) (\<lambda>_ _. True)" for d st
    by (rule sync_apply_tr [OF sv])
  have body: "tr ?t (owns ?t d) (\<lambda>w. if bs_Status st = DeploymentStatusFailed
              then case QueueAutoRepair s d (bs_Reason st) w of
                     ((Inr _, _), w) \<Rightarrow> (Inr (), w) | ((Inl _, d), w) \<Rightarrow> sync_apply ?h j st d w
              else sync_apply ?h j st d w) (\<lambda>_ _. True)" for d st
  proof (cases "bs_Status st = DeploymentStatusFailed")
    case False
    with apply_tr [of d st] show ?thesis by simp
  next
    case True
    show ?thesis
    proof (rule tripleI)
      fix w r w' assume ok: "ok_view (abs w)" and o: "owns ?t d (abs w)"
        and run: "(if bs_Status st = DeploymentStatusFailed
              then case QueueAutoRepair s d (bs_Reason st) w of
                     ((Inr _, _), w) \<Rightarrow> (Inr (), w) | ((Inl _, d), w) \<Rightarrow> sync_apply ?h j st d w
              else sync_apply ?h j st d w) = (r, w')"
      obtain r1 d1 w1 where q: "QueueAutoRepair s d (bs_Reason st) w = ((r1, d1), w1)" by (metis surj_pair)
      note k = repair_keeps [OF sv ok o q]
      show "ok_view (abs w') \<and> others_kept ?t (abs w) (abs w') \<and> grows (bag w) (bag w') \<and> (\<forall>a. r = Inr a \<longrightarrow> True)"
      proof (cases r1)
        case (Inr x)
        with run q True k show ?thesis by auto
      next
        case (Inl e)
        with run q True have "sync_apply ?h j st d1 w1 = (r, w')" by simp
        with apply_tr [of d1 st] k show ?thesis
          unfolding triple_def by (blast intro: others_kept_trans grows_trans)
      qed
    qed
  qed
  have dep: "tr ?t (\<lambda>_. True) (dr_GetByID D ?t (job_DeploymentID j)) (owns ?t)"
    by (rule triple_weaken [OF get_dep_tr]) auto
  have ask: "tr ?t (owns ?t d) (bindE (be_GetStatus B ref) (\<lambda>st w. let d = d\<lparr>dep_BackendRef := bs_Ref st\<rparr> in
      if bs_Status st = DeploymentStatusFailed
              then case QueueAutoRepair s d (bs_Reason st) w of
                     ((Inr _, _), w) \<Rightarrow> (Inr (), w) | ((Inl _, d), w) \<Rightarrow> sync_apply ?h j st d w
              else sync_apply ?h j st d w)) (\<lambda>_ _. True)" for d ref
  proof (rule triple_bind [OF status_tr])
    fix st :: BackendStatus
    have "owns ?t (d\<lparr>dep_BackendRef := bs_Ref st\<rparr>) = owns ?t d" by (simp add: fun_eq_iff)
    with body [of "d\<lparr>dep_BackendRef := bs_Ref st\<rparr>" st]
    show "tr ?t (owns ?t d) (\<lambda>w. let d = d\<lparr>dep_BackendRef := bs_Ref st\<rparr> in
      if bs_Status st = DeploymentStatusFailed
              then case QueueAutoRepair s d (bs_Reason st) w of
                     ((Inr _, _), w) \<Rightarrow> (Inr (), w) | ((Inl _, d), w) \<Rightarrow> sync_apply ?h j st d w
              else sync_apply ?h j st d w) (\<lambda>_ _. True)" by (simp add: Let_def)
  qed
  show ?thesis
    unfolding sync_Handle_def DeploymentSyncHandler.select_convs
    by (rule triple_bind [OF dep], rule triple_if, rule triple_ret, rule TrueI, rule ask)
qed

end

section \<open>Reconciliation over the memory store and queue\<close>

definition mem_ReliabilityService :: "'a store_world_scheme ReliabilityService" where
  "mem_ReliabilityService =
     \<lparr>rs_queue = mq_queue, rs_deployments = mem_deployments, rs_scheduler = NewSchedulerService mq_queue\<rparr>"

text \<open>The job reconciliation schedules for an active deployment.\<close>

definition reconcile_job :: "Deployment \<Rightarrow> JobType" where
  "reconcile_job d =
     (case dep_Status d of
        DeploymentStatusQueued \<Rightarrow> JobTypeDeploymentCreate
      | DeploymentStatusDeleting \<Rightarrow> JobTypeDeploymentDelete
      | _ \<Rightarrow> if ref_Deployment (dep_BackendRef d) = [] \<or> ref_Namespace (dep_BackendRef d) = []
              then JobTypeDeploymentCreate else JobTypeDeploymentSync)"

lemma mem_schedule_sync_ok: "fst (sch_ScheduleSync (NewSchedulerService mq_queue) d w) = Inr ()"
  by (simp add: NewSchedulerService_def Let_def ScheduleSync_def mq_queue_def mq_scheduler_def mq_EnqueueAfter_def split_beta)

lemma mem_schedules:
  "sch_ScheduleDeployment (NewSchedulerService mq_queue) d w = (r, w') \<Longrightarrow>
     r = Inr () \<and> mem_abs w' = mem_abs w \<and> queues JobTypeDeploymentCreate d (mq_bag w) (mq_bag w')"
  "sch_ScheduleDelete (NewSchedulerService mq_queue) d w = (r, w') \<Longrightarrow>
     r = Inr () \<and> mem_abs w' = mem_abs w \<and> queues JobTypeDeploymentDelete d (mq_bag w) (mq_bag w')"
  "sch_ScheduleSync (NewSchedulerService mq_queue) d w = (r, w') \<Longrightarrow>
     r = Inr () \<and> mem_abs w' = mem_abs w \<and> queues JobTypeDeploymentSync d (mq_bag w) (mq_bag w')"
  using mem_schedule_ok [of d w] mcp.schedule_create [of d w r w']
    mem_schedule_delete_ok [of d w] mcp.schedule_delete [of d w r w']
    mem_schedule_sync_ok [of d w] mcp.schedule_sync [of d w r w'] by auto

lemma scheduleReconcile_active:
  assumes "is_active (dep_Status d)" and "scheduleReconcile mem_ReliabilityService d w = (r, w')"
  shows "r = (True, Inr ()) \<and> mem_abs w' = mem_abs w \<and> queues (reconcile_job d) d (mq_bag w) (mq_bag w')"
  using assms
  by (cases "dep_Status d")
     (auto simp: scheduleReconcile_def is_active_def reconcile_job_def mem_ReliabilityService_def
      split: prod.splits if_splits dest: mem_schedules)

lemma mem_ListActive_ok:
  "\<exists>ds. mem_ListActive l w = (Inr ds, w\<lparr>ranges := Suc (ranges w)\<rparr>) \<and> (\<forall>d \<in> set ds. is_active (dep_Status d))"
  by (auto simp: mem_ListActive_def range_map_def Let_def dest!: in_set_takeD)

text \<open>One job per listed deployment, in any order.\<close>

fun reconciled :: "Deployment list \<Rightarrow> bag \<Rightarrow> bag \<Rightarrow> bool" where
  "reconciled [] b b' = (b' = b)"
| "reconciled (d # ds) b b' = (\<exists>b1. queues (reconcile_job d) d b b1 \<and> reconciled ds b1 b')"

lemma reconcile_loop_active:
  "\<forall>d \<in> set ds. is_active (dep_Status d) \<Longrightarrow> reconcile_loop mem_ReliabilityService ds res w = (r, w') \<Longrightarrow>
     r = (None, res\<lparr>rr_Scheduled := rr_Scheduled res + int (length ds)\<rparr>) \<and> mem_abs w' = mem_abs w \<and>
     reconciled ds (mq_bag w) (mq_bag w')"
proof (induction ds arbitrary: res w)
  case (Cons d ds)
  obtain r1 w1 where s: "scheduleReconcile mem_ReliabilityService d w = (r1, w1)" by fastforce
  from scheduleReconcile_active [OF _ s] Cons.prems(1)
  have 1: "r1 = (True, Inr ())" "mem_abs w1 = mem_abs w" "queues (reconcile_job d) d (mq_bag w) (mq_bag w1)" by auto
  with s Cons.prems(2) have "reconcile_loop mem_ReliabilityService ds (res\<lparr>rr_Scheduled := rr_Scheduled res + 1\<rparr>) w1 = (r, w')"
    by simp
  note IH = Cons.IH [OF _ this]
  have "rr_Scheduled res + 1 + int (length ds) = rr_Scheduled res + int (length (d # ds))" by simp
  with IH Cons.prems(1) 1 show ?case by auto
qed simp

lemma reconciled_size: "reconciled ds b b' \<Longrightarrow> size (live b') = size (live b) + length ds \<and> leases b' = leases b \<and> graves b' = graves b"
  by (induction ds b b' rule: reconciled.induct) (auto simp: queues_def b_enq_def)

lemma ReconcileOnce_schedules:
  "case ReconcileOnce mem_ReliabilityService limit w of
     ((err, res), w') \<Rightarrow>
       \<exists>ds. fst (mem_ListActive (if limit \<le> 0 then 100 else limit) w) = Inr ds \<and> err = None \<and>
         res = Some \<lparr>rr_Scanned = int (length ds), rr_Scheduled = int (length ds), rr_Skipped = 0\<rparr> \<and>
         mem_abs w' = mem_abs w \<and> reconciled ds (mq_bag w) (mq_bag w') \<and>
         size (live (mq_bag w')) = size (live (mq_bag w)) + length ds"
proof -
  let ?l = "if limit \<le> 0 then 100 else limit"
  obtain ds w1 where l: "mem_ListActive ?l w = (Inr ds, w1)" and act: "\<forall>d \<in> set ds. is_active (dep_Status d)"
    and f: "mem_abs w1 = mem_abs w" "mq_bag w1 = mq_bag w"
    using mem_ListActive_ok [of ?l w] by auto
  obtain r2 w2 where k: "reconcile_loop mem_ReliabilityService ds
      \<lparr>rr_Scanned = int (length ds), rr_Scheduled = 0, rr_Skipped = 0\<rparr> w1 = (r2, w2)" by fastforce
  note K = reconcile_loop_active [OF act k]
  have "dr_ListActive (rs_deployments mem_ReliabilityService) ?l w = (Inr ds, w1)"
    using l by (simp add: mem_ReliabilityService_def mem_deployments_def)
  then have "ReconcileOnce mem_ReliabilityService limit w =
      ((None, Some \<lparr>rr_Scanned = int (length ds), rr_Scheduled = int (length ds), rr_Skipped = 0\<rparr>), w2)"
    unfolding ReconcileOnce_def Let_def using k K by simp
  with K f l reconciled_size [of ds "mq_bag w1" "mq_bag w2"] show ?thesis by simp
qed

text \<open>
  C29: a reconciliation pass over the memory store never fails or skips: it schedules exactly one job for every
  deployment \<^verbatim>\<open>ListActive\<close> gave it, of the kind the status calls for, touches no record, and reports their
  number. So every pass adds a job per active deployment even when the previous pass's job is still waiting.
\<close>

theorem ReconcileOnce_one_job_each:
  "case ReconcileOnce mem_ReliabilityService limit w of
     ((err, res), w') \<Rightarrow>
       \<exists>ds. fst (mem_ListActive (if limit \<le> 0 then 100 else limit) w) = Inr ds \<and> err = None \<and>
         res = Some \<lparr>rr_Scanned = int (length ds), rr_Scheduled = int (length ds), rr_Skipped = 0\<rparr> \<and>
         mem_abs w' = mem_abs w \<and> reconciled ds (mq_bag w) (mq_bag w') \<and>
         size (live (mq_bag w')) = size (live (mq_bag w)) + length ds"
  by (rule ReconcileOnce_schedules)

end
