(* ===== verification/AuthServices.thy ===== *)
theory AuthServices
  imports MemStore
begin

text \<open>
  The services around the actor of a request: \<^verbatim>\<open>api_key_service.go\<close>, \<^verbatim>\<open>auth_service.go\<close>, \<^verbatim>\<open>audit_service.go\<close>,
  \<^verbatim>\<open>admin_service.go\<close>, \<^verbatim>\<open>health_service.go\<close> and the login provider \<^verbatim>\<open>auth/providers/medium\<close>. The digest
  \<^verbatim>\<open>sha256.Sum256\<close> is an argument \<open>sha\<close>; what is shown of API keys holds for every digest, and where two
  keys must not be confused the theorem says that their digests differ.
\<close>

section \<open>API keys\<close>

record 'w APIKeyService =
  aks_keys :: "'w APIKeyRepository"

record APIKeyCreateResult =
  akc_Key :: APIKey
  akc_Secret :: string

type_synonym digest = "string \<Rightarrow> 8 word list"

definition hashAPIKey :: "digest \<Rightarrow> string \<Rightarrow> string" where
  "hashAPIKey sha raw = hex_EncodeToString (sha raw)"

definition newAPIKeyMaterial :: "digest \<Rightarrow> (string \<times> string \<times> string, 'a env_scheme) op" where
  "newAPIKeyMaterial sha w =
     (case rand_Read 18 w of
        (None, w) \<Rightarrow> (Inl (ErrText ''rand: read failed''), w)
      | (Some buf, w) \<Rightarrow>
          (let secret = hex_EncodeToString buf;
               raw = ''cc_'' @ secret
           in (Inr (raw, take 10 raw, hashAPIKey sha raw), w)))"

definition CreateKey ::
  "digest \<Rightarrow> 'a env_scheme APIKeyService \<Rightarrow> Actor \<Rightarrow> string \<Rightarrow> (APIKeyCreateResult, 'a env_scheme) op" where
  "CreateKey sha s actor name =
     (if TrimSpace name = [] then fail ErrValidation
      else
        bindE (newAPIKeyMaterial sha) (\<lambda>(raw, pre, hash) w.
          let (uid, w) = NewUUID w;
              (now, w) = Now w;
              key = \<lparr>key_ID = uid, key_TenantID = actor_TenantID actor, key_UserID = actor_UserID actor,
                     key_Name = TrimSpace name, key_KeyPrefix = pre, key_KeyHash = hash, key_LastUsedAt = None,
                     key_ExpiresAt = None, key_RevokedAt = None, key_CreatedAt = now\<rparr>
          in bindE (kr_Create (aks_keys s) key) (\<lambda>_. ret \<lparr>akc_Key = key, akc_Secret = raw\<rparr>) w))"

definition ListKeys :: "'w APIKeyService \<Rightarrow> Actor \<Rightarrow> (APIKey list, 'w) op" where
  "ListKeys s actor = kr_ListByTenant (aks_keys s) (actor_TenantID actor)"

definition RevokeKey :: "'a env_scheme APIKeyService \<Rightarrow> Actor \<Rightarrow> string \<Rightarrow> (unit, 'a env_scheme) op" where
  "RevokeKey s actor keyID w =
     (let (now, w) = Now w in kr_Revoke (aks_keys s) (actor_TenantID actor) keyID now w)"

definition Authenticate :: "digest \<Rightarrow> 'a env_scheme APIKeyService \<Rightarrow> string \<Rightarrow> (APIKey, 'a env_scheme) op" where
  "Authenticate sha s rawKey =
     (if TrimSpace rawKey = [] then fail ErrUnauthorized
      else
        bindE (kr_GetByHash (aks_keys s) (hashAPIKey sha rawKey)) (\<lambda>key w.
          if key_RevokedAt key \<noteq> None then (Inl ErrUnauthorized, w)
          else
            case key_ExpiresAt key of
              None \<Rightarrow> (Inr key, w)
            | Some expires \<Rightarrow>
                (let (now, w) = Now w
                 in if expires < now then (Inl ErrUnauthorized, w) else (Inr key, w))))"

section \<open>Actors\<close>

record 'w AuthService =
  au_users :: "'w UserRepository"
  au_tenants :: "'w TenantRepository"
  au_identities :: "'w AuthIdentityRepository option"
  au_apiKeys :: "'w APIKeyService option"
  au_providers :: "string \<rightharpoonup> 'w AuthProvider"

definition NewAuthService ::
  "'w UserRepository \<Rightarrow> 'w TenantRepository \<Rightarrow> 'w AuthIdentityRepository option \<Rightarrow> 'w APIKeyService option \<Rightarrow>
   'w AuthProvider list \<Rightarrow> 'w AuthService" where
  "NewAuthService us ts identities keys providers =
     \<lparr>au_users = us, au_tenants = ts, au_identities = identities, au_apiKeys = keys,
      au_providers = foldl (\<lambda>index provider. index(ap_Name provider \<mapsto> provider)) Map.empty providers\<rparr>"

definition EnsureActor :: "'w AuthService \<Rightarrow> string \<Rightarrow> string \<Rightarrow> (Actor, 'w) op" where
  "EnsureActor s email displayName =
     (if email = [] then fail ErrUnauthorized
      else
        bindE (ur_UpsertByEmail (au_users s) email displayName) (\<lambda>user.
          let actor = (\<lambda>tenantID role. \<lparr>actor_UserID = user_ID user, actor_TenantID = tenantID,
                 actor_Email = user_Email user, actor_Role = role, actor_APIKeyID = [], actor_IsPlatformAdmin = False\<rparr>)
          in if user_DefaultTenantID user = []
             then bindE (tr_CreatePersonalTenant (au_tenants s) user) (\<lambda>tenant. ret (actor (tenant_ID tenant) RoleOwner))
             else
               catchE (tr_GetMember (au_tenants s) (user_DefaultTenantID user) (user_ID user))
                 (\<lambda>_. ret (actor (user_DefaultTenantID user) RoleOwner))
                 (\<lambda>member. ret (actor (user_DefaultTenantID user) (member_Role member)))))"

definition AuthenticateAPIKey :: "digest \<Rightarrow> 'a env_scheme AuthService \<Rightarrow> string \<Rightarrow> (Actor, 'a env_scheme) op" where
  "AuthenticateAPIKey sha s rawKey =
     (case au_apiKeys s of
        None \<Rightarrow> fail ErrUnauthorized
      | Some keys \<Rightarrow>
          bindE (Authenticate sha keys rawKey) (\<lambda>key.
          bindE (ur_GetByID (au_users s) (key_UserID key)) (\<lambda>user.
          bindE (tr_GetMember (au_tenants s) (key_TenantID key) (user_ID user)) (\<lambda>member.
          ret \<lparr>actor_UserID = user_ID user, actor_TenantID = key_TenantID key, actor_Email = user_Email user,
               actor_Role = member_Role member, actor_APIKeyID = key_ID key, actor_IsPlatformAdmin = False\<rparr>))))"

definition unknownProvider :: "string \<Rightarrow> error" where
  "unknownProvider name = ErrWrap (Error ErrNotFound @ '': provider '' @ name) ErrNotFound"

definition LoginURL :: "'w AuthService \<Rightarrow> string \<Rightarrow> string \<Rightarrow> (string, 'w) op" where
  "LoginURL s providerName redirectURI =
     (case au_providers s providerName of
        None \<Rightarrow> fail (unknownProvider providerName)
      | Some provider \<Rightarrow> ap_BeginAuth provider ''state-placeholder'' redirectURI)"

definition HandleOAuthCallback ::
  "'a env_scheme AuthService \<Rightarrow> string \<Rightarrow> string \<Rightarrow> string \<Rightarrow> (Actor, 'a env_scheme) op" where
  "HandleOAuthCallback s providerName code redirectURI =
     (case au_providers s providerName of
        None \<Rightarrow> fail (unknownProvider providerName)
      | Some provider \<Rightarrow>
          bindE (ap_HandleCallback provider code redirectURI) (\<lambda>identity.
          bindE (EnsureActor s (ext_Email identity) (ext_DisplayName identity)) (\<lambda>actor w.
            case au_identities s of
              None \<Rightarrow> (Inr actor, w)
            | Some identities \<Rightarrow>
                (let (uid, w) = NewUUID w;
                     (_, w) = air_Upsert identities
                       \<lparr>ident_ID = uid, ident_UserID = actor_UserID actor, ident_Provider = ext_Provider identity,
                        ident_ProviderUserID = ext_ProviderUserID identity, ident_AccessToken = [],
                        ident_RefreshToken = [], ident_Metadata = ext_Metadata identity, ident_CreatedAt = 0,
                        ident_UpdatedAt = 0\<rparr> w
                 in (Inr actor, w)))))"

section \<open>The Medium provider\<close>

text \<open>\<^verbatim>\<open>url.QueryEscape\<close> on bytes\<close>

definition upper_hex :: "nat \<Rightarrow> char" where
  "upper_hex n = (if n < 10 then char_of (48 + n) else char_of (55 + n))"

definition queryUnreserved :: "char \<Rightarrow> bool" where
  "queryUnreserved c \<longleftrightarrow>
     (let n = of_char c :: nat
      in 48 \<le> n \<and> n \<le> 57 \<or> 65 \<le> n \<and> n \<le> 90 \<or> 97 \<le> n \<and> n \<le> 122 \<or> c \<in> set ''-_.~'')"

definition QueryEscape :: "string \<Rightarrow> string" where
  "QueryEscape s = concat (map (\<lambda>c.
     if queryUnreserved c then [c]
     else if c = CHR '' '' then ''+''
     else [CHR ''%'', upper_hex (of_char c div 16), upper_hex (of_char c mod 16)]) s)"

definition BeginAuth :: "string \<Rightarrow> string \<Rightarrow> string \<Rightarrow> (string, 'w) op" where
  "BeginAuth clientID state redirectURI =
     ret (''https://medium.com/m/oauth/authorize?client_id='' @ QueryEscape clientID @
          ''&redirect_uri='' @ QueryEscape redirectURI @ ''&state='' @ QueryEscape state)"

definition HandleCallback :: "string \<Rightarrow> string \<Rightarrow> (ExternalIdentity, 'w) op" where
  "HandleCallback code redirectURI =
     (if code = [] then fail ErrUnauthorized
      else ret \<lparr>ext_Provider = ''medium'', ext_ProviderUserID = code, ext_Email = code @ ''@medium.local'',
                ext_DisplayName = ''Medium User'', ext_Metadata = None\<rparr>)"

definition medium_New :: "string \<Rightarrow> 'w AuthProvider" where
  "medium_New clientID =
     \<lparr>ap_Name = ''medium'', ap_BeginAuth = BeginAuth clientID, ap_HandleCallback = HandleCallback\<rparr>"

section \<open>Audit, administration, health\<close>

text \<open>\<open>None\<close> is a nil service or a service without a repository.\<close>

type_synonym 'w AuditService = "'w AuditRepository option"

definition Record ::
  "'a env_scheme AuditService \<Rightarrow> Actor \<Rightarrow> string \<Rightarrow> string \<Rightarrow> string \<Rightarrow> string \<Rightarrow> (unit, 'a env_scheme) op" where
  "Record s actor action resourceType resourceID message w =
     (case s of
        None \<Rightarrow> (Inr (), w)
      | Some repo \<Rightarrow>
          (let (uid, w) = NewUUID w;
               (now, w) = Now w
           in aur_Create repo
                \<lparr>audit_ID = uid, audit_TenantID = actor_TenantID actor, audit_ActorUserID = actor_UserID actor,
                 audit_ActorAPIKeyID = actor_APIKeyID actor, audit_Action = action,
                 audit_ResourceType = resourceType, audit_ResourceID = resourceID, audit_Message = message,
                 audit_CreatedAt = now\<rparr> w))"

definition ListTenantAuditLogs :: "'w AuditService \<Rightarrow> Actor \<Rightarrow> int \<Rightarrow> (AuditLog list, 'w) op" where
  "ListTenantAuditLogs s actor limit =
     (case s of None \<Rightarrow> ret [] | Some repo \<Rightarrow> aur_ListByTenant repo (actor_TenantID actor) limit)"

record 'w AdminService =
  ads_repo :: "'w AdminRepository"
  ads_repositoryDriver :: string

definition admin_Summary :: "'w AdminService \<Rightarrow> Actor \<Rightarrow> (AdminSummary, 'w) op" where
  "admin_Summary s actor =
     (if \<not> actor_IsPlatformAdmin actor then fail ErrForbidden
      else bindE (adr_Summary (ads_repo s)) (\<lambda>summary.
             ret (summary\<lparr>sum_RepositoryDriver := ads_repositoryDriver s\<rparr>)))"

definition admin_ListAllInstances :: "'w AdminService \<Rightarrow> Actor \<Rightarrow> (AdminInstance list, 'w) op" where
  "admin_ListAllInstances s actor =
     (if \<not> actor_IsPlatformAdmin actor then fail ErrForbidden else adr_ListAllInstances (ads_repo s))"

text \<open>The database: its ping and the two counters read off its statistics.\<close>

record 'w sql_DB =
  db_PingContext :: "(unit, 'w) op"
  db_OpenConnections :: "'w \<Rightarrow> int"
  db_InUse :: "'w \<Rightarrow> int"

record 'w HealthService =
  hs_db :: "'w sql_DB option"
  hs_queue :: "'w HealthChecker option"

text \<open>\<open>version\<close>, \<open>commit\<close> and \<open>host\<close> are the link-time variables and the name of the machine.\<close>

definition Readiness ::
  "string \<Rightarrow> string \<Rightarrow> string \<Rightarrow> 'w HealthService \<Rightarrow> 'w \<Rightarrow> (string \<times> string) list \<times> 'w" where
  "Readiness version commit host s w =
     (let status = [(''api'', ''ok''), (''version'', version), (''commit'', commit), (''host'', host)];
          (status, w) =
            (case hs_db s of
               None \<Rightarrow> (status, w)
             | Some db \<Rightarrow>
                 (case db_PingContext db w of
                    (Inl err, w) \<Rightarrow> (status @ [(''database'', ''error: '' @ Error err)], w)
                  | (Inr _, w) \<Rightarrow>
                      (status @ [(''database'', ''ok''), (''db_open_connections'', Itoa (db_OpenConnections db w)),
                                 (''db_in_use'', Itoa (db_InUse db w))], w)))
      in case hs_queue s of
           None \<Rightarrow> (status, w)
         | Some queue \<Rightarrow>
             (case hc_Check queue w of
                (Inl err, w) \<Rightarrow> (status @ [(''redis'', ''error: '' @ Error err)], w)
              | (Inr _, w) \<Rightarrow> (status @ [(''redis'', ''ok'')], w)))"

section \<open>The services over the memory store\<close>

definition mem_identities :: "'a store_world_scheme AuthIdentityRepository" where
  "mem_identities = \<lparr>air_Upsert = mem_Identity_Upsert\<rparr>"

definition mem_APIKeyService :: "'a store_world_scheme APIKeyService" where
  "mem_APIKeyService = \<lparr>aks_keys = mem_keys\<rparr>"

definition mem_AuthService :: "string \<Rightarrow> 'a store_world_scheme AuthService" where
  "mem_AuthService clientID =
     NewAuthService mem_users mem_tenants (Some mem_identities) (Some mem_APIKeyService) [medium_New clientID]"

section \<open>Authentication by key\<close>

text \<open>The key \<open>key\<close> is stored under \<open>i\<close> and is the only one with the digest \<open>h\<close>.\<close>

definition sole_key :: "string \<Rightarrow> string \<Rightarrow> APIKey \<Rightarrow> (string \<times> APIKey) list \<Rightarrow> bool" where
  "sole_key h i key ks \<longleftrightarrow> distinct (map fst ks) \<and> map_of ks i = Some key \<and> key_KeyHash key = h \<and>
     (\<forall>(k, x) \<in> set ks. key_KeyHash x = h \<longrightarrow> k = i)"

lemma sole_key_update: "sole_key h i key ks \<Longrightarrow> key_KeyHash key' = h \<Longrightarrow> sole_key h i key' (AList.update i key' ks)"
  using set_update_subset [of i key' ks] by (auto simp: sole_key_def distinct_update update_conv')

lemma sole_key_new:
  "distinct (map fst ks) \<Longrightarrow> (\<And>x. x \<in> snd ` set ks \<Longrightarrow> key_KeyHash x \<noteq> h) \<Longrightarrow> key_KeyHash key = h \<Longrightarrow>
   sole_key h i key (AList.update i key ks)"
  using set_update_subset [of i key ks] by (fastforce simp: sole_key_def distinct_update update_conv')

lemma GetByHash_sole:
  assumes "sole_key h i key (apiKeys (store w))"
  shows "\<exists>t w'. mem_GetByHash h w = (Inr (key\<lparr>key_LastUsedAt := Some t\<rparr>), w') \<and>
     apiKeys (store w') = AList.update i (key\<lparr>key_LastUsedAt := Some t\<rparr>) (apiKeys (store w))"
proof -
  let ?kvs = "fst (range_map (apiKeys (store w)) w)"
  have "(i, key) \<in> set ?kvs"
    using assms by (auto simp: sole_key_def dest: map_of_SomeD)
  then obtain k x where f: "find (\<lambda>(k, key). key_KeyHash key = h) ?kvs = Some (k, x)"
    using assms by (cases "find (\<lambda>(k, key). key_KeyHash key = h) ?kvs") (auto simp: find_None_iff sole_key_def)
  then have "(k, x) \<in> set (apiKeys (store w))" "key_KeyHash x = h"
    by (auto dest!: find_SomeD)
  with assms have "k = i" "x = key"
    unfolding sole_key_def by (auto dest: map_of_is_SomeI)
  with f show ?thesis
    by (intro exI [of _ "clk w (ticks w)"]) (simp add: mem_GetByHash_def range_map_def Now_def Let_def)
qed

lemma Authenticate_sole:
  assumes "sole_key (hashAPIKey sha raw) i key (apiKeys (store w))" and "TrimSpace raw \<noteq> []" and "key_ExpiresAt key = None"
  shows "\<exists>key' w'. Authenticate sha mem_APIKeyService raw w =
       (if key_RevokedAt key = None then Inr key' else Inl ErrUnauthorized, w') \<and>
     key' = key\<lparr>key_LastUsedAt := key_LastUsedAt key'\<rparr> \<and>
     sole_key (hashAPIKey sha raw) i key' (apiKeys (store w'))"
proof -
  from GetByHash_sole [OF assms(1)] obtain t w' where g:
    "mem_GetByHash (hashAPIKey sha raw) w = (Inr (key\<lparr>key_LastUsedAt := Some t\<rparr>), w')"
    "apiKeys (store w') = AList.update i (key\<lparr>key_LastUsedAt := Some t\<rparr>) (apiKeys (store w))"
    by blast
  have "sole_key (hashAPIKey sha raw) i (key\<lparr>key_LastUsedAt := Some t\<rparr>) (apiKeys (store w'))"
    unfolding g(2) using assms(1) by (intro sole_key_update) (auto simp: sole_key_def)
  with g assms(2,3) show ?thesis
    by (intro exI [of _ "key\<lparr>key_LastUsedAt := Some t\<rparr>"] exI [of _ w'])
       (simp add: Authenticate_def mem_APIKeyService_def mem_keys_def)
qed

lemma not_blank_cc: "TrimSpace (''cc_'' @ s) \<noteq> []"
  by (simp add: TrimSpace_def TrimFunc_empty_iff is_space_def)

lemma CreateKey_mem:
  assumes "TrimSpace name \<noteq> []" and "rnd_ok w (draws w)" and "distinct (map fst (apiKeys (store w)))"
    and "raw = ''cc_'' @ hex_EncodeToString (map (rnd w (draws w)) [0..<18])"
    and "\<And>x. x \<in> snd ` set (apiKeys (store w)) \<Longrightarrow> key_KeyHash x \<noteq> hashAPIKey sha raw"
  shows "\<exists>key w1. CreateKey sha mem_APIKeyService actor name w = (Inr \<lparr>akc_Key = key, akc_Secret = raw\<rparr>, w1) \<and>
     sole_key (hashAPIKey sha raw) (key_ID key) key (apiKeys (store w1)) \<and>
     key_TenantID key = actor_TenantID actor \<and> key_UserID key = actor_UserID actor \<and>
     key_KeyPrefix key = take 10 raw \<and> key_RevokedAt key = None \<and> key_ExpiresAt key = None"
proof -
  define w0 where "w0 = w\<lparr>draws := Suc (draws w)\<rparr>"
  obtain uid w2 where u: "NewUUID w0 = (uid, w2)" by fastforce
  obtain now w3 where n: "Now w2 = (now, w3)" by fastforce
  have s: "store w3 = store w"
    using store_NewUUID [of w0] store_Now [of w2] by (simp add: u n) (simp add: w0_def)
  let ?key = "\<lparr>key_ID = uid, key_TenantID = actor_TenantID actor, key_UserID = actor_UserID actor,
      key_Name = TrimSpace name, key_KeyPrefix = take 10 raw, key_KeyHash = hashAPIKey sha raw, key_LastUsedAt = None,
      key_ExpiresAt = None, key_RevokedAt = None, key_CreatedAt = now\<rparr>"
  have m: "newAPIKeyMaterial sha w = (Inr (raw, take 10 raw, hashAPIKey sha raw), w0)"
    using assms(2) by (simp add: newAPIKeyMaterial_def rand_Read_def w0_def assms(4) Let_def)
  have "sole_key (hashAPIKey sha raw) uid ?key (AList.update uid ?key (apiKeys (store w)))"
    by (rule sole_key_new [OF assms(3) assms(5)]) simp_all
  with m assms(1) s show ?thesis
    by (simp add: CreateKey_def u n mem_APIKeyService_def mem_keys_def mem_Key_Create_def ret_def Let_def)
qed


text \<open>
  C34: The life of an API key on the memory store. The secret handed out on creation is \<^verbatim>\<open>cc_\<close> and thirty-six hexadecimal
  digits, its prefix the first ten characters; it authenticates as the key of that tenant and user; another tenant
  cannot revoke it; and once its own tenant has revoked it, it is refused for good. Proviso: no stored key
  has the same digest.
\<close>

theorem api_key_lifecycle:
  assumes "TrimSpace name \<noteq> []" and "rnd_ok w (draws w)" and "wf_store (store w)"
    and "raw = ''cc_'' @ hex_EncodeToString (map (rnd w (draws w)) [0..<18])"
    and "\<And>x. x \<in> snd ` set (apiKeys (store w)) \<Longrightarrow> key_KeyHash x \<noteq> hashAPIKey sha raw"
  shows "\<exists>key w1 used w2 w3.
     CreateKey sha mem_APIKeyService actor name w = (Inr \<lparr>akc_Key = key, akc_Secret = raw\<rparr>, w1) \<and>
     length raw = 39 \<and> key_KeyPrefix key = take 10 raw \<and>
     Authenticate sha mem_APIKeyService raw w1 = (Inr used, w2) \<and> key_ID used = key_ID key \<and>
     key_TenantID used = actor_TenantID actor \<and> key_UserID used = actor_UserID actor \<and>
     (\<forall>other. actor_TenantID other \<noteq> actor_TenantID actor \<longrightarrow>
        fst (RevokeKey mem_APIKeyService other (key_ID key) w2) = Inl ErrNotFound) \<and>
     RevokeKey mem_APIKeyService actor (key_ID key) w2 = (Inr (), w3) \<and>
     fst (Authenticate sha mem_APIKeyService raw w3) = Inl ErrUnauthorized"
proof -
  let ?h = "hashAPIKey sha raw"
  have d: "distinct (map fst (apiKeys (store w)))"
    using assms(3) by (simp add: wf_store_def keyed_def)
  have raw: "TrimSpace raw \<noteq> []" "length raw = 39"
    using not_blank_cc assms(4) by simp_all
  from CreateKey_mem [OF assms(1,2) d assms(4,5), where actor = actor] obtain key w1 where
    c: "CreateKey sha mem_APIKeyService actor name w = (Inr \<lparr>akc_Key = key, akc_Secret = raw\<rparr>, w1)"
      "sole_key ?h (key_ID key) key (apiKeys (store w1))" "key_TenantID key = actor_TenantID actor"
      "key_UserID key = actor_UserID actor" "key_KeyPrefix key = take 10 raw" "key_RevokedAt key = None" "key_ExpiresAt key = None"
    by blast
  from Authenticate_sole [OF c(2) raw(1) c(7)] c(6) obtain used w2 where
    a: "Authenticate sha mem_APIKeyService raw w1 = (Inr used, w2)" "used = key\<lparr>key_LastUsedAt := key_LastUsedAt used\<rparr>"
      "sole_key ?h (key_ID key) used (apiKeys (store w2))"
    by auto
  have u: "key_ID used = key_ID key" "key_TenantID used = actor_TenantID actor" "key_UserID used = actor_UserID actor"
      "key_ExpiresAt used = None" "map_of (apiKeys (store w2)) (key_ID key) = Some used"
    by (subst a(2), simp add: c; fail)+ (use a(3) in \<open>simp add: sole_key_def\<close>)
  define revoked where "revoked = used\<lparr>key_RevokedAt := Some (fst (Now w2))\<rparr>"
  define w3 where "w3 = snd (RevokeKey mem_APIKeyService actor (key_ID key) w2)"
  have r: "RevokeKey mem_APIKeyService actor (key_ID key) w2 = (Inr (), w3)"
    "apiKeys (store w3) = AList.update (key_ID key) revoked (apiKeys (store w2))"
    using u by (simp_all add: RevokeKey_def mem_APIKeyService_def mem_keys_def mem_Key_Revoke_def Now_def w3_def revoked_def)
  have "sole_key ?h (key_ID key) revoked (apiKeys (store w3))"
    unfolding r(2) using a(3) by (intro sole_key_update) (auto simp: sole_key_def revoked_def)
  from Authenticate_sole [OF this raw(1)] have "fst (Authenticate sha mem_APIKeyService raw w3) = Inl ErrUnauthorized"
    by (auto simp: revoked_def u)
  moreover have "fst (RevokeKey mem_APIKeyService other (key_ID key) w2) = Inl ErrNotFound"
    if "actor_TenantID other \<noteq> actor_TenantID actor" for other
    using u that by (simp add: RevokeKey_def mem_APIKeyService_def mem_keys_def mem_Key_Revoke_def Now_def)
  ultimately show ?thesis
    using c a(1) u r(1) raw(2) by blast
qed

definition demo_sha :: digest where
  "demo_sha s = map (\<lambda>c. of_nat (of_char c)) s"

theorem api_key_lifecycle_witness:
  "let w = demo_store_world mq_NewClient NewState;
       actor = \<lparr>actor_UserID = ''u'', actor_TenantID = ''t'', actor_Email = ''u@x'', actor_Role = RoleOwner,
                actor_APIKeyID = [], actor_IsPlatformAdmin = False\<rparr>
   in \<exists>key secret w1 used w2 w3. CreateKey demo_sha mem_APIKeyService actor ''ci'' w = (Inr \<lparr>akc_Key = key, akc_Secret = secret\<rparr>, w1) \<and>
     Authenticate demo_sha mem_APIKeyService secret w1 = (Inr used, w2) \<and> key_TenantID used = ''t'' \<and>
     RevokeKey mem_APIKeyService actor (key_ID key) w2 = (Inr (), w3) \<and>
     fst (Authenticate demo_sha mem_APIKeyService secret w3) = Inl ErrUnauthorized"
proof -
  let ?w = "demo_store_world mq_NewClient NewState"
  let ?a = "\<lparr>actor_UserID = ''u'', actor_TenantID = ''t'', actor_Email = ''u@x'', actor_Role = RoleOwner,
                actor_APIKeyID = [], actor_IsPlatformAdmin = False\<rparr>"
  have "TrimSpace ''ci'' \<noteq> []"
    by code_simp
  moreover have "rnd_ok ?w (draws ?w)" "wf_store (store ?w)" "apiKeys (store ?w) = []"
    using wf_NewState by (simp_all add: demo_store_world_def NewState_def)
  ultimately show ?thesis
    using api_key_lifecycle [of "''ci''" ?w _ demo_sha ?a, OF _ _ _ refl] unfolding Let_def by (simp, blast)
qed

section \<open>Signing in\<close>

lemma Upsert_known:
  assumes "map_of (usersByEmail (store w)) (ToLower (TrimSpace email)) = Some i" and "map_of (users (store w)) i = Some u"
  shows "\<exists>u' w'. mem_UpsertByEmail email name w = (Inr u', w') \<and> user_ID u' = user_ID u \<and>
     user_DefaultTenantID u' = user_DefaultTenantID u \<and> user_Email u' = user_Email u \<and>
     tenants (store w') = tenants (store w) \<and> members (store w') = members (store w)"
  using assms by (simp add: mem_UpsertByEmail_def Now_def Let_def)

lemma EnsureActor_mem:
  assumes up: "mem_UpsertByEmail email name w = (Inr u, w')" and e: "email \<noteq> []"
  shows "user_DefaultTenantID u \<noteq> [] \<Longrightarrow> \<exists>role. EnsureActor (mem_AuthService cid) email name w =
       (Inr \<lparr>actor_UserID = user_ID u, actor_TenantID = user_DefaultTenantID u, actor_Email = user_Email u,
             actor_Role = role, actor_APIKeyID = [], actor_IsPlatformAdmin = False\<rparr>, w') \<and>
       (\<forall>m. map_of (members (store w')) (memberKey (user_DefaultTenantID u) (user_ID u)) = Some m \<longrightarrow> role = member_Role m)"
    and "user_DefaultTenantID u = [] \<Longrightarrow> \<exists>t w''. mem_CreatePersonalTenant u w' = (Inr t, w'') \<and>
       EnsureActor (mem_AuthService cid) email name w =
       (Inr \<lparr>actor_UserID = user_ID u, actor_TenantID = tenant_ID t, actor_Email = user_Email u,
             actor_Role = RoleOwner, actor_APIKeyID = [], actor_IsPlatformAdmin = False\<rparr>, w'')"
proof -
  note defs = EnsureActor_def mem_AuthService_def NewAuthService_def mem_users_def mem_tenants_def Let_def catchE_def
    mem_GetMember_def ret_def is_panic_def
  show "user_DefaultTenantID u \<noteq> [] \<Longrightarrow> \<exists>role. EnsureActor (mem_AuthService cid) email name w =
       (Inr \<lparr>actor_UserID = user_ID u, actor_TenantID = user_DefaultTenantID u, actor_Email = user_Email u,
             actor_Role = role, actor_APIKeyID = [], actor_IsPlatformAdmin = False\<rparr>, w') \<and>
       (\<forall>m. map_of (members (store w')) (memberKey (user_DefaultTenantID u) (user_ID u)) = Some m \<longrightarrow> role = member_Role m)"
    using up e by (auto simp: defs split: option.splits)
  assume "user_DefaultTenantID u = []"
  moreover obtain t w'' where "mem_CreatePersonalTenant u w' = (Inr t, w'')"
    by (simp add: mem_CreatePersonalTenant_def Let_def split_beta)
  ultimately show "\<exists>t w''. mem_CreatePersonalTenant u w' = (Inr t, w'') \<and>
       EnsureActor (mem_AuthService cid) email name w =
       (Inr \<lparr>actor_UserID = user_ID u, actor_TenantID = tenant_ID t, actor_Email = user_Email u,
             actor_Role = RoleOwner, actor_APIKeyID = [], actor_IsPlatformAdmin = False\<rparr>, w'')"
    using up e by (simp add: defs)
qed

lemma CreatePersonalTenant_links:
  assumes "mem_CreatePersonalTenant u w = (Inr t, w')"
  shows "tenant_ID t \<noteq> [] \<and> map_of (tenants (store w')) (tenant_ID t) = Some t \<and>
    usersByEmail (store w') = usersByEmail (store w) \<and>
    (\<exists>u'. map_of (users (store w')) (user_ID u) = Some u' \<and> user_DefaultTenantID u' = tenant_ID t \<and>
       user_ID u' = user_ID u \<and> user_Email u' = user_Email u) \<and>
    (\<exists>m. map_of (members (store w')) (memberKey (tenant_ID t) (user_ID u)) = Some m \<and> member_Role m = RoleOwner)"
proof -
  obtain now w1 where n: "Now w = (now, w1)" by fastforce
  obtain tid w2 where i: "NewUUID w1 = (tid, w2)" by fastforce
  have "store w2 = store w"
    using store_Now [of w] store_NewUUID [of w1] by (simp add: n i)
  moreover have "tid \<noteq> []"
    using NewUUID_nonempty [of w1] by (simp add: i)
  ultimately show ?thesis
    using assms by (auto simp: mem_CreatePersonalTenant_def Let_def n i update_conv')
qed

text \<open>
  Signing in always gives an actor, and always the same one. On a well-formed memory store every non-empty address signs
  in: a new user gets a personal tenant it owns; and signing in again with the same address up to case and
  blanks gives the same user in the same tenant and creates no tenant. No such actor is a platform
  administrator.
\<close>

theorem EnsureActor_stable:
  assumes "wf_store (store w)" and "email \<noteq> []" and "email' \<noteq> []"
    and "ToLower (TrimSpace email') = ToLower (TrimSpace email)"
  shows "\<exists>actor w1 actor' w2.
     EnsureActor (mem_AuthService cid) email name w = (Inr actor, w1) \<and>
     EnsureActor (mem_AuthService cid) email' name' w1 = (Inr actor', w2) \<and>
     actor_UserID actor' = actor_UserID actor \<and> actor_TenantID actor' = actor_TenantID actor \<and>
     actor_TenantID actor \<noteq> [] \<and> \<not> actor_IsPlatformAdmin actor \<and> tenants (store w2) = tenants (store w1)"
proof -
  from Upsert_result [OF assms(1), of email name] obtain u w0 where
    u: "mem_UpsertByEmail email name w = (Inr u, w0)" "map_of (usersByEmail (store w0)) (ToLower (TrimSpace email')) = Some (user_ID u)"
      "map_of (users (store w0)) (user_ID u) = Some u"
    using assms(4) by auto
  have again: "\<exists>actor' w2. EnsureActor (mem_AuthService cid) email' name' w1 = (Inr actor', w2) \<and>
      actor_UserID actor' = user_ID x \<and> actor_TenantID actor' = user_DefaultTenantID x \<and> tenants (store w2) = tenants (store w1)"
    if k: "map_of (usersByEmail (store w1)) (ToLower (TrimSpace email')) = Some i" "map_of (users (store w1)) i = Some x"
      "user_DefaultTenantID x \<noteq> []" for w1 i x
  proof -
    from Upsert_known [OF k(1,2), of name'] obtain x' w2 where
      x: "mem_UpsertByEmail email' name' w1 = (Inr x', w2)" "user_ID x' = user_ID x"
        "user_DefaultTenantID x' = user_DefaultTenantID x" "tenants (store w2) = tenants (store w1)"
      by blast
    from EnsureActor_mem(1) [OF x(1) assms(3), of cid] k(3) x show ?thesis by auto
  qed
  show ?thesis
  proof (cases "user_DefaultTenantID u = []")
    case True
    from EnsureActor_mem(2) [OF u(1) assms(2) True, of cid] obtain t w1 where
      t: "mem_CreatePersonalTenant u w0 = (Inr t, w1)" "EnsureActor (mem_AuthService cid) email name w =
       (Inr \<lparr>actor_UserID = user_ID u, actor_TenantID = tenant_ID t, actor_Email = user_Email u,
             actor_Role = RoleOwner, actor_APIKeyID = [], actor_IsPlatformAdmin = False\<rparr>, w1)"
      by blast
    from CreatePersonalTenant_links [OF t(1)] u(2) obtain x where
      l: "tenant_ID t \<noteq> []" "map_of (usersByEmail (store w1)) (ToLower (TrimSpace email')) = Some (user_ID u)"
        "map_of (users (store w1)) (user_ID u) = Some x" "user_DefaultTenantID x = tenant_ID t" "user_ID x = user_ID u"
      by auto
    from again [OF l(2,3)] l(1,4,5) t(2) show ?thesis by auto
  next
    case False
    from EnsureActor_mem(1) [OF u(1) assms(2) False, of cid] again [OF u(2,3) False] False show ?thesis by auto
  qed
qed

theorem EnsureActor_stable_witness:
  "\<exists>actor w1 actor' w2.
     EnsureActor (mem_AuthService ''id'') ''a@b.c'' ''A'' (demo_store_world mq_NewClient NewState) = (Inr actor, w1) \<and>
     EnsureActor (mem_AuthService ''id'') '' A@B.c '' [] w1 = (Inr actor', w2) \<and>
     actor_TenantID actor' = actor_TenantID actor"
proof -
  have "ToLower (TrimSpace '' A@B.c '') = ToLower (TrimSpace ''a@b.c'')" by code_simp
  with EnsureActor_stable [of "demo_store_world mq_NewClient NewState" "''a@b.c''" "'' A@B.c ''" "''id''" "''A''" "[]"]
  show ?thesis using wf_NewState by (auto simp: demo_store_world_def)
qed

end
