(* ===== verification/Http.thy ===== *)
theory Http
  imports Handlers AuthServices
begin

text \<open>
  \<^verbatim>\<open>internal/api/http\<close>, the parts below the handlers: \<^verbatim>\<open>helpers.go\<close>, \<^verbatim>\<open>middleware.go\<close> and the multiplexer of the Go library that
  \<^verbatim>\<open>router.go\<close> fills. A handler works on a response writer and the world of the services; a handler that panics ends with
  \<open>Inl\<close>, every other one with \<open>Inr ()\<close>. The body of a response is the value given to the JSON encoder. Log lines are left out,
  and so are percent-escapes in a path (\<open>rq_Path\<close> is both the path of the URL and its escaped form) and the query string that a
  redirection repeats.
\<close>

section \<open>Requests and responses\<close>

record request =
  rq_Method :: string
  rq_Path :: string
  rq_Query :: "string \<Rightarrow> string"
  rq_Header :: "string \<Rightarrow> string"
  rq_Body :: string
  rq_actor :: "Actor option"
  rq_requestID :: string

record ErrorResponse =
  err_Code :: string
  err_Message :: string

record AdminPreflightCheck =
  pc_ID :: string
  pc_Label :: string
  pc_Status :: string
  pc_Severity :: string
  pc_Message :: string

record AdminPreflightResponse =
  pf_Status :: string
  pf_Backend :: string
  pf_RepositoryDriver :: string
  pf_DevelopmentAuth :: bool
  pf_DefaultIngressHost :: string
  pf_Capabilities :: BackendCapabilities
  pf_Readiness :: "(string \<times> string) list"
  pf_Checks :: "AdminPreflightCheck list"
  pf_Recommendations :: "string list"

record adminDeployOpenClawResponse =
  adr_User :: Actor
  adr_App :: App
  adr_Deployment :: Deployment
  adr_UsedExistingApp :: bool

datatype body =
    BText string
  | BError ErrorResponse
  | BStrings "(string \<times> string) list"
  | BProviders "string list"
  | BActor Actor
  | BApp App
  | BApps "App list"
  | BDeployment Deployment
  | BDeployments "Deployment list"
  | BPlan DeploymentPlan
  | BEvents "DeploymentEvent list"
  | BKeyResult APIKeyCreateResult
  | BKeys "APIKey list"
  | BInstances "AdminInstance list"
  | BSummary AdminSummary
  | BBackends "BackendCapabilities list"
  | BQueueStats QueueStats
  | BReconciled "ReconcileResult option"
  | BDeadLetters "DeadLetterJob list"
  | BJob Job
  | BPreflight AdminPreflightResponse
  | BAuditLogs "AuditLog list"
  | BDeployed adminDeployOpenClawResponse
  | BMoved string

text \<open>
  The response writer: the header map, what \<^verbatim>\<open>WriteHeader\<close> has sent (the status and the headers of that moment; the first call
  counts), and what was written after it.
\<close>

record response =
  rw_Header :: "(string \<times> string) list"
  rw_Sent :: "(int \<times> (string \<times> string) list) option"
  rw_Body :: "body list"

type_synonym 'w handler = "request \<Rightarrow> (unit, response \<times> 'w) op"

definition setHeader :: "string \<Rightarrow> string \<Rightarrow> response \<Rightarrow> response" where
  "setHeader k v rw = rw\<lparr>rw_Header := AList.update k v (rw_Header rw)\<rparr>"

definition WriteHeader :: "int \<Rightarrow> response \<Rightarrow> response" where
  "WriteHeader code rw =
     (case rw_Sent rw of None \<Rightarrow> rw\<lparr>rw_Sent := Some (code, rw_Header rw)\<rparr> | Some _ \<Rightarrow> rw)"

definition Write :: "body \<Rightarrow> response \<Rightarrow> response" where
  "Write b rw = (let rw = WriteHeader 200 rw in rw\<lparr>rw_Body := rw_Body rw @ [b]\<rparr>)"

text \<open>\<^verbatim>\<open>http.Error\<close>, \<^verbatim>\<open>http.NotFound\<close> and \<^verbatim>\<open>http.Redirect\<close>, which writes its page for \<^verbatim>\<open>GET\<close> only\<close>

definition http_Error :: "string \<Rightarrow> int \<Rightarrow> response \<Rightarrow> response" where
  "http_Error text code rw =
     Write (BText (text @ [CHR 0x0A])) (WriteHeader code
       (setHeader ''X-Content-Type-Options'' ''nosniff'' (setHeader ''Content-Type'' ''text/plain; charset=utf-8'' rw)))"

definition http_NotFound :: "response \<Rightarrow> response" where
  "http_NotFound = http_Error ''404 page not found'' 404"

definition http_Redirect :: "string \<Rightarrow> string \<Rightarrow> response \<Rightarrow> response" where
  "http_Redirect method path rw =
     (let rw = setHeader ''Location'' path rw;
          rw = (if method = ''GET'' \<or> method = ''HEAD'' then setHeader ''Content-Type'' ''text/html; charset=utf-8'' rw else rw);
          rw = WriteHeader 301 rw
      in if method = ''GET'' then Write (BMoved path) rw else rw)"

section \<open>Helpers\<close>

definition maxRequestBodyBytes :: nat where
  "maxRequestBodyBytes = 1048576"

definition writeJSON :: "int \<Rightarrow> body \<Rightarrow> response \<Rightarrow> response" where
  "writeJSON status v rw = Write v (WriteHeader status (setHeader ''Content-Type'' ''application/json'' rw))"

definition errorStatus :: "error \<Rightarrow> int \<times> string" where
  "errorStatus err =
     (if errors_Is err ErrUnauthorized then (401, ''unauthorized'')
      else if errors_Is err ErrForbidden then (403, ''forbidden'')
      else if errors_Is err ErrNotFound then (404, ''not_found'')
      else if errors_Is err ErrConflict then (409, ''conflict'')
      else if errors_Is err ErrValidation then (400, ''validation_error'')
      else (500, ''internal_error''))"

definition writeError :: "error \<Rightarrow> response \<Rightarrow> response" where
  "writeError err rw =
     (let (status, code) = errorStatus err
      in writeJSON status (BError \<lparr>err_Code = code, err_Message = Error err\<rparr>) rw)"

text \<open>
  The JSON decoder is a parameter: given the bytes up to the limit and whether more follow (then reading on is an error), it
  gives the input or an error.
\<close>

type_synonym 'i decoder = "string \<Rightarrow> bool \<Rightarrow> error + 'i"

definition decodeJSON :: "'i decoder \<Rightarrow> request \<Rightarrow> error + 'i" where
  "decodeJSON decode req =
     (case decode (take maxRequestBodyBytes (rq_Body req)) (maxRequestBodyBytes < length (rq_Body req)) of
        Inl err \<Rightarrow> Inl (ErrWrap (Error ErrValidation @ '': '' @ Error err) ErrValidation)
      | Inr x \<Rightarrow> Inr x)"

section \<open>Steps of a handler\<close>

text \<open>A handler's own writes; a call with \<^verbatim>\<open>if err != nil { writeError(w, err); return }\<close> behind it; a call with its error dropped.\<close>

definition respond :: "(response \<Rightarrow> response) \<Rightarrow> (unit, response \<times> 'w) op" where
  "respond f = (\<lambda>(rw, w). (Inr (), (f rw, w)))"

definition call :: "('a, 'w) op \<Rightarrow> ('a \<Rightarrow> (unit, response \<times> 'w) op) \<Rightarrow> (unit, response \<times> 'w) op" where
  "call f k = (\<lambda>(rw, w).
     case f w of
       (Inl e, w') \<Rightarrow> if is_panic e then (Inl e, (rw, w')) else (Inr (), (writeError e rw, w'))
     | (Inr a, w') \<Rightarrow> k a (rw, w'))"

definition ignoring :: "('a, 'w) op \<Rightarrow> (unit, response \<times> 'w) op \<Rightarrow> (unit, response \<times> 'w) op" where
  "ignoring f k = (\<lambda>(rw, w).
     case f w of
       (Inl e, w') \<Rightarrow> if is_panic e then (Inl e, (rw, w')) else k (rw, w')
     | (Inr _, w') \<Rightarrow> k (rw, w'))"

section \<open>Middleware\<close>

definition actorFromContext :: "request \<Rightarrow> error + Actor" where
  "actorFromContext req = (case rq_actor req of None \<Rightarrow> Inl ErrUnauthorized | Some actor \<Rightarrow> Inr actor)"

definition headerAdmin :: "request \<Rightarrow> bool" where
  "headerAdmin req \<longleftrightarrow> EqualFold (TrimSpace (rq_Header req ''X-Platform-Admin'')) ''true''"

definition asAdmin :: "request \<Rightarrow> Actor \<Rightarrow> Actor" where
  "asAdmin req actor = (if headerAdmin req then actor\<lparr>actor_IsPlatformAdmin := True\<rparr> else actor)"

definition requestEmail :: "bool \<Rightarrow> request \<Rightarrow> string" where
  "requestEmail devAuth req =
     (let email = TrimSpace (rq_Header req ''X-User-Email'')
      in if email = [] \<and> devAuth then ''developer@local'' else email)"

text \<open>The actor of a request: by API key when there is one, otherwise by the email header.\<close>

definition requestActor ::
  "digest \<Rightarrow> bool \<Rightarrow> 'a env_scheme AuthService \<Rightarrow> request \<Rightarrow> (Actor, 'a env_scheme) op" where
  "requestActor sha devAuth auth req =
     (let apiKey = TrimSpace (rq_Header req ''X-API-Key'')
      in if apiKey \<noteq> []
         then bindE (AuthenticateAPIKey sha auth apiKey) (\<lambda>actor. ret (asAdmin req actor))
         else
           let email = requestEmail devAuth req
           in if email = [] then fail ErrUnauthorized
              else bindE (EnsureActor auth email (TrimSpace (rq_Header req ''X-User-Name''))) (\<lambda>actor.
                   ret (asAdmin req actor)))"

definition withActor ::
  "digest \<Rightarrow> bool \<Rightarrow> 'a env_scheme AuthService \<Rightarrow> 'a env_scheme handler \<Rightarrow> 'a env_scheme handler" where
  "withActor sha devAuth auth next req =
     call (requestActor sha devAuth auth req) (\<lambda>actor. next (req\<lparr>rq_actor := Some actor\<rparr>))"

definition requestID :: "request \<Rightarrow> 'a env_scheme \<Rightarrow> string \<times> 'a env_scheme" where
  "requestID req w =
     (let i = TrimSpace (rq_Header req ''X-Request-ID'') in if i = [] then NewUUID w else (i, w))"

definition withRequestID :: "'a env_scheme handler \<Rightarrow> 'a env_scheme handler" where
  "withRequestID next req = (\<lambda>(rw, w).
     let (i, w) = requestID req w
     in next (req\<lparr>rq_requestID := i\<rparr>) (setHeader ''X-Request-ID'' i rw, w))"

definition withMiddleware :: "'a env_scheme handler \<Rightarrow> 'a env_scheme handler" where
  "withMiddleware next = withRequestID next"

text \<open>Only the two readings of the clock are left of the logging.\<close>

definition withRequestLogging :: "'a env_scheme handler \<Rightarrow> 'a env_scheme handler" where
  "withRequestLogging next req = (\<lambda>(rw, w).
     let (start, w) = Now w
     in case next req (rw, w) of
          (Inl e, s) \<Rightarrow> (Inl e, s)
        | (Inr _, (rw, w)) \<Rightarrow> (let (stop, w) = Now w in (Inr (), (rw, w))))"

definition withPanicRecovery :: "'w handler \<Rightarrow> 'w handler" where
  "withPanicRecovery next req s =
     (case next req s of
        (Inl e, (rw, w)) \<Rightarrow> (Inr (), (http_Error ''{\"error\":\"internal server error\"}'' 500 rw, w))
      | (Inr _, s) \<Rightarrow> (Inr (), s))"

definition withSecurityHeaders :: "'w handler \<Rightarrow> 'w handler" where
  "withSecurityHeaders next req = (\<lambda>(rw, w).
     next req (setHeader ''Referrer-Policy'' ''strict-origin-when-cross-origin''
       (setHeader ''X-Frame-Options'' ''DENY'' (setHeader ''X-Content-Type-Options'' ''nosniff'' rw)), w))"

section \<open>The multiplexer\<close>

text \<open>\<^verbatim>\<open>path.Clean\<close> of a rooted path, on its segments; \<open>cleanPath\<close> keeps a trailing slash.\<close>

fun cleanSegments :: "string list \<Rightarrow> string list \<Rightarrow> string list" where
  "cleanSegments done_rev [] = rev done_rev"
| "cleanSegments done_rev (s # segs) =
     (if s = [] \<or> s = ''.'' then cleanSegments done_rev segs
      else if s = ''..'' then cleanSegments (tl done_rev) segs
      else cleanSegments (s # done_rev) segs)"

definition cleanPath :: "string \<Rightarrow> string" where
  "cleanPath p =
     (if p = [] then ''/''
      else
        let p = (if hd p \<noteq> CHR ''/'' then ''/'' @ p else p);
            np = ''/'' @ join ''/'' (cleanSegments [] (Split p (CHR ''/'')))
        in if last p = CHR ''/'' \<and> np \<noteq> ''/'' then np @ ''/'' else np)"

text \<open>The most specific pattern: the path itself, or else the longest pattern that ends in a slash and starts the path.\<close>

definition longer :: "(string \<times> 'h) option \<Rightarrow> string \<times> 'h \<Rightarrow> (string \<times> 'h) option" where
  "longer best ph =
     (case best of None \<Rightarrow> Some ph | Some b \<Rightarrow> if length (fst b) < length (fst ph) then Some ph else best)"

definition mux_match :: "(string \<times> 'h) list \<Rightarrow> string \<Rightarrow> (string \<times> 'h) option" where
  "mux_match patterns path =
     (case find (\<lambda>(p, h). p = path) patterns of
        Some ph \<Rightarrow> Some ph
      | None \<Rightarrow> foldl longer None (filter (\<lambda>(p, h). p \<noteq> [] \<and> last p = CHR ''/'' \<and> HasPrefix path p) patterns))"

datatype 'h routed = Moved string | Missing | Found string 'h

definition route :: "(string \<times> 'h) list \<Rightarrow> request \<Rightarrow> 'h routed" where
  "route patterns req =
     (let path = (if rq_Method req = ''CONNECT'' then rq_Path req else cleanPath (rq_Path req));
          m = mux_match patterns path
      in if (case m of None \<Rightarrow> True | Some (p, h) \<Rightarrow> p \<noteq> path) \<and> \<not> HasPrefix (rev path) ''/'' \<and>
            path @ ''/'' \<in> fst ` set patterns
         then Moved (cleanPath (rq_Path req) @ ''/'')
         else if rq_Method req \<noteq> ''CONNECT'' \<and> path \<noteq> rq_Path req then Moved path
         else case m of None \<Rightarrow> Missing | Some (p, h) \<Rightarrow> Found p h)"

definition serveMux :: "(string \<times> 'w handler) list \<Rightarrow> 'w handler" where
  "serveMux patterns req =
     (case route patterns req of
        Moved path \<Rightarrow> respond (http_Redirect (rq_Method req) path)
      | Missing \<Rightarrow> respond http_NotFound
      | Found p h \<Rightarrow> h req)"

end
