(* ===== verification/HttpApi.thy ===== *)
theory HttpApi
  imports Http
begin

text \<open>
  \<^verbatim>\<open>internal/api/http/handlers.go\<close> and \<^verbatim>\<open>router.go\<close>: the handlers and the routes. \<open>Router\<close> holds the services and settings and, beyond
  the fields of the source, what the handlers read from outside: the digest of API keys, the JSON decoders, the build variables,
  the name of the machine and the Swagger files on disk.
\<close>

section \<open>The router\<close>

record APIKeyCreateRequest =
  kcr_Name :: string

record adminCreateUserInput =
  cui_Email :: string
  cui_DisplayName :: string

record adminDeployOpenClawInput =
  di_UserEmail :: string
  di_UserName :: string
  di_AppName :: string
  di_AppSlug :: string
  di_Image :: string
  di_Replicas :: int
  di_Public :: bool
  di_Domain :: string
  di_GatewayBindAddress :: string
  di_GatewayPort :: int
  di_GatewayToken :: string
  di_WorkspaceStorage :: string
  di_ProviderAPIKeys :: gomap
  di_AgentsMarkdown :: string
  di_SettingsJSON :: string
  di_ExtraEnv :: gomap
  di_ExistingSecretName :: string

record decoders =
  dec_CreateApp :: "CreateAppInput decoder"
  dec_UpdateApp :: "UpdateAppInput decoder"
  dec_APIKeyCreate :: "APIKeyCreateRequest decoder"
  dec_AdminUser :: "adminCreateUserInput decoder"
  dec_AdminDeploy :: "adminDeployOpenClawInput decoder"

record 'w Router =
  r_auth :: "'w AuthService"
  r_apiKeys :: "'w APIKeyService"
  r_admin :: "'w AdminService"
  r_audit :: "'w AuditService"
  r_health :: "'w HealthService"
  r_apps :: "'w AppService"
  r_deployments :: "'w DeploymentService"
  r_reliability :: "'w ReliabilityService"
  r_devAuth :: bool
  r_repository :: string
  r_backend :: string
  r_ingressHost :: string
  r_sha :: digest
  r_decode :: decoders
  r_build :: "string \<times> string \<times> string"
  r_file :: "string \<rightharpoonup> body"

section \<open>Handlers of a tenant\<close>

definition handleMe :: "'a env_scheme Router \<Rightarrow> 'a env_scheme handler" where
  "handleMe r req = call (ofSum (actorFromContext req)) (\<lambda>actor. respond (writeJSON 200 (BActor actor)))"

definition createApp :: "'a env_scheme Router \<Rightarrow> 'a env_scheme handler" where
  "createApp r req =
     call (ofSum (actorFromContext req)) (\<lambda>actor.
     call (ofSum (decodeJSON (dec_CreateApp (r_decode r)) req)) (\<lambda>inp.
     call (CreateApp (r_apps r) actor inp) (\<lambda>app.
     ignoring (Record (r_audit r) actor ''app.create'' ''app'' (app_ID app) ''app created'')
     (respond (writeJSON 201 (BApp app))))))"

definition listApps :: "'a env_scheme Router \<Rightarrow> 'a env_scheme handler" where
  "listApps r req =
     call (ofSum (actorFromContext req)) (\<lambda>actor.
     call (ListApps (r_apps r) actor) (\<lambda>apps.
     respond (writeJSON 200 (BApps apps))))"

definition getApp :: "'a env_scheme Router \<Rightarrow> string \<Rightarrow> 'a env_scheme handler" where
  "getApp r appID req =
     call (ofSum (actorFromContext req)) (\<lambda>actor.
     call (GetApp (r_apps r) actor appID) (\<lambda>app.
     respond (writeJSON 200 (BApp app))))"

definition updateApp :: "'a env_scheme Router \<Rightarrow> string \<Rightarrow> 'a env_scheme handler" where
  "updateApp r appID req =
     call (ofSum (actorFromContext req)) (\<lambda>actor.
     call (ofSum (decodeJSON (dec_UpdateApp (r_decode r)) req)) (\<lambda>inp.
     call (UpdateApp (r_apps r) actor appID inp) (\<lambda>app.
     ignoring (Record (r_audit r) actor ''app.update'' ''app'' (app_ID app) ''app updated'')
     (respond (writeJSON 200 (BApp app))))))"

definition createDeployment :: "'a env_scheme Router \<Rightarrow> string \<Rightarrow> 'a env_scheme handler" where
  "createDeployment r appID req =
     call (ofSum (actorFromContext req)) (\<lambda>actor.
     call (CreateDeployment (r_deployments r) actor appID) (\<lambda>deployment.
     ignoring (Record (r_audit r) actor ''deployment.create'' ''deployment'' (dep_ID deployment) ''deployment created'')
     (respond (writeJSON 201 (BDeployment deployment)))))"

definition listDeployments :: "'a env_scheme Router \<Rightarrow> string \<Rightarrow> 'a env_scheme handler" where
  "listDeployments r appID req =
     call (ofSum (actorFromContext req)) (\<lambda>actor.
     call (ListDeployments (r_deployments r) actor appID) (\<lambda>deployments.
     respond (writeJSON 200 (BDeployments deployments))))"

definition planDeployment :: "'a env_scheme Router \<Rightarrow> string \<Rightarrow> 'a env_scheme handler" where
  "planDeployment r appID req =
     call (ofSum (actorFromContext req)) (\<lambda>actor.
     call (PlanDeployment (r_deployments r) actor appID) (\<lambda>plan.
     respond (writeJSON 200 (BPlan plan))))"

definition getDeployment :: "'a env_scheme Router \<Rightarrow> string \<Rightarrow> 'a env_scheme handler" where
  "getDeployment r deploymentID req =
     call (ofSum (actorFromContext req)) (\<lambda>actor.
     call (GetDeployment (r_deployments r) actor deploymentID) (\<lambda>deployment.
     respond (writeJSON 200 (BDeployment deployment))))"

definition listDeploymentEvents :: "'a env_scheme Router \<Rightarrow> string \<Rightarrow> 'a env_scheme handler" where
  "listDeploymentEvents r deploymentID req =
     call (ofSum (actorFromContext req)) (\<lambda>actor.
     call (ListEvents (r_deployments r) actor deploymentID) (\<lambda>events.
     respond (writeJSON 200 (BEvents events))))"

definition retryDeployment :: "'a env_scheme Router \<Rightarrow> string \<Rightarrow> 'a env_scheme handler" where
  "retryDeployment r deploymentID req =
     call (ofSum (actorFromContext req)) (\<lambda>actor.
     call (RetryDeployment (r_deployments r) actor deploymentID) (\<lambda>deployment.
     ignoring (Record (r_audit r) actor ''deployment.retry'' ''deployment'' (dep_ID deployment) ''deployment retry requested'')
     (respond (writeJSON 200 (BDeployment deployment)))))"

definition cancelDeployment :: "'a env_scheme Router \<Rightarrow> string \<Rightarrow> 'a env_scheme handler" where
  "cancelDeployment r deploymentID req =
     call (ofSum (actorFromContext req)) (\<lambda>actor.
     call (CancelDeployment (r_deployments r) actor deploymentID) (\<lambda>deployment.
     ignoring (Record (r_audit r) actor ''deployment.cancel'' ''deployment'' (dep_ID deployment) ''deployment cancelled'')
     (respond (writeJSON 200 (BDeployment deployment)))))"

definition deleteDeployment :: "'a env_scheme Router \<Rightarrow> string \<Rightarrow> 'a env_scheme handler" where
  "deleteDeployment r deploymentID req =
     call (ofSum (actorFromContext req)) (\<lambda>actor.
     call (DeleteDeployment (r_deployments r) actor deploymentID) (\<lambda>deployment.
     ignoring (Record (r_audit r) actor ''deployment.delete'' ''deployment'' (dep_ID deployment) ''deployment deletion requested'')
     (respond (writeJSON 200 (BDeployment deployment)))))"

definition createAPIKey :: "'a env_scheme Router \<Rightarrow> 'a env_scheme handler" where
  "createAPIKey r req =
     call (ofSum (actorFromContext req)) (\<lambda>actor.
     call (ofSum (decodeJSON (dec_APIKeyCreate (r_decode r)) req)) (\<lambda>inp.
     call (CreateKey (r_sha r) (r_apiKeys r) actor (kcr_Name inp)) (\<lambda>result.
     ignoring (Record (r_audit r) actor ''api_key.create'' ''api_key'' (key_ID (akc_Key result)) ''api key created'')
     (respond (writeJSON 201 (BKeyResult result))))))"

definition listAPIKeys :: "'a env_scheme Router \<Rightarrow> 'a env_scheme handler" where
  "listAPIKeys r req =
     call (ofSum (actorFromContext req)) (\<lambda>actor.
     call (ListKeys (r_apiKeys r) actor) (\<lambda>keys.
     respond (writeJSON 200 (BKeys keys))))"

definition deleteAPIKey :: "'a env_scheme Router \<Rightarrow> string \<Rightarrow> 'a env_scheme handler" where
  "deleteAPIKey r keyID req =
     call (ofSum (actorFromContext req)) (\<lambda>actor.
     call (RevokeKey (r_apiKeys r) actor keyID) (\<lambda>_.
     ignoring (Record (r_audit r) actor ''api_key.revoke'' ''api_key'' keyID ''api key revoked'')
     (respond (WriteHeader 204))))"

text \<open>\<^verbatim>\<open>limit := preset\<close>, replaced by the query parameter when that is a number from 1 to \<open>most\<close>\<close>

definition queryLimit :: "int \<Rightarrow> int \<Rightarrow> request \<Rightarrow> int" where
  "queryLimit preset most req =
     (let raw = rq_Query req ''limit''
      in if raw \<noteq> []
         then case Atoi raw of
                Inl _ \<Rightarrow> preset
              | Inr parsed \<Rightarrow> if 0 < parsed \<and> parsed \<le> most then parsed else preset
         else preset)"

definition handleAuditLogs :: "'a env_scheme Router \<Rightarrow> 'a env_scheme handler" where
  "handleAuditLogs r req =
     call (ofSum (actorFromContext req)) (\<lambda>actor.
     call (ListTenantAuditLogs (r_audit r) actor (queryLimit 50 200 req)) (\<lambda>items.
     respond (writeJSON 200 (BAuditLogs items))))"

section \<open>Handlers of a platform administrator\<close>

definition handleAdminInstances :: "'a env_scheme Router \<Rightarrow> 'a env_scheme handler" where
  "handleAdminInstances r req =
     call (ofSum (actorFromContext req)) (\<lambda>actor.
     call (admin_ListAllInstances (r_admin r) actor) (\<lambda>instances.
     respond (writeJSON 200 (BInstances instances))))"

definition handleAdminSummary :: "'a env_scheme Router \<Rightarrow> 'a env_scheme handler" where
  "handleAdminSummary r req =
     call (ofSum (actorFromContext req)) (\<lambda>actor.
     call (admin_Summary (r_admin r) actor) (\<lambda>summary.
     respond (writeJSON 200 (BSummary summary))))"

definition adminOnly :: "Actor \<Rightarrow> (unit, response \<times> 'w) op \<Rightarrow> (unit, response \<times> 'w) op" where
  "adminOnly actor k = (if \<not> actor_IsPlatformAdmin actor then respond (writeError ErrForbidden) else k)"

definition handleAdminBackends :: "'a env_scheme Router \<Rightarrow> 'a env_scheme handler" where
  "handleAdminBackends r req =
     call (ofSum (actorFromContext req)) (\<lambda>actor.
     adminOnly actor (respond (writeJSON 200 (BBackends [BackendCapabilities_of (r_deployments r)]))))"

definition handleAdminReliability :: "'a env_scheme Router \<Rightarrow> 'a env_scheme handler" where
  "handleAdminReliability r req =
     call (ofSum (actorFromContext req)) (\<lambda>actor.
     call (Status (r_reliability r) actor) (\<lambda>status.
     respond (writeJSON 200 (BQueueStats status))))"

text \<open>\<^verbatim>\<open>ReconcileActive\<close> with its error, whose partial result the handler drops\<close>

definition reconcileOp :: "'w ReliabilityService \<Rightarrow> Actor \<Rightarrow> int \<Rightarrow> (ReconcileResult option, 'w) op" where
  "reconcileOp s actor limit w =
     (case ReconcileActive s actor limit w of
        ((Some err, _), w) \<Rightarrow> (Inl err, w)
      | ((None, result), w) \<Rightarrow> (Inr result, w))"

definition handleAdminReconcile :: "'a env_scheme Router \<Rightarrow> 'a env_scheme handler" where
  "handleAdminReconcile r req =
     (if rq_Method req \<noteq> ''POST'' then respond (WriteHeader 405)
      else
        call (ofSum (actorFromContext req)) (\<lambda>actor.
        call (reconcileOp (r_reliability r) actor (queryLimit 100 500 req)) (\<lambda>result.
        respond (writeJSON 200 (BReconciled result)))))"

definition handleAdminDeadLetters :: "'a env_scheme Router \<Rightarrow> 'a env_scheme handler" where
  "handleAdminDeadLetters r req =
     (if rq_Method req \<noteq> ''GET'' then respond (WriteHeader 405)
      else
        call (ofSum (actorFromContext req)) (\<lambda>actor.
        call (ListDeadLetters (r_reliability r) actor (queryLimit 50 200 req)) (\<lambda>items.
        respond (writeJSON 200 (BDeadLetters items)))))"

definition replayDeadLetter :: "'a env_scheme Router \<Rightarrow> string \<Rightarrow> 'a env_scheme handler" where
  "replayDeadLetter r dlid req =
     call (ofSum (actorFromContext req)) (\<lambda>actor.
     call (ReplayDeadLetter (r_reliability r) actor dlid) (\<lambda>job.
     ignoring (Record (r_audit r) actor ''dead_letter.replay'' ''job'' (job_ID job) ''dead-letter job replayed'')
     (respond (writeJSON 200 (BJob job)))))"

text \<open>\<^verbatim>\<open>strings.Split(strings.Trim(strings.TrimPrefix(req.URL.Path, prefix), "/"), "/")\<close>\<close>

definition pathParts :: "string \<Rightarrow> request \<Rightarrow> string list" where
  "pathParts pre req = Split (Trim (TrimPrefix (rq_Path req) pre) ''/'') (CHR ''/'')"

definition handleAdminDeadLetterRoutes :: "'a env_scheme Router \<Rightarrow> 'a env_scheme handler" where
  "handleAdminDeadLetterRoutes r req =
     (case pathParts ''/v1/admin/dead-letters/'' req of
        [dlid, action] \<Rightarrow>
          if action = ''replay'' \<and> rq_Method req = ''POST'' then replayDeadLetter r dlid req else respond http_NotFound
      | _ \<Rightarrow> respond http_NotFound)"

subsection \<open>Preflight\<close>

definition unhealthyReadinessValue :: "string \<Rightarrow> bool" where
  "unhealthyReadinessValue value \<longleftrightarrow> HasPrefix (ToLower (TrimSpace value)) ''error:''"

definition addCheck ::
  "string \<Rightarrow> string \<Rightarrow> string \<Rightarrow> string \<Rightarrow> string \<Rightarrow> AdminPreflightResponse \<Rightarrow> AdminPreflightResponse" where
  "addCheck cid label status severity message p =
     (let p = p\<lparr>pf_Checks := pf_Checks p @ [\<lparr>pc_ID = cid, pc_Label = label, pc_Status = status, pc_Severity = severity,
                                             pc_Message = message\<rparr>]\<rparr>
      in if status = ''fail'' then p\<lparr>pf_Status := ''blocked''\<rparr>
         else if status = ''warn'' \<and> pf_Status p = ''ready'' then p\<lparr>pf_Status := ''warning''\<rparr>
         else p)"

definition recommend :: "string \<Rightarrow> AdminPreflightResponse \<Rightarrow> AdminPreflightResponse" where
  "recommend text p = p\<lparr>pf_Recommendations := pf_Recommendations p @ [text]\<rparr>"

definition readinessOf :: "(string \<times> string) list \<Rightarrow> string \<Rightarrow> string" where
  "readinessOf m k = (case map_of m k of None \<Rightarrow> [] | Some v \<Rightarrow> v)"

definition checkPersistence :: "string \<Rightarrow> string \<Rightarrow> AdminPreflightResponse \<Rightarrow> AdminPreflightResponse" where
  "checkPersistence repository database p =
     (if repository = ''memory''
      then recommend ''Set REPOSITORY_DRIVER=postgres and DATABASE_URL before inviting real users.''
             (addCheck ''persistence'' ''Persistence'' ''warn'' ''warning''
                ''Using the in-memory repository. Great for demos, but data resets on restart.'' p)
      else if unhealthyReadinessValue database
      then recommend ''Check DATABASE_URL, run migrations, and confirm the API can reach Postgres.''
             (addCheck ''persistence'' ''Persistence'' ''fail'' ''critical'' database p)
      else addCheck ''persistence'' ''Persistence'' ''pass'' ''info'' ''Postgres is reachable.'' p)"

definition checkQueue :: "string \<Rightarrow> AdminPreflightResponse \<Rightarrow> AdminPreflightResponse" where
  "checkQueue redis p =
     (if unhealthyReadinessValue redis
      then recommend ''Start Redis or update REDIS_ADDR so deployment jobs can be queued.''
             (addCheck ''queue'' ''Job queue'' ''fail'' ''critical'' redis p)
      else addCheck ''queue'' ''Job queue'' ''pass'' ''info'' ''Redis is reachable for async deployment jobs.'' p)"

definition checkBackend :: "string \<Rightarrow> AdminPreflightResponse \<Rightarrow> AdminPreflightResponse" where
  "checkBackend backend p =
     (if backend = []
      then recommend ''Configure a deployment backend before creating OpenClaw instances.''
             (addCheck ''backend'' ''Deployment backend'' ''fail'' ''critical'' ''No deployment backend is registered.'' p)
      else addCheck ''backend'' ''Deployment backend'' ''pass'' ''info'' (''Using the '' @ backend @ '' deployment backend.'') p)"

definition checkAuth :: "bool \<Rightarrow> AdminPreflightResponse \<Rightarrow> AdminPreflightResponse" where
  "checkAuth devAuth p =
     (if devAuth
      then recommend ''Disable DEVELOPMENT_AUTH and use real identity or API-key auth outside local development.''
             (addCheck ''auth'' ''Auth mode'' ''warn'' ''warning'' ''Development auth is enabled and trusts request headers.'' p)
      else addCheck ''auth'' ''Auth mode'' ''pass'' ''info'' ''Development header auth is disabled.'' p)"

definition checkIngress :: "string \<Rightarrow> AdminPreflightResponse \<Rightarrow> AdminPreflightResponse" where
  "checkIngress ingressHost p =
     (if TrimSpace ingressHost = []
      then recommend ''Set DEFAULT_INGRESS_HOST to make generated domains predictable.''
             (addCheck ''ingress'' ''Ingress default'' ''warn'' ''warning'' ''No default ingress host is configured.'' p)
      else addCheck ''ingress'' ''Ingress default'' ''pass'' ''info'' (''Default ingress host is '' @ ingressHost @ ''.'') p)"

definition preflight :: "'w Router \<Rightarrow> (string \<times> string) list \<Rightarrow> AdminPreflightResponse" where
  "preflight r readiness =
     checkIngress (r_ingressHost r) (checkAuth (r_devAuth r) (checkBackend (r_backend r)
       (checkQueue (readinessOf readiness ''redis'') (checkPersistence (r_repository r) (readinessOf readiness ''database'')
         (addCheck ''api'' ''API process'' ''pass'' ''info'' ''The HTTP API is responding.''
           \<lparr>pf_Status = ''ready'', pf_Backend = r_backend r, pf_RepositoryDriver = r_repository r,
            pf_DevelopmentAuth = r_devAuth r, pf_DefaultIngressHost = r_ingressHost r,
            pf_Capabilities = BackendCapabilities_of (r_deployments r), pf_Readiness = readiness, pf_Checks = [],
            pf_Recommendations = []\<rparr>)))))"

definition readinessOp :: "'w Router \<Rightarrow> ((string \<times> string) list, 'w) op" where
  "readinessOp r w =
     (case r_build r of (version, commit, host) \<Rightarrow>
        (let (status, w) = Readiness version commit host (r_health r) w in (Inr status, w)))"

definition handleAdminPreflight :: "'a env_scheme Router \<Rightarrow> 'a env_scheme handler" where
  "handleAdminPreflight r req =
     call (ofSum (actorFromContext req)) (\<lambda>actor.
     adminOnly actor
     (call (readinessOp r) (\<lambda>readiness. respond (writeJSON 200 (BPreflight (preflight r readiness))))))"

subsection \<open>Users\<close>

definition createAdminUser :: "'a env_scheme Router \<Rightarrow> 'a env_scheme handler" where
  "createAdminUser r req =
     call (ofSum (actorFromContext req)) (\<lambda>actor.
     adminOnly actor
     (call (ofSum (decodeJSON (dec_AdminUser (r_decode r)) req)) (\<lambda>inp.
      let email = TrimSpace (cui_Email inp);
          displayName = TrimSpace (cui_DisplayName inp)
      in if email = [] then respond (writeError ErrValidation)
         else
           call (EnsureActor (r_auth r) email displayName) (\<lambda>provisioned.
           ignoring (Record (r_audit r) actor ''admin.user.provision'' ''user'' (actor_UserID provisioned) ''admin provisioned user'')
           (respond (writeJSON 201 (BActor provisioned)))))))"

definition handleAdminUsers :: "'a env_scheme Router \<Rightarrow> 'a env_scheme handler" where
  "handleAdminUsers r req =
     (if rq_Method req = ''POST'' then createAdminUser r req else respond (WriteHeader 405))"

subsection \<open>Deploying for a user\<close>

definition normalizeAdminSlug :: "string \<Rightarrow> string" where
  "normalizeAdminSlug s =
     (let s = TrimSpace (ToLower s);
          s = ReplaceAll s (CHR '' '') (CHR ''-'');
          s = ReplaceAll s (CHR ''_'') (CHR ''-'');
          s = ReplaceAll s (CHR ''.'') (CHR ''-'')
      in Trim s ''-'')"

text \<open>
  \<^verbatim>\<open>for key, value := range m\<close> with a body that deletes the key and puts the trimmed entry back. The loop visits the keys the map had
  at its start, in the order of this iteration, unless they are gone by then. Go may also visit entries the body
  has put in; \<open>trimStep_again\<close> shows that such a visit changes nothing.
\<close>

definition trimStep :: "(string \<Rightarrow> bool) \<Rightarrow> string \<Rightarrow> (string \<times> string) list \<Rightarrow> (string \<times> string) list" where
  "trimStep keep key m =
     (case map_of m key of
        None \<Rightarrow> m
      | Some v \<Rightarrow>
          (let trimmedKey = TrimSpace key;
               trimmedValue = TrimSpace v;
               m = AList.delete key m
           in if trimmedKey \<noteq> [] \<and> keep trimmedValue then AList.update trimmedKey trimmedValue m else m))"

definition trimMap ::
  "(string \<Rightarrow> bool) \<Rightarrow> gomap \<Rightarrow> 'a env_scheme \<Rightarrow> (string \<times> string) list \<times> 'a env_scheme" where
  "trimMap keep m w =
     (let (kvs, w) = range_map (entries m) w
      in (foldl (\<lambda>m (key, _). trimStep keep key m) (entries m) kvs, w))"

lemma trimStep_again:
  assumes "map_of m k = Some v" and "TrimSpace k = k" and "TrimSpace v = v" and "k \<noteq> []" and "keep v"
  shows "map_of (trimStep keep k m) = map_of m"
  using assms by (auto simp: trimStep_def Let_def update_conv' delete_conv' fun_eq_iff)

text \<open>The texts of the input trimmed, and then the defaults for what is missing.\<close>

definition trimDeployInput :: "adminDeployOpenClawInput \<Rightarrow> adminDeployOpenClawInput" where
  "trimDeployInput inp = inp
     \<lparr>di_UserEmail := TrimSpace (di_UserEmail inp), di_UserName := TrimSpace (di_UserName inp),
      di_AppName := TrimSpace (di_AppName inp), di_AppSlug := normalizeAdminSlug (di_AppSlug inp),
      di_Image := TrimSpace (di_Image inp), di_Domain := TrimSpace (di_Domain inp),
      di_GatewayBindAddress := TrimSpace (di_GatewayBindAddress inp), di_GatewayToken := TrimSpace (di_GatewayToken inp),
      di_WorkspaceStorage := TrimSpace (di_WorkspaceStorage inp),
      di_ExistingSecretName := TrimSpace (di_ExistingSecretName inp)\<rparr>"

definition trimDeployMaps :: "adminDeployOpenClawInput \<Rightarrow> (adminDeployOpenClawInput, 'a env_scheme) op" where
  "trimDeployMaps inp w =
     (let (keys, w) = trimMap (\<lambda>_. True) (di_ProviderAPIKeys inp) w;
          (vars, w) = trimMap (\<lambda>v. v \<noteq> []) (di_ExtraEnv inp) w
      in (Inr (inp\<lparr>di_ProviderAPIKeys := Some keys, di_ExtraEnv := Some vars\<rparr>), w))"

definition defaultDeployInput :: "adminDeployOpenClawInput \<Rightarrow> adminDeployOpenClawInput" where
  "defaultDeployInput inp =
     (let name = dflt [] ''openclaw'' (di_AppName inp);
          slug = dflt [] ''openclaw'' (dflt [] (normalizeAdminSlug name) (di_AppSlug inp));
          keys = (if di_ExistingSecretName inp = []
                  then Some (filter (\<lambda>(k, v). TrimSpace v \<noteq> []) (entries (di_ProviderAPIKeys inp)))
                  else di_ProviderAPIKeys inp)
      in inp\<lparr>di_AppName := name, di_AppSlug := slug,
             di_Image := dflt [] ''ghcr.io/openclaw/openclaw:latest'' (di_Image inp),
             di_GatewayBindAddress := dflt [] ''0.0.0.0'' (di_GatewayBindAddress inp),
             di_GatewayPort := (if di_GatewayPort inp \<le> 0 then 18789 else di_GatewayPort inp),
             di_WorkspaceStorage := dflt [] ''10Gi'' (di_WorkspaceStorage inp),
             di_ProviderAPIKeys := keys,
             di_Replicas := (if di_Replicas inp \<le> 0 then 1 else di_Replicas inp)\<rparr>)"

definition zeroReliability :: ReliabilityPolicy where
  "zeroReliability =
     \<lparr>rel_AutoRepair = False, rel_MaxRepairAttempts = 0, rel_HealthCheckPath = [], rel_HealthCheckTimeoutSeconds = 0,
      rel_RollbackOnFailedHealthCheck = False, rel_FallbackProviders = []\<rparr>"

definition deployAppInput :: "adminDeployOpenClawInput \<Rightarrow> CreateAppInput" where
  "deployAppInput inp =
     \<lparr>ca_Name = di_AppName inp, ca_Slug = di_AppSlug inp,
      ca_Config =
        \<lparr>cfg_Image = di_Image inp, cfg_Port = di_GatewayPort inp, cfg_Env = Some [], cfg_Replicas = di_Replicas inp,
         cfg_CPURequest = [], cfg_MemoryRequest = [], cfg_CPULimit = [], cfg_MemoryLimit = [], cfg_Public = di_Public inp,
         cfg_Domain = di_Domain inp, cfg_ServiceAccountName = [],
         cfg_OpenClaw = Some
           \<lparr>oc_Enabled = True, oc_GatewayBindAddress = di_GatewayBindAddress inp, oc_GatewayPort = di_GatewayPort inp,
            oc_GatewayToken = di_GatewayToken inp, oc_WorkspaceStorage = di_WorkspaceStorage inp,
            oc_ProviderAPIKeys = di_ProviderAPIKeys inp, oc_AgentsMarkdown = di_AgentsMarkdown inp,
            oc_SettingsJSON = di_SettingsJSON inp, oc_ExtraEnv = di_ExtraEnv inp,
            oc_ExistingSecretName = di_ExistingSecretName inp\<rparr>,
         cfg_Reliability = zeroReliability\<rparr>\<rparr>"

text \<open>The app to deploy: a new one, or on a conflict the target's app with the same slug.\<close>

definition deployApp ::
  "'a env_scheme AppService \<Rightarrow> Actor \<Rightarrow> CreateAppInput \<Rightarrow> (App \<times> bool, 'a env_scheme) op" where
  "deployApp s target inp =
     catchE (CreateApp s target inp)
       (\<lambda>err. if \<not> errors_Is err ErrConflict then fail err
              else bindE (ListApps s target) (\<lambda>apps.
                     case find (\<lambda>a. app_Slug a = ca_Slug inp) apps of
                       None \<Rightarrow> fail err
                     | Some candidate \<Rightarrow> ret (candidate, True)))
       (\<lambda>app. ret (app, False))"

definition adminDeployOpenClaw :: "'a env_scheme Router \<Rightarrow> 'a env_scheme handler" where
  "adminDeployOpenClaw r req =
     call (ofSum (actorFromContext req)) (\<lambda>actor.
     adminOnly actor
     (call (ofSum (decodeJSON (dec_AdminDeploy (r_decode r)) req)) (\<lambda>inp.
      call (trimDeployMaps (trimDeployInput inp)) (\<lambda>inp.
      if di_UserEmail inp = [] then respond (writeError ErrValidation)
      else
        let inp = defaultDeployInput inp
        in call (EnsureActor (r_auth r) (di_UserEmail inp) (di_UserName inp)) (\<lambda>targetActor.
           call (deployApp (r_apps r) targetActor (deployAppInput inp)) (\<lambda>(app, usedExisting).
           call (CreateDeployment (r_deployments r) targetActor (app_ID app)) (\<lambda>deployment.
           ignoring (Record (r_audit r) actor ''admin.openclaw.deploy'' ''deployment'' (dep_ID deployment) ''admin deployed OpenClaw'')
           (respond (writeJSON 201 (BDeployed
              \<lparr>adr_User = targetActor, adr_App = app, adr_Deployment = deployment, adr_UsedExistingApp = usedExisting\<rparr>))))))))))"

definition handleAdminOpenClawDeploy :: "'a env_scheme Router \<Rightarrow> 'a env_scheme handler" where
  "handleAdminOpenClawDeploy r req =
     (if rq_Method req = ''POST'' then adminDeployOpenClaw r req else respond (WriteHeader 405))"

section \<open>Public handlers\<close>

definition handleReady :: "'a env_scheme Router \<Rightarrow> 'a env_scheme handler" where
  "handleReady r req =
     call (readinessOp r) (\<lambda>status.
       respond (writeJSON (if \<exists>(k, v) \<in> set status. unhealthyReadinessValue v then 503 else 200) (BStrings status)))"

definition handleHealth :: "'a env_scheme Router \<Rightarrow> 'a env_scheme handler" where
  "handleHealth r req = respond (writeJSON 200 (BStrings [(''status'', ''ok'')]))"

definition handleProviders :: "'a env_scheme Router \<Rightarrow> 'a env_scheme handler" where
  "handleProviders r req = respond (writeJSON 200 (BProviders [''medium'']))"

definition handleMediumLogin :: "'a env_scheme Router \<Rightarrow> 'a env_scheme handler" where
  "handleMediumLogin r req =
     call (LoginURL (r_auth r) ''medium'' (rq_Query req ''redirect_uri'')) (\<lambda>loginURL.
     respond (writeJSON 200 (BStrings [(''url'', loginURL)])))"

definition handleMediumCallback :: "'a env_scheme Router \<Rightarrow> 'a env_scheme handler" where
  "handleMediumCallback r req =
     call (HandleOAuthCallback (r_auth r) ''medium'' (rq_Query req ''code'') (rq_Query req ''redirect_uri'')) (\<lambda>actor.
     respond (writeJSON 200 (BActor actor)))"

definition swaggerUIHTML :: string where
  "swaggerUIHTML = concat (map (\<lambda>line. line @ [CHR 0x0A])
     [''<!doctype html>'',
      ''<html lang=\"en\">'',
      ''  <head>'',
      ''    <meta charset=\"utf-8\" />'',
      ''    <meta name=\"viewport\" content=\"width=device-width, initial-scale=1\" />'',
      ''    <title>Clawflux Swagger UI</title>'',
      ''    <link rel=\"stylesheet\" href=\"https://unpkg.com/swagger-ui-dist@5/swagger-ui.css\" />'',
      ''    <style>'',
      ''      body { margin: 0; background: #fafafa; }'',
      ''      .topbar { display: none; }'',
      ''    </style>'',
      ''  </head>'',
      ''  <body>'',
      ''    <div id=\"swagger-ui\"></div>'',
      ''    <script src=\"https://unpkg.com/swagger-ui-dist@5/swagger-ui-bundle.js\"></script>'',
      ''    <script>'',
      ''      window.ui = SwaggerUIBundle({'',
      ''        url: '/swagger/swagger.json','',
      ''        dom_id: '#swagger-ui','',
      ''        deepLinking: true,'',
      ''        presets: [SwaggerUIBundle.presets.apis],'',
      ''      });'',
      ''    </script>'',
      ''  </body>'',
      ''</html>''])"

definition handleSwaggerUI :: "'w handler" where
  "handleSwaggerUI req =
     (if rq_Path req \<noteq> ''/swagger/'' \<and> rq_Path req \<noteq> ''/swagger'' then respond http_NotFound
      else respond (\<lambda>rw. Write (BText swaggerUIHTML) (setHeader ''Content-Type'' ''text/html; charset=utf-8'' rw)))"

definition handleSwaggerAssets :: "'w Router \<Rightarrow> 'w handler" where
  "handleSwaggerAssets r req =
     (let name = TrimPrefix (rq_Path req) ''/swagger/''
      in if name \<noteq> ''swagger.json'' \<and> name \<noteq> ''swagger.yaml'' then respond http_NotFound
         else case r_file r (''docs/swagger/'' @ name) of
                None \<Rightarrow> respond (writeJSON 404 (BError \<lparr>err_Code = ''not_found'',
                          err_Message = ''swagger asset not found; run `go generate ./cmd/api` first''\<rparr>))
              | Some content \<Rightarrow> respond (Write content))"

definition swaggerRoutes :: "'w Router \<Rightarrow> 'w handler" where
  "swaggerRoutes r req =
     (if rq_Path req = ''/swagger'' \<or> rq_Path req = ''/swagger/'' then handleSwaggerUI req else handleSwaggerAssets r req)"

section \<open>Routes\<close>

definition handleApps :: "'a env_scheme Router \<Rightarrow> 'a env_scheme handler" where
  "handleApps r req =
     (if rq_Method req = ''GET'' then listApps r req
      else if rq_Method req = ''POST'' then createApp r req
      else respond (WriteHeader 405))"

definition handleAppRoutes :: "'a env_scheme Router \<Rightarrow> 'a env_scheme handler" where
  "handleAppRoutes r req =
     (case pathParts ''/v1/apps/'' req of
        [appID] \<Rightarrow>
          if rq_Method req = ''GET'' then getApp r appID req
          else if rq_Method req = ''PATCH'' then updateApp r appID req
          else respond (WriteHeader 405)
      | [appID, sub] \<Rightarrow>
          if sub = ''deployments''
          then if rq_Method req = ''GET'' then listDeployments r appID req
               else if rq_Method req = ''POST'' then createDeployment r appID req
               else respond (WriteHeader 405)
          else respond http_NotFound
      | [appID, sub, action] \<Rightarrow>
          if sub = ''deployments'' \<and> action = ''plan'' \<and> rq_Method req = ''GET'' then planDeployment r appID req
          else respond http_NotFound
      | _ \<Rightarrow> respond http_NotFound)"

definition handleDeploymentRoutes :: "'a env_scheme Router \<Rightarrow> 'a env_scheme handler" where
  "handleDeploymentRoutes r req =
     (case pathParts ''/v1/deployments/'' req of
        [deploymentID] \<Rightarrow>
          if rq_Method req = ''GET'' then getDeployment r deploymentID req else respond http_NotFound
      | [deploymentID, action] \<Rightarrow>
          if action = ''retry'' \<and> rq_Method req = ''POST'' then retryDeployment r deploymentID req
          else if action = ''cancel'' \<and> rq_Method req = ''POST'' then cancelDeployment r deploymentID req
          else if action = ''delete'' \<and> rq_Method req = ''POST'' then deleteDeployment r deploymentID req
          else if action = ''events'' \<and> rq_Method req = ''GET'' then listDeploymentEvents r deploymentID req
          else respond http_NotFound
      | _ \<Rightarrow> respond http_NotFound)"

definition handleAPIKeys :: "'a env_scheme Router \<Rightarrow> 'a env_scheme handler" where
  "handleAPIKeys r req =
     (if rq_Method req = ''GET'' then listAPIKeys r req
      else if rq_Method req = ''POST'' then createAPIKey r req
      else respond (WriteHeader 405))"

definition handleAPIKeyRoutes :: "'a env_scheme Router \<Rightarrow> 'a env_scheme handler" where
  "handleAPIKeyRoutes r req =
     (case pathParts ''/v1/api-keys/'' req of
        [keyID] \<Rightarrow> if rq_Method req = ''DELETE'' then deleteAPIKey r keyID req else respond http_NotFound
      | _ \<Rightarrow> respond http_NotFound)"

text \<open>\<^verbatim>\<open>r.withMiddleware(r.withActor(h))\<close>\<close>

definition guarded :: "'a env_scheme Router \<Rightarrow> 'a env_scheme handler \<Rightarrow> 'a env_scheme handler" where
  "guarded r h = withMiddleware (withActor (r_sha r) (r_devAuth r) (r_auth r) h)"

definition adminRoutes :: "'a env_scheme Router \<Rightarrow> (string \<times> 'a env_scheme handler) list" where
  "adminRoutes r =
     [(''/v1/admin/instances'', handleAdminInstances r),
      (''/v1/admin/summary'', handleAdminSummary r),
      (''/v1/admin/backends'', handleAdminBackends r),
      (''/v1/admin/preflight'', handleAdminPreflight r),
      (''/v1/admin/reliability'', handleAdminReliability r),
      (''/v1/admin/reconcile'', handleAdminReconcile r),
      (''/v1/admin/dead-letters'', handleAdminDeadLetters r),
      (''/v1/admin/dead-letters/'', handleAdminDeadLetterRoutes r),
      (''/v1/admin/users'', handleAdminUsers r),
      (''/v1/admin/openclaw/deploy'', handleAdminOpenClawDeploy r)]"

definition tenantRoutes :: "'a env_scheme Router \<Rightarrow> (string \<times> 'a env_scheme handler) list" where
  "tenantRoutes r =
     [(''/v1/me'', handleMe r),
      (''/v1/api-keys'', handleAPIKeys r),
      (''/v1/api-keys/'', handleAPIKeyRoutes r),
      (''/v1/admin/audit-logs'', handleAuditLogs r),
      (''/v1/apps'', handleApps r),
      (''/v1/apps/'', handleAppRoutes r),
      (''/v1/deployments/'', handleDeploymentRoutes r)]"

definition publicRoutes :: "'a env_scheme Router \<Rightarrow> (string \<times> 'a env_scheme handler) list" where
  "publicRoutes r =
     [(''/healthz'', handleHealth r),
      (''/readyz'', handleReady r),
      (''/swagger'', handleSwaggerUI),
      (''/swagger/'', swaggerRoutes r),
      (''/v1/auth/providers'', handleProviders r),
      (''/v1/auth/medium/login'', handleMediumLogin r),
      (''/v1/auth/medium/callback'', withMiddleware (handleMediumCallback r))]"

text \<open>The patterns of \<^verbatim>\<open>NewRouter\<close>; their order does not matter to the multiplexer.\<close>

definition routes :: "'a env_scheme Router \<Rightarrow> (string \<times> 'a env_scheme handler) list" where
  "routes r = publicRoutes r @ map (\<lambda>(p, h). (p, guarded r h)) (tenantRoutes r @ adminRoutes r)"

definition NewRouter :: "'a env_scheme Router \<Rightarrow> 'a env_scheme handler" where
  "NewRouter r = withPanicRecovery (withSecurityHeaders (withRequestLogging (serveMux (routes r))))"

text \<open>Serving a request from a fresh response writer; a handler that wrote nothing gives 200.\<close>

definition serve :: "'a env_scheme Router \<Rightarrow> request \<Rightarrow> 'a env_scheme \<Rightarrow> response \<times> 'a env_scheme" where
  "serve r req w =
     (case NewRouter r req (\<lparr>rw_Header = [], rw_Sent = None, rw_Body = []\<rparr>, w) of
        (_, (rw, w)) \<Rightarrow> (WriteHeader 200 rw, w))"

end
