(* ===== verification/HttpGuards.thy ===== *)
theory HttpGuards
  imports HttpApi
begin

text \<open>
  What holds of the HTTP interface over any services: every request is answered once and with the security headers, requests
  without credentials are refused, and the platform routes are closed to everyone who is not a platform administrator.
\<close>

section \<open>Every request is answered\<close>

named_theorems answer \<open>handlers that answer\<close>

definition safeHeaders :: "(string \<times> string) list \<Rightarrow> bool" where
  "safeHeaders hs \<longleftrightarrow> map_of hs ''X-Content-Type-Options'' = Some ''nosniff'' \<and> map_of hs ''X-Frame-Options'' = Some ''DENY'' \<and>
     map_of hs ''Referrer-Policy'' = Some ''strict-origin-when-cross-origin''"

text \<open>Nothing sent yet; one response sent.\<close>

definition unsent :: "response \<Rightarrow> bool" where
  "unsent rw \<longleftrightarrow> rw_Sent rw = None \<and> rw_Body rw = [] \<and> safeHeaders (rw_Header rw)"

definition answered :: "response \<Rightarrow> bool" where
  "answered rw \<longleftrightarrow> (\<exists>status hs. rw_Sent rw = Some (status, hs) \<and> safeHeaders hs) \<and> length (rw_Body rw) \<le> 1"

definition settled :: "(error + unit) \<times> (response \<times> 'w) \<Rightarrow> bool" where
  "settled out = (case fst out of Inl e \<Rightarrow> unsent (fst (snd out)) | Inr _ \<Rightarrow> answered (fst (snd out)))"

definition answers :: "(unit, response \<times> 'w) op \<Rightarrow> bool" where
  "answers f \<longleftrightarrow> (\<forall>rw w. unsent rw \<longrightarrow> settled (f (rw, w)))"

lemma safeHeaders_set:
  "safeHeaders hs \<Longrightarrow> k \<notin> {''X-Content-Type-Options'', ''X-Frame-Options'', ''Referrer-Policy''} \<Longrightarrow> safeHeaders (AList.update k v hs)"
  "safeHeaders hs \<Longrightarrow> safeHeaders (AList.update ''X-Content-Type-Options'' ''nosniff'' hs)"
  by (auto simp: safeHeaders_def update_conv')

lemmas writer_defs = writeJSON_def http_Error_def http_NotFound_def http_Redirect_def Write_def WriteHeader_def setHeader_def

lemma answers_respond [answer]:
  "answers (respond (writeJSON st b))" "answers (respond (WriteHeader st))" "answers (respond http_NotFound)"
  "answers (respond (http_Redirect meth path))" "answers (respond (Write b))"
  "answers (respond (\<lambda>rw. Write b (setHeader ''Content-Type'' ct rw)))"
  by (simp_all add: answers_def settled_def respond_def unsent_def answered_def writer_defs safeHeaders_set Let_def)

lemma answered_writeJSON: "unsent rw \<Longrightarrow> answered (writeJSON st b rw)"
  by (simp add: unsent_def answered_def writer_defs safeHeaders_set)

lemma answered_writeError: "unsent rw \<Longrightarrow> answered (writeError e rw)"
  by (simp add: writeError_def answered_writeJSON split: prod.split)

lemma answers_error [answer]: "answers (respond (writeError e))"
  by (simp add: answers_def settled_def respond_def answered_writeError)

lemma answers_call [answer]: "(\<And>a. answers (k a)) \<Longrightarrow> answers (call f k)"
  unfolding answers_def call_def
  by (auto simp: settled_def [of "(Inl _, _)"] settled_def [of "(Inr (), writeError _ _, _)"] answered_writeError
      split: prod.split sum.split)

lemma answers_ignoring [answer]: "answers k \<Longrightarrow> answers (ignoring f k)"
  unfolding answers_def ignoring_def by (auto simp: settled_def [of "(Inl _, _)"] split: prod.split sum.split)

lemma answers_if [answer]: "(b \<Longrightarrow> answers f) \<Longrightarrow> (\<not> b \<Longrightarrow> answers g) \<Longrightarrow> answers (if b then f else g)"
  by simp

lemma answers_let [answer]: "(\<And>x. answers (f x)) \<Longrightarrow> answers (let x = v in f x)"
  by simp

lemma answers_list [answer]: "answers f \<Longrightarrow> (\<And>x xs. answers (g x xs)) \<Longrightarrow> answers (case l of [] \<Rightarrow> f | x # xs \<Rightarrow> g x xs)"
  by (cases l) auto

lemma answers_option [answer]: "answers f \<Longrightarrow> (\<And>x. answers (g x)) \<Longrightarrow> answers (case l of None \<Rightarrow> f | Some x \<Rightarrow> g x)"
  by (cases l) auto

lemma answers_pair [answer]: "(\<And>a b. answers (f a b)) \<Longrightarrow> answers (case p of (a, b) \<Rightarrow> f a b)"
  by (cases p) auto

lemma answers_adminOnly [answer]: "answers k \<Longrightarrow> answers (adminOnly actor k)"
  unfolding adminOnly_def by (intro answer)

lemmas tenant_handler_defs =
  handleMe_def handleApps_def handleAppRoutes_def handleDeploymentRoutes_def handleAPIKeys_def handleAPIKeyRoutes_def
  handleAuditLogs_def createApp_def listApps_def getApp_def updateApp_def createDeployment_def listDeployments_def
  planDeployment_def getDeployment_def listDeploymentEvents_def retryDeployment_def cancelDeployment_def deleteDeployment_def
  createAPIKey_def listAPIKeys_def deleteAPIKey_def

lemmas admin_handler_defs =
  handleAdminInstances_def handleAdminSummary_def handleAdminBackends_def handleAdminPreflight_def handleAdminReliability_def
  handleAdminReconcile_def handleAdminDeadLetters_def handleAdminDeadLetterRoutes_def replayDeadLetter_def
  handleAdminUsers_def createAdminUser_def handleAdminOpenClawDeploy_def adminDeployOpenClaw_def

lemmas public_handler_defs =
  handleHealth_def handleReady_def handleSwaggerUI_def swaggerRoutes_def handleSwaggerAssets_def handleProviders_def
  handleMediumLogin_def handleMediumCallback_def

lemma answers_tenant_handlers [answer]:
  "answers (handleMe r req)" "answers (handleApps r req)" "answers (handleAppRoutes r req)"
  "answers (handleDeploymentRoutes r req)" "answers (handleAPIKeys r req)" "answers (handleAPIKeyRoutes r req)"
  "answers (handleAuditLogs r req)"
  unfolding tenant_handler_defs by (intro answer)+

lemma answers_admin_handlers [answer]:
  "answers (handleAdminInstances r req)" "answers (handleAdminSummary r req)" "answers (handleAdminBackends r req)"
  "answers (handleAdminPreflight r req)" "answers (handleAdminReliability r req)" "answers (handleAdminReconcile r req)"
  "answers (handleAdminDeadLetters r req)" "answers (handleAdminDeadLetterRoutes r req)" "answers (handleAdminUsers r req)"
  "answers (handleAdminOpenClawDeploy r req)"
  unfolding admin_handler_defs by (intro answer)+

lemma answers_public_handlers [answer]:
  "answers (handleHealth r req)" "answers (handleReady r req)" "answers (handleSwaggerUI req)" "answers (swaggerRoutes r req)"
  "answers (handleProviders r req)" "answers (handleMediumLogin r req)" "answers (handleMediumCallback r req)"
  unfolding public_handler_defs by (intro answer)+

lemma answers_tenant: "(p, h) \<in> set (tenantRoutes r) \<Longrightarrow> answers (h req)"
  unfolding tenantRoutes_def by (auto intro: answer)

lemma answers_admin: "(p, h) \<in> set (adminRoutes r) \<Longrightarrow> answers (h req)"
  unfolding adminRoutes_def by (auto intro: answer)

lemma unsent_requestID: "unsent rw \<Longrightarrow> unsent (setHeader ''X-Request-ID'' i rw)"
  by (simp add: unsent_def setHeader_def safeHeaders_set)

lemma answers_withRequestID [answer]: "(\<And>req. answers (h req)) \<Longrightarrow> answers (withMiddleware h req)"
  unfolding withMiddleware_def withRequestID_def answers_def by (auto simp: unsent_requestID split: prod.split)

lemma answers_guarded: "(\<And>req. answers (h req)) \<Longrightarrow> answers (guarded r h req)"
  unfolding guarded_def withActor_def by (intro answer)

lemma answers_public: "(p, h) \<in> set (publicRoutes r) \<Longrightarrow> answers (h req)"
  unfolding publicRoutes_def by (auto intro: answer)

lemma answers_routes: "(p, h) \<in> set (routes r) \<Longrightarrow> answers (h req)"
  unfolding routes_def
  by (auto intro: answers_public answers_tenant answers_admin answers_guarded)

subsection \<open>The multiplexer\<close>

lemma foldl_longer: "foldl longer best phs = Some ph \<Longrightarrow> best = Some ph \<or> ph \<in> set phs"
proof (induction phs arbitrary: best)
  case (Cons x xs)
  from Cons.IH [of "longer best x"] Cons.prems have "longer best x = Some ph \<or> ph \<in> set xs" by simp
  then show ?case by (auto simp: longer_def split: option.splits if_splits)
qed simp

lemma mux_matchD: "mux_match ps path = Some (p, h) \<Longrightarrow> (p, h) \<in> set ps \<and> HasPrefix path p \<and> (p = path \<or> last p = CHR ''/'')"
  by (auto simp: mux_match_def HasPrefix_def split: option.splits dest!: find_SomeD foldl_longer)

lemma route_FoundD: "route ps req = Found p h \<Longrightarrow> (p, h) \<in> set ps \<and> HasPrefix (rq_Path req) p \<and> (p = rq_Path req \<or> last p = CHR ''/'')"
  by (auto simp: route_def Let_def split: if_splits option.splits prod.splits dest: mux_matchD)

lemma answers_mux: "answers (serveMux (routes r) req)"
  unfolding serveMux_def
  by (cases "route (routes r) req") (auto intro!: answer dest: route_FoundD answers_routes)

subsection \<open>The chain of the middleware\<close>

text \<open>The response writer the multiplexer gets.\<close>

definition freshWriter :: response where
  "freshWriter = setHeader ''Referrer-Policy'' ''strict-origin-when-cross-origin''
     (setHeader ''X-Frame-Options'' ''DENY'' (setHeader ''X-Content-Type-Options'' ''nosniff''
       \<lparr>rw_Header = [], rw_Sent = None, rw_Body = []\<rparr>))"

lemma unsent_fresh: "unsent freshWriter"
  by (simp add: freshWriter_def unsent_def setHeader_def safeHeaders_def)

lemma WriteHeader_answered: "answered rw \<Longrightarrow> WriteHeader c rw = rw"
  by (auto simp: answered_def WriteHeader_def)

lemma answered_Error: "unsent rw \<Longrightarrow> answered (http_Error text code rw)"
  by (simp add: unsent_def answered_def writer_defs safeHeaders_set)

text \<open>Serving a request is what the multiplexer does with it, between two readings of the clock; a panic becomes status 500.\<close>

lemma serve_mux:
  assumes "serveMux (routes r) req (freshWriter, snd (Now w)) = (out, (rw, w'))"
  shows "serve r req w =
    (case out of
       Inl e \<Rightarrow> (http_Error ''{\"error\":\"internal server error\"}'' 500 rw, w')
     | Inr _ \<Rightarrow> (rw, snd (Now w')))"
proof -
  have s: "settled (out, (rw, w'))"
    using answers_mux [of r req] unsent_fresh assms unfolding answers_def by metis
  obtain t w1 where n: "Now w = (t, w1)" by fastforce
  obtain t' w2 where n': "Now w' = (t', w2)" by fastforce
  show ?thesis
  proof (cases out)
    case (Inl e)
    with s have "unsent rw" by (simp add: settled_def)
    from WriteHeader_answered [OF answered_Error [OF this]] assms Inl n show ?thesis
      by (simp add: serve_def NewRouter_def withPanicRecovery_def withSecurityHeaders_def withRequestLogging_def freshWriter_def)
  next
    case (Inr u)
    with s have "answered rw" by (simp add: settled_def)
    from WriteHeader_answered [OF this] assms Inr n n' show ?thesis
      by (simp add: serve_def NewRouter_def withPanicRecovery_def withSecurityHeaders_def withRequestLogging_def freshWriter_def)
  qed
qed


section \<open>Refusals\<close>

text \<open>A refusal: not a success, and nothing in it but an error text.\<close>

definition refusal :: "response \<Rightarrow> bool" where
  "refusal rw \<longleftrightarrow> (\<exists>status hs. rw_Sent rw = Some (status, hs) \<and> 300 \<le> status) \<and>
     (\<forall>b \<in> set (rw_Body rw). case b of BError e \<Rightarrow> True | BText t \<Rightarrow> True | BMoved p \<Rightarrow> True | _ \<Rightarrow> False)"

lemma errorStatus_range: "300 \<le> fst (errorStatus e)"
  by (simp add: errorStatus_def)

lemma refusal_writers:
  "unsent rw \<Longrightarrow> refusal (writeError e rw)" "unsent rw \<Longrightarrow> refusal (http_NotFound rw)" "unsent rw \<Longrightarrow> refusal (http_Redirect meth p rw)"
  "unsent rw \<Longrightarrow> 300 \<le> c \<Longrightarrow> refusal (WriteHeader c rw)" "unsent rw \<Longrightarrow> 300 \<le> c \<Longrightarrow> refusal (http_Error t c rw)"
  using errorStatus_range [of e] by (auto simp: refusal_def unsent_def writeError_def writer_defs Let_def split: prod.split)

text \<open>
  \<open>refuses_req f\<close>: the handler refuses the request and does not touch the world of the services.
\<close>

definition refuses_req :: "(unit, response \<times> 'w) op \<Rightarrow> bool" where
  "refuses_req f \<longleftrightarrow> (\<forall>rw w. unsent rw \<longrightarrow> (\<exists>rw'. f (rw, w) = (Inr (), (rw', w)) \<and> refusal rw'))"

named_theorems refusing \<open>handlers that refuse\<close>

lemma refuses_respond [refusing]:
  "refuses_req (respond (writeError e))" "refuses_req (respond http_NotFound)" "refuses_req (respond (http_Redirect meth p))"
  "300 \<le> c \<Longrightarrow> refuses_req (respond (WriteHeader c))"
  by (simp_all add: refuses_req_def respond_def refusal_writers)

lemma refuses_if [refusing]: "(b \<Longrightarrow> refuses_req f) \<Longrightarrow> (\<not> b \<Longrightarrow> refuses_req g) \<Longrightarrow> refuses_req (if b then f else g)"
  by simp

lemma refuses_list [refusing]:
  "refuses_req f \<Longrightarrow> (\<And>x xs. refuses_req (g x xs)) \<Longrightarrow> refuses_req (case l of [] \<Rightarrow> f | x # xs \<Rightarrow> g x xs)"
  by (cases l) auto

lemma refuses_call_fail [refusing]: "\<not> is_panic e \<Longrightarrow> refuses_req (call (fail e) k)"
  by (simp add: refuses_req_def call_def fail_def refusal_writers)

lemma refuses_actor [refusing]:
  "rq_actor req = Some actor \<Longrightarrow> refuses_req (k actor) \<Longrightarrow> refuses_req (call (ofSum (actorFromContext req)) k)"
  by (simp add: refuses_req_def call_def ofSum_def actorFromContext_def)

lemma refuses_adminOnly [refusing]: "\<not> actor_IsPlatformAdmin actor \<Longrightarrow> refuses_req (adminOnly actor k)"
  by (simp add: adminOnly_def refuses_respond)

lemma reconcileOp_fail: "\<not> actor_IsPlatformAdmin actor \<Longrightarrow> reconcileOp s actor l = fail ErrForbidden"
  by (simp add: reconcileOp_def ReconcileActive_def fail_def fun_eq_iff)

lemma not_panic [simp]: "\<not> is_panic ErrForbidden" "\<not> is_panic ErrUnauthorized"
  by (simp_all add: is_panic_def)

lemma admin_services_fail:
  assumes "\<not> actor_IsPlatformAdmin actor"
  shows "admin_ListAllInstances s actor = fail ErrForbidden" "admin_Summary s actor = fail ErrForbidden"
    "Status q actor = fail ErrForbidden" "ListDeadLetters q actor l = fail ErrForbidden"
    "ReplayDeadLetter q actor i = fail ErrForbidden" "reconcileOp q actor l = fail ErrForbidden"
  using assms by (simp_all add: admin_ListAllInstances_def admin_Summary_def Status_def ListDeadLetters_def ReplayDeadLetter_def
      reconcileOp_fail)

text \<open>Every handler of the platform refuses an actor who is not a platform administrator.\<close>

lemma admin_handlers_refuse:
  assumes "rq_actor req = Some actor" and "\<not> actor_IsPlatformAdmin actor" and "(p, h) \<in> set (adminRoutes r)"
  shows "refuses_req (h req)"
proof -
  note f = admin_services_fail [OF assms(2)]
  have "refuses_req (handleAdminInstances r req)" "refuses_req (handleAdminSummary r req)" "refuses_req (handleAdminBackends r req)"
    "refuses_req (handleAdminPreflight r req)" "refuses_req (handleAdminReliability r req)" "refuses_req (handleAdminReconcile r req)"
    "refuses_req (handleAdminDeadLetters r req)" "refuses_req (handleAdminDeadLetterRoutes r req)" "refuses_req (handleAdminUsers r req)"
    "refuses_req (handleAdminOpenClawDeploy r req)"
    unfolding admin_handler_defs
    by (intro refusing assms(1,2) refuses_actor [OF assms(1)]; (simp only: f)?; (intro refusing)?; simp?)+
  with assms(3) show ?thesis
    unfolding adminRoutes_def by auto
qed

section \<open>Guards of the routes\<close>

lemma HasPrefix_prefix: "HasPrefix s p \<longleftrightarrow> prefix p s"
  by (metis HasPrefix_def append_eq_conv_conj prefix_def)

text \<open>Two prefixes of one path agree on their common length.\<close>

lemma prefix_agree: "prefix p s \<Longrightarrow> prefix q s \<Longrightarrow> prefix p q \<or> prefix q p"
  by (rule prefix_same_cases)

lemma route_v1:
  assumes "route (routes r) req = Found p h" and "HasPrefix (rq_Path req) ''/v1/''" and "\<not> HasPrefix (rq_Path req) ''/v1/auth/''"
  obtains g where "h = guarded r g" and "(p, g) \<in> set (tenantRoutes r @ adminRoutes r)"
proof -
  have p: "(p, h) \<in> set (routes r)" "prefix p (rq_Path req)" and v1: "prefix ''/v1/'' (rq_Path req)"
    using route_FoundD [OF assms(1)] assms(2) by (auto simp: HasPrefix_prefix)
  have "\<not> prefix ''/v1/auth/'' p"
    using assms(3) p(2) prefix_order.trans by (auto simp: HasPrefix_prefix)
  with prefix_agree [OF p(2) v1] have "(p, h) \<notin> set (publicRoutes r)"
    by (auto simp: publicRoutes_def)
  with p(1) that show thesis by (auto simp: routes_def)
qed

text \<open>The world after the request identifier was drawn, where the actor is looked up.\<close>

abbreviation signingIn :: "'a env_scheme Router \<Rightarrow> request \<Rightarrow> 'a env_scheme \<Rightarrow> (error + Actor) \<times> 'a env_scheme" where
  "signingIn r req w \<equiv> requestActor (r_sha r) (r_devAuth r) (r_auth r) req (snd (requestID req w))"

lemma requestActor_id [simp]: "requestActor sha d au (req\<lparr>rq_requestID := i\<rparr>) = requestActor sha d au req"
  unfolding requestActor_def requestEmail_def asAdmin_def headerAdmin_def Let_def by simp

lemma more_requestID: "env.more (snd (requestID req w)) = env.more w"
  by (simp add: requestID_def Let_def more_NewUUID)

lemma guarded_run:
  "guarded r h req (rw, w) =
     (let rw = setHeader ''X-Request-ID'' (fst (requestID req w)) rw
      in case signingIn r req w of
           (Inl e, w') \<Rightarrow> if is_panic e then (Inl e, (rw, w')) else (Inr (), (writeError e rw, w'))
         | (Inr actor, w') \<Rightarrow> h (req\<lparr>rq_requestID := fst (requestID req w), rq_actor := Some actor\<rparr>) (rw, w'))"
  by (cases "requestID req w")
     (simp add: guarded_def withMiddleware_def withRequestID_def withActor_def call_def Let_def split: prod.split sum.split)

lemma mux_Found: "route (routes r) req = Found p h \<Longrightarrow> serveMux (routes r) req = h req"
  by (simp add: serveMux_def)


section \<open>Platform administrators\<close>

lemma EnsureActor_plain: "EnsureActor s e d w = (Inr a, w') \<Longrightarrow> \<not> actor_IsPlatformAdmin a"
  by (auto simp: EnsureActor_def fail_def ret_def bindE_def catchE_def Let_def split: if_splits prod.splits sum.splits)

lemma AuthenticateAPIKey_plain: "AuthenticateAPIKey sha s k w = (Inr a, w') \<Longrightarrow> \<not> actor_IsPlatformAdmin a"
  by (auto simp: AuthenticateAPIKey_def fail_def ret_def bindE_def split: option.splits prod.splits sum.splits)

lemma requestActor_plain:
  assumes "requestActor sha d s req w = (Inr a, w')"
  shows "actor_IsPlatformAdmin a = headerAdmin req"
  using assms
  by (auto simp: requestActor_def asAdmin_def Let_def fail_def ret_def bindE_def
      split: if_splits prod.splits sum.splits dest: EnsureActor_plain AuthenticateAPIKey_plain)

lemma route_admin:
  assumes "route (routes r) req = Found p h" and "HasPrefix (rq_Path req) ''/v1/admin/''" and "rq_Path req \<noteq> ''/v1/admin/audit-logs''"
  obtains g where "h = guarded r g" and "(p, g) \<in> set (adminRoutes r)"
proof -
  have a: "prefix ''/v1/admin/'' (rq_Path req)" using assms(2) by (simp add: HasPrefix_prefix)
  have p: "prefix p (rq_Path req)" "p = rq_Path req \<or> last p = CHR ''/''"
    using route_FoundD [OF assms(1)] by (auto simp: HasPrefix_prefix)
  have v1: "HasPrefix (rq_Path req) ''/v1/''" "\<not> HasPrefix (rq_Path req) ''/v1/auth/''"
    using a prefix_agree [OF a, of "''/v1/auth/''"] by (auto simp: HasPrefix_prefix elim!: prefixE)
  obtain g where g: "h = guarded r g" "(p, g) \<in> set (tenantRoutes r @ adminRoutes r)"
    by (rule route_v1 [OF assms(1) v1])
  have "(p, g) \<notin> set (tenantRoutes r)"
    using p prefix_agree [OF p(1) a] assms(3) by (auto simp: tenantRoutes_def)
  with g that show thesis by auto
qed

text \<open>
  C10: The platform routes are closed to everyone else. A request under \<^verbatim>\<open>/v1/admin/\<close>, the audit log of the tenant apart, that does
  not claim to be a platform administrator's is refused whatever its credentials: the response carries no data, and nothing
  was done beyond signing the actor in.
\<close>

theorem admin_routes_guarded:
  assumes "\<not> headerAdmin req" and "HasPrefix (rq_Path req) ''/v1/admin/''" and "rq_Path req \<noteq> ''/v1/admin/audit-logs''"
  shows "case serve r req w of (rw, w') \<Rightarrow>
    refusal rw \<and> (env.more w' = env.more w \<or>
      env.more w' = env.more (snd (requestActor (r_sha r) (r_devAuth r) (r_auth r) req (snd (requestID req (snd (Now w)))))))"
proof -
  let ?w = "snd (Now w)"
  let ?ok = "\<lambda>w'. env.more w' = env.more w \<or> env.more w' = env.more (snd (signingIn r req ?w))"
  have "\<exists>out rw w'. serveMux (routes r) req (freshWriter, ?w) = (out, (rw, w')) \<and> ?ok w' \<and>
    (case out of Inl e \<Rightarrow> unsent rw | Inr _ \<Rightarrow> refusal rw)"
  proof (cases "route (routes r) req")
    case (Moved x)
    then show ?thesis by (simp add: serveMux_def respond_def more_Now refusal_writers(3) [OF unsent_fresh])
  next
    case Missing
    then show ?thesis by (simp add: serveMux_def respond_def more_Now refusal_writers(2) [OF unsent_fresh])
  next
    case (Found p h)
    then obtain g where h: "h = guarded r g" "(p, g) \<in> set (adminRoutes r)" by (rule route_admin [OF _ assms(2,3)])
    let ?rw = "setHeader ''X-Request-ID'' (fst (requestID req ?w)) freshWriter"
    have u: "unsent ?rw" by (rule unsent_requestID [OF unsent_fresh])
    obtain ra w1 where s: "signingIn r req ?w = (ra, w1)" by fastforce
    show ?thesis
    proof (cases ra)
      case (Inl e)
      with u show ?thesis
        by (auto simp: mux_Found [OF Found] h guarded_run s Let_def refusal_writers(1))
    next
      case (Inr actor)
      have "\<not> actor_IsPlatformAdmin actor"
        using requestActor_plain [of _ _ _ req] s Inr assms(1) by blast
      then have "refuses_req (g (req\<lparr>rq_requestID := fst (requestID req ?w), rq_actor := Some actor\<rparr>))"
        by (intro admin_handlers_refuse [OF _ _ h(2), where actor = actor]) simp_all
      with u obtain rw' where "g (req\<lparr>rq_requestID := fst (requestID req ?w), rq_actor := Some actor\<rparr>) (?rw, w1) = (Inr (), (rw', w1))"
        "refusal rw'"
        unfolding refuses_req_def by blast
      with s Inr show ?thesis
        by (simp add: mux_Found [OF Found] h guarded_run Let_def)
    qed
  qed
  then obtain out rw w' where m: "serveMux (routes r) req (freshWriter, ?w) = (out, (rw, w'))" and c: "?ok w'"
    "case out of Inl e \<Rightarrow> unsent rw | Inr _ \<Rightarrow> refusal rw"
    by blast
  show ?thesis
    using c by (cases out) (auto simp: serve_mux [OF m] more_Now refusal_writers(5))
qed

end
