(* ===== verification/KubeNames.thy ===== *)
theory KubeNames
  imports Idgen
begin

text \<open>
  The part of \<^verbatim>\<open>internal/backends/kubernetes\<close> that only computes: the names of the cluster objects, the
  status read off a cluster deployment, and the dry-run plan of \<^verbatim>\<open>manifests.go\<close>. Integers that the
  Kubernetes API holds in 32 bits are converted with \<open>wrap32\<close>.
\<close>

section \<open>Names\<close>

definition trimForKubeName :: "string \<Rightarrow> string" where
  "trimForKubeName s =
     (let s = ToLower s;
          s = ReplaceAll s (CHR ''_'') (CHR ''-'');
          s = ReplaceAll s (CHR ''.'') (CHR ''-'');
          s = (if length s > 40 then take 40 s else s)
      in Trim s ''-'')"

definition namespaceForTenant :: "string \<Rightarrow> string" where
  "namespaceForTenant tenantID = ''tenant-'' @ trimForKubeName tenantID"

definition resourceName :: "string \<Rightarrow> int \<Rightarrow> string" where
  "resourceName slug version = trimForKubeName slug @ ''-v'' @ Itoa version"

definition ingressName :: "App \<Rightarrow> string" where
  "ingressName app = (if cfg_Public (app_Config app) then trimForKubeName (app_Slug app) else [])"

definition openClawConfigMapName :: "string \<Rightarrow> string" where
  "openClawConfigMapName deploymentName = trimForKubeName deploymentName @ ''-config''"

definition openClawManagedSecretName :: "string \<Rightarrow> string" where
  "openClawManagedSecretName deploymentName = trimForKubeName deploymentName @ ''-secrets''"

definition openClawWorkspacePVCName :: "App \<Rightarrow> string" where
  "openClawWorkspacePVCName app = trimForKubeName (app_Slug app) @ ''-workspace''"

definition appServicePort :: "AppConfig \<Rightarrow> int" where
  "appServicePort cfg =
     (if cfg_Port cfg > 0 then cfg_Port cfg
      else case cfg_OpenClaw cfg of
             Some oc \<Rightarrow> if oc_GatewayPort oc > 0 then oc_GatewayPort oc else 3000
           | None \<Rightarrow> 3000)"

definition deploymentLabels :: "App \<Rightarrow> Deployment \<Rightarrow> (string \<times> string) list" where
  "deploymentLabels app deployment =
     [(''app.kubernetes.io/name'', trimForKubeName (app_Slug app)),
      (''app.kubernetes.io/managed-by'', ''clawflux''),
      (''clawflux/tenant'', trimForKubeName (app_TenantID app)),
      (''clawflux/app'', trimForKubeName (app_ID app)),
      (''clawflux/deployment'', trimForKubeName (dep_ID deployment))]"

section \<open>Status\<close>

datatype ConditionType = DeploymentReplicaFailure | DeploymentProgressing | ConditionTypeOther string

record DeploymentCondition =
  cond_Type :: ConditionType
  cond_Status :: string
  cond_Reason :: string
  cond_Message :: string

text \<open>The fields of a cluster deployment that \<^verbatim>\<open>mapDeploymentStatus\<close> reads.\<close>

record KubeStatus =
  kst_Generation :: int
  kst_ObservedGeneration :: int
  kst_Conditions :: "DeploymentCondition list"
  kst_Replicas :: "int option"
  kst_ReadyReplicas :: int
  kst_UpdatedReplicas :: int
  kst_AvailableReplicas :: int

fun failureCondition :: "DeploymentCondition list \<Rightarrow> string option" where
  "failureCondition [] = None"
| "failureCondition (cond # cs) =
     (if cond_Type cond = DeploymentReplicaFailure \<and> cond_Status cond = ''True''
      then Some (if cond_Message cond \<noteq> [] then cond_Message cond else cond_Reason cond)
      else if cond_Type cond = DeploymentProgressing \<and> cond_Reason cond = ''ProgressDeadlineExceeded''
      then Some (if cond_Message cond \<noteq> [] then cond_Message cond
                 else ''deployment rollout exceeded progress deadline'')
      else failureCondition cs)"

definition desiredReplicas :: "KubeStatus \<Rightarrow> int" where
  "desiredReplicas k =
     (let desired = (case kst_Replicas k of None \<Rightarrow> 1 | Some r \<Rightarrow> r)
      in if desired \<le> 0 then 1 else desired)"

definition mapDeploymentStatus :: "KubeStatus \<Rightarrow> DeploymentStatus \<times> string" where
  "mapDeploymentStatus k =
     (if kst_Generation k > kst_ObservedGeneration k
      then (DeploymentStatusProvisioning, ''waiting for controller to observe new generation'')
      else case failureCondition (kst_Conditions k) of
             Some reason \<Rightarrow> (DeploymentStatusFailed, reason)
           | None \<Rightarrow>
               (let desired = desiredReplicas k
                in if kst_ReadyReplicas k \<ge> desired \<and> kst_UpdatedReplicas k \<ge> desired
                   then (DeploymentStatusRunning, ''deployment ready'')
                   else if kst_ReadyReplicas k > 0 \<or> kst_AvailableReplicas k > 0
                   then (DeploymentStatusDegraded,
                         ''degraded rollout: ready '' @ Itoa (kst_ReadyReplicas k) @ ''/'' @ Itoa desired @ '' replicas'')
                   else (DeploymentStatusProvisioning,
                         ''ready '' @ Itoa (kst_ReadyReplicas k) @ ''/'' @ Itoa desired @ '' replicas'')))"

section \<open>Plans\<close>

definition Capabilities :: BackendCapabilities where
  "Capabilities =
     \<lparr>caps_Name = ''kubernetes'', caps_DisplayName = ''Kubernetes'',
      caps_Capabilities =
        [BackendCapabilityDeploy, BackendCapabilityDelete, BackendCapabilityStatus, BackendCapabilitySync,
         BackendCapabilityDomains, BackendCapabilitySecrets, BackendCapabilityPersistentStorage,
         BackendCapabilityReplicas, BackendCapabilityDryRun],
      caps_Notes =
        [''Creates one namespace per tenant.'',
         ''Applies Deployment, Service, optional Ingress, PVC, ConfigMap, and Secret resources.'']\<rparr>"

definition planned :: "string \<Rightarrow> string \<Rightarrow> string \<Rightarrow> string \<Rightarrow> string \<Rightarrow> PlannedResource" where
  "planned kind name ns action note =
     \<lparr>pr_Kind = kind, pr_Name = name, pr_Namespace = ns, pr_Action = action, pr_Note = note\<rparr>"

definition appendSortedPlanEnv :: "PlannedEnvVar list \<Rightarrow> gomap \<Rightarrow> string \<Rightarrow> PlannedEnvVar list" where
  "appendSortedPlanEnv env values source =
     env @ map (\<lambda>key. \<lparr>pe_Name = key, pe_Source = source\<rparr>)
             (filter (\<lambda>key. TrimSpace key \<noteq> []) (sortedKeys values))"

text \<open>The keys of the provider secrets a pod gets, in the order of the loop over \<^verbatim>\<open>sortedKeys\<close>.\<close>

definition secretKeysOf :: "OpenClawConfig \<Rightarrow> bool \<Rightarrow> string list" where
  "secretKeysOf cfg managedSecret =
     filter (\<lambda>key. TrimSpace key \<noteq> [] \<and>
               \<not> (managedSecret \<and> TrimSpace (lookup (oc_ProviderAPIKeys cfg) key) = []))
       (sortedKeys (oc_ProviderAPIKeys cfg))"

text \<open>\<^verbatim>\<open>appendOpenClawPlan\<close> in its four parts: workspace storage, configuration files, environment, secrets.\<close>

definition planStorage :: "App \<Rightarrow> string \<Rightarrow> OpenClawConfig \<Rightarrow> DeploymentPlan \<Rightarrow> DeploymentPlan" where
  "planStorage app namespace cfg plan =
     (let storage = TrimSpace (oc_WorkspaceStorage cfg);
          storage = (if storage = [] then ''10Gi'' else storage);
          pvcName = openClawWorkspacePVCName app
      in plan
           \<lparr>plan_Resources := plan_Resources plan @
              [planned ''PersistentVolumeClaim'' pvcName namespace ''apply-if-missing''
                 ''workspace storage is preserved across rollouts''],
            plan_Volumes := plan_Volumes plan @
              [\<lparr>pv_Name = ''openclaw-workspace'', pv_Source = pvcName,
                pv_MountPath = ''/home/openclaw/.openclaw/workspace'', pv_Size = storage\<rparr>]\<rparr>)"

definition planConfigMap :: "string \<Rightarrow> string \<Rightarrow> OpenClawConfig \<Rightarrow> DeploymentPlan \<Rightarrow> DeploymentPlan" where
  "planConfigMap deploymentName namespace cfg plan =
     (if TrimSpace (oc_AgentsMarkdown cfg) \<noteq> [] \<or> TrimSpace (oc_SettingsJSON cfg) \<noteq> []
      then let name = openClawConfigMapName deploymentName
           in plan\<lparr>plan_Resources := plan_Resources plan @ [planned ''ConfigMap'' name namespace ''apply'' []],
                   plan_Volumes := plan_Volumes plan @
                     [\<lparr>pv_Name = ''openclaw-config'', pv_Source = name,
                       pv_MountPath = ''/home/openclaw/.openclaw'', pv_Size = []\<rparr>]\<rparr>
      else plan)"

definition planGateway :: "OpenClawConfig \<Rightarrow> DeploymentPlan \<Rightarrow> DeploymentPlan" where
  "planGateway cfg plan =
     (let env = plan_Environment plan;
          env = (if TrimSpace (oc_GatewayBindAddress cfg) \<noteq> []
                 then env @ [\<lparr>pe_Name = ''OPENCLAW_GATEWAY_BIND_ADDRESS'', pe_Source = ''literal''\<rparr>] else env);
          env = (if oc_GatewayPort cfg > 0
                 then env @ [\<lparr>pe_Name = ''OPENCLAW_GATEWAY_PORT'', pe_Source = ''literal:'' @ Itoa (oc_GatewayPort cfg)\<rparr>]
                 else env)
      in plan\<lparr>plan_Environment := appendSortedPlanEnv env (oc_ExtraEnv cfg) ''literal''\<rparr>)"

definition planSecrets :: "string \<Rightarrow> string \<Rightarrow> OpenClawConfig \<Rightarrow> DeploymentPlan \<Rightarrow> DeploymentPlan" where
  "planSecrets deploymentName namespace cfg plan =
     (let secretName = TrimSpace (oc_ExistingSecretName cfg);
          managedSecret = (secretName = []);
          secretName = (if managedSecret then openClawManagedSecretName deploymentName else secretName);
          withToken = (TrimSpace (oc_GatewayToken cfg) \<noteq> [] \<or> TrimSpace (oc_ExistingSecretName cfg) \<noteq> []);
          secretKeys = (if withToken then [''OPENCLAW_GATEWAY_TOKEN''] else []) @ secretKeysOf cfg managedSecret;
          plan = plan\<lparr>plan_Environment := plan_Environment plan @
                        map (\<lambda>key. \<lparr>pe_Name = key, pe_Source = ''secret:'' @ secretName\<rparr>) secretKeys\<rparr>;
          plan =
            (if length secretKeys > 0
             then plan
               \<lparr>plan_Secrets := plan_Secrets plan @
                  [\<lparr>ps_Name = secretName, ps_Keys = secretKeys, ps_Managed = managedSecret\<rparr>],
                plan_Resources := plan_Resources plan @
                  (if managedSecret then [planned ''Secret'' secretName namespace ''apply'' []] else [])\<rparr>
             else if managedSecret
             then plan\<lparr>plan_Resources := plan_Resources plan @
                         [planned ''Secret'' secretName namespace ''delete-if-present'' ''no inline secret values are present''],
                       plan_Warnings := plan_Warnings plan @
                         [''No provider API keys or existing secret are configured for OpenClaw.'']\<rparr>
             else plan)
      in if \<not> managedSecret
         then plan\<lparr>plan_Warnings := plan_Warnings plan @
                     [''Existing secret references are not verified during dry-run.'']\<rparr>
         else plan)"

definition appendOpenClawPlan ::
  "DeploymentPlan \<Rightarrow> App \<Rightarrow> string \<Rightarrow> string \<Rightarrow> OpenClawConfig \<Rightarrow> DeploymentPlan" where
  "appendOpenClawPlan plan app deploymentName namespace cfg =
     planSecrets deploymentName namespace cfg
       (planGateway cfg (planConfigMap deploymentName namespace cfg (planStorage app namespace cfg plan)))"

text \<open>The host of a public app: its domain, or a generated local one.\<close>

definition exposureHost :: "App \<Rightarrow> string" where
  "exposureHost app =
     (let host = TrimSpace (cfg_Domain (app_Config app))
      in if cfg_Public (app_Config app) \<and> host = [] then trimForKubeName (app_Slug app) @ ''.example.local'' else host)"

definition openClawEnabled :: "AppConfig \<Rightarrow> OpenClawConfig option" where
  "openClawEnabled cfg =
     (case cfg_OpenClaw cfg of Some oc \<Rightarrow> if oc_Enabled oc then Some oc else None | None \<Rightarrow> None)"

text \<open>\<^verbatim>\<open>BuildPlan\<close> without the OpenClaw part, and its last warnings.\<close>

definition basePlan :: "App \<Rightarrow> int \<Rightarrow> BackendCapabilities \<Rightarrow> DeploymentPlan" where
  "basePlan app version capabilities =
     (let cfg = app_Config app;
          name = resourceName (app_Slug app) version;
          namespace = namespaceForTenant (app_TenantID app);
          ingress = ingressName app
      in \<lparr>plan_Backend = caps_Name capabilities, plan_Version = version, plan_ImageRef = cfg_Image cfg,
          plan_BackendRef = \<lparr>ref_Namespace = namespace, ref_Deployment = name, ref_Service = name,
                             ref_IngressName = ingress\<rparr>,
          plan_Capabilities = capabilities,
          plan_Resources =
            [planned ''Namespace'' namespace [] ''apply'' [],
             planned ''NetworkPolicy'' ''clawflux-allow-egress'' namespace ''apply'' ''allow egress for managed workloads'',
             planned ''Deployment'' name namespace ''apply'' [],
             planned ''Service'' name namespace ''apply'' []] @
            [if cfg_Public cfg
             then planned ''Ingress'' ingress namespace ''apply'' ''routes public HTTP traffic to the service''
             else planned ''Ingress'' (trimForKubeName (app_Slug app)) namespace ''delete-if-present''
                    ''private deployments remove the public ingress''],
          plan_Environment = appendSortedPlanEnv [] (cfg_Env cfg) ''literal'',
          plan_Secrets = [], plan_Volumes = [],
          plan_Exposure = \<lparr>px_Public = cfg_Public cfg, px_Host = exposureHost app, px_ServiceName = name,
                           px_Port = appServicePort cfg, px_IngressName = ingress\<rparr>,
          plan_Warnings = []\<rparr>)"

definition planWarnings :: "App \<Rightarrow> string list" where
  "planWarnings app =
     (let cfg = app_Config app
      in (if Contains (ToLower (cfg_Image cfg)) '':latest''
          then [''Image uses the latest tag; pin a version for repeatable rollouts.''] else []) @
         (if cfg_Public cfg \<and> TrimSpace (cfg_Domain cfg) = []
          then [''Public deployment has no explicit domain; Kubernetes ingress will use a generated local host.''] else []) @
         (if cfg_Replicas cfg > 1 \<and> openClawEnabled cfg \<noteq> None
          then [''OpenClaw workspace PVC uses ReadWriteOnce; more than one replica can require storage-class support or a shared workspace strategy.'']
          else []))"

definition BuildPlan :: "App \<Rightarrow> int \<Rightarrow> BackendCapabilities \<Rightarrow> DeploymentPlan" where
  "BuildPlan app version capabilities =
     (let plan = basePlan app version capabilities;
          plan = (case openClawEnabled (app_Config app) of
                    Some oc \<Rightarrow> appendOpenClawPlan plan app (resourceName (app_Slug app) version)
                                 (namespaceForTenant (app_TenantID app)) oc
                  | None \<Rightarrow> plan)
      in plan\<lparr>plan_Warnings := plan_Warnings plan @ planWarnings app\<rparr>)"

section \<open>What names can be\<close>

definition kube_char :: "char \<Rightarrow> bool" where
  "kube_char c \<longleftrightarrow> lower_char c = c \<and> c \<noteq> CHR ''_'' \<and> c \<noteq> CHR ''.''"

text \<open>The name before it is cut to forty characters.\<close>

definition kube_fold :: "string \<Rightarrow> string" where
  "kube_fold s = ReplaceAll (ReplaceAll (ToLower s) (CHR ''_'') (CHR ''-'')) (CHR ''.'') (CHR ''-'')"

lemma trimForKubeName_alt: "trimForKubeName s = Trim (take 40 (kube_fold s)) ''-''"
  by (simp add: trimForKubeName_def kube_fold_def Let_def)

lemma kube_char_hyphen [simp]: "kube_char (CHR ''-'')"
  by (simp add: kube_char_def lower_char_def)

lemma kube_fold_chars: "c \<in> set (kube_fold s) \<Longrightarrow> kube_char c"
  using kube_char_hyphen by (auto simp: kube_fold_def ReplaceAll_def ToLower_def kube_char_def split: if_splits)

lemma kube_fold_id: "(\<And>c. c \<in> set s \<Longrightarrow> kube_char c) \<Longrightarrow> kube_fold s = s"
  by (induction s) (auto simp: kube_fold_def ReplaceAll_def ToLower_def kube_char_def)

lemma trimForKubeName_chars: "c \<in> set (trimForKubeName s) \<Longrightarrow> kube_char c"
  unfolding trimForKubeName_alt Trim_def
  by (metis TrimFunc_set in_set_takeD kube_fold_chars subsetD)

lemma trimForKubeName_length: "length (trimForKubeName s) \<le> 40"
  unfolding trimForKubeName_alt Trim_def
  by (metis TrimFunc_length le_trans length_take min.cobounded2)

lemma trimForKubeName_edges:
  "trimForKubeName s \<noteq> [] \<Longrightarrow> hd (trimForKubeName s) \<noteq> CHR ''-'' \<and> last (trimForKubeName s) \<noteq> CHR ''-''"
  using TrimFunc_hd [of "\<lambda>c. c \<in> set ''-''" "take 40 (kube_fold s)"]
    TrimFunc_last [of "\<lambda>c. c \<in> set ''-''" "take 40 (kube_fold s)"]
  by (auto simp: trimForKubeName_alt Trim_def)

lemma trimForKubeName_id:
  assumes "length s \<le> 40" and "\<And>c. c \<in> set s \<Longrightarrow> kube_char c"
    and "s = [] \<or> hd s \<noteq> CHR ''-'' \<and> last s \<noteq> CHR ''-''"
  shows "trimForKubeName s = s"
proof -
  have "dropWhile (\<lambda>c. c \<in> set ''-'') s = s"
    using assms(3) by (intro dropWhile_id) auto
  moreover have "dropWhile (\<lambda>c. c \<in> set ''-'') (rev s) = rev s"
    using assms(3) by (intro dropWhile_id) (auto simp: hd_rev)
  ultimately show ?thesis
    using assms(1) by (simp add: trimForKubeName_alt kube_fold_id [OF assms(2)] Trim_def TrimFunc_def)
qed

lemma trimForKubeName_idem: "trimForKubeName (trimForKubeName s) = trimForKubeName s"
  using trimForKubeName_length trimForKubeName_chars trimForKubeName_edges
  by (intro trimForKubeName_id) blast+

text \<open>
  A generated name is at most forty characters long, has no upper-case letter, underscore or dot and
  neither starts nor ends with a hyphen; generating a name from a name changes nothing; and two texts
  that agree on their first forty characters after folding case, underscores and dots get the same name,
  so that for instance \<^verbatim>\<open>my_app\<close>, \<^verbatim>\<open>My.App\<close> and \<^verbatim>\<open>my-app\<close> share theirs.
\<close>

theorem trimForKubeName_shape:
  "length (trimForKubeName s) \<le> 40 \<and>
   trimForKubeName (trimForKubeName s) = trimForKubeName s \<and>
   list_all kube_char (trimForKubeName s) \<and>
   trimForKubeName s \<notin> {CHR ''-'' # t | t. True} \<union> {t @ ''-'' | t. True} \<and>
   {t. take 40 (kube_fold t) = take 40 (kube_fold s)} \<subseteq> {t. trimForKubeName t = trimForKubeName s} \<and>
   trimForKubeName ''my_app'' = ''my-app'' \<and> trimForKubeName ''My.App'' = ''my-app''"
proof (intro conjI)
  show "trimForKubeName s \<notin> {CHR ''-'' # t | t. True} \<union> {t @ ''-'' | t. True}"
    using trimForKubeName_edges [of s] by auto
  show "{t. take 40 (kube_fold t) = take 40 (kube_fold s)} \<subseteq> {t. trimForKubeName t = trimForKubeName s}"
    by (auto simp: trimForKubeName_alt)
  show "trimForKubeName ''my_app'' = ''my-app''" and "trimForKubeName ''My.App'' = ''my-app''"
    by code_simp+
qed (simp_all add: trimForKubeName_length trimForKubeName_idem list_all_iff trimForKubeName_chars)

text \<open>The version can be read back off a resource name: the decimal after the last letter \<^verbatim>\<open>v\<close>.\<close>

lemma Itoa_inj: "Itoa i = Itoa j \<Longrightarrow> i = j"
proof -
  assume eq: "Itoa i = Itoa j"
  have neg: "CHR ''-'' # xs \<noteq> dec n" for xs n
    using hd_dec_digit [of n] by (cases "dec n") auto
  from eq show ?thesis
    using neg neg [THEN not_sym] by (auto simp: Itoa_def dest: dec_inj split: if_splits)
qed

lemma append_last_inj:
  assumes "xs @ c # ys = xs' @ c # ys'" and "c \<notin> set ys" and "c \<notin> set ys'"
  shows "xs = xs' \<and> ys = ys'"
proof -
  have "takeWhile (\<lambda>x. x \<noteq> c) (rev (us @ c # vs)) = rev vs" if "c \<notin> set vs" for us vs
    using that by (simp add: takeWhile_append)
  from this [OF assms(2), of xs] this [OF assms(3), of xs'] assms(1) have "ys = ys'"
    by (metis rev_rev_ident)
  with assms(1) show ?thesis by simp
qed

lemma resourceName_inj:
  assumes "resourceName s v = resourceName s' v'"
  shows "trimForKubeName s = trimForKubeName s' \<and> v = v'"
proof -
  have "CHR ''v'' \<notin> set (Itoa i)" for i
    by (rule Itoa_notin) (simp_all add: is_digit_def)
  with assms have "trimForKubeName s @ ''-'' = trimForKubeName s' @ ''-'' \<and> Itoa v = Itoa v'"
    by (intro append_last_inj [where c = "CHR ''v''"]) (simp_all add: resourceName_def)
  then show ?thesis
    using Itoa_inj by simp
qed

lemma kube_char_digit: "is_digit c \<Longrightarrow> kube_char c"
  by (auto simp: is_digit_def kube_char_def lower_char_def Let_def)

lemma kube_char_Itoa: "c \<in> set (Itoa v) \<Longrightarrow> kube_char c"
  using Itoa_chars kube_char_digit kube_char_hyphen by blast

lemma resourceName_chars: "c \<in> set (resourceName s v) \<Longrightarrow> kube_char c"
proof -
  have "kube_char (CHR ''v'')"
    by (simp add: kube_char_def lower_char_def)
  then show "c \<in> set (resourceName s v) \<Longrightarrow> kube_char c"
    using trimForKubeName_chars kube_char_Itoa by (auto simp: resourceName_def)
qed

lemma trim_hyphen:
  "xs = [] \<or> last xs \<noteq> CHR ''-'' \<Longrightarrow> Trim xs ''-'' = dropWhile (\<lambda>c. c = CHR ''-'') xs"
proof -
  assume "xs = [] \<or> last xs \<noteq> CHR ''-''"
  then have "last (dropWhile (\<lambda>c. c = CHR ''-'') xs) \<noteq> CHR ''-''" if "dropWhile (\<lambda>c. c = CHR ''-'') xs \<noteq> []"
    using that by (metis dropWhile.simps(1) last_appendR takeWhile_dropWhile_id)
  then have "dropWhile (\<lambda>c. c = CHR ''-'') (rev (dropWhile (\<lambda>c. c = CHR ''-'') xs)) =
      rev (dropWhile (\<lambda>c. c = CHR ''-'') xs)"
    by (intro dropWhile_id) (auto simp: hd_rev)
  then show ?thesis by (simp add: Trim_def TrimFunc_def)
qed

lemma last_Itoa: "is_digit (last (Itoa v))"
proof -
  have "is_digit (last (dec n))" for n
    by (rule dec_digits [of _ n]) simp
  then show ?thesis by (simp add: Itoa_def)
qed

lemma trim_resourceName:
  assumes "length (resourceName s v) \<le> 40"
  shows "trimForKubeName (resourceName s v) =
    (if trimForKubeName s = [] then tl (resourceName s v) else resourceName s v)"
proof -
  have "last (resourceName s v) \<noteq> CHR ''-''"
    using last_Itoa [of v] by (auto simp: resourceName_def)
  then have "trimForKubeName (resourceName s v) = dropWhile (\<lambda>c. c = CHR ''-'') (resourceName s v)"
    using assms by (simp add: trimForKubeName_alt kube_fold_id [OF resourceName_chars] trim_hyphen)
  also have "\<dots> = (if trimForKubeName s = [] then tl (resourceName s v) else resourceName s v)"
    using trimForKubeName_edges [of s] by (cases "trimForKubeName s") (auto simp: resourceName_def)
  finally show ?thesis .
qed

lemma trim_resourceName_cut:
  "length (trimForKubeName s) = 40 \<Longrightarrow> trimForKubeName (resourceName s v) = trimForKubeName s"
proof -
  assume "length (trimForKubeName s) = 40"
  then have "take 40 (resourceName s v) = trimForKubeName s"
    by (simp add: resourceName_def)
  then have "trimForKubeName (resourceName s v) = Trim (trimForKubeName s) ''-''"
    by (simp add: trimForKubeName_alt kube_fold_id [OF resourceName_chars])
  then show ?thesis
    by (simp add: trimForKubeName_alt Trim_def)
qed

lemma trim_resourceName_inj:
  assumes "length (resourceName s v) \<le> 40" and "length (resourceName s v') \<le> 40"
    and "trimForKubeName (resourceName s v) = trimForKubeName (resourceName s v')"
  shows "v = v'"
proof -
  have "resourceName s i = (if trimForKubeName s = [] then CHR ''-'' # tl (resourceName s i) else resourceName s i)" for i
    by (simp add: resourceName_def)
  with assms have "resourceName s v = resourceName s v'"
    by (metis trim_resourceName)
  then show ?thesis
    by (blast dest: resourceName_inj)
qed

text \<open>
  The name of the cluster deployment and service determines the version and the folded slug, so no two
  versions of an app share a workload. The names of its ConfigMap and its managed Secret are cut to forty
  characters a second time: they keep the versions apart while the resource name fits, and all versions
  of an app whose folded slug fills the forty characters share one ConfigMap and one Secret.
\<close>

theorem object_names:
  "(resourceName s v = resourceName s' v' \<longleftrightarrow> trimForKubeName s = trimForKubeName s' \<and> v = v') \<and>
   (length (resourceName s v) \<le> 40 \<and> length (resourceName s v') \<le> 40 \<longrightarrow>
      (openClawManagedSecretName (resourceName s v) = openClawManagedSecretName (resourceName s v') \<longleftrightarrow> v = v') \<and>
      (openClawConfigMapName (resourceName s v) = openClawConfigMapName (resourceName s v') \<longleftrightarrow> v = v')) \<and>
   (length (trimForKubeName s) = 40 \<longrightarrow>
      openClawManagedSecretName (resourceName s v) = openClawManagedSecretName (resourceName s v') \<and>
      openClawConfigMapName (resourceName s v) = openClawConfigMapName (resourceName s v'))"
proof (intro conjI impI)
  show "resourceName s v = resourceName s' v' \<longleftrightarrow> trimForKubeName s = trimForKubeName s' \<and> v = v'"
    using resourceName_inj by (auto simp: resourceName_def)
qed (auto simp: openClawManagedSecretName_def openClawConfigMapName_def trim_resourceName_cut
      dest: trim_resourceName_inj)

theorem object_names_witness:
  "openClawManagedSecretName (resourceName ''demo'' 1) \<noteq> openClawManagedSecretName (resourceName ''demo'' 2) \<and>
   openClawManagedSecretName (resourceName (replicate 40 (CHR ''a'')) 1) =
     openClawManagedSecretName (resourceName (replicate 40 (CHR ''a'')) 2)"
proof -
  have "length (resourceName ''demo'' 1) \<le> 40" "length (resourceName ''demo'' 2) \<le> 40"
    "length (trimForKubeName (replicate 40 (CHR ''a''))) = 40"
    by code_simp+
  then show ?thesis
    using object_names [of "''demo''" 1 "''demo''" 2]
      object_names [of "replicate 40 (CHR ''a'')" 1 "replicate 40 (CHR ''a'')" 2] by simp
qed

section \<open>One namespace per tenant\<close>

lemma kube_char_hex: "is_hex c \<Longrightarrow> kube_char c"
proof -
  have "list_all kube_char ''0123456789abcdef''"
    by code_simp
  then show "is_hex c \<Longrightarrow> kube_char c"
    unfolding is_hex_def list_all_iff by blast
qed

lemma not_hex_hyphen [simp]: "\<not> is_hex (CHR ''-'')"
  by (simp add: is_hex_def)

lemma uuid_edges:
  assumes "length b = 16"
  shows "is_hex (hd (uuid_of_bytes b))" and "is_hex (last (uuid_of_bytes b))"
proof -
  define raw where "raw = hex_EncodeToString (b[6 := (b ! 6 AND 0x0f) OR 0x40, 8 := (b ! 8 AND 0x3f) OR 0x80])"
  have len: "length (slice raw 0 8) = 8" "length (slice raw 20 32) = 12"
    using assms by (simp_all add: raw_def length_slice)
  then have ne: "slice raw 0 8 \<noteq> []" "slice raw 20 32 \<noteq> []"
    by auto
  have u: "uuid_of_bytes b = slice raw 0 8 @ ''-'' @ slice raw 8 12 @ ''-'' @ slice raw 12 16 @ ''-'' @
         slice raw 16 20 @ ''-'' @ slice raw 20 32"
    by (simp add: uuid_of_bytes_def raw_def Let_def)
  have "hd (uuid_of_bytes b) = hd (slice raw 0 8)" "last (uuid_of_bytes b) = last (slice raw 20 32)"
    using ne by (simp_all add: u)
  with ne have "hd (uuid_of_bytes b) \<in> set raw" "last (uuid_of_bytes b) \<in> set raw"
    by (metis hd_in_set set_slice, metis last_in_set set_slice)
  then show "is_hex (hd (uuid_of_bytes b))" "is_hex (last (uuid_of_bytes b))"
    by (auto simp: raw_def dest: hex_is_hex)
qed

lemma trim_uuid: "length b = 16 \<Longrightarrow> trimForKubeName (uuid_of_bytes b) = uuid_of_bytes b"
proof (rule trimForKubeName_id)
  assume b: "length b = 16"
  then show "length (uuid_of_bytes b) \<le> 40"
    by (simp add: uuid_length)
  show "kube_char c" if "c \<in> set (uuid_of_bytes b)" for c
    using uuid_chars [OF that] kube_char_hex kube_char_hyphen by blast
  show "uuid_of_bytes b = [] \<or> hd (uuid_of_bytes b) \<noteq> CHR ''-'' \<and> last (uuid_of_bytes b) \<noteq> CHR ''-''"
    using uuid_edges [OF b] by auto
qed

lemma NewUUID_bytes: "rnd_ok w (draws w) \<Longrightarrow> \<exists>b. length b = 16 \<and> fst (NewUUID w) = uuid_of_bytes b"
  by (simp add: NewUUID_def rand_Read_def) (metis diff_zero length_map length_upt)

definition demo_env :: "nat \<Rightarrow> env" where
  "demo_env n = \<lparr>clk = int, ticks = 0, rnd = (\<lambda>i k. of_nat (i + k)), rnd_ok = (\<lambda>_. True), draws = n,
     sel = (\<lambda>_. None), sels = 0, rank = (\<lambda>_ _. 0), ranges = 0\<rparr>"

text \<open>
  C32: Two identifiers that the generator drew, whatever the random source returned, have the shape of a
  version 4 UUID, and tenants with different ones get different namespaces, each a name of at most
  forty-three characters that starts with \<^verbatim>\<open>tenant-\<close>.
\<close>

theorem namespace_per_tenant:
  assumes "rnd_ok w (draws w)" and "rnd_ok w' (draws w')"
  shows "let t = fst (NewUUID w); t' = fst (NewUUID w')
    in (namespaceForTenant t = namespaceForTenant t' \<longleftrightarrow> t = t') \<and>
       length t = 36 \<and> map (\<lambda>i. t ! i) [8, 13, 14, 18, 23] = ''--4--'' \<and> t ! 19 \<in> set ''89ab'' \<and>
       length (namespaceForTenant t) = 43"
proof -
  from NewUUID_bytes [OF assms(1)] obtain b where b: "length b = 16" "fst (NewUUID w) = uuid_of_bytes b"
    by blast
  from NewUUID_bytes [OF assms(2)] obtain b' where b': "length b' = 16" "fst (NewUUID w') = uuid_of_bytes b'"
    by blast
  have "map (\<lambda>i. uuid_of_bytes b ! i) [8, 13, 14, 18, 23] = ''--4--''"
    using uuid_hyphens [OF b(1)] uuid_version [OF b(1)] by simp
  then show ?thesis
    using b b' uuid_variant [OF b(1)]
    by (simp add: namespaceForTenant_def trim_uuid uuid_length Let_def)
qed

theorem namespace_per_tenant_witness:
  "namespaceForTenant (fst (NewUUID (demo_env 0))) \<noteq> namespaceForTenant (fst (NewUUID (demo_env 1)))"
proof -
  have "rnd_ok (demo_env n) (draws (demo_env n))" for n
    by (simp add: demo_env_def)
  moreover have "fst (NewUUID (demo_env 0)) \<noteq> fst (NewUUID (demo_env 1))"
    by code_simp
  ultimately show ?thesis
    using namespace_per_tenant [of "demo_env 0" "demo_env 1"] by (simp add: Let_def)
qed

section \<open>The plan and the secrets\<close>

text \<open>\<open>blind f app\<close> is the app with every secret and environment value \<open>v\<close> replaced by \<open>f v\<close>.\<close>

definition blind_map :: "(string \<Rightarrow> string) \<Rightarrow> gomap \<Rightarrow> gomap" where
  "blind_map f = map_option (map (\<lambda>(k, v). (k, f v)))"

definition blind_oc :: "(string \<Rightarrow> string) \<Rightarrow> OpenClawConfig \<Rightarrow> OpenClawConfig" where
  "blind_oc f oc = oc
     \<lparr>oc_GatewayToken := f (oc_GatewayToken oc), oc_ProviderAPIKeys := blind_map f (oc_ProviderAPIKeys oc),
      oc_ExtraEnv := blind_map f (oc_ExtraEnv oc)\<rparr>"

definition blind :: "(string \<Rightarrow> string) \<Rightarrow> App \<Rightarrow> App" where
  "blind f app =
     app\<lparr>app_Config := (app_Config app)
       \<lparr>cfg_Env := blind_map f (cfg_Env (app_Config app)),
        cfg_OpenClaw := map_option (blind_oc f) (cfg_OpenClaw (app_Config app))\<rparr>\<rparr>"

definition redact :: "string \<Rightarrow> string" where
  "redact v = (if TrimSpace v = [] then v else ''***'')"

lemma redact_blank [simp]: "TrimSpace (redact v) = [] \<longleftrightarrow> TrimSpace v = []"
  by (simp add: redact_def) code_simp

lemma redact_Nil [simp]: "redact [] = []"
  by (simp add: redact_def TrimSpace_def)

lemma entries_blind [simp]: "entries (blind_map f m) = map (\<lambda>(k, v). (k, f v)) (entries m)"
  by (cases m) (simp_all add: entries_def blind_map_def)

lemma sortedKeys_blind [simp]: "sortedKeys (blind_map f m) = sortedKeys m"
  by (simp add: sortedKeys_def split_def comp_def)

lemma lookup_blind: "f [] = [] \<Longrightarrow> lookup (blind_map f m) k = f (lookup m k)"
  by (simp add: lookup_def map_of_map split: option.splits)

lemma appendSortedPlanEnv_blind [simp]: "appendSortedPlanEnv env (blind_map f m) src = appendSortedPlanEnv env m src"
  by (simp add: appendSortedPlanEnv_def)

lemma names_blind [simp]:
  "app_Slug (blind f app) = app_Slug app" "app_TenantID (blind f app) = app_TenantID app"
  "ingressName (blind f app) = ingressName app" "exposureHost (blind f app) = exposureHost app"
  "openClawWorkspacePVCName (blind f app) = openClawWorkspacePVCName app"
  by (simp_all add: blind_def ingressName_def exposureHost_def openClawWorkspacePVCName_def Let_def)

lemma blind_oc_fields:
  "oc_WorkspaceStorage (blind_oc f oc) = oc_WorkspaceStorage oc"
  "oc_AgentsMarkdown (blind_oc f oc) = oc_AgentsMarkdown oc"
  "oc_SettingsJSON (blind_oc f oc) = oc_SettingsJSON oc"
  "oc_GatewayBindAddress (blind_oc f oc) = oc_GatewayBindAddress oc"
  "oc_GatewayPort (blind_oc f oc) = oc_GatewayPort oc"
  "oc_ExistingSecretName (blind_oc f oc) = oc_ExistingSecretName oc"
  "oc_ExtraEnv (blind_oc f oc) = blind_map f (oc_ExtraEnv oc)"
  "oc_GatewayToken (blind_oc f oc) = f (oc_GatewayToken oc)"
  "oc_ProviderAPIKeys (blind_oc f oc) = blind_map f (oc_ProviderAPIKeys oc)"
  "oc_Enabled (blind_oc f oc) = oc_Enabled oc"
  by (simp_all add: blind_oc_def)

lemma appServicePort_blind [simp]: "appServicePort (app_Config (blind f app)) = appServicePort (app_Config app)"
  by (simp add: appServicePort_def blind_def blind_oc_fields split: option.splits)

lemma secretKeysOf_redact: "secretKeysOf (blind_oc redact oc) m = secretKeysOf oc m"
  by (simp add: secretKeysOf_def lookup_blind blind_oc_fields)

lemma appendOpenClawPlan_redact:
  "appendOpenClawPlan plan (blind redact app) name ns (blind_oc redact oc) = appendOpenClawPlan plan app name ns oc"
  by (simp only: appendOpenClawPlan_def planStorage_def planConfigMap_def planGateway_def planSecrets_def
        secretKeysOf_redact names_blind blind_oc_fields redact_blank
        appendSortedPlanEnv_blind)

text \<open>
  The dry-run plan shows no secret: replacing every environment value, the gateway token and every
  provider key by the same placeholder (blank ones stay blank) gives the same plan. The plan therefore
  depends on the names of the secrets and on which of them are set, never on their contents.
\<close>

theorem BuildPlan_hides_secrets: "BuildPlan (blind redact app) version caps = BuildPlan app version caps"
proof -
  have cfg: "cfg_Image (app_Config (blind redact app)) = cfg_Image (app_Config app)"
    "cfg_Public (app_Config (blind redact app)) = cfg_Public (app_Config app)"
    "cfg_Domain (app_Config (blind redact app)) = cfg_Domain (app_Config app)"
    "cfg_Replicas (app_Config (blind redact app)) = cfg_Replicas (app_Config app)"
    "cfg_Env (app_Config (blind redact app)) = blind_map redact (cfg_Env (app_Config app))"
    by (simp_all add: blind_def)
  have oc: "openClawEnabled (app_Config (blind redact app)) = map_option (blind_oc redact) (openClawEnabled (app_Config app))"
    by (simp add: openClawEnabled_def blind_def blind_oc_fields split: option.splits)
  show ?thesis
    by (simp only: BuildPlan_def basePlan_def planWarnings_def cfg oc case_map_option option.map_disc_iff appendOpenClawPlan_redact
          names_blind appServicePort_blind appendSortedPlanEnv_blind comp_def Let_def)
qed

section \<open>What the plan lists\<close>

lemma plan_parts:
  "plan_Volumes (planSecrets n ns cfg plan) = plan_Volumes plan" "plan_BackendRef (planSecrets n ns cfg plan) = plan_BackendRef plan"
  "plan_Volumes (planGateway cfg plan) = plan_Volumes plan" "plan_BackendRef (planGateway cfg plan) = plan_BackendRef plan"
  "plan_Environment (planConfigMap n ns cfg plan) = plan_Environment plan"
  "plan_BackendRef (planConfigMap n ns cfg plan) = plan_BackendRef plan"
  "plan_Environment (planStorage app ns cfg plan) = plan_Environment plan"
  "plan_BackendRef (planStorage app ns cfg plan) = plan_BackendRef plan"
  by (simp_all add: planSecrets_def planGateway_def planConfigMap_def planStorage_def Let_def)

lemma plan_Volumes_OpenClaw:
  "map (\<lambda>v. (pv_Name v, pv_Source v)) (plan_Volumes (appendOpenClawPlan plan app n ns cfg)) =
     map (\<lambda>v. (pv_Name v, pv_Source v)) (plan_Volumes plan) @
     [(''openclaw-workspace'', openClawWorkspacePVCName app)] @
     (if TrimSpace (oc_AgentsMarkdown cfg) \<noteq> [] \<or> TrimSpace (oc_SettingsJSON cfg) \<noteq> []
      then [(''openclaw-config'', openClawConfigMapName n)] else [])"
  by (simp add: appendOpenClawPlan_def plan_parts planConfigMap_def planStorage_def Let_def)

lemma plan_Ref_OpenClaw: "plan_BackendRef (appendOpenClawPlan plan app n ns cfg) = plan_BackendRef plan"
  by (simp add: appendOpenClawPlan_def plan_parts)

lemma names_appendSortedPlanEnv:
  "pe_Name ` set (appendSortedPlanEnv env m src) = pe_Name ` set env \<union> {k \<in> fst ` set (entries m). TrimSpace k \<noteq> []}"
  by (force simp: appendSortedPlanEnv_def)

lemma plan_Environment_OpenClaw:
  "pe_Name ` set (plan_Environment (appendOpenClawPlan plan app n ns cfg)) =
     pe_Name ` set (plan_Environment plan) \<union>
     (if TrimSpace (oc_GatewayBindAddress cfg) \<noteq> [] then {''OPENCLAW_GATEWAY_BIND_ADDRESS''} else {}) \<union>
     (if oc_GatewayPort cfg > 0 then {''OPENCLAW_GATEWAY_PORT''} else {}) \<union>
     {k \<in> fst ` set (entries (oc_ExtraEnv cfg)). TrimSpace k \<noteq> []} \<union>
     (if TrimSpace (oc_GatewayToken cfg) \<noteq> [] \<or> TrimSpace (oc_ExistingSecretName cfg) \<noteq> []
      then {''OPENCLAW_GATEWAY_TOKEN''} else {}) \<union>
     set (secretKeysOf cfg (TrimSpace (oc_ExistingSecretName cfg) = []))"
proof -
  have sec: "pe_Name ` set (plan_Environment (planSecrets n ns cfg p)) = pe_Name ` set (plan_Environment p) \<union>
      (if TrimSpace (oc_GatewayToken cfg) \<noteq> [] \<or> TrimSpace (oc_ExistingSecretName cfg) \<noteq> []
       then {''OPENCLAW_GATEWAY_TOKEN''} else {}) \<union> set (secretKeysOf cfg (TrimSpace (oc_ExistingSecretName cfg) = []))" for p
    by (simp add: planSecrets_def Let_def image_Un image_image)
  have gw: "pe_Name ` set (plan_Environment (planGateway cfg p)) = pe_Name ` set (plan_Environment p) \<union>
     (if TrimSpace (oc_GatewayBindAddress cfg) \<noteq> [] then {''OPENCLAW_GATEWAY_BIND_ADDRESS''} else {}) \<union>
     (if oc_GatewayPort cfg > 0 then {''OPENCLAW_GATEWAY_PORT''} else {}) \<union>
     {k \<in> fst ` set (entries (oc_ExtraEnv cfg)). TrimSpace k \<noteq> []}" for p
    by (simp add: planGateway_def Let_def names_appendSortedPlanEnv)
  show ?thesis
    unfolding appendOpenClawPlan_def sec gw plan_parts by blast
qed

lemma BuildPlan_lists:
  "plan_BackendRef (BuildPlan app v caps) =
     \<lparr>ref_Namespace = namespaceForTenant (app_TenantID app), ref_Deployment = resourceName (app_Slug app) v,
      ref_Service = resourceName (app_Slug app) v, ref_IngressName = ingressName app\<rparr>"
  "map (\<lambda>v. (pv_Name v, pv_Source v)) (plan_Volumes (BuildPlan app v caps)) =
     (case openClawEnabled (app_Config app) of
        None \<Rightarrow> []
      | Some oc \<Rightarrow> (''openclaw-workspace'', openClawWorkspacePVCName app) #
          (if TrimSpace (oc_AgentsMarkdown oc) \<noteq> [] \<or> TrimSpace (oc_SettingsJSON oc) \<noteq> []
           then [(''openclaw-config'', openClawConfigMapName (resourceName (app_Slug app) v))] else []))"
  "pe_Name ` set (plan_Environment (BuildPlan app v caps)) =
     {k \<in> fst ` set (entries (cfg_Env (app_Config app))). TrimSpace k \<noteq> []} \<union>
     (case openClawEnabled (app_Config app) of
        None \<Rightarrow> {}
      | Some cfg \<Rightarrow>
         (if TrimSpace (oc_GatewayBindAddress cfg) \<noteq> [] then {''OPENCLAW_GATEWAY_BIND_ADDRESS''} else {}) \<union>
         (if oc_GatewayPort cfg > 0 then {''OPENCLAW_GATEWAY_PORT''} else {}) \<union>
         {k \<in> fst ` set (entries (oc_ExtraEnv cfg)). TrimSpace k \<noteq> []} \<union>
         (if TrimSpace (oc_GatewayToken cfg) \<noteq> [] \<or> TrimSpace (oc_ExistingSecretName cfg) \<noteq> []
          then {''OPENCLAW_GATEWAY_TOKEN''} else {}) \<union>
         set (secretKeysOf cfg (TrimSpace (oc_ExistingSecretName cfg) = [])))"
  by (cases "openClawEnabled (app_Config app)";
      simp add: BuildPlan_def basePlan_def Let_def plan_Volumes_OpenClaw plan_Environment_OpenClaw
        names_appendSortedPlanEnv plan_Ref_OpenClaw Un_assoc; fail)+

lemma plan_Resources_base:
  "set (plan_Resources (basePlan app v caps)) \<subseteq> set (plan_Resources (BuildPlan app v caps))"
proof -
  have "set (plan_Resources p) \<subseteq> set (plan_Resources (planSecrets n ns cfg p))"
    "set (plan_Resources p) \<subseteq> set (plan_Resources (planGateway cfg p))"
    "set (plan_Resources p) \<subseteq> set (plan_Resources (planConfigMap n ns cfg p))"
    "set (plan_Resources p) \<subseteq> set (plan_Resources (planStorage app ns cfg p))" for p n ns cfg
    by (auto simp: planSecrets_def planGateway_def planConfigMap_def planStorage_def Let_def)
  then have "set (plan_Resources p) \<subseteq> set (plan_Resources (appendOpenClawPlan p app n ns cfg))" for p n ns cfg
    unfolding appendOpenClawPlan_def by (meson subset_trans)
  then show ?thesis
    by (auto simp: BuildPlan_def Let_def split: option.split)
qed

section \<open>Reading the status\<close>

definition cond_failing :: "DeploymentCondition \<Rightarrow> bool" where
  "cond_failing c \<longleftrightarrow> cond_Type c = DeploymentReplicaFailure \<and> cond_Status c = ''True'' \<or>
     cond_Type c = DeploymentProgressing \<and> cond_Reason c = ''ProgressDeadlineExceeded''"

lemma failureCondition_None: "failureCondition cs = None \<longleftrightarrow> (\<forall>c \<in> set cs. \<not> cond_failing c)"
  by (induction cs) (auto simp: cond_failing_def)

lemma desiredReplicas_pos: "desiredReplicas k \<ge> 1"
  by (simp add: desiredReplicas_def Let_def)

text \<open>
  The status read off the cluster: it is running exactly when the controller has seen the latest
  generation, no condition reports a failure, and both the ready and the updated replicas reach the
  desired number, of which there is at least one; it is failed exactly when the generation was seen and some
  condition, whichever its position, reports a failure; a degraded workload is never fully ready; and no
  other status than these and provisioning is reported.
\<close>

theorem mapDeploymentStatus_spec:
  "let st = fst (mapDeploymentStatus k);
       seen = (kst_Generation k \<le> kst_ObservedGeneration k);
       broken = list_ex cond_failing (kst_Conditions k);
       desired = desiredReplicas k;
       full = (kst_ReadyReplicas k \<ge> desired \<and> kst_UpdatedReplicas k \<ge> desired)
   in desired \<ge> 1 \<and>
      (st = DeploymentStatusRunning \<longleftrightarrow> seen \<and> \<not> broken \<and> full) \<and>
      (st = DeploymentStatusFailed \<longleftrightarrow> seen \<and> broken) \<and>
      (st = DeploymentStatusDegraded \<longleftrightarrow>
         seen \<and> \<not> broken \<and> \<not> full \<and> (kst_ReadyReplicas k > 0 \<or> kst_AvailableReplicas k > 0)) \<and>
      st \<in> {DeploymentStatusProvisioning, DeploymentStatusFailed, DeploymentStatusRunning, DeploymentStatusDegraded}"
proof (cases "failureCondition (kst_Conditions k)")
  case None
  then have "\<not> list_ex cond_failing (kst_Conditions k)"
    by (simp add: failureCondition_None list_ex_iff)
  with None show ?thesis
    by (simp add: mapDeploymentStatus_def Let_def desiredReplicas_pos linorder_not_less)
next
  case (Some r)
  then have "list_ex cond_failing (kst_Conditions k)"
    using failureCondition_None [of "kst_Conditions k"] by (simp add: list_ex_iff)
  with Some show ?thesis
    by (simp add: mapDeploymentStatus_def Let_def desiredReplicas_pos linorder_not_less)
qed

end
