(* ===== verification/KubeBackend.thy ===== *)
theory KubeBackend
  imports KubeNames Handlers
begin

text \<open>
  \<^verbatim>\<open>internal/backends/kubernetes/backend.go\<close>: what the backend asks of a cluster. The client library and its
  error predicates are the parameter \<open>kube\<close>: for every kind of object the calls of its typed client, over an
  arbitrary type \<open>'c\<close> of cluster states, and \<^verbatim>\<open>apierrors.IsNotFound\<close>, \<^verbatim>\<open>apierrors.IsAlreadyExists\<close> and
  \<^verbatim>\<open>resource.ParseQuantity\<close> (which gives the text of its error, if any). The objects have the fields the
  code sets or reads; a quantity is the text it was parsed from, and a port given to \<^verbatim>\<open>intstr.FromInt\<close> is
  its argument. Maps of labels and of data are association lists.
\<close>

section \<open>Objects\<close>

record ObjectMeta =
  meta_Name :: string
  meta_Namespace :: string
  meta_Labels :: "(string \<times> string) list"
  meta_ResourceVersion :: string

record EnvVar =
  env_Name :: string
  env_Value :: string
  env_ValueFrom :: "(string \<times> string) option"

record VolumeMount =
  vm_Name :: string
  vm_MountPath :: string
  vm_ReadOnly :: bool

datatype VolumeSource =
    PersistentVolumeClaimSource string
  | ConfigMapSource string "(string \<times> string) list"

record Volume =
  vol_Name :: string
  vol_Source :: VolumeSource

record Probe =
  probe_Path :: string
  probe_Port :: int
  probe_InitialDelaySeconds :: int
  probe_TimeoutSeconds :: int
  probe_PeriodSeconds :: int
  probe_FailureThreshold :: int

record Container =
  ctr_Name :: string
  ctr_Image :: string
  ctr_Requests :: "(string \<times> string) list"
  ctr_Limits :: "(string \<times> string) list"
  ctr_Ports :: "int list"
  ctr_Env :: "EnvVar list"
  ctr_ReadinessProbe :: "Probe option"
  ctr_LivenessProbe :: "Probe option"
  ctr_VolumeMounts :: "VolumeMount list"

text \<open>The pod always has one container.\<close>

record PodSpec =
  pod_Container :: Container
  pod_ServiceAccountName :: string
  pod_Volumes :: "Volume list"

record KDeployment =
  kd_Meta :: ObjectMeta
  kd_Replicas :: "int option"
  kd_Selector :: "(string \<times> string) list"
  kd_PodLabels :: "(string \<times> string) list"
  kd_PodSpec :: PodSpec
  kd_Generation :: int
  kd_ObservedGeneration :: int
  kd_Conditions :: "DeploymentCondition list"
  kd_ReadyReplicas :: int
  kd_UpdatedReplicas :: int
  kd_AvailableReplicas :: int

record KService =
  ks_Meta :: ObjectMeta
  ks_Selector :: "(string \<times> string) list"
  ks_PortName :: string
  ks_Port :: int
  ks_TargetPort :: int
  ks_Type :: string
  ks_ClusterIP :: string
  ks_ClusterIPs :: "string list"
  ks_IPFamilies :: "string list"
  ks_IPFamilyPolicy :: "string option"

record KIngress =
  ki_Meta :: ObjectMeta
  ki_Host :: string
  ki_Path :: string
  ki_PathType :: string
  ki_Service :: string
  ki_ServicePort :: int

record KConfigMap =
  kc_Meta :: ObjectMeta
  kc_Data :: "(string \<times> string) list"

record KSecret =
  ksec_Meta :: ObjectMeta
  ksec_Type :: string
  ksec_StringData :: "(string \<times> string) list"

record KPersistentVolumeClaim =
  kp_Meta :: ObjectMeta
  kp_AccessModes :: "string list"
  kp_Storage :: string

record KNetworkPolicy =
  kn_Meta :: ObjectMeta
  kn_PodSelector :: "(string \<times> string) list"
  kn_PolicyTypes :: "string list"
  kn_EgressRules :: nat

record KNamespace =
  kns_Meta :: ObjectMeta

text \<open>The typed client of one kind of object; the first argument is the namespace.\<close>

record ('o, 'c) kube_api =
  kget :: "string \<Rightarrow> string \<Rightarrow> ('o, 'c) op"
  kcreate :: "string \<Rightarrow> 'o \<Rightarrow> ('o, 'c) op"
  kupdate :: "string \<Rightarrow> 'o \<Rightarrow> ('o, 'c) op"
  kdelete :: "string \<Rightarrow> string \<Rightarrow> (unit, 'c) op"

record 'c kube =
  k_Namespaces :: "(KNamespace, 'c) kube_api"
  k_NetworkPolicies :: "(KNetworkPolicy, 'c) kube_api"
  k_PersistentVolumeClaims :: "(KPersistentVolumeClaim, 'c) kube_api"
  k_ConfigMaps :: "(KConfigMap, 'c) kube_api"
  k_Secrets :: "(KSecret, 'c) kube_api"
  k_Deployments :: "(KDeployment, 'c) kube_api"
  k_Services :: "(KService, 'c) kube_api"
  k_Ingresses :: "(KIngress, 'c) kube_api"
  IsNotFound :: "error \<Rightarrow> bool"
  IsAlreadyExists :: "error \<Rightarrow> bool"
  ParseQuantity :: "string \<Rightarrow> string option"

section \<open>Calls\<close>

record 'c kube_world = store_world +
  cluster :: 'c

definition onCluster :: "('b, 'c) op \<Rightarrow> ('b, ('c, 'z) kube_world_scheme) op" where
  "onCluster f w = (case f (cluster w) of (r, c) \<Rightarrow> (r, w\<lparr>cluster := c\<rparr>))"

text \<open>\<^verbatim>\<open>_ = f()\<close>\<close>

definition ignoreE :: "('b, 'w) op \<Rightarrow> ('d, 'w) op \<Rightarrow> ('d, 'w) op" where
  "ignoreE f k = catchE f (\<lambda>_. k) (\<lambda>_. k)"

text \<open>\<^verbatim>\<open>if err := f(); err != nil { return fmt.Errorf("<text>: %w", err) }\<close>\<close>

definition wrapE :: "string \<Rightarrow> ('b, 'w) op \<Rightarrow> ('b, 'w) op" where
  "wrapE text f = catchE f (\<lambda>e. fail (Errorf text e)) ret"

text \<open>\<^verbatim>\<open>resource.MustParse\<close>\<close>

definition MustParse :: "'c kube \<Rightarrow> string \<Rightarrow> (string, 'w) op" where
  "MustParse K s =
     (case ParseQuantity K s of
        None \<Rightarrow> ret s
      | Some e \<Rightarrow> fail (Panic (''cannot parse '' @ CHR 0x27 # s @ CHR 0x27 # '': '' @ e)))"

text \<open>The shape the six upserts share: \<open>adopt\<close> carries over what the server assigned.\<close>

definition upsert ::
  "'c kube \<Rightarrow> ('o, 'c) kube_api \<Rightarrow> string \<Rightarrow> string \<Rightarrow> 'o \<Rightarrow> ('o \<Rightarrow> 'o) \<Rightarrow> (unit, ('c, 'z) kube_world_scheme) op" where
  "upsert K api ns name obj adopt =
     catchE (onCluster (kget api ns name))
       (\<lambda>e. if IsNotFound K e then bindE (onCluster (kcreate api ns obj)) (\<lambda>_. ret ()) else fail e)
       (\<lambda>existing. bindE (onCluster (kupdate api ns (adopt existing))) (\<lambda>_. ret ()))"

definition adoptVersion :: "ObjectMeta \<Rightarrow> ObjectMeta \<Rightarrow> ObjectMeta" where
  "adoptVersion existing m = m\<lparr>meta_ResourceVersion := meta_ResourceVersion existing\<rparr>"

definition upsertDeployment :: "'c kube \<Rightarrow> KDeployment \<Rightarrow> (unit, ('c, 'z) kube_world_scheme) op" where
  "upsertDeployment K d =
     upsert K (k_Deployments K) (meta_Namespace (kd_Meta d)) (meta_Name (kd_Meta d)) d
       (\<lambda>existing. d\<lparr>kd_Meta := adoptVersion (kd_Meta existing) (kd_Meta d)\<rparr>)"

definition upsertService :: "'c kube \<Rightarrow> KService \<Rightarrow> (unit, ('c, 'z) kube_world_scheme) op" where
  "upsertService K s =
     upsert K (k_Services K) (meta_Namespace (ks_Meta s)) (meta_Name (ks_Meta s)) s
       (\<lambda>existing. s
          \<lparr>ks_Meta := adoptVersion (ks_Meta existing) (ks_Meta s),
           ks_ClusterIP := ks_ClusterIP existing, ks_ClusterIPs := ks_ClusterIPs existing,
           ks_IPFamilies := ks_IPFamilies existing, ks_IPFamilyPolicy := ks_IPFamilyPolicy existing\<rparr>)"

definition upsertIngress :: "'c kube \<Rightarrow> KIngress \<Rightarrow> (unit, ('c, 'z) kube_world_scheme) op" where
  "upsertIngress K i =
     upsert K (k_Ingresses K) (meta_Namespace (ki_Meta i)) (meta_Name (ki_Meta i)) i
       (\<lambda>existing. i\<lparr>ki_Meta := adoptVersion (ki_Meta existing) (ki_Meta i)\<rparr>)"

definition upsertConfigMap :: "'c kube \<Rightarrow> KConfigMap \<Rightarrow> (unit, ('c, 'z) kube_world_scheme) op" where
  "upsertConfigMap K m =
     upsert K (k_ConfigMaps K) (meta_Namespace (kc_Meta m)) (meta_Name (kc_Meta m)) m
       (\<lambda>existing. m\<lparr>kc_Meta := adoptVersion (kc_Meta existing) (kc_Meta m)\<rparr>)"

definition upsertSecret :: "'c kube \<Rightarrow> KSecret \<Rightarrow> (unit, ('c, 'z) kube_world_scheme) op" where
  "upsertSecret K s =
     upsert K (k_Secrets K) (meta_Namespace (ksec_Meta s)) (meta_Name (ksec_Meta s)) s
       (\<lambda>existing. s\<lparr>ksec_Meta := adoptVersion (ksec_Meta existing) (ksec_Meta s)\<rparr>)"

definition upsertNetworkPolicy :: "'c kube \<Rightarrow> KNetworkPolicy \<Rightarrow> (unit, ('c, 'z) kube_world_scheme) op" where
  "upsertNetworkPolicy K p =
     upsert K (k_NetworkPolicies K) (meta_Namespace (kn_Meta p)) (meta_Name (kn_Meta p)) p
       (\<lambda>existing. p\<lparr>kn_Meta := adoptVersion (kn_Meta existing) (kn_Meta p)\<rparr>)"

section \<open>Building the manifests\<close>

fun upsertLiteralEnv :: "EnvVar list \<Rightarrow> string \<Rightarrow> string \<Rightarrow> EnvVar list" where
  "upsertLiteralEnv [] name value = [\<lparr>env_Name = name, env_Value = value, env_ValueFrom = None\<rparr>]"
| "upsertLiteralEnv (e # es) name value =
     (if env_Name e = name then e\<lparr>env_Value := value, env_ValueFrom := None\<rparr> # es
      else e # upsertLiteralEnv es name value)"

fun upsertSecretEnv :: "EnvVar list \<Rightarrow> string \<Rightarrow> string \<Rightarrow> string \<Rightarrow> EnvVar list" where
  "upsertSecretEnv [] envName secretName secretKey =
     [\<lparr>env_Name = envName, env_Value = [], env_ValueFrom = Some (secretName, secretKey)\<rparr>]"
| "upsertSecretEnv (e # es) envName secretName secretKey =
     (if env_Name e = envName then e\<lparr>env_Value := [], env_ValueFrom := Some (secretName, secretKey)\<rparr> # es
      else e # upsertSecretEnv es envName secretName secretKey)"

definition appendSortedEnvMap :: "EnvVar list \<Rightarrow> gomap \<Rightarrow> EnvVar list" where
  "appendSortedEnvMap env values =
     foldl (\<lambda>env key. if TrimSpace key = [] then env else upsertLiteralEnv env key (lookup values key))
       env (sortedKeys values)"

definition mergeLabels :: "(string \<times> string) list \<Rightarrow> (string \<times> string) list \<Rightarrow> (string \<times> string) list" where
  "mergeLabels m m' =
     foldl (\<lambda>out (k, v). AList.update k v out) (foldl (\<lambda>out (k, v). AList.update k v out) [] m) m'"

definition configureReliabilityProbes :: "Container \<Rightarrow> AppConfig \<Rightarrow> Container" where
  "configureReliabilityProbes container cfg =
     (let path = TrimSpace (rel_HealthCheckPath (cfg_Reliability cfg))
      in if path = [] then container
         else
           let path = (if \<not> HasPrefix path ''/'' then CHR ''/'' # path else path);
               port = appServicePort cfg;
               port = (if port \<le> 0 then 3000 else port);
               timeout = wrap32 (rel_HealthCheckTimeoutSeconds (cfg_Reliability cfg));
               timeout = (if timeout \<le> 0 then 3 else timeout);
               probe = \<lparr>probe_Path = path, probe_Port = port, probe_InitialDelaySeconds = 10,
                        probe_TimeoutSeconds = timeout, probe_PeriodSeconds = 10, probe_FailureThreshold = 3\<rparr>
           in container\<lparr>ctr_ReadinessProbe := Some probe, ctr_LivenessProbe := Some probe\<rparr>)"

text \<open>\<^verbatim>\<open>json.Marshal\<close> of the fallback providers, whose fields are texts and integers.\<close>

definition fallbackJSON :: "InferenceFallbackProvider \<Rightarrow> string" where
  "fallbackJSON p =
     ''{'' @ json_string ''name'' @ '':'' @ json_string (fb_Name p) @
     (if fb_Model p = [] then [] else '','' @ json_string ''model'' @ '':'' @ json_string (fb_Model p)) @
     (if fb_BaseURL p = [] then [] else '','' @ json_string ''base_url'' @ '':'' @ json_string (fb_BaseURL p)) @
     '','' @ json_string ''priority'' @ '':'' @ Itoa (fb_Priority p) @
     (if fb_TimeoutSeconds p = 0 then []
      else '','' @ json_string ''timeout_seconds'' @ '':'' @ Itoa (fb_TimeoutSeconds p)) @ ''}''"

definition fallbacksJSON :: "InferenceFallbackProvider list \<Rightarrow> string" where
  "fallbacksJSON ps = ''['' @ join '','' (map fallbackJSON ps) @ '']''"

text \<open>The environment of an OpenClaw container.\<close>

definition openClawEnv :: "EnvVar list \<Rightarrow> App \<Rightarrow> OpenClawConfig \<Rightarrow> string \<Rightarrow> EnvVar list" where
  "openClawEnv env app cfg deploymentName =
     (let env = (if TrimSpace (oc_GatewayBindAddress cfg) \<noteq> []
                 then upsertLiteralEnv env ''OPENCLAW_GATEWAY_BIND_ADDRESS'' (TrimSpace (oc_GatewayBindAddress cfg))
                 else env);
          env = (if oc_GatewayPort cfg > 0
                 then upsertLiteralEnv env ''OPENCLAW_GATEWAY_PORT'' (Itoa (oc_GatewayPort cfg)) else env);
          managedSecretName = openClawManagedSecretName deploymentName;
          secretName = TrimSpace (oc_ExistingSecretName cfg);
          secretName = (if secretName = [] then managedSecretName else secretName);
          env = (if TrimSpace (oc_GatewayToken cfg) \<noteq> [] \<or> oc_ExistingSecretName cfg \<noteq> []
                 then upsertSecretEnv env ''OPENCLAW_GATEWAY_TOKEN'' secretName ''OPENCLAW_GATEWAY_TOKEN''
                 else env);
          env = foldl (\<lambda>env key.
                   if TrimSpace key = [] then env
                   else if secretName = managedSecretName \<and> TrimSpace (lookup (oc_ProviderAPIKeys cfg) key) = [] then env
                   else upsertSecretEnv env key secretName key)
                 env (sortedKeys (oc_ProviderAPIKeys cfg));
          env = appendSortedEnvMap env (oc_ExtraEnv cfg);
          fallbacks = rel_FallbackProviders (cfg_Reliability (app_Config app))
      in if length fallbacks > 0 then upsertLiteralEnv env ''CLAWFLUX_INFERENCE_FALLBACKS'' (fallbacksJSON fallbacks)
         else env)"

definition configureOpenClawRuntime :: "PodSpec \<Rightarrow> App \<Rightarrow> OpenClawConfig \<Rightarrow> string \<Rightarrow> PodSpec" where
  "configureOpenClawRuntime podSpec app cfg deploymentName =
     (let items = (if TrimSpace (oc_AgentsMarkdown cfg) \<noteq> [] then [(''AGENTS.md'', ''AGENTS.md'')] else []) @
                  (if TrimSpace (oc_SettingsJSON cfg) \<noteq> [] then [(''settings.json'', ''settings.json'')] else []);
          container = pod_Container podSpec;
          container = container
            \<lparr>ctr_Env := openClawEnv (ctr_Env container) app cfg deploymentName,
             ctr_VolumeMounts := ctr_VolumeMounts container @
               [\<lparr>vm_Name = ''openclaw-workspace'', vm_MountPath = ''/home/openclaw/.openclaw/workspace'',
                 vm_ReadOnly = False\<rparr>] @
               (if length items > 0
                then [\<lparr>vm_Name = ''openclaw-config'', vm_MountPath = ''/home/openclaw/.openclaw'', vm_ReadOnly = True\<rparr>]
                else [])\<rparr>
      in podSpec
           \<lparr>pod_Container := container,
            pod_Volumes := pod_Volumes podSpec @
              [\<lparr>vol_Name = ''openclaw-workspace'',
                vol_Source = PersistentVolumeClaimSource (openClawWorkspacePVCName app)\<rparr>] @
              (if length items > 0
               then [\<lparr>vol_Name = ''openclaw-config'',
                      vol_Source = ConfigMapSource (openClawConfigMapName deploymentName) items\<rparr>]
               else [])\<rparr>)"

text \<open>What \<^verbatim>\<open>buildDeployment\<close> returns once the four quantities have parsed.\<close>

definition deploymentObject ::
  "string \<Rightarrow> string \<Rightarrow> App \<Rightarrow> Deployment \<Rightarrow> (string \<times> string) list \<Rightarrow> KDeployment" where
  "deploymentObject name ns app deployment labels =
     (let cfg = app_Config app;
          selectorLabels = [(''clawflux/deployment'', trimForKubeName (dep_ID deployment))];
          container =
            \<lparr>ctr_Name = ''openclaw'', ctr_Image = dep_ImageRef deployment,
             ctr_Requests = [(''cpu'', cfg_CPURequest cfg), (''memory'', cfg_MemoryRequest cfg)],
             ctr_Limits = [(''cpu'', cfg_CPULimit cfg), (''memory'', cfg_MemoryLimit cfg)],
             ctr_Ports = (if cfg_Port cfg > 0 then [wrap32 (cfg_Port cfg)] else []),
             ctr_Env = appendSortedEnvMap [] (cfg_Env cfg),
             ctr_ReadinessProbe = None, ctr_LivenessProbe = None, ctr_VolumeMounts = []\<rparr>;
          container = configureReliabilityProbes container cfg;
          podSpec = \<lparr>pod_Container = container, pod_ServiceAccountName = cfg_ServiceAccountName cfg, pod_Volumes = []\<rparr>;
          podSpec = (case openClawEnabled cfg of
                       Some oc \<Rightarrow> configureOpenClawRuntime podSpec app oc name | None \<Rightarrow> podSpec);
          replicas = (if cfg_Replicas cfg \<le> 0 then 1 else cfg_Replicas cfg)
      in \<lparr>kd_Meta = \<lparr>meta_Name = name, meta_Namespace = ns, meta_Labels = labels, meta_ResourceVersion = []\<rparr>,
          kd_Replicas = Some replicas, kd_Selector = selectorLabels,
          kd_PodLabels = mergeLabels labels selectorLabels, kd_PodSpec = podSpec,
          kd_Generation = 0, kd_ObservedGeneration = 0, kd_Conditions = [],
          kd_ReadyReplicas = 0, kd_UpdatedReplicas = 0, kd_AvailableReplicas = 0\<rparr>)"

definition buildDeployment ::
  "'c kube \<Rightarrow> string \<Rightarrow> string \<Rightarrow> App \<Rightarrow> Deployment \<Rightarrow> (string \<times> string) list \<Rightarrow> (KDeployment, 'w) op" where
  "buildDeployment K name ns app deployment labels =
     (let cfg = app_Config app
      in bindE (MustParse K (cfg_CPURequest cfg)) (\<lambda>_.
         bindE (MustParse K (cfg_MemoryRequest cfg)) (\<lambda>_.
         bindE (MustParse K (cfg_CPULimit cfg)) (\<lambda>_.
         bindE (MustParse K (cfg_MemoryLimit cfg)) (\<lambda>_.
         ret (deploymentObject name ns app deployment labels))))))"

definition buildService :: "string \<Rightarrow> string \<Rightarrow> App \<Rightarrow> Deployment \<Rightarrow> (string \<times> string) list \<Rightarrow> KService" where
  "buildService name ns app deployment labels =
     (let port = wrap32 (appServicePort (app_Config app));
          port = (if port \<le> 0 then 3000 else port)
      in \<lparr>ks_Meta = \<lparr>meta_Name = name, meta_Namespace = ns, meta_Labels = labels, meta_ResourceVersion = []\<rparr>,
          ks_Selector = [(''clawflux/deployment'', trimForKubeName (dep_ID deployment))],
          ks_PortName = ''http'', ks_Port = port, ks_TargetPort = port, ks_Type = ''ClusterIP'',
          ks_ClusterIP = [], ks_ClusterIPs = [], ks_IPFamilies = [], ks_IPFamilyPolicy = None\<rparr>)"

definition buildIngress :: "string \<Rightarrow> string \<Rightarrow> App \<Rightarrow> string \<Rightarrow> KIngress" where
  "buildIngress name ns app serviceName =
     (let host = TrimSpace (cfg_Domain (app_Config app));
          host = (if host = [] then trimForKubeName (app_Slug app) @ ''.example.local'' else host)
      in \<lparr>ki_Meta = \<lparr>meta_Name = name, meta_Namespace = ns,
            meta_Labels = [(''app.kubernetes.io/managed-by'', ''clawflux''),
                           (''clawflux/app'', trimForKubeName (app_ID app))],
            meta_ResourceVersion = []\<rparr>,
          ki_Host = host, ki_Path = ''/'', ki_PathType = ''Prefix'', ki_Service = serviceName,
          ki_ServicePort = wrap32 (appServicePort (app_Config app))\<rparr>)"

section \<open>Reconciling\<close>

definition ensureNamespace :: "'c kube \<Rightarrow> string \<Rightarrow> (unit, ('c, 'z) kube_world_scheme) op" where
  "ensureNamespace K ns =
     catchE (onCluster (kget (k_Namespaces K) [] ns))
       (\<lambda>e. if \<not> IsNotFound K e then fail e
            else
              catchE (onCluster (kcreate (k_Namespaces K) []
                  \<lparr>kns_Meta = \<lparr>meta_Name = ns, meta_Namespace = [],
                     meta_Labels = [(''app.kubernetes.io/managed-by'', ''clawflux'')], meta_ResourceVersion = []\<rparr>\<rparr>))
                (\<lambda>e. if IsAlreadyExists K e then ret () else fail e) (\<lambda>_. ret ()))
       (\<lambda>_. ret ())"

definition ensureBaselineEgressPolicy :: "'c kube \<Rightarrow> string \<Rightarrow> (unit, ('c, 'z) kube_world_scheme) op" where
  "ensureBaselineEgressPolicy K ns =
     upsertNetworkPolicy K
       \<lparr>kn_Meta = \<lparr>meta_Name = ''clawflux-allow-egress'', meta_Namespace = ns, meta_Labels = [],
                   meta_ResourceVersion = []\<rparr>,
        kn_PodSelector = [(''app.kubernetes.io/managed-by'', ''clawflux'')],
        kn_PolicyTypes = [''Egress''], kn_EgressRules = 1\<rparr>"

definition ensureOpenClawWorkspacePVC :: "'c kube \<Rightarrow> string \<Rightarrow> App \<Rightarrow> (unit, ('c, 'z) kube_world_scheme) op" where
  "ensureOpenClawWorkspacePVC K ns app =
     (let pvcName = openClawWorkspacePVCName app
      in catchE (onCluster (kget (k_PersistentVolumeClaims K) ns pvcName))
           (\<lambda>e. if \<not> IsNotFound K e then fail e
                else
                  let storage = (case cfg_OpenClaw (app_Config app) of
                                   Some oc \<Rightarrow> if TrimSpace (oc_WorkspaceStorage oc) \<noteq> []
                                              then TrimSpace (oc_WorkspaceStorage oc) else ''10Gi''
                                 | None \<Rightarrow> ''10Gi'')
                  in bindE (MustParse K storage) (\<lambda>storage.
                       catchE (onCluster (kcreate (k_PersistentVolumeClaims K) ns
                           \<lparr>kp_Meta = \<lparr>meta_Name = pvcName, meta_Namespace = ns,
                              meta_Labels = [(''app.kubernetes.io/managed-by'', ''clawflux''),
                                             (''clawflux/app'', trimForKubeName (app_ID app))],
                              meta_ResourceVersion = []\<rparr>,
                            kp_AccessModes = [''ReadWriteOnce''], kp_Storage = storage\<rparr>))
                         (\<lambda>e. if IsAlreadyExists K e then ret () else fail e) (\<lambda>_. ret ())))
           (\<lambda>_. ret ()))"

definition reconcileOpenClawConfigMap ::
  "'c kube \<Rightarrow> string \<Rightarrow> string \<Rightarrow> OpenClawConfig \<Rightarrow> (string \<times> string) list \<Rightarrow> (unit, ('c, 'z) kube_world_scheme) op" where
  "reconcileOpenClawConfigMap K ns deploymentName cfg labels =
     (let data = (if TrimSpace (oc_AgentsMarkdown cfg) \<noteq> [] then [(''AGENTS.md'', oc_AgentsMarkdown cfg)] else []) @
                 (if TrimSpace (oc_SettingsJSON cfg) \<noteq> [] then [(''settings.json'', oc_SettingsJSON cfg)] else []);
          name = openClawConfigMapName deploymentName
      in if length data = 0 then ignoreE (onCluster (kdelete (k_ConfigMaps K) ns name)) (ret ())
         else upsertConfigMap K
           \<lparr>kc_Meta = \<lparr>meta_Name = name, meta_Namespace = ns, meta_Labels = labels, meta_ResourceVersion = []\<rparr>,
            kc_Data = data\<rparr>)"

text \<open>The loop over the provider keys, in the order of the iteration.\<close>

definition secretData :: "(string \<times> string) list \<Rightarrow> (string \<times> string) list \<Rightarrow> (string \<times> string) list" where
  "secretData stringData kvs =
     foldl (\<lambda>stringData (k, v).
        let key = TrimSpace k
        in if key = [] \<or> TrimSpace v = [] then stringData else AList.update key (TrimSpace v) stringData)
       stringData kvs"

definition reconcileOpenClawSecret ::
  "'c kube \<Rightarrow> string \<Rightarrow> string \<Rightarrow> OpenClawConfig \<Rightarrow> (string \<times> string) list \<Rightarrow> (unit, ('c, 'z) kube_world_scheme) op" where
  "reconcileOpenClawSecret K ns deploymentName cfg labels w =
     (if oc_ExistingSecretName cfg \<noteq> [] then (Inr (), w)
      else
        let stringData = (if TrimSpace (oc_GatewayToken cfg) \<noteq> []
                          then [(''OPENCLAW_GATEWAY_TOKEN'', TrimSpace (oc_GatewayToken cfg))] else []);
            (kvs, w) = range_map (entries (oc_ProviderAPIKeys cfg)) w;
            stringData = secretData stringData kvs;
            name = openClawManagedSecretName deploymentName
        in if length stringData = 0 then ignoreE (onCluster (kdelete (k_Secrets K) ns name)) (ret ()) w
           else upsertSecret K
             \<lparr>ksec_Meta = \<lparr>meta_Name = name, meta_Namespace = ns, meta_Labels = labels, meta_ResourceVersion = []\<rparr>,
              ksec_Type = ''Opaque'', ksec_StringData = stringData\<rparr> w)"

definition reconcileOpenClawConfig ::
  "'c kube \<Rightarrow> App \<Rightarrow> string \<Rightarrow> string \<Rightarrow> (string \<times> string) list \<Rightarrow> (unit, ('c, 'z) kube_world_scheme) op" where
  "reconcileOpenClawConfig K app ns deploymentName labels =
     (case openClawEnabled (app_Config app) of
        None \<Rightarrow> ret ()
      | Some cfg \<Rightarrow>
          bindE (wrapE (''ensure workspace pvc in '' @ ns) (ensureOpenClawWorkspacePVC K ns app)) (\<lambda>_.
          bindE (wrapE (''apply configmap in '' @ ns) (reconcileOpenClawConfigMap K ns deploymentName cfg labels)) (\<lambda>_.
          wrapE (''apply secret in '' @ ns) (reconcileOpenClawSecret K ns deploymentName cfg labels))))"

section \<open>The backend\<close>

definition Submit :: "'c kube \<Rightarrow> App \<Rightarrow> Deployment \<Rightarrow> (BackendStatus, ('c, 'z) kube_world_scheme) op" where
  "Submit K app dep =
     (let ns = namespaceForTenant (app_TenantID app);
          name = resourceName (app_Slug app) (dep_Version dep);
          labels = deploymentLabels app dep
      in bindE (wrapE (''ensure namespace '' @ ns) (ensureNamespace K ns)) (\<lambda>_.
         bindE (wrapE (''apply network policy in '' @ ns) (ensureBaselineEgressPolicy K ns)) (\<lambda>_.
         bindE (reconcileOpenClawConfig K app ns name labels) (\<lambda>_.
         bindE (buildDeployment K name ns app dep labels) (\<lambda>deployment.
         bindE (wrapE (''apply deployment '' @ ns @ ''/'' @ name) (upsertDeployment K deployment)) (\<lambda>_.
         bindE (wrapE (''apply service '' @ ns @ ''/'' @ name) (upsertService K (buildService name ns app dep labels))) (\<lambda>_.
         bindE (if cfg_Public (app_Config app)
                then let ingress = ingressName app
                     in bindE (wrapE (''apply ingress '' @ ns @ ''/'' @ ingress)
                                (upsertIngress K (buildIngress ingress ns app name))) (\<lambda>_. ret ingress)
                else ignoreE (onCluster (kdelete (k_Ingresses K) ns (ingressName app))) (ret [])) (\<lambda>ingress.
         ret \<lparr>bs_Status = DeploymentStatusProvisioning,
              bs_Reason = ''kubernetes resources applied, waiting for rollout'',
              bs_Ref = \<lparr>ref_Namespace = ns, ref_Deployment = name, ref_Service = name, ref_IngressName = ingress\<rparr>\<rparr>))))))))"

definition Delete :: "'c kube \<Rightarrow> BackendRef \<Rightarrow> (unit, ('c, 'z) kube_world_scheme) op" where
  "Delete K ref =
     (let ns = ref_Namespace ref
      in if ns = [] \<or> ref_Deployment ref = [] then ret ()
         else
           ignoreE (onCluster (kdelete (k_Ingresses K) ns (ref_IngressName ref)))
           (ignoreE (onCluster (kdelete (k_Services K) ns (ref_Service ref)))
           (catchE (onCluster (kdelete (k_Deployments K) ns (ref_Deployment ref)))
              (\<lambda>e. if IsNotFound K e then ret () else fail e)
              (\<lambda>_.
                ignoreE (onCluster (kdelete (k_ConfigMaps K) ns (openClawConfigMapName (ref_Deployment ref))))
                (ignoreE (onCluster (kdelete (k_Secrets K) ns (openClawManagedSecretName (ref_Deployment ref))))
                (ret ()))))))"

text \<open>The fields \<^verbatim>\<open>mapDeploymentStatus\<close> reads.\<close>

definition statusOf :: "KDeployment \<Rightarrow> KubeStatus" where
  "statusOf d =
     \<lparr>kst_Generation = kd_Generation d, kst_ObservedGeneration = kd_ObservedGeneration d,
      kst_Conditions = kd_Conditions d, kst_Replicas = kd_Replicas d, kst_ReadyReplicas = kd_ReadyReplicas d,
      kst_UpdatedReplicas = kd_UpdatedReplicas d, kst_AvailableReplicas = kd_AvailableReplicas d\<rparr>"

definition GetStatus :: "'c kube \<Rightarrow> BackendRef \<Rightarrow> (BackendStatus, ('c, 'z) kube_world_scheme) op" where
  "GetStatus K ref =
     catchE (onCluster (kget (k_Deployments K) (ref_Namespace ref) (ref_Deployment ref)))
       (\<lambda>e. if IsNotFound K e
            then ret \<lparr>bs_Status = DeploymentStatusFailed, bs_Reason = ''deployment not found'', bs_Ref = ref\<rparr>
            else fail (Errorf (''get deployment '' @ ref_Namespace ref @ ''/'' @ ref_Deployment ref) e))
       (\<lambda>deployment.
          let (status, reason) = mapDeploymentStatus (statusOf deployment);
              ref = (if ref_Service ref = [] then ref\<lparr>ref_Service := ref_Deployment ref\<rparr> else ref)
          in ret \<lparr>bs_Status = status, bs_Reason = reason, bs_Ref = ref\<rparr>)"

definition kube_backend :: "'c kube \<Rightarrow> ('c, 'z) kube_world_scheme DeploymentBackend" where
  "kube_backend K =
     \<lparr>be_Name = ''kubernetes'', be_Capabilities = Capabilities,
      be_Plan = (\<lambda>app version. ret (BuildPlan app version Capabilities)),
      be_Submit = Submit K, be_Delete = Delete K, be_GetStatus = GetStatus K\<rparr>"

section \<open>What a call leaves alone\<close>

lemma keeping_ignore [keep]: "keeping v f \<Longrightarrow> keeping v k \<Longrightarrow> keeping v (ignoreE f k)"
  unfolding ignoreE_def by (intro keep)

lemma keeping_wrap [keep]: "keeping v f \<Longrightarrow> keeping v (wrapE s f)"
  unfolding wrapE_def by (intro keep)

lemma keeping_MustParse [keep]: "keeping v (MustParse K s)"
  by (simp add: MustParse_def keep split: option.split)

lemma keeping_buildDeployment [keep]: "keeping v (buildDeployment K n ns app dep ls)"
  unfolding buildDeployment_def Let_def by (intro keep)

text \<open>The calls of the backend, given what the calls of the cluster leave alone.\<close>

definition keeping_api :: "(('c, 'z) kube_world_scheme \<Rightarrow> 'v) \<Rightarrow> ('o, 'c) kube_api \<Rightarrow> bool" where
  "keeping_api v api \<longleftrightarrow> (\<forall>ns n obj. keeping v (onCluster (kget api ns n)) \<and> keeping v (onCluster (kcreate api ns obj)) \<and>
     keeping v (onCluster (kupdate api ns obj)) \<and> keeping v (onCluster (kdelete api ns n)))"

lemma keeping_apiD [keep]:
  "keeping_api v api \<Longrightarrow> keeping v (onCluster (kget api ns n))"
  "keeping_api v api \<Longrightarrow> keeping v (onCluster (kcreate api ns obj))"
  "keeping_api v api \<Longrightarrow> keeping v (onCluster (kupdate api ns obj))"
  by (simp_all add: keeping_api_def)

lemma keeping_kdelete: "keeping_api v api \<Longrightarrow> keeping v (onCluster (kdelete api ns n))"
  by (simp add: keeping_api_def)

lemma keeping_upsert [keep]: "keeping_api v api \<Longrightarrow> keeping v (upsert K api ns n obj adopt)"
  unfolding upsert_def by (intro keep)

lemmas upsert_defs = upsertDeployment_def upsertService_def upsertIngress_def upsertConfigMap_def upsertSecret_def
  upsertNetworkPolicy_def

lemma keeping_secret [keep]:
  assumes api: "keeping_api v (k_Secrets K)" and env: "\<And>m w. v (snd (range_map (m :: (string \<times> string) list) w)) = v w"
  shows "keeping v (reconcileOpenClawSecret K ns n cfg ls)"
  unfolding keeping_def
proof (intro allI impI)
  fix w :: "('a, 'b) kube_world_scheme" and r w'
  assume run: "reconcileOpenClawSecret K ns n cfg ls w = (r, w')"
  define w1 where "w1 = snd (range_map (entries (oc_ProviderAPIKeys cfg)) w)"
  show "v w' = v w"
  proof (cases "oc_ExistingSecretName cfg \<noteq> []")
    case True
    with run show ?thesis by (simp add: reconcileOpenClawSecret_def)
  next
    case False
    define sd where "sd = secretData (if TrimSpace (oc_GatewayToken cfg) \<noteq> []
        then [(''OPENCLAW_GATEWAY_TOKEN'', TrimSpace (oc_GatewayToken cfg))] else [])
        (fst (range_map (entries (oc_ProviderAPIKeys cfg)) w))"
    define op where "op = (if sd = [] then ignoreE (onCluster (kdelete (k_Secrets K) ns (openClawManagedSecretName n))) (ret ())
        else upsertSecret K \<lparr>ksec_Meta = \<lparr>meta_Name = openClawManagedSecretName n, meta_Namespace = ns, meta_Labels = ls,
               meta_ResourceVersion = []\<rparr>, ksec_Type = ''Opaque'', ksec_StringData = sd\<rparr> :: (unit, ('a, 'b) kube_world_scheme) op)"
    have "reconcileOpenClawSecret K ns n cfg ls w = op w1"
      using False by (simp add: reconcileOpenClawSecret_def Let_def split_beta w1_def sd_def op_def)
    with run have "op w1 = (r, w')" by simp
    moreover have "keeping v op"
      unfolding op_def upsertSecret_def by (intro keep api keeping_kdelete)
    ultimately show ?thesis
      using keepingD env unfolding w1_def by metis
  qed
qed

lemma keeping_reconcile [keep]:
  assumes "keeping_api v (k_PersistentVolumeClaims K)" and "keeping_api v (k_ConfigMaps K)" and "keeping_api v (k_Secrets K)"
    and "\<And>m w. v (snd (range_map (m :: (string \<times> string) list) w)) = v w"
  shows "keeping v (reconcileOpenClawConfig K app ns n ls)"
proof -
  have "keeping v (ensureOpenClawWorkspacePVC K ns app)" "keeping v (reconcileOpenClawConfigMap K ns n cfg ls)" for cfg
    unfolding ensureOpenClawWorkspacePVC_def reconcileOpenClawConfigMap_def upsertConfigMap_def Let_def
    by (intro keep assms keeping_kdelete)+
  then show ?thesis
    unfolding reconcileOpenClawConfig_def by (auto split: option.split intro!: keep assms)
qed

text \<open>Everything \<^verbatim>\<open>Submit\<close> does but for the ingress.\<close>

lemma keeping_Submit:
  assumes "keeping_api v (k_Namespaces K)" "keeping_api v (k_NetworkPolicies K)" "keeping_api v (k_PersistentVolumeClaims K)"
    "keeping_api v (k_ConfigMaps K)" "keeping_api v (k_Secrets K)" "keeping_api v (k_Deployments K)" "keeping_api v (k_Services K)"
    and "\<And>m w. v (snd (range_map (m :: (string \<times> string) list) w)) = v w"
    and "cfg_Public (app_Config app) \<Longrightarrow> keeping_api v (k_Ingresses K)"
    and "\<not> cfg_Public (app_Config app) \<Longrightarrow> keeping v (onCluster (kdelete (k_Ingresses K) (namespaceForTenant (app_TenantID app)) []))"
  shows "keeping v (Submit K app dep)"
proof -
  have del: "\<not> cfg_Public (app_Config app) \<Longrightarrow>
      keeping v (onCluster (kdelete (k_Ingresses K) (namespaceForTenant (app_TenantID app)) (ingressName app)))"
    using assms(10) by (simp add: ingressName_def)
  show ?thesis
    unfolding Submit_def ensureNamespace_def ensureBaselineEgressPolicy_def upsert_defs Let_def
    by (intro keep assms del)
qed

section \<open>The backend keeps to the cluster\<close>

abbreviation quiet :: "('b, ('c, 'z) kube_world_scheme) op \<Rightarrow> bool" where
  "quiet \<equiv> keeping (\<lambda>w. (store w, mq w))"

lemma quiet_onCluster: "quiet (onCluster f)"
  by (auto simp: keeping_def onCluster_def split: prod.splits)

lemma quiet_api: "keeping_api (\<lambda>w. (store w, mq w)) api"
  by (simp add: keeping_api_def quiet_onCluster)

lemma quiet_backend: "quiet (Submit K app dep)" "quiet (Delete K ref)" "quiet (GetStatus K ref)"
proof -
  show "quiet (Submit K app dep)"
    by (rule keeping_Submit) (simp_all add: quiet_api quiet_onCluster range_map_def)
  show "quiet (Delete K ref)"
    unfolding Delete_def Let_def by (intro keep quiet_onCluster)
  show "quiet (GetStatus K ref)"
    unfolding GetStatus_def Let_def split_beta by (intro keep quiet_onCluster)
qed

text \<open>The Kubernetes backend beside the memory repositories and the memory queue is a hosted control plane.\<close>

interpretation khp: hosted_plane mem_apps mem_deployments mem_events mem_abs mq_queue mq_Ack mq_scheduler
  mq_ReclaimStale mq_deadLetters mq_bag "kube_backend K"
  for K :: "'c kube"
proof -
  have f: "mem_abs w' = mem_abs w \<and> mq_bag w' = mq_bag w" if "quiet g" "g w = (x, w')"
    for g :: "('b, ('c, 'z) kube_world_scheme) op" and w x w'
    using keepingD [OF that] by (simp add: mem_abs_def mq_bag_def event_list_def)
  show "hosted_plane mem_apps mem_deployments mem_events mem_abs mq_queue mq_Ack mq_scheduler
      mq_ReclaimStale mq_deadLetters mq_bag (kube_backend K :: ('c, 'z) kube_world_scheme DeploymentBackend)"
    by (intro hosted_plane.intro hosted_plane_axioms.intro mcp.control_plane_axioms)
       (auto simp: kube_backend_def ret_def dest: f [OF quiet_backend(1)] f [OF quiet_backend(2)] f [OF quiet_backend(3)])
qed

section \<open>The environment of the container\<close>

lemma names_upsertLiteralEnv:
  "map env_Name (upsertLiteralEnv env n v) =
     (if n \<in> env_Name ` set env then map env_Name env else map env_Name env @ [n])"
  by (induction env n v rule: upsertLiteralEnv.induct) auto

lemma names_upsertSecretEnv:
  "map env_Name (upsertSecretEnv env n s k) =
     (if n \<in> env_Name ` set env then map env_Name env else map env_Name env @ [n])"
  by (induction env n s k rule: upsertSecretEnv.induct) auto

lemma distinct_upserts:
  "distinct (map env_Name env) \<Longrightarrow> distinct (map env_Name (upsertLiteralEnv env n v))"
  "distinct (map env_Name env) \<Longrightarrow> distinct (map env_Name (upsertSecretEnv env n s k))"
  by (simp_all add: names_upsertLiteralEnv names_upsertSecretEnv)

lemma set_upserts:
  "env_Name ` set (upsertLiteralEnv env n v) = insert n (env_Name ` set env)"
  "env_Name ` set (upsertSecretEnv env n s k) = insert n (env_Name ` set env)"
  using names_upsertLiteralEnv [of env n v, THEN arg_cong [where f = set]]
    names_upsertSecretEnv [of env n s k, THEN arg_cong [where f = set]]
  by (auto split: if_splits)

lemma foldl_invariant: "P a \<Longrightarrow> (\<And>a x. P a \<Longrightarrow> x \<in> set xs \<Longrightarrow> P (f a x)) \<Longrightarrow> P (foldl f a xs)"
  by (induction xs arbitrary: a) auto

lemma distinct_appendSortedEnvMap:
  "distinct (map env_Name env) \<Longrightarrow> distinct (map env_Name (appendSortedEnvMap env m))"
  unfolding appendSortedEnvMap_def
  by (rule foldl_invariant [where P = "\<lambda>env. distinct (map env_Name env)"]) (auto intro: distinct_upserts)

lemma distinct_openClawEnv:
  assumes "distinct (map env_Name env)"
  shows "distinct (map env_Name (openClawEnv env app cfg n))"
proof -
  have keys: "distinct (map env_Name (foldl (\<lambda>env key. if TrimSpace key = [] then env
        else if P key then env else upsertSecretEnv env key s key) e ks))"
    if "distinct (map env_Name e)" for P s ks e
    using that by (rule foldl_invariant [where P = "\<lambda>env. distinct (map env_Name env)"]) (auto intro: distinct_upserts)
  have opt: "distinct (map env_Name (if b then f e else e))"
    if "distinct (map env_Name e)" "\<And>e. distinct (map env_Name e) \<Longrightarrow> distinct (map env_Name (f e))" for b f and e :: "EnvVar list"
    using that by simp
  show ?thesis
    unfolding openClawEnv_def Let_def
    by (intro opt keys distinct_appendSortedEnvMap distinct_upserts assms)
qed

lemma set_foldl_env:
  assumes "\<And>env key. env_Name ` set (f env key) = insert key (env_Name ` set env)"
  shows "env_Name ` set (foldl (\<lambda>env key. if P key then env else f env key) env ks) =
     {k \<in> set ks. \<not> P k} \<union> env_Name ` set env"
  by (induction ks arbitrary: env) (auto simp: assms)

lemma set_appendSortedEnvMap:
  "env_Name ` set (appendSortedEnvMap env m) = {k \<in> fst ` set (entries m). TrimSpace k \<noteq> []} \<union> env_Name ` set env"
  unfolding appendSortedEnvMap_def
  by (subst set_foldl_env) (auto simp: set_upserts)

section \<open>Secrets stay in the Secret\<close>

text \<open>\<open>hide app\<close> is the app with its gateway token and provider keys replaced by a placeholder.\<close>

definition hide_oc :: "OpenClawConfig \<Rightarrow> OpenClawConfig" where
  "hide_oc oc = oc\<lparr>oc_GatewayToken := redact (oc_GatewayToken oc),
     oc_ProviderAPIKeys := blind_map redact (oc_ProviderAPIKeys oc)\<rparr>"

definition hide :: "App \<Rightarrow> App" where
  "hide app = app\<lparr>app_Config := (app_Config app)\<lparr>cfg_OpenClaw := map_option hide_oc (cfg_OpenClaw (app_Config app))\<rparr>\<rparr>"

lemma hide_oc_fields [simp]:
  "oc_WorkspaceStorage (hide_oc oc) = oc_WorkspaceStorage oc"
  "oc_AgentsMarkdown (hide_oc oc) = oc_AgentsMarkdown oc"
  "oc_SettingsJSON (hide_oc oc) = oc_SettingsJSON oc"
  "oc_GatewayBindAddress (hide_oc oc) = oc_GatewayBindAddress oc"
  "oc_GatewayPort (hide_oc oc) = oc_GatewayPort oc"
  "oc_ExistingSecretName (hide_oc oc) = oc_ExistingSecretName oc"
  "oc_ExtraEnv (hide_oc oc) = oc_ExtraEnv oc"
  "oc_GatewayToken (hide_oc oc) = redact (oc_GatewayToken oc)"
  "oc_ProviderAPIKeys (hide_oc oc) = blind_map redact (oc_ProviderAPIKeys oc)"
  "oc_Enabled (hide_oc oc) = oc_Enabled oc"
  by (simp_all add: hide_oc_def)

lemma hide_fields [simp]:
  "app_Slug (hide app) = app_Slug app" "app_ID (hide app) = app_ID app" "app_TenantID (hide app) = app_TenantID app"
  "cfg_Domain (app_Config (hide app)) = cfg_Domain (app_Config app)"
  "cfg_Public (app_Config (hide app)) = cfg_Public (app_Config app)"
  "cfg_Reliability (app_Config (hide app)) = cfg_Reliability (app_Config app)"
  "cfg_Port (app_Config (hide app)) = cfg_Port (app_Config app)"
  "cfg_Replicas (app_Config (hide app)) = cfg_Replicas (app_Config app)"
  "cfg_Env (app_Config (hide app)) = cfg_Env (app_Config app)"
  "cfg_CPURequest (app_Config (hide app)) = cfg_CPURequest (app_Config app)"
  "cfg_CPULimit (app_Config (hide app)) = cfg_CPULimit (app_Config app)"
  "cfg_MemoryRequest (app_Config (hide app)) = cfg_MemoryRequest (app_Config app)"
  "cfg_MemoryLimit (app_Config (hide app)) = cfg_MemoryLimit (app_Config app)"
  "cfg_ServiceAccountName (app_Config (hide app)) = cfg_ServiceAccountName (app_Config app)"
  "appServicePort (app_Config (hide app)) = appServicePort (app_Config app)"
  "openClawWorkspacePVCName (hide app) = openClawWorkspacePVCName app"
  by (simp_all add: hide_def appServicePort_def openClawWorkspacePVCName_def split: option.splits)

lemma openClawEnv_hide: "openClawEnv env (hide app) (hide_oc oc) n = openClawEnv env app oc n"
  by (simp only: openClawEnv_def lookup_blind hide_oc_fields hide_fields redact_blank redact_Nil sortedKeys_blind)

lemma openClawEnabled_hide:
  "openClawEnabled (app_Config (hide app)) = map_option hide_oc (openClawEnabled (app_Config app))"
  by (simp add: hide_def openClawEnabled_def split: option.splits)

lemma probes_hide: "configureReliabilityProbes c (app_Config (hide app)) = configureReliabilityProbes c (app_Config app)"
  by (simp add: configureReliabilityProbes_def Let_def)


section \<open>The plan and the submission\<close>

lemma set_openClawEnv:
  "env_Name ` set (openClawEnv env app cfg n) =
     env_Name ` set env \<union>
     (if TrimSpace (oc_GatewayBindAddress cfg) \<noteq> [] then {''OPENCLAW_GATEWAY_BIND_ADDRESS''} else {}) \<union>
     (if oc_GatewayPort cfg > 0 then {''OPENCLAW_GATEWAY_PORT''} else {}) \<union>
     {k \<in> fst ` set (entries (oc_ExtraEnv cfg)). TrimSpace k \<noteq> []} \<union>
     (if TrimSpace (oc_GatewayToken cfg) \<noteq> [] \<or> oc_ExistingSecretName cfg \<noteq> [] then {''OPENCLAW_GATEWAY_TOKEN''} else {}) \<union>
     set (secretKeysOf cfg (TrimSpace (oc_ExistingSecretName cfg) = [] \<or>
            TrimSpace (oc_ExistingSecretName cfg) = openClawManagedSecretName n)) \<union>
     (if rel_FallbackProviders (cfg_Reliability (app_Config app)) \<noteq> [] then {''CLAWFLUX_INFERENCE_FALLBACKS''} else {})"
proof -
  have nested: "(if a then e else if b then e else f) = (if a \<or> b then e else f)" for a b and e f :: "EnvVar list"
    by simp
  have secs: "env_Name ` set (foldl (\<lambda>env key. if TrimSpace key = [] then env
        else if M \<and> TrimSpace (lookup (oc_ProviderAPIKeys cfg) key) = [] then env
        else upsertSecretEnv env key sn key) e (sortedKeys (oc_ProviderAPIKeys cfg))) =
      set (secretKeysOf cfg M) \<union> env_Name ` set e" for M sn e
    unfolding nested by (subst set_foldl_env) (auto simp: set_upserts secretKeysOf_def)
  have opt:
    "env_Name ` set (if b then upsertLiteralEnv e n v else e) = (if b then {n} else {}) \<union> env_Name ` set e"
    "env_Name ` set (if b then upsertSecretEnv e n v k else e) = (if b then {n} else {}) \<union> env_Name ` set e" for b e n v k
    by (simp_all add: set_upserts)
  have man: "((if t = [] then m else t) = m) = (t = [] \<or> t = m)" for t m :: string
    by auto
  show ?thesis
    by (simp only: openClawEnv_def Let_def opt secs set_appendSortedEnvMap
        man length_greater_0_conv Un_ac)
qed

fun sourceName :: "VolumeSource \<Rightarrow> string" where
  "sourceName (PersistentVolumeClaimSource n) = n"
| "sourceName (ConfigMapSource n items) = n"

lemma Submit_ref:
  "Submit K app dep w = (Inr st, w') \<Longrightarrow>
     bs_Status st = DeploymentStatusProvisioning \<and>
     bs_Ref st = plan_BackendRef (BuildPlan app (dep_Version dep) Capabilities)"
  unfolding Submit_def Let_def BuildPlan_lists
  by (erule bindE_InrD)+
     (auto simp: ret_def ingressName_def ignoreE_def catchE_def elim!: bindE_InrD
       split: if_splits prod.splits sum.splits)

lemma container_probes [simp]: "ctr_Env (configureReliabilityProbes c cfg) = ctr_Env c"
  by (simp add: configureReliabilityProbes_def Let_def)

lemma pod_lists:
  "map (\<lambda>v. (vol_Name v, sourceName (vol_Source v))) (pod_Volumes (kd_PodSpec (deploymentObject n ns app dep ls))) =
     (case openClawEnabled (app_Config app) of
        None \<Rightarrow> []
      | Some oc \<Rightarrow> (''openclaw-workspace'', openClawWorkspacePVCName app) #
          (if TrimSpace (oc_AgentsMarkdown oc) \<noteq> [] \<or> TrimSpace (oc_SettingsJSON oc) \<noteq> []
           then [(''openclaw-config'', openClawConfigMapName n)] else []))"
  "ctr_Env (pod_Container (kd_PodSpec (deploymentObject n ns app dep ls))) =
     (case openClawEnabled (app_Config app) of
        None \<Rightarrow> appendSortedEnvMap [] (cfg_Env (app_Config app))
      | Some oc \<Rightarrow> openClawEnv (appendSortedEnvMap [] (cfg_Env (app_Config app))) app oc n)"
  by (simp_all add: deploymentObject_def configureOpenClawRuntime_def Let_def split: option.split)


text \<open>
  A small cluster for the examples: it stores ingresses and accepts every other object without keeping it.
\<close>

definition notFound :: "string \<Rightarrow> error" where
  "notFound n = ErrStatus ''NotFound'' (n @ '' not found'')"

definition null_api :: "('o, 'c) kube_api" where
  "null_api =
     \<lparr>kget = (\<lambda>ns n c. (Inl (notFound n), c)), kcreate = (\<lambda>ns obj c. (Inr obj, c)),
      kupdate = (\<lambda>ns obj c. (Inr obj, c)), kdelete = (\<lambda>ns n c. (Inl (notFound n), c))\<rparr>"

definition ingress_api :: "(KIngress, ((string \<times> string) \<times> KIngress) list) kube_api" where
  "ingress_api =
     \<lparr>kget = (\<lambda>ns n c. (case map_of c (ns, n) of None \<Rightarrow> Inl (notFound n) | Some i \<Rightarrow> Inr i, c)),
      kcreate = (\<lambda>ns i c. (Inr i, AList.update (ns, meta_Name (ki_Meta i)) i c)),
      kupdate = (\<lambda>ns i c. (Inr i, AList.update (ns, meta_Name (ki_Meta i)) i c)),
      kdelete = (\<lambda>ns n c.
        if n = [] then (Inl (ErrText ''resource name may not be empty''), c)
        else (Inr (), AList.delete (ns, n) c))\<rparr>"

definition demo_kube :: "((string \<times> string) \<times> KIngress) list kube" where
  "demo_kube =
     \<lparr>k_Namespaces = null_api, k_NetworkPolicies = null_api, k_PersistentVolumeClaims = null_api,
      k_ConfigMaps = null_api, k_Secrets = null_api, k_Deployments = null_api, k_Services = null_api,
      k_Ingresses = ingress_api,
      IsNotFound = (\<lambda>e. case e of ErrStatus r _ \<Rightarrow> r = ''NotFound'' | _ \<Rightarrow> False),
      IsAlreadyExists = (\<lambda>e. case e of ErrStatus r _ \<Rightarrow> r = ''AlreadyExists'' | _ \<Rightarrow> False),
      ParseQuantity = (\<lambda>_. None)\<rparr>"

definition on_cluster :: "store_world \<Rightarrow> 'c \<Rightarrow> 'c kube_world" where
  "on_cluster w c = store_world.extend w \<lparr>cluster = c\<rparr>"


section \<open>The ingress of a private app\<close>

text \<open>
  Making an app private does not take it off the network. The plan of a private app announces that the public ingress
  is deleted if present; but the submission asks the cluster to delete the ingress with the empty name, which
  \<^verbatim>\<open>ingressName\<close> gives for a private app, and ignores the refusal. So on every cluster that keeps its
  ingresses apart from other objects and refuses an empty name without effect, the ingresses after the
  submission are those before it.
\<close>

theorem private_keeps_ingress:
  fixes ing :: "'c \<Rightarrow> 'i" and w :: "('c, 'z) kube_world_scheme"
  assumes priv: "\<not> cfg_Public (app_Config app)"
    and apart: "keeping_api (\<lambda>w :: ('c, 'z) kube_world_scheme. ing (cluster w)) (k_Namespaces K)"
      "keeping_api (\<lambda>w :: ('c, 'z) kube_world_scheme. ing (cluster w)) (k_NetworkPolicies K)"
      "keeping_api (\<lambda>w :: ('c, 'z) kube_world_scheme. ing (cluster w)) (k_PersistentVolumeClaims K)"
      "keeping_api (\<lambda>w :: ('c, 'z) kube_world_scheme. ing (cluster w)) (k_ConfigMaps K)"
      "keeping_api (\<lambda>w :: ('c, 'z) kube_world_scheme. ing (cluster w)) (k_Secrets K)"
      "keeping_api (\<lambda>w :: ('c, 'z) kube_world_scheme. ing (cluster w)) (k_Deployments K)"
      "keeping_api (\<lambda>w :: ('c, 'z) kube_world_scheme. ing (cluster w)) (k_Services K)"
    and refused: "\<And>ns c. ing (snd (kdelete (k_Ingresses K) ns [] c)) = ing c"
  shows "ing (cluster (snd (Submit K app dep w))) = ing (cluster w) \<and>
    planned ''Ingress'' (trimForKubeName (app_Slug app)) (namespaceForTenant (app_TenantID app)) ''delete-if-present''
      ''private deployments remove the public ingress'' \<in> set (plan_Resources (BuildPlan app (dep_Version dep) Capabilities))"
proof
  have "keeping (\<lambda>w :: ('c, 'z) kube_world_scheme. ing (cluster w)) (Submit K app dep)"
    using refused by (intro keeping_Submit apart)
      (auto simp: range_map_def priv keeping_def onCluster_def split: prod.splits, metis snd_conv)
  then show "ing (cluster (snd (Submit K app dep w))) = ing (cluster w)"
    unfolding keeping_def by (metis surjective_pairing)
  show "planned ''Ingress'' (trimForKubeName (app_Slug app)) (namespaceForTenant (app_TenantID app)) ''delete-if-present''
      ''private deployments remove the public ingress'' \<in> set (plan_Resources (BuildPlan app (dep_Version dep) Capabilities))"
    using plan_Resources_base [of app "dep_Version dep" Capabilities] priv by (auto simp: basePlan_def Let_def)
qed

text \<open>The example: the ingress of version 1, when the app was public, is still there after version 2, when it is not.\<close>

theorem private_keeps_ingress_witness:
  "let pub = demo_app\<lparr>app_Config := demo_config\<lparr>cfg_Public := True\<rparr>\<rparr>;
       w = on_cluster (demo_plane DeploymentStatusQueued 0) [];
       w1 = snd (Submit demo_kube pub (demo_dep DeploymentStatusQueued 0) w);
       w2 = snd (Submit demo_kube demo_app ((demo_dep DeploymentStatusQueued 0)\<lparr>dep_Version := 2\<rparr>) w1)
   in map fst (cluster w2) = [(''tenant-t'', ''demo'')]"
proof -
  let ?pub = "demo_app\<lparr>app_Config := demo_config\<lparr>cfg_Public := True\<rparr>\<rparr>"
  let ?w1 = "snd (Submit demo_kube ?pub (demo_dep DeploymentStatusQueued 0) (on_cluster (demo_plane DeploymentStatusQueued 0) []))"
  have w1: "map fst (cluster ?w1) = [(''tenant-t'', ''demo'')]"
    by code_simp
  have apart: "keeping_api (\<lambda>w :: ((string \<times> string) \<times> KIngress) list kube_world. cluster w) null_api"
    by (auto simp: keeping_api_def keeping_def onCluster_def null_api_def)
  have priv: "\<not> cfg_Public (app_Config demo_app)"
    by code_simp
  have apis: "k_Namespaces demo_kube = null_api" "k_NetworkPolicies demo_kube = null_api"
    "k_PersistentVolumeClaims demo_kube = null_api" "k_ConfigMaps demo_kube = null_api" "k_Secrets demo_kube = null_api"
    "k_Deployments demo_kube = null_api" "k_Services demo_kube = null_api"
    "snd (kdelete (k_Ingresses demo_kube) ns [] c) = c" for ns c
    by (simp_all add: demo_kube_def ingress_api_def)
  have "cluster (snd (Submit demo_kube demo_app ((demo_dep DeploymentStatusQueued 0)\<lparr>dep_Version := 2\<rparr>) ?w1)) = cluster ?w1"
    using private_keeps_ingress [of demo_app "\<lambda>c. c" demo_kube, OF priv, unfolded apis, OF apart apart apart apart apart apart apart refl]
    by blast
  with w1 show ?thesis
    by (simp add: Let_def)
qed

end
