(* ===== verification/Consumer.thy ===== *)
theory Consumer
  imports MemQueue
begin

text \<open>
  \<^verbatim>\<open>internal/worker/consumer.go\<close>: the loop of a worker. One turn takes a job from the queue, runs the handler
  registered for its type, and acknowledges, retries with a doubling delay, or buries it. Logging is left
  out; \<^verbatim>\<open>time.Sleep\<close> and the timer have no effect on the state.
\<close>

section \<open>State and operations\<close>

record 'w Consumer =
  co_queue :: "'w JobQueue"
  co_handlers :: "JobType \<rightharpoonup> (Job \<Rightarrow> (unit, 'w) op)"
  co_maxAttempts :: int
  co_retryBackoff :: duration
  co_leaseTimeout :: duration
  co_lastMaintenance :: time

definition NewConsumer :: "'w JobQueue \<Rightarrow> int \<Rightarrow> duration \<Rightarrow> 'w Consumer" where
  "NewConsumer queue maxAttempts retryBackoff =
     (let maxAttempts = (if maxAttempts < 1 then 1 else maxAttempts);
          retryBackoff = (if retryBackoff \<le> 0 then 2 * second else retryBackoff)
      in \<lparr>co_queue = queue, co_handlers = Map.empty, co_maxAttempts = maxAttempts,
          co_retryBackoff = retryBackoff, co_leaseTimeout = 10 * 60 * second, co_lastMaintenance = 0\<rparr>)"

definition Register :: "JobType \<Rightarrow> (Job \<Rightarrow> (unit, 'w) op) \<Rightarrow> 'w Consumer \<Rightarrow> 'w Consumer" where
  "Register jobType handler c = c\<lparr>co_handlers := (co_handlers c)(jobType \<mapsto> handler)\<rparr>"

text \<open>The loop of \<^verbatim>\<open>retryDelay\<close>, with \<^verbatim>\<open>time.Duration\<close> the 64-bit integer it is.\<close>

function retry_loop :: "int \<Rightarrow> int \<Rightarrow> duration \<Rightarrow> duration" where
  "retry_loop attempt i delay =
     (if i < attempt
      then if delay \<ge> 30 * second then 30 * second else retry_loop attempt (i + 1) (wrap64 (delay * 2))
      else if delay > 30 * second then 30 * second else delay)"
  by pat_completeness auto
termination by (relation "measure (\<lambda>(attempt, i, delay). nat (attempt - i))") auto

declare retry_loop.simps [simp del]

definition retryDelay :: "'w Consumer \<Rightarrow> int \<Rightarrow> duration" where
  "retryDelay c attempt = retry_loop attempt 1 (co_retryBackoff c)"

definition ackJob :: "'w Consumer \<Rightarrow> Job \<Rightarrow> (unit, 'w) op" where
  "ackJob c job = (case jq_JobAcker (co_queue c) of None \<Rightarrow> ret () | Some acker \<Rightarrow> acker job)"

definition deadLetterJob :: "'a env_scheme Consumer \<Rightarrow> Job \<Rightarrow> string \<Rightarrow> (unit, 'a env_scheme) op" where
  "deadLetterJob c job reason w =
     (case jq_DeadLetterQueue (co_queue c) of
        None \<Rightarrow> (Inr (), w)
      | Some deadLetters \<Rightarrow>
          (let (uid, w) = NewUUID w;
               (now, w) = Now w
           in dlq_DeadLetter deadLetters
                \<lparr>dl_ID = uid, dl_Job = job, dl_Reason = reason, dl_FailedAt = now,
                 dl_FinalAttempt = job_Attempts job\<rparr> w))"

definition retryJob :: "'a env_scheme Consumer \<Rightarrow> Job \<Rightarrow> error \<Rightarrow> (unit, 'a env_scheme) op" where
  "retryJob c job cause =
     (let leasedJob = job;
          job = job\<lparr>job_Attempts := job_Attempts job + 1, job_LastError := Error cause\<rparr>
      in if job_Attempts job \<ge> co_maxAttempts c
         then bindE (deadLetterJob c job (Error cause)) (\<lambda>_. ackJob c leasedJob)
         else
           let delay = retryDelay c (job_Attempts job)
           in case jq_JobScheduler (co_queue c) of
                Some js \<Rightarrow> bindE (js_EnqueueAfter js job delay) (\<lambda>_. ackJob c leasedJob)
              | None \<Rightarrow>
                  (\<lambda>w. case ctx_Done w of
                     (Some e, w) \<Rightarrow> (Inl e, w)
                   | (None, w) \<Rightarrow> bindE (jq_Enqueue (co_queue c) job) (\<lambda>_. ackJob c leasedJob) w))"

text \<open>
  What the loop does with a job it took; errors of the calls are logged and dropped. The error result is a
  handler that panicked, which ends the process.
\<close>

definition processJob :: "'a env_scheme Consumer \<Rightarrow> Job \<Rightarrow> (unit, 'a env_scheme) op" where
  "processJob c job w =
     (case co_handlers c (job_Type job) of
        None \<Rightarrow>
          (let (_, w) = deadLetterJob c job ''no handler registered'' w;
               (_, w) = ackJob c job w
           in (Inr (), w))
      | Some handler \<Rightarrow>
          (case handler job w of
             (Inl err, w) \<Rightarrow>
               if is_panic err then (Inl err, w) else (Inr (), snd (retryJob c job err w))
           | (Inr _, w) \<Rightarrow> (Inr (), snd (ackJob c job w))))"

definition runMaintenance :: "'a env_scheme Consumer \<Rightarrow> 'a env_scheme \<Rightarrow> 'a env_scheme Consumer \<times> 'a env_scheme" where
  "runMaintenance c w =
     (let (now, w) = Now w
      in if \<not> IsZero (co_lastMaintenance c) \<and> now - co_lastMaintenance c < second then (c, w)
         else
           let c = c\<lparr>co_lastMaintenance := now\<rparr>;
               w = (case jq_JobScheduler (co_queue c) of
                      None \<Rightarrow> w | Some scheduled \<Rightarrow> snd (js_PromoteDue scheduled 100 w));
               w = (case jq_JobLeaseReclaimer (co_queue c) of
                      None \<Rightarrow> w | Some reclaimer \<Rightarrow> snd (reclaimer (co_leaseTimeout c) 100 w))
           in (c, w))"

text \<open>\<^verbatim>\<open>Run\<close> ends only with an error; \<open>None\<close> is a run that does not return.\<close>

partial_function (option) Run ::
  "'a env_scheme Consumer \<Rightarrow> 'a env_scheme \<Rightarrow> (error \<times> 'a env_scheme) option" where
  "Run c w =
     (case ctx_Done w of
        (Some e, w) \<Rightarrow> Some (e, w)
      | (None, w) \<Rightarrow>
          (case runMaintenance c w of
             (c, w) \<Rightarrow>
               (case jq_Dequeue (co_queue c) w of
                  None \<Rightarrow> None
                | Some (Inl err, w) \<Rightarrow>
                    if errors_Is err DeadlineExceeded then Run c w else Some (err, w)
                | Some (Inr job, w) \<Rightarrow>
                    (case processJob c job w of
                       (Inl panic, w) \<Rightarrow> Some (panic, w)
                     | (Inr _, w) \<Rightarrow> Run c w))))"

section \<open>The retry delay\<close>

lemma retry_loop_spec:
  "0 < delay \<Longrightarrow> delay < 2 ^ 63 \<Longrightarrow> i \<le> attempt \<Longrightarrow>
     retry_loop attempt i delay = min (30 * second) (delay * 2 ^ nat (attempt - i))"
proof (induction attempt i delay rule: retry_loop.induct)
  case (1 attempt i delay)
  show ?case
  proof (cases "i < attempt")
    case False
    with "1.prems" have "i = attempt" by simp
    then show ?thesis by (simp add: retry_loop.simps [of attempt attempt delay] min_def)
  next
    case True
    then have n: "nat (attempt - i) = Suc (nat (attempt - (i + 1)))" by simp
    show ?thesis
    proof (cases "delay \<ge> 30 * second")
      case big: True
      have "30 * second * 1 \<le> delay * 2 ^ nat (attempt - i)"
        using big by (intro mult_mono) auto
      with True big show ?thesis by (simp add: retry_loop.simps [of attempt i delay])
    next
      case small: False
      then have w: "wrap64 (delay * 2) = delay * 2" using "1.prems" by (intro wrap64_id) auto
      from 1 True small w have "retry_loop attempt (i + 1) (delay * 2) =
          min (30 * second) (delay * 2 * 2 ^ nat (attempt - (i + 1)))" by auto
      with True small w n show ?thesis by (simp add: retry_loop.simps [of attempt i delay])
    qed
  qed
qed

text \<open>
  C25: the retry delay is exponential with a ceiling. For every positive backoff a 64-bit duration can hold and every
  attempt from the first on, the delay is the backoff doubled once per earlier attempt, capped at thirty
  seconds, and no doubling overflows.
\<close>

theorem retryDelay_exponential:
  assumes "0 < co_retryBackoff c" and "co_retryBackoff c < 2 ^ 63" and "1 \<le> attempt"
  shows "retryDelay c attempt = min (30 * second) (co_retryBackoff c * 2 ^ nat (attempt - 1))"
  using assms by (simp add: retryDelay_def retry_loop_spec)

theorem retryDelay_exponential_witness:
  "retryDelay (NewConsumer mq_queue 5 (2 * second)) 3 = 8 * second \<and>
   retryDelay (NewConsumer mq_queue 5 (2 * second)) 9 = 30 * second"
  using retryDelay_exponential [of "NewConsumer mq_queue 5 (2 * second)" 3]
    retryDelay_exponential [of "NewConsumer mq_queue 5 (2 * second)" 9]
  by (simp add: NewConsumer_def)

section \<open>No job is lost\<close>

text \<open>What a handler may do to the queue: add jobs, bury or acknowledge none.\<close>

definition adds :: "bag \<Rightarrow> bag \<Rightarrow> bool" where
  "adds b b' \<longleftrightarrow> live b \<subseteq># live b' \<and> leases b' = leases b \<and> graves b' = graves b"

definition additive :: "('w \<Rightarrow> bag) \<Rightarrow> (Job \<Rightarrow> (unit, 'w) op) \<Rightarrow> bool" where
  "additive bv h \<longleftrightarrow> (\<forall>j w r w'. h j w = (r, w') \<longrightarrow> adds (bv w) (bv w'))"

text \<open>The job, as it was or with its failed attempt counted, is waiting, still leased, or buried.\<close>

definition kept :: "Job \<Rightarrow> bag \<Rightarrow> bool" where
  "kept j b \<longleftrightarrow> job_ID j \<in># leases b \<or>
     (\<exists>k. k \<in># live b \<and> job_ID k = job_ID j \<and> job_Attempts k = job_Attempts j + 1) \<or>
     (\<exists>d. d \<in># graves b \<and> job_ID (dl_Job d) = job_ID j)"

context reliable_queue
begin

lemma bury_job:
  assumes "deadLetterJob c j rsn w = (r, w')" and "co_queue c = Q"
  shows "(\<exists>i t. bag w' = b_bury \<lparr>dl_ID = i, dl_Job = j, dl_Reason = rsn, dl_FailedAt = t, dl_FinalAttempt = job_Attempts j\<rparr> (bag w)) \<or>
     (\<exists>e. r = Inl e) \<and> bag w' = bag w"
proof -
  obtain i w1 where u: "NewUUID w = (i, w1)" by fastforce
  obtain t w2 where n: "Now w1 = (t, w2)" by fastforce
  have "bag w2 = bag w"
    using bag_env [of w1 w] bag_env [of w2 w1] more_NewUUID [of w] more_Now [of w1] u n by simp
  moreover have "dlq_DeadLetter dlq \<lparr>dl_ID = i, dl_Job = j, dl_Reason = rsn, dl_FailedAt = t, dl_FinalAttempt = job_Attempts j\<rparr> w2 = (r, w')"
    using assms u n deadletters by (simp add: deadLetterJob_def)
  ultimately show ?thesis using dead_letter by metis
qed

lemma ack_job: "ackJob c j w = (r, w') \<Longrightarrow> co_queue c = Q \<Longrightarrow> bag w' = b_ack j (bag w) \<or> bag w' = bag w"
  using ack acker by (auto simp: ackJob_def)

lemma kept_after_ack:
  assumes "b' = b_ack j b \<or> b' = b"
    and "(\<exists>k. k \<in># live b \<and> job_ID k = job_ID j \<and> job_Attempts k = job_Attempts j + 1) \<or>
         (\<exists>d. d \<in># graves b \<and> job_ID (dl_Job d) = job_ID j)"
  shows "kept j b'"
  using assms by (auto simp: kept_def b_ack_def)

lemma retry_keeps:
  assumes run: "retryJob c j e w = (r, w')" and q: "co_queue c = Q" and lease: "job_ID j \<in># leases (bag w)"
  shows "kept j (bag w')"
proof (cases "job_Attempts j + 1 \<ge> co_maxAttempts c")
  case True
  let ?j = "j\<lparr>job_Attempts := job_Attempts j + 1, job_LastError := Error e\<rparr>"
  obtain r1 w1 where b: "deadLetterJob c ?j (Error e) w = (r1, w1)" by fastforce
  from True run b have r: "(case r1 of Inl x \<Rightarrow> (Inl x, w1) | Inr _ \<Rightarrow> ackJob c j w1) = (r, w')"
    by (simp add: retryJob_def bindE_def split: sum.splits)
  from bury_job [OF b q] show ?thesis
  proof
    assume "\<exists>i t. bag w1 = b_bury \<lparr>dl_ID = i, dl_Job = ?j, dl_Reason = Error e, dl_FailedAt = t,
        dl_FinalAttempt = job_Attempts ?j\<rparr> (bag w)"
    then have "\<exists>d. d \<in># graves (bag w1) \<and> job_ID (dl_Job d) = job_ID j"
      by (auto simp: b_bury_def dl_core_def)
    with r ack_job [of c j w1 r w'] q show ?thesis
      by (cases r1) (auto intro: kept_after_ack)
  next
    assume "(\<exists>x. r1 = Inl x) \<and> bag w1 = bag w"
    with r lease show ?thesis by (auto simp: kept_def)
  qed
next
  case False
  let ?j = "j\<lparr>job_Attempts := job_Attempts j + 1, job_LastError := Error e\<rparr>"
  obtain r1 w1 where b: "js_EnqueueAfter sched ?j (retryDelay c (job_Attempts j + 1)) w = (r1, w1)" by fastforce
  from False run b q scheduler have r: "(case r1 of Inl x \<Rightarrow> (Inl x, w1) | Inr _ \<Rightarrow> ackJob c j w1) = (r, w')"
    by (simp add: retryJob_def bindE_def split: sum.splits)
  from enqueue_after [OF b] show ?thesis
  proof
    assume "bag w1 = b_enq ?j (bag w)"
    then have "\<exists>k. k \<in># live (bag w1) \<and> job_ID k = job_ID j \<and> job_Attempts k = job_Attempts j + 1"
      by (auto simp: b_enq_def)
    with r ack_job [of c j w1 r w'] q show ?thesis
      by (cases r1) (auto intro: kept_after_ack)
  next
    assume "(\<exists>x. r1 = Inl x) \<and> bag w1 = bag w"
    with r lease show ?thesis by (auto simp: kept_def)
  qed
qed

lemma retry_owed:
  assumes run: "retryJob c j e w = (r, w')" and q: "co_queue c = Q"
  shows "owed (bag w) \<subseteq># add_mset (job_ID j) (owed (bag w'))"
proof -
  have a: "owed b \<subseteq># add_mset (job_ID j) (owed b')" if "b' = b_ack j b \<or> b' = b" for b b'
    using accounted_ack [OF that, of "Inr ()"] by (simp add: accounted_def)
  have mono: "owed (bag w) \<subseteq># add_mset (job_ID j) (owed (bag w'))"
    if "owed (bag w) \<subseteq># owed (bag w1)" "(case r1 of Inl x \<Rightarrow> (Inl x, w1) | Inr _ \<Rightarrow> ackJob c j w1) = (r, w')" for r1 w1
    using that a [of "bag w'" "bag w1"] ack_job [of c j w1 r w'] q
    by (cases r1) (auto intro: subset_mset.order_trans)
  let ?j = "j\<lparr>job_Attempts := job_Attempts j + 1, job_LastError := Error e\<rparr>"
  show ?thesis
  proof (cases "job_Attempts j + 1 \<ge> co_maxAttempts c")
    case True
    obtain r1 w1 where b: "deadLetterJob c ?j (Error e) w = (r1, w1)" by fastforce
    have "owed (bag w1) = owed (bag w)" using bury_job [OF b q] by (auto simp: owed_def b_bury_def)
    with True run b show ?thesis
      by (intro mono [of w1 r1]) (auto simp: retryJob_def bindE_def split: sum.splits)
  next
    case False
    obtain r1 w1 where b: "js_EnqueueAfter sched ?j (retryDelay c (job_Attempts j + 1)) w = (r1, w1)" by fastforce
    have "owed (bag w) \<subseteq># owed (bag w1)" using enqueue_after [OF b] by (auto simp: owed_def b_enq_def)
    with False run b q scheduler show ?thesis
      by (intro mono [of w1 r1]) (auto simp: retryJob_def bindE_def split: sum.splits)
  qed
qed

text \<open>One job: done and acknowledged, or kept, unless a burial the queue refused is acknowledged all the same.\<close>

lemma process_keeps:
  assumes q: "co_queue c = Q" and add: "\<And>h r w'. co_handlers c (job_Type j) = Some h \<Longrightarrow> h j w = (r, w') \<Longrightarrow> adds (bag w) (bag w')"
    and lease: "job_ID j \<in># leases (bag w)"
  shows "owed (bag w) \<subseteq># add_mset (job_ID j) (owed (bag (snd (processJob c j w)))) \<and>
     (kept j (bag (snd (processJob c j w))) \<or>
      (case co_handlers c (job_Type j) of
         None \<Rightarrow> (\<exists>e. fst (deadLetterJob c j ''no handler registered'' w) = Inl e)
       | Some h \<Rightarrow> fst (h j w) = Inr ()))"
proof (cases "co_handlers c (job_Type j)")
  case None
  obtain r1 w1 where b: "deadLetterJob c j ''no handler registered'' w = (r1, w1)" by fastforce
  obtain r2 w2 where a: "ackJob c j w1 = (r2, w2)" by fastforce
  have w2: "snd (processJob c j w) = w2" using None b a by (simp add: processJob_def)
  from bury_job [OF b q] have ow: "owed (bag w1) = owed (bag w)"
    and g: "(\<exists>d. d \<in># graves (bag w1) \<and> job_ID (dl_Job d) = job_ID j) \<or> (\<exists>e. r1 = Inl e)"
    by (auto simp: owed_def b_bury_def dl_core_def)
  from accounted_ack [OF ack_job [OF a q], of "Inr ()"] ow
  have "owed (bag w) \<subseteq># add_mset (job_ID j) (owed (bag w2))" by (simp add: accounted_def)
  with None w2 b g kept_after_ack [OF ack_job [OF a q]] show ?thesis by auto
next
  case (Some h)
  obtain r1 w1 where h: "h j w = (r1, w1)" by fastforce
  from add [OF Some h] have m: "live (bag w) \<subseteq># live (bag w1)" "leases (bag w1) = leases (bag w)"
    by (simp_all add: adds_def)
  then have ow: "owed (bag w) \<subseteq># owed (bag w1)"
    by (simp add: owed_def image_mset_subseteq_mono)
  show ?thesis
  proof (cases r1)
    case (Inl e)
    show ?thesis
    proof (cases "is_panic e")
      case True
      then have "snd (processJob c j w) = w1" using Some h Inl by (simp add: processJob_def)
      moreover have "owed (bag w) \<subseteq># add_mset (job_ID j) (owed (bag w1))"
        using ow by (simp only: subset_mset.le_iff_add) (metis add_mset_add_single union_assoc union_commute)
      ultimately show ?thesis using lease m by (auto simp: kept_def)
    next
      case False
      obtain r2 w2 where r: "retryJob c j e w1 = (r2, w2)" by fastforce
      have "snd (processJob c j w) = w2" using Some h Inl r False by (simp add: processJob_def)
      with retry_keeps [OF r q] retry_owed [OF r q] lease m ow show ?thesis
        by (auto intro: subset_mset.order_trans)
    qed
  next
    case (Inr x)
    obtain r2 w2 where a: "ackJob c j w1 = (r2, w2)" by fastforce
    have "snd (processJob c j w) = w2" using Some h Inr a by (simp add: processJob_def)
    moreover have "owed (bag w1) \<subseteq># add_mset (job_ID j) (owed (bag w2))"
      using accounted_ack [OF ack_job [OF a q], of "Inr ()"] by (simp add: accounted_def)
    ultimately show ?thesis using Some h Inr ow by (auto intro: subset_mset.order_trans)
  qed
qed

end

section \<open>A worker on the memory queue\<close>

lemma mem_bury_ok: "co_queue c = mq_queue \<Longrightarrow> fst (deadLetterJob c j rsn w) = Inr ()"
  by (simp add: deadLetterJob_def mq_queue_def mq_deadLetters_def mq_DeadLetter_def Let_def split_beta)

text \<open>
  C2: a worker on the memory queue loses no job. Whatever the handlers do short of touching leases and dead
  letters themselves, a job taken from the queue is afterwards either done, because its handler succeeded, or
  still leased (so it is also when a handler panics and takes the worker down), waiting with its attempt
  counted, or a dead letter; and every other job the queue owed it
  still owes.
\<close>

theorem worker_no_job_lost:
  assumes "co_queue c = mq_queue" and "mq_Dequeue w = Some (Inr j, w1)"
    and "\<And>h. co_handlers c (job_Type j) = Some h \<Longrightarrow> additive mq_bag h"
  shows "owed (mq_bag w) \<subseteq># add_mset (job_ID j) (owed (mq_bag (snd (processJob c j w1)))) \<and>
     (kept j (mq_bag (snd (processJob c j w1))) \<or>
      (\<exists>h. co_handlers c (job_Type j) = Some h \<and> fst (h j w1) = Inr ()))"
proof -
  have d: "jq_Dequeue mq_queue w = Some (Inr j, w1)" using assms(2) by (simp add: mq_queue_def)
  have o: "owed (mq_bag w1) = owed (mq_bag w)" by (rule mqi.dequeue_owed [OF d])
  have l: "job_ID j \<in># leases (mq_bag w1)" using mqi.dequeue_job [OF d] by (simp add: b_lease_def)
  have add: "adds (mq_bag w1) (mq_bag w')" if "co_handlers c (job_Type j) = Some h" "h j w1 = (r, w')" for h r w'
    using assms(3) [OF that(1)] that(2) unfolding additive_def by blast
  have "owed (mq_bag w1) \<subseteq># add_mset (job_ID j) (owed (mq_bag (snd (processJob c j w1)))) \<and>
     (kept j (mq_bag (snd (processJob c j w1))) \<or>
      (case co_handlers c (job_Type j) of
         None \<Rightarrow> (\<exists>e. fst (deadLetterJob c j ''no handler registered'' w1) = Inl e)
       | Some h \<Rightarrow> fst (h j w1) = Inr ()))"
    by (rule mqi.process_keeps [OF assms(1) _ l]) (rule add)
  with o mem_bury_ok [OF assms(1), of j _ w1] show ?thesis
    by (auto split: option.splits)
qed

definition failing :: "Job \<Rightarrow> (unit, mq_world) op" where
  "failing j = fail (ErrText ''backend down'')"

theorem worker_no_job_lost_witness:
  "let c = Register JobTypeDeploymentSync failing (NewConsumer mq_queue 3 second);
       w = demo_world \<lparr>ready = [demo_job ''j'' 1 0], processing = [], delayed = [], dead = []\<rparr>
   in \<exists>j w1. mq_Dequeue w = Some (Inr j, w1) \<and> kept j (mq_bag (snd (processJob c j w1)))"
proof -
  let ?c = "Register JobTypeDeploymentSync failing (NewConsumer mq_queue 3 second)"
  let ?w = "demo_world \<lparr>ready = [demo_job ''j'' 1 0], processing = [], delayed = [], dead = []\<rparr>"
  have "\<exists>w1. mq_Dequeue ?w = Some (Inr (demo_job ''j'' 1 (unixEpoch + second)), w1)"
    by (subst mq_Dequeue.simps)
       (simp add: mq_Dequeue_poll_def mq_promoteDueLocked_def demo_world_def demo_job_def Now_def Let_def)
  then obtain w1 where d: "mq_Dequeue ?w = Some (Inr (demo_job ''j'' 1 (unixEpoch + second)), w1)" ..
  have "additive mq_bag failing" by (auto simp: additive_def adds_def failing_def fail_def)
  then have "kept (demo_job ''j'' 1 (unixEpoch + second)) (mq_bag (snd (processJob ?c (demo_job ''j'' 1 (unixEpoch + second)) w1)))"
    using worker_no_job_lost [of ?c, OF _ d]
    by (auto simp: Register_def NewConsumer_def demo_job_def failing_def fail_def)
  with d show ?thesis by auto
qed

text \<open>
  What a failed attempt leads to on the memory queue. While attempts are left the job waits, with its attempt
  counted and its error recorded, until exactly the retry delay from now; when they are used up it becomes a
  dead letter with that count and reason. In both cases its lease is released and nothing else moves.
\<close>

theorem retryJob_next:
  assumes "co_queue c = mq_queue" and "retryJob c j e w = (r, w')"
    and "j' = j\<lparr>job_Attempts := job_Attempts j + 1, job_LastError := Error e\<rparr>"
  shows "r = Inr () \<and> ready (mq w') = ready (mq w) \<and> processing (mq w') = removeJob (processing (mq w)) j \<and>
     (if job_Attempts j + 1 < co_maxAttempts c
      then dead (mq w') = dead (mq w) \<and>
        (\<exists>k now. delayed (mq w') = delayed (mq w) @ [k] \<and> job_core k = job_core j' \<and>
           job_AvailableAt k = now + retryDelay c (job_Attempts j + 1) \<and> now \<in> range (clk w))
      else delayed (mq w') = delayed (mq w) \<and>
        (\<exists>d. dead (mq w') = d # dead (mq w) \<and> dl_Job d = j' \<and> dl_Reason d = Error e \<and>
           dl_FinalAttempt d = job_Attempts j + 1))"
proof (cases "job_Attempts j + 1 < co_maxAttempts c")
  case True
  obtain k w1 where s: "stampCreated (j'\<lparr>job_LeasedAt := 0\<rparr>) w = (k, w1)" by fastforce
  have f: "mq w1 = mq w" "job_core k = job_core j'" "clk w1 = clk w"
    using stampCreated_frame [OF s] s by (auto simp: stampCreated_def Now_def split: if_splits dest: mq_more)
  show ?thesis
    using assms True s f
    by (auto simp: retryJob_def bindE_def mq_queue_def mq_scheduler_def mq_EnqueueAfter_def ackJob_def mq_Ack_def Now_def)
next
  case False
  obtain i w1 where u: "NewUUID w = (i, w1)" by fastforce
  then have f: "mq w1 = mq w" using more_NewUUID [of w] by (auto dest: mq_more)
  show ?thesis
    using assms False u f
    by (auto simp: retryJob_def bindE_def mq_queue_def mq_deadLetters_def deadLetterJob_def mq_DeadLetter_def ackJob_def
        mq_Ack_def Now_def split: if_splits)
qed

theorem retryJob_next_witness:
  "let w = demo_world \<lparr>ready = [], processing = [demo_job ''j'' 1 5], delayed = [], dead = []\<rparr>;
       (r, w') = retryJob (NewConsumer mq_queue 3 second) (demo_job ''j'' 1 5) (ErrText ''x'') w
   in r = Inr () \<and> processing (mq w') = [] \<and> map dl_FinalAttempt (dead (mq w')) = [3]"
proof -
  let ?w = "demo_world \<lparr>ready = [], processing = [demo_job ''j'' 1 5], delayed = [], dead = []\<rparr>"
  obtain r w' where e: "retryJob (NewConsumer mq_queue 3 second) (demo_job ''j'' 1 5) (ErrText ''x'') ?w = (r, w')" by fastforce
  from retryJob_next [OF _ e refl] e show ?thesis
    by (auto simp: NewConsumer_def demo_world_def demo_job_def removeJob_def)
qed

end
