(* ===== verification/Runtime.thy ===== *)
theory Runtime
  imports KubeBackend Consumer
begin

text \<open>
  \<^verbatim>\<open>internal/app/bootstrap.go\<close>: how the parts are put together, for the memory repositories, the memory queue and
  the Kubernetes backend. The theorems are about the composed worker: one turn of it, from taking a job to
  the acknowledgement, over queue, handlers, services, repositories and backend.
\<close>

section \<open>Wiring\<close>

abbreviation kube_service :: "'c kube \<Rightarrow> ('c, 'z) kube_world_scheme DeploymentService" where
  "kube_service K \<equiv> mem_DeploymentService (Some (kube_backend K))"

definition Worker :: "'c kube \<Rightarrow> int \<Rightarrow> duration \<Rightarrow> ('c, 'z) kube_world_scheme Consumer" where
  "Worker K jobMaxAttempts jobRetryBackoff =
     (let consumer = NewConsumer mq_queue jobMaxAttempts jobRetryBackoff;
          scheduler = NewSchedulerService mq_queue;
          deploymentCreate = \<lparr>ch_apps = mem_apps, ch_deployments = mem_deployments, ch_backend = kube_backend K,
                              ch_service = kube_service K, ch_scheduler = scheduler\<rparr>;
          deploymentDelete = \<lparr>dh_apps = mem_apps, dh_deployments = mem_deployments, dh_backend = kube_backend K,
                              dh_service = kube_service K\<rparr>;
          deploymentSync = \<lparr>sh_apps = mem_apps, sh_deployments = mem_deployments, sh_backend = kube_backend K,
                            sh_scheduler = scheduler, sh_service = kube_service K\<rparr>;
          consumer = Register JobTypeDeploymentCreate (create_Handle deploymentCreate) consumer;
          consumer = Register JobTypeDeploymentDelete (delete_Handle deploymentDelete) consumer
      in Register JobTypeDeploymentSync (sync_Handle deploymentSync) consumer)"

text \<open>
  The loop of the reconciler. A \<^verbatim>\<open>select\<close> that does not find the context done waits for the next tick; it
  returns only when the context is done, and \<open>None\<close> is a run that does not return.
\<close>

partial_function (option) RunReconciler :: "'a env_scheme ReliabilityService \<Rightarrow> 'a env_scheme \<Rightarrow> 'a env_scheme option" where
  "RunReconciler s w =
     (case ctx_Done w of
        (Some e, w) \<Rightarrow> Some w
      | (None, w) \<Rightarrow> RunReconciler s (snd (ReconcileOnce s 100 (PromoteDue s w))))"

section \<open>One turn of the worker\<close>

lemma store_Dequeue_poll: "mq_Dequeue_poll w = (r, w') \<Longrightarrow> store w' = store w"
  by (auto simp: mq_Dequeue_poll_def mq_promoteDueLocked_def Now_def Let_def split: list.splits prod.splits)

lemma store_Dequeue:
  fixes w :: "'a store_world_scheme"
  assumes "mq_Dequeue w = Some y"
  shows "store (snd y) = store w"
  using assms
proof (rule mq_Dequeue.raw_induct [rotated])
  fix f :: "'a store_world_scheme \<Rightarrow> ((error + Job) \<times> 'a store_world_scheme) option" and w y
  assume IH: "\<And>w y. f w = Some y \<Longrightarrow> store (snd y) = store w"
    and body: "(case mq_Dequeue_poll w of
        (Some job, w) \<Rightarrow> Some (Inr job, w)
      | (None, w) \<Rightarrow>
          (case ctx_Done w of (Some e, w) \<Rightarrow> Some (Inl e, w) | (None, w) \<Rightarrow> f w)) = Some y"
  obtain o1 w1 where p: "mq_Dequeue_poll w = (o1, w1)" by fastforce
  from store_Dequeue_poll [OF p] IH body p show "store (snd y) = store w"
    by (cases o1) (auto simp: ctx_Done_def split: option.splits)
qed

lemma keeps_ackJob: "co_queue c = mq_queue \<Longrightarrow> keeping store (ackJob c j)"
  by (rule keepingI) (simp add: ackJob_def mq_queue_def mq_Ack_def)

lemma keeps_deadLetterJob: "co_queue c = mq_queue \<Longrightarrow> keeping store (deadLetterJob c j rsn)"
  by (rule keepingI)
     (simp add: deadLetterJob_def mq_queue_def mq_deadLetters_def mq_DeadLetter_def Now_def Let_def split_beta store_NewUUID)

lemma keeps_EnqueueAfter: "keeping store (mq_EnqueueAfter j d)"
  by (rule keepingI) (simp add: mq_EnqueueAfter_def stampCreated_def Now_def Let_def split_beta)

lemma keeps_retryJob: "co_queue c = mq_queue \<Longrightarrow> keeping store (retryJob c j e)"
  unfolding retryJob_def Let_def
  by (intro keep keeps_deadLetterJob keeps_ackJob; simp add: mq_queue_def mq_scheduler_def)
     (intro keep keeps_EnqueueAfter keeps_ackJob; simp add: mq_queue_def mq_scheduler_def)

text \<open>What the loop does around the handler leaves the records alone.\<close>

lemma mem_abs_processJob:
  assumes q: "co_queue c = mq_queue" and run: "processJob c j w = (r, w')"
  shows "mem_abs w' = (case co_handlers c (job_Type j) of None \<Rightarrow> mem_abs w | Some h \<Rightarrow> mem_abs (snd (h j w)))"
proof (cases "co_handlers c (job_Type j)")
  case None
  obtain r1 w1 where d: "deadLetterJob c j ''no handler registered'' w = (r1, w1)" by fastforce
  obtain r2 w2 where a: "ackJob c j w1 = (r2, w2)" by fastforce
  have "store w' = store w"
    using run None d a keepingD [OF keeps_deadLetterJob [OF q] d] keepingD [OF keeps_ackJob [OF q] a]
    by (simp add: processJob_def)
  from mem_abs_store [OF this] None show ?thesis by simp
next
  case (Some h)
  obtain r1 w1 where h: "h j w = (r1, w1)" by fastforce
  have "store w' = store w1"
    using run Some h keeps_retryJob [OF q] keeps_ackJob [OF q] unfolding keeping_def
    by (auto simp: processJob_def split: sum.splits if_splits) (metis surjective_pairing)+
  from mem_abs_store [OF this] Some h show ?thesis by simp
qed

lemma worker_handler:
  assumes "co_handlers (Worker K n b) (job_Type j) = Some h"
  shows "triple mem_abs mq_bag (job_TenantID j) (\<lambda>_. True) (h j) (\<lambda>_ _. True)"
  using assms khp.create_tr [OF mem_serves, of j K "Some (kube_backend K)"]
    khp.delete_tr [OF mem_serves, of j K "Some (kube_backend K)"]
    khp.sync_Handle_tr [OF mem_serves, of j K "Some (kube_backend K)"]
  by (auto simp: Worker_def Register_def NewConsumer_def Let_def split: if_splits)

lemma Worker_queue: "co_queue (Worker K n b) = mq_queue"
  by (simp add: Worker_def Register_def NewConsumer_def Let_def)

lemma worker_turn:
  assumes "ok_view (mem_abs w)" and "mq_Dequeue w = Some (Inr j, w1)" and "processJob (Worker K n b) j w1 = (r, w')"
  shows "ok_view (mem_abs w') \<and> others_kept (job_TenantID j) (mem_abs w) (mem_abs w') \<and>
    owed (mq_bag w) \<subseteq># add_mset (job_ID j) (owed (mq_bag w')) \<and>
    (kept j (mq_bag w') \<or> (\<exists>h. co_handlers (Worker K n b) (job_Type j) = Some h \<and> fst (h j w1) = Inr ()))"
proof -
  let ?c = "Worker K n b :: ('a, 'b) kube_world_scheme Consumer"
  have d: "jq_Dequeue mq_queue w = Some (Inr j, w1)" using assms(2) by (simp add: mq_queue_def)
  have o: "owed (mq_bag w1) = owed (mq_bag w)" by (rule mqi.dequeue_owed [OF d])
  have l: "job_ID j \<in># leases (mq_bag w1)" using mqi.dequeue_job [OF d] by (simp add: b_lease_def)
  have a1: "mem_abs w1 = mem_abs w" using mem_abs_store [OF store_Dequeue [OF assms(2)]] by simp
  have step: "ok_view (mem_abs w2) \<and> others_kept (job_TenantID j) (mem_abs w1) (mem_abs w2) \<and> adds (mq_bag w1) (mq_bag w2)"
    if "co_handlers ?c (job_Type j) = Some h" "h j w1 = (r2, w2)" for h r2 w2
    using worker_handler [OF that(1), unfolded triple_def, rule_format, OF _ _ that(2)] assms(1) a1
    by (simp add: grows_def adds_def)
  have "owed (mq_bag w1) \<subseteq># add_mset (job_ID j) (owed (mq_bag (snd (processJob ?c j w1)))) \<and>
     (kept j (mq_bag (snd (processJob ?c j w1))) \<or>
      (case co_handlers ?c (job_Type j) of
         None \<Rightarrow> (\<exists>e. fst (deadLetterJob ?c j ''no handler registered'' w1) = Inl e)
       | Some h \<Rightarrow> fst (h j w1) = Inr ()))"
  proof (rule mqi.process_keeps [OF Worker_queue _ l])
    fix h r2 w2 assume "co_handlers ?c (job_Type j) = Some h" and "h j w1 = (r2, w2)"
    then show "adds (mq_bag w1) (mq_bag w2)" using step by (metis (no_types))
  qed
  then have "owed (mq_bag w) \<subseteq># add_mset (job_ID j) (owed (mq_bag w')) \<and>
      (kept j (mq_bag w') \<or> (\<exists>h. co_handlers ?c (job_Type j) = Some h \<and> fst (h j w1) = Inr ()))"
    using o assms(3) mem_bury_ok [where c = ?c and j = j and w = w1, OF Worker_queue] by (auto split: option.splits)
  moreover have "ok_view (mem_abs w') \<and> others_kept (job_TenantID j) (mem_abs w) (mem_abs w')"
  proof (cases "co_handlers ?c (job_Type j)")
    case None
    then show ?thesis using mem_abs_processJob [OF Worker_queue assms(3)] assms(1) a1 by simp
  next
    case (Some h)
    then show ?thesis
      using mem_abs_processJob [OF Worker_queue assms(3)] step [OF Some, of "fst (h j w1)" "snd (h j w1)"] a1 by simp
  qed
  ultimately show ?thesis by blast
qed

text \<open>
  C8: One turn of the composed worker is safe. Whatever the cluster answers, taking a job off the queue and processing it
  leaves the records well formed and the apps and deployments of every other tenant as they were; the job is
  afterwards done, or still leased, waiting with its attempt counted, or a dead letter; and every other job
  the queue owed it still owes.
\<close>

theorem worker_turn_safe:
  assumes "ok_view (mem_abs w)" and "mq_Dequeue w = Some (Inr j, w1)" and "processJob (Worker K n b) j w1 = (r, w')"
  shows "ok_view (mem_abs w') \<and> others_kept (job_TenantID j) (mem_abs w) (mem_abs w') \<and>
    owed (mq_bag w) \<subseteq># add_mset (job_ID j) (owed (mq_bag w')) \<and>
    (kept j (mq_bag w') \<or> (\<exists>h. co_handlers (Worker K n b) (job_Type j) = Some h \<and> fst (h j w1) = Inr ()))"
  by (rule worker_turn [OF assms])

definition demo_turn :: "((string \<times> string) \<times> KIngress) list kube_world" where
  "demo_turn = on_cluster ((demo_plane DeploymentStatusQueued 0)
     \<lparr>mq := \<lparr>ready = [(demo_job ''j'' 0 0)\<lparr>job_Type := JobTypeDeploymentCreate, job_TenantID := ''t'', job_AppID := ''a'',
                       job_DeploymentID := ''d''\<rparr>],
            processing = [], delayed = [], dead = []\<rparr>\<rparr>) []"

theorem worker_turn_safe_witness:
  "\<exists>j w1 r w'. mq_Dequeue demo_turn = Some (Inr j, w1) \<and> processJob (Worker demo_kube 3 second) j w1 = (r, w') \<and>
     ok_view (mem_abs w') \<and> others_kept ''t'' (mem_abs demo_turn) (mem_abs w')"
proof -
  have ok: "ok_view (mem_abs demo_turn)"
    using demo_plane_ok(1) [of DeploymentStatusQueued 0]
    by (simp add: demo_turn_def on_cluster_def store_world.defs mem_abs_def demo_plane_def demo_store_world_def event_list_def)
  have "\<exists>t w1. mq_Dequeue demo_turn = Some (Inr ((demo_job ''j'' 0 t)\<lparr>job_Type := JobTypeDeploymentCreate,
      job_TenantID := ''t'', job_AppID := ''a'', job_DeploymentID := ''d''\<rparr>), w1)"
    by (subst mq_Dequeue.simps)
       (simp add: mq_Dequeue_poll_def mq_promoteDueLocked_def demo_turn_def on_cluster_def store_world.defs
          demo_plane_def demo_store_world_def demo_job_def Now_def Let_def)
  then obtain t w1 where d: "mq_Dequeue demo_turn = Some (Inr ((demo_job ''j'' 0 t)\<lparr>job_Type := JobTypeDeploymentCreate,
      job_TenantID := ''t'', job_AppID := ''a'', job_DeploymentID := ''d''\<rparr>), w1)"
    by blast
  obtain r w' where p: "processJob (Worker demo_kube 3 second) ((demo_job ''j'' 0 t)\<lparr>job_Type := JobTypeDeploymentCreate,
      job_TenantID := ''t'', job_AppID := ''a'', job_DeploymentID := ''d''\<rparr>) w1 = (r, w')"
    by fastforce
  from worker_turn_safe [OF ok d p] d p show ?thesis
    by auto
qed

end
