(* ===== verification/HttpRuntime.thy ===== *)
theory HttpRuntime
  imports HttpGuards Runtime
begin

text \<open>
  The HTTP interface as \<^verbatim>\<open>internal/app/bootstrap.go\<close> puts it together over the memory repositories, the memory queue and the
  Kubernetes backend, and what holds of it for tenants: a request changes and shows only what belongs to the tenant of the actor.
\<close>

section \<open>Wiring\<close>

record settings =
  st_devAuth :: bool
  st_ingressHost :: string
  st_mediumClientID :: string
  st_sha :: digest
  st_decode :: decoders
  st_build :: "string \<times> string \<times> string"
  st_file :: "string \<rightharpoonup> body"

definition mem_Router :: "'c kube \<Rightarrow> settings \<Rightarrow> ('c, 'z) kube_world_scheme Router" where
  "mem_Router K cfg =
     \<lparr>r_auth = mem_AuthService (st_mediumClientID cfg), r_apiKeys = mem_APIKeyService,
      r_admin = \<lparr>ads_repo = mem_admin, ads_repositoryDriver = ''memory''\<rparr>, r_audit = Some mem_audit,
      r_health = \<lparr>hs_db = None, hs_queue = Some \<lparr>hc_Check = mq_Check\<rparr>\<rparr>, r_apps = mem_AppService,
      r_deployments = kube_service K, r_reliability = mem_ReliabilityService, r_devAuth = st_devAuth cfg,
      r_repository = ''memory'', r_backend = be_Name (kube_backend K :: ('c, 'z) kube_world_scheme DeploymentBackend),
      r_ingressHost = st_ingressHost cfg, r_sha = st_sha cfg, r_decode = st_decode cfg, r_build = st_build cfg,
      r_file = st_file cfg\<rparr>"

lemma mem_Router_simps [simp]:
  "r_auth (mem_Router K cfg) = mem_AuthService (st_mediumClientID cfg)" "r_apiKeys (mem_Router K cfg) = mem_APIKeyService"
  "r_audit (mem_Router K cfg) = Some mem_audit" "r_apps (mem_Router K cfg) = mem_AppService"
  "r_deployments (mem_Router K cfg) = kube_service K" "r_sha (mem_Router K cfg) = st_sha cfg"
  "r_devAuth (mem_Router K cfg) = st_devAuth cfg" "r_decode (mem_Router K cfg) = st_decode cfg"
  "r_admin (mem_Router K cfg) = \<lparr>ads_repo = mem_admin, ads_repositoryDriver = ''memory''\<rparr>"
  by (simp_all add: mem_Router_def)

section \<open>Calls that touch no app, deployment, event or job\<close>

text \<open>What tenants own, as the memory drivers keep it: apps, deployments, events and jobs.\<close>

definition core where
  "core w = (apps (store w), deployments (store w), events (store w), mq w)"

abbreviation harmless :: "('b, 'a store_world_scheme) op \<Rightarrow> bool" where
  "harmless \<equiv> keeping core"

lemma core_plane: "core w' = core w \<Longrightarrow> mem_abs w' = mem_abs w \<and> mq_bag w' = mq_bag w"
  by (simp add: core_def mem_abs_def mq_bag_def event_list_def fun_eq_iff)

lemma core_env: "env.more w' = env.more w \<Longrightarrow> core w' = core w"
  using store_more [of w' w] mq_more [of w' w] by (simp add: core_def)

lemma mq_clock [simp]: "mq (snd (NewUUID w)) = mq w" "mq (snd (Now w)) = mq w"
  by (rule mq_more, simp add: more_NewUUID more_Now)+

declare store_NewUUID [simp]

lemma harmless_UpsertByEmail [keep]: "harmless (mem_UpsertByEmail e d)"
  by (rule keepingI) (simp add: mem_UpsertByEmail_def core_def Let_def split_beta split: option.split)

lemma harmless_CreatePersonalTenant [keep]: "harmless (mem_CreatePersonalTenant u)"
  by (rule keepingI) (simp add: mem_CreatePersonalTenant_def core_def Let_def split_beta)

lemma harmless_lookups [keep]: "harmless (mem_GetMember t u)" "harmless (mem_User_GetByID u)"
  by (rule keepingI; simp add: mem_GetMember_def mem_User_GetByID_def core_def split: option.split)+

lemma harmless_GetByHash [keep]: "harmless (mem_GetByHash h)"
  by (rule keepingI) (simp add: mem_GetByHash_def core_def range_map_def Now_def Let_def split: option.split)

lemma harmless_Audit [keep]: "harmless (Record (Some mem_audit) actor a b c d)"
  by (rule keepingI) (simp add: Record_def mem_audit_def mem_Audit_Create_def core_def Let_def split_beta)

lemma harmless_keys [keep]: "harmless (mem_Key_Create k)" "harmless (mem_Key_Revoke t i now)"
  by (rule keepingI; simp add: mem_Key_Create_def mem_Key_Revoke_def core_def split: option.split)+

lemma keeping_Let [keep]: "(\<And>x. keeping v (f x)) \<Longrightarrow> keeping v (let x = y in f x)"
  by simp

lemma harmless_EnsureActor [keep]: "harmless (EnsureActor (mem_AuthService c) e d)"
  unfolding EnsureActor_def
  by (intro keep; simp add: mem_AuthService_def NewAuthService_def mem_users_def mem_tenants_def keep)

lemma harmless_Authenticate [keep]: "harmless (Authenticate sha mem_APIKeyService k)"
proof -
  have "harmless (\<lambda>w. if key_RevokedAt key \<noteq> None then (Inl ErrUnauthorized, w)
          else case key_ExpiresAt key of None \<Rightarrow> (Inr key, w)
            | Some expires \<Rightarrow> (let (now, w) = Now w in if expires < now then (Inl ErrUnauthorized, w) else (Inr key, w)))" for key
    by (rule keepingI) (simp add: Now_def core_def split: option.split)
  then show ?thesis
    unfolding Authenticate_def by (intro keep) (simp_all add: mem_APIKeyService_def mem_keys_def keep)
qed

lemma harmless_AuthenticateAPIKey [keep]: "harmless (AuthenticateAPIKey sha (mem_AuthService c) k)"
  unfolding AuthenticateAPIKey_def mem_AuthService_def NewAuthService_def mem_users_def mem_tenants_def
  by simp (intro keep)

lemma harmless_requestActor [keep]: "harmless (requestActor sha d (mem_AuthService c) req)"
  unfolding requestActor_def by (intro keep)

lemma harmless_CreateKey [keep]: "harmless (CreateKey sha mem_APIKeyService actor name)"
proof -
  have "harmless (newAPIKeyMaterial sha)"
    by (rule keepingI) (simp add: newAPIKeyMaterial_def rand_Read_def core_def Let_def)
  moreover have "harmless (\<lambda>w. let (uid, w) = NewUUID w; (now, w) = Now w;
              key = \<lparr>key_ID = uid, key_TenantID = actor_TenantID actor, key_UserID = actor_UserID actor,
                     key_Name = TrimSpace name, key_KeyPrefix = pre, key_KeyHash = hash, key_LastUsedAt = None,
                     key_ExpiresAt = None, key_RevokedAt = None, key_CreatedAt = now\<rparr>
          in bindE (kr_Create (aks_keys mem_APIKeyService) key) (\<lambda>_. ret \<lparr>akc_Key = key, akc_Secret = raw\<rparr>) w)" for pre hash raw
    by (rule keepingI) (simp add: Let_def split_beta mem_APIKeyService_def mem_keys_def mem_Key_Create_def core_def bindE_def ret_def)
  ultimately show ?thesis
    unfolding CreateKey_def by (intro keep) (auto split: prod.split)
qed

lemma harmless_RevokeKey [keep]: "harmless (RevokeKey mem_APIKeyService actor i)"
  by (rule keepingI)
     (simp add: RevokeKey_def mem_APIKeyService_def mem_keys_def mem_Key_Revoke_def core_def split_beta split: option.split)

section \<open>What belongs to a tenant\<close>

text \<open>The contents a response to a tenant may have; what only administrators get is not among them.\<close>

fun belongs :: "string \<Rightarrow> body \<Rightarrow> bool" where
  "belongs t (BActor a) = (actor_TenantID a = t)"
| "belongs t (BApp a) = (app_TenantID a = t)"
| "belongs t (BApps as) = list_all (\<lambda>a. app_TenantID a = t) as"
| "belongs t (BDeployment d) = (dep_TenantID d = t)"
| "belongs t (BDeployments ds) = list_all (\<lambda>d. dep_TenantID d = t) ds"
| "belongs t (BPlan p) = (\<exists>a v. app_TenantID a = t \<and> p = BuildPlan a v Capabilities)"
| "belongs t (BEvents es) = list_all (\<lambda>e. ev_TenantID e = t) es"
| "belongs t (BKeyResult r) = (key_TenantID (akc_Key r) = t)"
| "belongs t (BKeys ks) = list_all (\<lambda>k. key_TenantID k = t) ks"
| "belongs t (BAuditLogs ls) = list_all (\<lambda>l. audit_TenantID l = t) ls"
| "belongs t (BError e) = True"
| "belongs t (BText s) = True"
| "belongs t (BMoved s) = True"
| "belongs t _ = False"

text \<open>The record in the response stands under an identifier that was another tenant's: a random identifier was issued twice.\<close>

fun clashes :: "string \<Rightarrow> view \<Rightarrow> body \<Rightarrow> bool" where
  "clashes t v (BApp a) = (case v_apps v (app_ID a) of None \<Rightarrow> False | Some a0 \<Rightarrow> app_TenantID a0 \<noteq> t)"
| "clashes t v (BDeployment d) = (case v_deps v (dep_ID d) of None \<Rightarrow> False | Some d0 \<Rightarrow> dep_TenantID d0 \<noteq> t)"
| "clashes t v _ = False"

definition safe_step :: "string \<Rightarrow> bool \<Rightarrow> 'a store_world_scheme \<Rightarrow> 'a store_world_scheme \<Rightarrow> bool" where
  "safe_step t clash w w' \<longleftrightarrow> ok_view (mem_abs w') \<and> grows (mq_bag w) (mq_bag w') \<and>
     (\<not> clash \<longrightarrow> others_kept t (mem_abs w) (mem_abs w'))"

text \<open>A call on behalf of tenant \<open>t\<close> whose result is shown as \<open>B\<close>, and a handler that serves tenant \<open>t\<close>.\<close>

definition own_call :: "string \<Rightarrow> ('b, 'a store_world_scheme) op \<Rightarrow> ('b \<Rightarrow> body) \<Rightarrow> bool" where
  "own_call t f B \<longleftrightarrow> (\<forall>w r w'. ok_view (mem_abs w) \<longrightarrow> f w = (r, w') \<longrightarrow>
     (case r of
        Inl e \<Rightarrow> safe_step t False w w'
      | Inr a \<Rightarrow> belongs t (B a) \<and> safe_step t (clashes t (mem_abs w) (B a)) w w'))"

definition confined :: "string \<Rightarrow> (unit, response \<times> 'a store_world_scheme) op \<Rightarrow> bool" where
  "confined t h \<longleftrightarrow> (\<forall>rw w out rw' w'. rw_Body rw = [] \<longrightarrow> ok_view (mem_abs w) \<longrightarrow> h (rw, w) = (out, (rw', w')) \<longrightarrow>
     list_all (belongs t) (rw_Body rw') \<and> safe_step t (list_ex (clashes t (mem_abs w)) (rw_Body rw')) w w')"

named_theorems confine \<open>handlers that stay within a tenant\<close>

lemma safe_step_core: "core w' = core w \<Longrightarrow> ok_view (mem_abs w) \<Longrightarrow> safe_step t c w w'"
  using core_plane [of w' w] by (simp add: safe_step_def)

lemma safe_step_before: "core w1 = core w \<Longrightarrow> safe_step t c w1 w' \<Longrightarrow> safe_step t c w w'"
  using core_plane [of w1 w] by (simp add: safe_step_def)

lemma safe_step_after: "core w2 = core w1 \<Longrightarrow> safe_step t c w w1 \<Longrightarrow> safe_step t c w w2"
  using core_plane [of w2 w1] by (simp add: safe_step_def)

lemma Body_writers:
  "rw_Body (writeJSON st b rw) = rw_Body rw @ [b]" "rw_Body (WriteHeader st rw) = rw_Body rw"
  "rw_Body (writeError e rw) = rw_Body rw @ [BError \<lparr>err_Code = snd (errorStatus e), err_Message = Error e\<rparr>]"
  "rw_Body (http_NotFound rw) = rw_Body rw @ [BText (''404 page not found'' @ [CHR 0x0A])]"
  "rw_Body (http_Redirect meth p rw) = (if meth = ''GET'' then rw_Body rw @ [BMoved p] else rw_Body rw)" "rw_Body (setHeader k x rw) = rw_Body rw"
  "rw_Body (http_Error text c rw) = rw_Body rw @ [BText (text @ [CHR 0x0A])]"
  by (simp_all add: writeError_def writer_defs Let_def split: option.split prod.split)

lemma confined_respond [confine]:
  "belongs t b \<Longrightarrow> confined t (respond (writeJSON st b))" "confined t (respond (WriteHeader st))"
  "confined t (respond http_NotFound)" "confined t (respond (http_Redirect meth p))"
  by (auto simp: confined_def respond_def Body_writers safe_step_core)

lemma confined_quiet [confine]:
  assumes "harmless f" and "\<And>a. confined t (k a)"
  shows "confined t (call f k)"
  unfolding confined_def
proof (intro allI impI)
  fix rw w out rw' w' assume b: "rw_Body rw = []" and ok: "ok_view (mem_abs w)" and run: "call f k (rw, w) = (out, (rw', w'))"
  obtain r w1 where f: "f w = (r, w1)" by fastforce
  have c: "core w1 = core w" by (rule keepingD [OF assms(1) f])
  note p = core_plane [OF c]
  show "list_all (belongs t) (rw_Body rw') \<and> safe_step t (list_ex (clashes t (mem_abs w)) (rw_Body rw')) w w'"
  proof (cases r)
    case (Inl e)
    with run f b c ok show ?thesis by (auto simp: call_def Body_writers safe_step_core split: if_splits)
  next
    case (Inr a)
    with run f have "k a (rw, w1) = (out, (rw', w'))" by (simp add: call_def)
    with assms(2) [of a, unfolded confined_def, rule_format, OF b _ this] ok p safe_step_before [OF c] show ?thesis by simp
  qed
qed

lemma confined_ignoring [confine]:
  assumes "harmless f" and "confined t k"
  shows "confined t (ignoring f k)"
  unfolding confined_def
proof (intro allI impI)
  fix rw w out rw' w' assume b: "rw_Body rw = []" and ok: "ok_view (mem_abs w)" and run: "ignoring f k (rw, w) = (out, (rw', w'))"
  obtain r w1 where f: "f w = (r, w1)" by fastforce
  have c: "core w1 = core w" by (rule keepingD [OF assms(1) f])
  have "k (rw, w1) = (out, (rw', w')) \<or> rw' = rw \<and> w' = w1"
    using run f by (auto simp: ignoring_def split: sum.splits if_splits)
  with assms(2) [unfolded confined_def, rule_format, OF b, of w1] ok core_plane [OF c] safe_step_before [OF c] b
  show "list_all (belongs t) (rw_Body rw') \<and> safe_step t (list_ex (clashes t (mem_abs w)) (rw_Body rw')) w w'"
    by (auto simp: safe_step_core [OF c ok])
qed

lemma Record_ok: "\<exists>w'. Record (Some mem_audit) actor a b c d w = (Inr (), w')"
  by (simp add: Record_def mem_audit_def mem_Audit_Create_def Let_def split_beta)

text \<open>The two shapes of a handler: the call and its result, with or without an audit entry.\<close>

lemma confined_own:
  assumes "own_call t f B"
  shows "confined t (call f (\<lambda>a. respond (writeJSON st (B a))))"
    and "confined t (call f (\<lambda>a. ignoring (Record (Some mem_audit) actor c d (e a) g) (respond (writeJSON st (B a)))))"
proof -
  have all: "list_all (belongs t) (rw_Body rw') \<and> safe_step t (list_ex (clashes t (mem_abs w)) (rw_Body rw')) w w'"
    if b: "rw_Body rw = []" and ok: "ok_view (mem_abs w)" and run: "call f k (rw, w) = (out, (rw', w'))"
      and k: "\<And>a w1. \<exists>w2. k a (rw, w1) = (Inr (), (writeJSON st (B a) rw, w2)) \<and> core w2 = core w1" for k rw w out rw' w'
  proof -
    obtain r w1 where f: "f w = (r, w1)" by fastforce
    note O = assms [unfolded own_call_def, rule_format, OF ok f]
    show ?thesis
    proof (cases r)
      case (Inl e)
      with O run f b show ?thesis
        by (auto simp: call_def Body_writers safe_step_def split: if_splits)
    next
      case (Inr a)
      obtain w2 where "k a (rw, w1) = (Inr (), (writeJSON st (B a) rw, w2))" and c: "core w2 = core w1"
        using k [of a w1] by blast
      with O Inr run f b safe_step_after [OF c] show ?thesis by (auto simp: call_def Body_writers)
    qed
  qed
  show "confined t (call f (\<lambda>a. respond (writeJSON st (B a))))"
    unfolding confined_def by (intro allI impI, erule (1) all) (auto simp: respond_def)
  show "confined t (call f (\<lambda>a. ignoring (Record (Some mem_audit) actor c d (e a) g) (respond (writeJSON st (B a)))))"
    unfolding confined_def
  proof (intro allI impI, erule (2) all)
    fix rw :: response and a and w1 :: "'a store_world_scheme"
    obtain w2 where r: "Record (Some mem_audit) actor c d (e a) g w1 = (Inr (), w2)" using Record_ok by blast
    have "core w2 = core w1" by (rule keepingD [OF harmless_Audit r])
    with r show "\<exists>w2. ignoring (Record (Some mem_audit) actor c d (e a) g) (respond (writeJSON st (B a))) (rw, w1) =
        (Inr (), (writeJSON st (B a) rw, w2)) \<and> core w2 = core w1"
      by (simp add: ignoring_def respond_def)
  qed
qed

lemma confined_if [confine]: "(b \<Longrightarrow> confined t f) \<Longrightarrow> (\<not> b \<Longrightarrow> confined t g) \<Longrightarrow> confined t (if b then f else g)"
  by simp

lemma confined_list [confine]:
  "confined t f \<Longrightarrow> (\<And>x xs. confined t (g x xs)) \<Longrightarrow> confined t (case l of [] \<Rightarrow> f | x # xs \<Rightarrow> g x xs)"
  by (cases l) auto

section \<open>The services on behalf of a tenant\<close>

lemma own_read:
  assumes "harmless f" and "\<And>w a w'. f w = (Inr a, w') \<Longrightarrow> belongs t (B a)"
  shows "own_call t f B"
  unfolding own_call_def
proof (intro allI impI)
  fix w r w' assume ok: "ok_view (mem_abs w)" and f: "f w = (r, w')"
  have "core w' = core w" by (rule keepingD [OF assms(1) f])
  with ok assms(2) f show "case r of Inl e \<Rightarrow> safe_step t False w w'
      | Inr a \<Rightarrow> belongs t (B a) \<and> safe_step t (clashes t (mem_abs w) (B a)) w w'"
    by (auto simp: safe_step_core split: sum.split)
qed

lemma own_ListApps: "own_call (actor_TenantID actor) (ListApps mem_AppService actor) BApps"
  by (rule own_read, rule keepingI)
     (auto simp: ListApps_def mem_AppService_def mem_apps_def mem_App_ListByTenant_def range_map_def core_def Let_def list_all_iff)

lemma own_GetApp: "own_call (actor_TenantID actor) (GetApp mem_AppService actor i) BApp"
  by (rule own_read, rule keepingI)
     (auto simp: GetApp_def mem_AppService_def mem_apps_def mem_App_GetByID_def core_def split: option.splits if_splits)

lemma own_GetDeployment: "own_call (actor_TenantID actor) (GetDeployment (mem_DeploymentService b) actor i) BDeployment"
  by (rule own_read, rule keepingI)
     (auto simp: GetDeployment_def mem_service_simps mem_deployments_def mem_Dep_GetByID_def core_def split: option.splits if_splits)

lemma own_ListDeployments: "own_call (actor_TenantID actor) (ListDeployments (mem_DeploymentService b) actor i) BDeployments"
  by (rule own_read, rule keepingI)
     (auto simp: ListDeployments_def mem_service_simps mem_deployments_def mem_ListByApp_def range_map_def core_def Let_def list_all_iff)

lemma own_ListEvents: "own_call (actor_TenantID actor) (ListEvents (mem_DeploymentService b) actor i) BEvents"
  by (rule own_read, rule keepingI)
     (auto simp: ListEvents_def mem_service_simps mem_events_def mem_ListByDeployment_def core_def list_all_iff)

lemma own_ListKeys: "own_call (actor_TenantID actor) (ListKeys mem_APIKeyService actor) BKeys"
  by (rule own_read, rule keepingI)
     (auto simp: ListKeys_def mem_APIKeyService_def mem_keys_def mem_Key_ListByTenant_def range_map_def core_def Let_def list_all_iff)

lemma audit_loop_own: "list_all (\<lambda>l. audit_TenantID l = t) out \<Longrightarrow> list_all (\<lambda>l. audit_TenantID l = t) (audit_loop logs t limit n out)"
  by (induction logs t limit n out rule: audit_loop.induct) auto

lemma own_Audit: "own_call (actor_TenantID actor) (ListTenantAuditLogs (Some mem_audit) actor l) BAuditLogs"
  by (rule own_read, rule keepingI)
     (auto simp: ListTenantAuditLogs_def mem_audit_def mem_Audit_ListByTenant_def core_def Let_def audit_loop_own)

lemma own_CreateKey: "own_call (actor_TenantID actor) (CreateKey sha mem_APIKeyService actor name) BKeyResult"
  by (rule own_read, rule harmless_CreateKey)
     (auto simp: CreateKey_def fail_def ret_def bindE_def Let_def split: if_splits prod.splits sum.splits)

lemma plan_backend: "ds_backend (kube_service K) = Some (kube_backend K)" "be_Plan (kube_backend K) = (\<lambda>a v. ret (BuildPlan a v Capabilities))"
  by (simp_all add: mem_DeploymentService_def SetBackend_def kube_backend_def)

lemma own_PlanDeployment: "own_call (actor_TenantID actor) (PlanDeployment (kube_service K) actor i) BPlan"
proof (rule own_read)
  have app: "harmless (mem_App_GetByID t i)" for t
    by (rule keepingI) (simp add: mem_App_GetByID_def core_def split: option.split)
  have ver: "harmless (mem_NextVersion t i)" for t
    by (rule keepingI) (simp add: mem_NextVersion_def core_def Let_def)
  show "harmless (PlanDeployment (kube_service K) actor i)"
    by (simp add: PlanDeployment_def plan_backend mem_service_simps mem_apps_def mem_deployments_def)
       (intro keep app ver)
  fix w p w' assume "PlanDeployment (kube_service K) actor i w = (Inr p, w')"
  then show "belongs (actor_TenantID actor) (BPlan p)"
    by (auto simp: PlanDeployment_def plan_backend mem_service_simps mem_apps_def mem_deployments_def ret_def
        bindE_def mem_App_GetByID_def mem_NextVersion_def Let_def split: option.splits if_splits)
qed

lemma own_UpdateApp: "own_call (actor_TenantID actor) (UpdateApp mem_AppService actor i inp) BApp"
  unfolding own_call_def
proof (intro allI impI)
  fix w :: "'a store_world_scheme" and r w'
  assume ok: "ok_view (mem_abs w)" and run: "UpdateApp mem_AppService actor i inp w = (r, w')"
  have "mq w' = mq w"
    using run by (auto simp: UpdateApp_def mem_AppService_def mem_apps_def mem_App_GetByID_def mem_App_Update_def bindE_def
        ret_def Now_def Let_def split: option.splits if_splits sum.splits prod.splits)
  then have "mq_bag w' = mq_bag w" by (simp add: mq_bag_def)
  with mem.UpdateApp_view [OF run [unfolded mem_AppService_def] ok]
  show "case r of Inl e \<Rightarrow> safe_step (actor_TenantID actor) False w w'
    | Inr a \<Rightarrow> belongs (actor_TenantID actor) (BApp a) \<and> safe_step (actor_TenantID actor) (clashes (actor_TenantID actor) (mem_abs w) (BApp a)) w w'"
    by (auto simp: safe_step_def split: sum.split)
qed

lemma own_CreateApp: "own_call (actor_TenantID actor) (CreateApp mem_AppService actor inp) BApp"
  unfolding own_call_def
proof (intro allI impI)
  fix w :: "'a store_world_scheme" and r w'
  assume ok: "ok_view (mem_abs w)" and run: "CreateApp mem_AppService actor inp w = (r, w')"
  let ?t = "actor_TenantID actor"
  obtain now w1 where n: "Now w = (now, w1)" by fastforce
  obtain uid w2 where u: "NewUUID w1 = (uid, w2)" by fastforce
  have c: "core w2 = core w"
    using core_env [of w1 w] core_env [of w2 w1] more_NowD [OF n] more_NewUUID_D [OF u] by simp
  note p = core_plane [OF c]
  define app where "app = \<lparr>app_ID = uid, app_TenantID = ?t, app_Name = ca_Name inp,
    app_Slug = normalizeSlug (ca_Slug inp), app_DesiredState = ''active'', app_CurrentDeploymentID = [],
    app_Config = normalizeConfig (ca_Config inp), app_CreatedBy = actor_UserID actor, app_CreatedAt = now, app_UpdatedAt = now\<rparr>"
  have t: "app_TenantID app = ?t" by (simp add: app_def)
  have "(\<exists>e. r = Inl e) \<and> w' = w \<or> bindE (ar_Create mem_apps app) (\<lambda>_. ret app) w2 = (r, w')"
    using run by (auto simp: CreateApp_def mem_AppService_def mem_tenants_def mem_GetMember_def fail_def bindE_def n u app_def Let_def
        split: if_splits option.splits)
  then consider (refused) e where "r = Inl e" "w' = w" | (run) r1 w3 where "ar_Create mem_apps app w2 = (r1, w3)"
    "r = (case r1 of Inl e \<Rightarrow> Inl e | Inr _ \<Rightarrow> Inr app)" "w' = w3"
    by (cases "ar_Create mem_apps app w2") (auto simp: bindE_def ret_def split: sum.splits)
  then show "case r of Inl e \<Rightarrow> safe_step ?t False w w'
    | Inr a \<Rightarrow> belongs ?t (BApp a) \<and> safe_step ?t (clashes ?t (mem_abs w) (BApp a)) w w'"
  proof cases
    case refused
    with ok show ?thesis by (simp add: safe_step_core)
  next
    case run
    note a = mem.app_create [OF run(1)] and b = mcp.bag_records(1) [OF run(1)]
    show ?thesis
    proof (cases r1)
      case (Inl e)
      with a b run p ok show ?thesis by (simp add: all_or_nothing_def safe_step_def)
    next
      case (Inr x)
      with run(1) have "ar_Create mem_apps app w2 = (Inr (), w3)" by simp
      from mem.app_create_slug [OF this] p have "ok_view (put_app app (mem_abs w))"
        by (intro ok_view_put_app [OF ok]) auto
      moreover have "\<not> clashes ?t (mem_abs w) (BApp app) \<Longrightarrow> others_kept ?t (mem_abs w) (put_app app (mem_abs w))"
        by (rule others_kept_put_app [OF refl]) (auto split: option.splits)
      ultimately show ?thesis
        using a b run p Inr t by (simp add: all_or_nothing_def safe_step_def)
    qed
  qed
qed

lemma own_CreateDeployment: "own_call (actor_TenantID actor) (CreateDeployment (mem_DeploymentService b) actor i) BDeployment"
  unfolding own_call_def
proof (intro allI impI)
  fix w :: "'a store_world_scheme" and r w'
  assume ok: "ok_view (mem_abs w)" and run: "CreateDeployment (mem_DeploymentService b) actor i w = (r, w')"
  let ?t = "actor_TenantID actor"
  from mem_create [OF run] consider e where "r = Inl e" "mem_abs w' = mem_abs w" "mq_bag w' = mq_bag w"
    | a d where "v_apps (mem_abs w) i = Some a" "app_TenantID a = ?t" "snapshot_of a d" "r = Inr d"
       "logged d ''queued'' ''deployment queued'' (mem_abs w) (mem_abs w')" "queues JobTypeDeploymentCreate d (mq_bag w) (mq_bag w')"
    using CreateDeployment_run [of w i _ actor b] run unfolding created_def by fastforce
  then show "case r of Inl e \<Rightarrow> safe_step ?t False w w'
    | Inr a \<Rightarrow> belongs ?t (BDeployment a) \<and> safe_step ?t (clashes ?t (mem_abs w) (BDeployment a)) w w'"
  proof cases
    case 1
    with ok show ?thesis by (simp add: safe_step_def)
  next
    case (2 a d)
    have "\<not> clashes ?t (mem_abs w) (BDeployment d) \<Longrightarrow> others_kept ?t (mem_abs w) (put_dep d (mem_abs w))"
      by (rule others_kept_put_dep [OF refl]) (auto split: option.splits)
    with 2 ok ok_view_put_dep [OF ok, of d] show ?thesis
      by (auto simp: safe_step_def logged_def snapshot_of_def grows_queues)
  qed
qed

text \<open>The operations on a deployment of the tenant: the written deployment is the one that was read.\<close>

lemma outcome_own:
  assumes run: "outcome t i from P ty msg jt r (mem_abs w) (mq_bag w) (mem_abs w') (mq_bag w')" and ok: "ok_view (mem_abs w)"
    and P: "\<And>d d'. P d d' \<Longrightarrow> dep_ID d' = dep_ID d \<and> dep_TenantID d' = dep_TenantID d"
  shows "case r of Inl e \<Rightarrow> safe_step t False w w'
    | Inr a \<Rightarrow> belongs t (BDeployment a) \<and> safe_step t (clashes t (mem_abs w) (BDeployment a)) w w'"
proof -
  have "grows (mq_bag w) (mq_bag w')"
    using run unfolding outcome_def by (auto split: option.splits dest: grows_queues)
  with outcome_safe [OF run ok P] show ?thesis
    by (auto simp: safe_step_def split: sum.split)
qed

lemma own_RetryDeployment: "own_call (actor_TenantID actor) (RetryDeployment (mem_DeploymentService b) actor i) BDeployment"
  unfolding own_call_def
  by (intro allI impI, rule outcome_own [OF mem_retry]) (auto simp: requeued_def)

lemma own_CancelDeployment: "own_call (actor_TenantID actor) (CancelDeployment (mem_DeploymentService b) actor i) BDeployment"
  unfolding own_call_def
  by (intro allI impI, rule outcome_own [OF mcp.cancel_outcome [OF mem_serves]]) (auto simp: marked_as_def)

lemma own_DeleteDeployment: "own_call (actor_TenantID actor) (DeleteDeployment (mem_DeploymentService b) actor i) BDeployment"
  unfolding own_call_def
proof (intro allI impI)
  fix w :: "'a store_world_scheme" and r w'
  assume ok: "ok_view (mem_abs w)" and run: "DeleteDeployment (mem_DeploymentService b) actor i w = (r, w')"
  from mcp.delete_outcome [OF mem_serves run]
  show "case r of Inl e \<Rightarrow> safe_step (actor_TenantID actor) False w w'
    | Inr a \<Rightarrow> belongs (actor_TenantID actor) (BDeployment a) \<and>
        safe_step (actor_TenantID actor) (clashes (actor_TenantID actor) (mem_abs w) (BDeployment a)) w w'"
  proof (elim disjE exE conjE)
    fix d assume "r = Inr d" "dep_TenantID d = actor_TenantID actor" "mem_abs w' = mem_abs w" "mq_bag w' = mq_bag w"
    with ok show ?thesis by (simp add: safe_step_def)
  qed (erule outcome_own [OF _ ok], auto simp: marked_as_def)
qed

lemmas own_calls = own_ListApps own_GetApp own_CreateApp own_UpdateApp own_GetDeployment own_ListDeployments own_ListEvents
  own_PlanDeployment own_CreateDeployment own_RetryDeployment own_CancelDeployment own_DeleteDeployment own_ListKeys
  own_CreateKey own_Audit

section \<open>The handlers of a tenant\<close>

lemma actor_known: "rq_actor req = Some actor \<Longrightarrow> call (ofSum (actorFromContext req)) k = k actor"
  by (simp add: call_def ofSum_def actorFromContext_def fun_eq_iff)

lemma harmless_ofSum [keep]: "keeping v (ofSum x)"
  by (rule keepingI) (simp add: ofSum_def)

lemma tenant_operations_confined:
  assumes a: "rq_actor req = Some actor"
  shows "confined (actor_TenantID actor) (createApp (mem_Router K cfg) req)"
    and "confined (actor_TenantID actor) (listApps (mem_Router K cfg) req)"
    and "confined (actor_TenantID actor) (getApp (mem_Router K cfg) i req)"
    and "confined (actor_TenantID actor) (updateApp (mem_Router K cfg) i req)"
    and "confined (actor_TenantID actor) (createDeployment (mem_Router K cfg) i req)"
    and "confined (actor_TenantID actor) (listDeployments (mem_Router K cfg) i req)"
    and "confined (actor_TenantID actor) (planDeployment (mem_Router K cfg) i req)"
    and "confined (actor_TenantID actor) (getDeployment (mem_Router K cfg) i req)"
    and "confined (actor_TenantID actor) (listDeploymentEvents (mem_Router K cfg) i req)"
    and "confined (actor_TenantID actor) (retryDeployment (mem_Router K cfg) i req)"
    and "confined (actor_TenantID actor) (cancelDeployment (mem_Router K cfg) i req)"
    and "confined (actor_TenantID actor) (deleteDeployment (mem_Router K cfg) i req)"
    and "confined (actor_TenantID actor) (createAPIKey (mem_Router K cfg) req)"
    and "confined (actor_TenantID actor) (listAPIKeys (mem_Router K cfg) req)"
    and "confined (actor_TenantID actor) (deleteAPIKey (mem_Router K cfg) i req)"
    and "confined (actor_TenantID actor) (handleMe (mem_Router K cfg) req)"
    and "confined (actor_TenantID actor) (handleAuditLogs (mem_Router K cfg) req)"
  unfolding createApp_def listApps_def getApp_def updateApp_def createDeployment_def listDeployments_def planDeployment_def
    getDeployment_def listDeploymentEvents_def retryDeployment_def cancelDeployment_def deleteDeployment_def createAPIKey_def
    listAPIKeys_def deleteAPIKey_def handleMe_def handleAuditLogs_def actor_known [OF a] mem_Router_simps
  by (rule confined_own(2) [OF own_CreateApp] confined_own(1) [OF own_ListApps] confined_own(1) [OF own_GetApp]
      confined_own(2) [OF own_UpdateApp] confined_own(2) [OF own_CreateDeployment] confined_own(1) [OF own_ListDeployments]
      confined_own(1) [OF own_PlanDeployment] confined_own(1) [OF own_GetDeployment] confined_own(1) [OF own_ListEvents]
      confined_own(2) [OF own_RetryDeployment] confined_own(2) [OF own_CancelDeployment] confined_own(2) [OF own_DeleteDeployment]
      confined_own(2) [OF own_CreateKey] confined_own(1) [OF own_ListKeys] confined_own(1) [OF own_Audit]
      confined_quiet confined_ignoring confined_respond harmless_ofSum harmless_RevokeKey harmless_Audit, simp?)+

lemma tenant_handlers_confined:
  assumes a: "rq_actor req = Some actor" and h: "(p, h) \<in> set (tenantRoutes (mem_Router K cfg))"
  shows "confined (actor_TenantID actor) (h req)"
proof -
  note ops = tenant_operations_confined [OF a]
  have "confined (actor_TenantID actor) (handleApps (mem_Router K cfg) req)"
    "confined (actor_TenantID actor) (handleAppRoutes (mem_Router K cfg) req)"
    "confined (actor_TenantID actor) (handleDeploymentRoutes (mem_Router K cfg) req)"
    "confined (actor_TenantID actor) (handleAPIKeys (mem_Router K cfg) req)"
    "confined (actor_TenantID actor) (handleAPIKeyRoutes (mem_Router K cfg) req)"
    unfolding handleApps_def handleAppRoutes_def handleDeploymentRoutes_def handleAPIKeys_def handleAPIKeyRoutes_def
    by (intro confined_if confined_list confined_respond ops)+
  with h ops show ?thesis
    unfolding tenantRoutes_def by auto
qed

section \<open>A whole request\<close>

lemma refusal_belongs:
  assumes "refusal rw"
  shows "list_all (belongs t) (rw_Body rw)" and "\<not> list_ex (clashes t v) (rw_Body rw)"
proof -
  have b: "belongs t b \<and> \<not> clashes t v b" if "b \<in> set (rw_Body rw)" for b
    using assms that by (cases b) (auto simp: refusal_def)
  then show "list_all (belongs t) (rw_Body rw)" by (auto simp: list_all_iff)
  show "\<not> list_ex (clashes t v) (rw_Body rw)" using b by (auto simp: list_ex_iff)
qed

text \<open>What the multiplexer does with a request under \<^verbatim>\<open>/v1/\<close>, in the world where the actor has signed in.\<close>

lemma mux_confined:
  fixes R :: "('c, 'z) kube_world_scheme Router"
  assumes R: "R = mem_Router K cfg" and "\<not> headerAdmin req" and v1: "HasPrefix (rq_Path req) ''/v1/''" "\<not> HasPrefix (rq_Path req) ''/v1/auth/''"
    and ok: "ok_view (mem_abs w)" and s: "signingIn R req w = (Inr actor, w1)"
    and run: "serveMux (routes R) req (freshWriter, w) = (out, (rw, w'))"
  shows "list_all (belongs (actor_TenantID actor)) (rw_Body rw) \<and>
    safe_step (actor_TenantID actor) (list_ex (clashes (actor_TenantID actor) (mem_abs w)) (rw_Body rw)) w w'"
proof (cases "route (routes R) req")
  case (Moved x)
  with run ok show ?thesis
    by (auto simp: serveMux_def respond_def Body_writers safe_step_core freshWriter_def)
next
  case Missing
  with run ok show ?thesis
    by (auto simp: serveMux_def respond_def Body_writers safe_step_core freshWriter_def)
next
  case (Found p h)
  then obtain g where h: "h = guarded R g" "(p, g) \<in> set (tenantRoutes R @ adminRoutes R)"
    by (rule route_v1 [OF _ v1])
  let ?rw = "setHeader ''X-Request-ID'' (fst (requestID req w)) freshWriter"
  let ?req = "req\<lparr>rq_requestID := fst (requestID req w), rq_actor := Some actor\<rparr>"
  have u: "unsent ?rw" by (rule unsent_requestID [OF unsent_fresh])
  have c0: "core (snd (requestID req w)) = core w" by (rule core_env [OF more_requestID])
  have c: "core w1 = core w"
    using keepingD [OF harmless_requestActor] s c0 by (fastforce simp: R)
  have ok1: "ok_view (mem_abs w1)" and v: "mem_abs w1 = mem_abs w" using ok core_plane [OF c] by simp_all
  have g: "g ?req (?rw, w1) = (out, (rw, w'))"
    using run s by (simp add: mux_Found [OF Found] h(1) guarded_run Let_def)
  from h(2) consider "(p, g) \<in> set (tenantRoutes R)" | "(p, g) \<in> set (adminRoutes R)" by auto
  then show ?thesis
  proof cases
    case 1
    have "confined (actor_TenantID actor) (g ?req)" by (rule tenant_handlers_confined [OF _ 1 [unfolded R]]) simp
    from this [unfolded confined_def, rule_format, OF _ ok1 g] u v safe_step_before [OF c] show ?thesis
      by (simp add: unsent_def)
  next
    case 2
    have "\<not> actor_IsPlatformAdmin actor" using requestActor_plain [OF s] assms(2) by simp
    then have "refuses_req (g ?req)" by (intro admin_handlers_refuse [OF _ _ 2, where actor = actor]) simp_all
    then obtain rw' where "g ?req (?rw, w1) = (Inr (), (rw', w1))" "refusal rw'"
      using u unfolding refuses_req_def by blast
    with g have "w' = w1" "refusal rw" by simp_all
    with refusal_belongs ok safe_step_core [OF c ok] show ?thesis by blast
  qed
qed

lemma mux_denied:
  fixes R :: "('c, 'z) kube_world_scheme Router"
  assumes R: "R = mem_Router K cfg" and v1: "HasPrefix (rq_Path req) ''/v1/''" "\<not> HasPrefix (rq_Path req) ''/v1/auth/''"
    and s: "signingIn R req w = (Inl e, w1)" and run: "serveMux (routes R) req (freshWriter, w) = (out, (rw, w'))"
  shows "(case out of Inl _ \<Rightarrow> unsent rw | Inr _ \<Rightarrow> refusal rw) \<and> core w' = core w"
proof (cases "route (routes R) req")
  case (Found p h)
  then obtain g where h: "h = guarded R g" by (rule route_v1 [OF _ v1])
  let ?rw = "setHeader ''X-Request-ID'' (fst (requestID req w)) freshWriter"
  have u: "unsent ?rw" by (rule unsent_requestID [OF unsent_fresh])
  have "core (snd (requestID req w)) = core w" by (rule core_env [OF more_requestID])
  then have c: "core w1 = core w"
    using keepingD [OF harmless_requestActor] s by (fastforce simp: R)
  from run s c u show ?thesis
    by (auto simp: mux_Found [OF Found] h guarded_run Let_def refusal_writers split: if_splits)
qed (use run in \<open>auto simp: serveMux_def respond_def refusal_writers unsent_fresh\<close>)

lemma request_confined:
  fixes w :: "('c, 'z) kube_world_scheme"
  assumes "ok_view (mem_abs w)" and "\<not> headerAdmin req"
    and "HasPrefix (rq_Path req) ''/v1/''" and "\<not> HasPrefix (rq_Path req) ''/v1/auth/''"
    and "serve (mem_Router K cfg) req w = (rw, w')"
  shows "case fst (requestActor (st_sha cfg) (st_devAuth cfg) (mem_AuthService (st_mediumClientID cfg)) req
      (snd (requestID req (snd (Now w))))) of
    Inl e \<Rightarrow> refusal rw \<and> mem_abs w' = mem_abs w \<and> mq_bag w' = mq_bag w
  | Inr actor \<Rightarrow>
      list_all (belongs (actor_TenantID actor)) (rw_Body rw) \<and> ok_view (mem_abs w') \<and> grows (mq_bag w) (mq_bag w') \<and>
      (others_kept (actor_TenantID actor) (mem_abs w) (mem_abs w') \<or> list_ex (clashes (actor_TenantID actor) (mem_abs w)) (rw_Body rw))"
proof -
  define R where "R = (mem_Router K cfg :: ('c, 'z) kube_world_scheme Router)"
  let ?w = "snd (Now w)"
  have n: "mem_abs ?w = mem_abs w" "mq_bag ?w = mq_bag w" and n': "\<And>w :: ('c, 'z) kube_world_scheme. core (snd (Now w)) = core w"
    using core_env [OF more_Now] core_plane by blast+
  obtain out rw1 w1 where m: "serveMux (routes R) req (freshWriter, ?w) = (out, (rw1, w1))" by (metis surj_pair)
  have sv: "(rw, w') = (case out of Inl e \<Rightarrow> (http_Error ''{\"error\":\"internal server error\"}'' 500 rw1, w1) | Inr _ \<Rightarrow> (rw1, snd (Now w1)))"
    using serve_mux [OF m] assms(5) by (simp add: R_def)
  then have c: "core w' = core w1" using n' by (cases out) auto
  have body: "list_all (belongs t) (rw_Body rw) = list_all (belongs t) (rw_Body rw1)"
    "list_ex (clashes t v) (rw_Body rw) = list_ex (clashes t v) (rw_Body rw1)" for t v
    using sv by (cases out; simp add: Body_writers)+
  obtain ra w2 where s: "signingIn R req ?w = (ra, w2)" by fastforce
  have ra: "fst (requestActor (st_sha cfg) (st_devAuth cfg) (mem_AuthService (st_mediumClientID cfg)) req (snd (requestID req ?w))) = ra"
    using s by (simp add: R_def)
  have "case ra of
    Inl e \<Rightarrow> refusal rw \<and> mem_abs w' = mem_abs w \<and> mq_bag w' = mq_bag w
  | Inr actor \<Rightarrow>
      list_all (belongs (actor_TenantID actor)) (rw_Body rw) \<and> ok_view (mem_abs w') \<and> grows (mq_bag w) (mq_bag w') \<and>
      (others_kept (actor_TenantID actor) (mem_abs w) (mem_abs w') \<or> list_ex (clashes (actor_TenantID actor) (mem_abs w)) (rw_Body rw))"
  proof (cases ra)
    case (Inr actor)
    from mux_confined [OF R_def assms(2-4) _ s [unfolded Inr] m] assms(1) n body core_plane [OF c] Inr show ?thesis
      by (auto simp: safe_step_def)
  next
    case (Inl e)
    have "(case out of Inl _ \<Rightarrow> unsent rw1 | Inr _ \<Rightarrow> refusal rw1) \<and> core w1 = core ?w"
      using mux_denied [OF R_def assms(3,4) s [unfolded Inl] m] .
    with sv Inl n core_plane [of w1 ?w] core_plane [OF c] show ?thesis
      by (cases out) (auto simp: refusal_writers(5))
  qed
  then show ?thesis by (simp only: ra)
qed


section \<open>Concrete requests\<close>

definition demo_settings :: settings where
  "demo_settings =
     \<lparr>st_devAuth = False, st_ingressHost = ''localhost'', st_mediumClientID = [], st_sha = demo_sha,
      st_decode = \<lparr>dec_CreateApp = (\<lambda>_ _. Inl (ErrText ''EOF'')), dec_UpdateApp = (\<lambda>_ _. Inl (ErrText ''EOF'')),
        dec_APIKeyCreate = (\<lambda>s _. Inr \<lparr>kcr_Name = s\<rparr>), dec_AdminUser = (\<lambda>_ _. Inl (ErrText ''EOF'')),
        dec_AdminDeploy = (\<lambda>_ _. Inl (ErrText ''EOF''))\<rparr>,
      st_build = (''dev'', ''none'', ''unknown''), st_file = (\<lambda>_. None)\<rparr>"

definition demo_request :: "string \<Rightarrow> (string \<times> string) list \<Rightarrow> request" where
  "demo_request path hs =
     \<lparr>rq_Method = ''GET'', rq_Path = path, rq_Query = (\<lambda>_. []),
      rq_Header = (\<lambda>k. case map_of hs k of None \<Rightarrow> [] | Some v \<Rightarrow> v), rq_Body = [], rq_actor = None, rq_requestID = []\<rparr>"

abbreviation demo_site :: "((string \<times> string) \<times> KIngress) list kube_world" where
  "demo_site \<equiv> on_cluster (demo_plane DeploymentStatusQueued 0) []"

lemma demo_site_ok: "ok_view (mem_abs demo_site)" "wf_store (store demo_site)"
  using demo_plane_ok [of DeploymentStatusQueued 0]
  by (simp_all add: on_cluster_def store_world.defs mem_abs_def demo_plane_def demo_store_world_def event_list_def)


theorem admin_routes_guarded_witness:
  "refusal (fst (serve (mem_Router demo_kube demo_settings)
     (demo_request ''/v1/admin/instances'' [(''X-User-Email'', ''eve@x'')]) demo_site))"
proof -
  let ?req = "demo_request ''/v1/admin/instances'' [(''X-User-Email'', ''eve@x'')]"
  have "\<not> headerAdmin ?req" "HasPrefix (rq_Path ?req) ''/v1/admin/''" "rq_Path ?req \<noteq> ''/v1/admin/audit-logs''"
    by code_simp+
  from admin_routes_guarded [OF this, where r = "mem_Router demo_kube demo_settings" and w = demo_site]
  show ?thesis by (auto split: prod.splits)
qed


section \<open>Who is a platform administrator\<close>

lemma EnsureActor_succeeds:
  assumes "wf_store (store w)" and "email \<noteq> []"
  shows "\<exists>actor w'. EnsureActor (mem_AuthService cid) email name w = (Inr actor, w') \<and> apps (store w') = apps (store w)"
proof -
  from Upsert_result [OF assms(1)] obtain u w1 where up: "mem_UpsertByEmail email name w = (Inr u, w1)" by blast
  have "\<exists>actor w'. EnsureActor (mem_AuthService cid) email name w = (Inr actor, w')"
    using EnsureActor_mem [OF up assms(2), of cid] by (cases "user_DefaultTenantID u = []") blast+
  then show ?thesis
    using keepingD [OF harmless_EnsureActor] by (fastforce simp: core_def)
qed

lemma route_instances:
  assumes "rq_Path req = ''/v1/admin/instances''"
  shows "route (routes r) req = Found ''/v1/admin/instances'' (guarded r (handleAdminInstances r))"
proof -
  have "cleanPath ''/v1/admin/instances'' = ''/v1/admin/instances''" by code_simp
  moreover have "mux_match (routes r) ''/v1/admin/instances'' = Some (''/v1/admin/instances'', guarded r (handleAdminInstances r))"
    by (simp add: mux_match_def routes_def publicRoutes_def tenantRoutes_def adminRoutes_def)
  ultimately show ?thesis
    using assms by (simp add: route_def)
qed

text \<open>
  C13: A header makes anyone a platform administrator. Whether header sign-in for development is on or off, a request
  for the instances of the platform with no API key, any email address and \<^verbatim>\<open>X-Platform-Admin: true\<close> is answered with 200 and every app of every
  tenant, configuration included.
\<close>

theorem admin_by_header:
  fixes w :: "('c, 'z) kube_world_scheme"
  assumes "wf_store (store w)" and "TrimSpace (rq_Header req ''X-API-Key'') = []"
    and "TrimSpace (rq_Header req ''X-User-Email'') \<noteq> []" and "headerAdmin req" and "rq_Path req = ''/v1/admin/instances''"
  shows "\<exists>items hs. rw_Sent (fst (serve (mem_Router K cfg) req w)) = Some (200, hs) \<and>
    rw_Body (fst (serve (mem_Router K cfg) req w)) = [BInstances items] \<and>
    mset (map inst_App items) = mset (map snd (apps (store w)))"
proof -
  define R where "R = (mem_Router K cfg :: ('c, 'z) kube_world_scheme Router)"
  let ?w = "snd (requestID req (snd (Now w)))" and ?rw = "setHeader ''X-Request-ID'' (fst (requestID req (snd (Now w)))) freshWriter"
  have st: "store ?w = store w" using store_more [of ?w w] by (simp add: more_requestID more_Now)
  obtain actor w1 where en: "EnsureActor (mem_AuthService (st_mediumClientID cfg)) (TrimSpace (rq_Header req ''X-User-Email''))
      (TrimSpace (rq_Header req ''X-User-Name'')) ?w = (Inr actor, w1)" and ap: "apps (store w1) = apps (store w)"
    using EnsureActor_succeeds [of ?w] assms(1,3) st by metis
  have s: "signingIn R req (snd (Now w)) = (Inr (actor\<lparr>actor_IsPlatformAdmin := True\<rparr>), w1)"
    using assms(2-4) en by (simp add: R_def requestActor_def requestEmail_def Let_def bindE_def ret_def asAdmin_def)
  obtain items w2 where l: "mem_ListAllInstances w1 = (Inr items, w2)" "mset (map inst_App items) = mset (map snd (apps (store w1)))"
    using ListAllInstances_latest by metis
  have listed: "handleAdminInstances R req' (rw, w1) = (Inr (), (writeJSON 200 (BInstances items) rw, w2))"
    if "rq_actor req' = Some (actor\<lparr>actor_IsPlatformAdmin := True\<rparr>)" for req' rw
    unfolding handleAdminInstances_def actor_known [OF that]
    using l(1) by (simp add: admin_ListAllInstances_def mem_admin_def R_def call_def respond_def)
  have "serveMux (routes R) req (freshWriter, snd (Now w)) = (Inr (), (writeJSON 200 (BInstances items) ?rw, w2))"
    using listed [of _ ?rw] s by (simp add: mux_Found [OF route_instances [OF assms(5)]] guarded_run Let_def)
  from serve_mux [OF this] have "fst (serve R req w) = writeJSON 200 (BInstances items) ?rw" by simp
  moreover have "unsent ?rw" by (rule unsent_requestID [OF unsent_fresh])
  ultimately show ?thesis
    using l(2) ap by (simp add: R_def [symmetric] writer_defs unsent_def)
qed

theorem admin_by_header_witness:
  "\<exists>items. rw_Body (fst (serve (mem_Router demo_kube demo_settings)
     (demo_request ''/v1/admin/instances'' [(''X-User-Email'', ''eve@x''), (''X-Platform-Admin'', ''true'')]) demo_site)) = [BInstances items] \<and>
     map inst_App items = [demo_app]"
proof -
  let ?req = "demo_request ''/v1/admin/instances'' [(''X-User-Email'', ''eve@x''), (''X-Platform-Admin'', ''true'')]"
  have h: "TrimSpace (rq_Header ?req ''X-API-Key'') = []" "TrimSpace (rq_Header ?req ''X-User-Email'') \<noteq> []"
    by code_simp+
  have h2: "headerAdmin ?req" by code_simp
  have h3: "rq_Path ?req = ''/v1/admin/instances''" by (simp add: demo_request_def)
  have a: "mset (map snd (apps (store demo_site))) = {#demo_app#}"
    by (simp add: on_cluster_def store_world.defs demo_plane_def demo_store_world_def NewState_def)
  show ?thesis
    using admin_by_header [OF demo_site_ok(2) h h2 h3, of demo_kube demo_settings] unfolding a mset_single_iff
    by (elim exE conjE) (intro exI conjI)
qed

end
