(* ===== verification/RedisResp.thy ===== *)
theory RedisResp
  imports Domain
begin

text \<open>
  The protocol of \<^verbatim>\<open>internal/queue/redis/client.go\<close>: commands are written as arrays of bulk strings, replies are read line
  by line. A reader is what the code uses of \<^verbatim>\<open>bufio.Reader\<close>: \<^verbatim>\<open>ReadString('\n')\<close> and \<^verbatim>\<open>io.ReadFull\<close> of a number of
  bytes, as calls on an arbitrary world. \<open>bytes\<close> is the reader of a finite stream of bytes.
\<close>

record 'w reader =
  rd_ReadString :: "(string, 'w) op"
  rd_ReadFull :: "nat \<Rightarrow> (string, 'w) op"

definition crlf :: string where
  "crlf = [CHR 0x0D, CHR 0x0A]"

definition buildArray :: "string list \<Rightarrow> string" where
  "buildArray parts =
     ''*'' @ dec (length parts) @ crlf @
     concat (map (\<lambda>part. ''$'' @ dec (length part) @ crlf @ part @ crlf) parts)"

definition readLine :: "'w reader \<Rightarrow> (string, 'w) op" where
  "readLine rd = bindE (rd_ReadString rd) (\<lambda>line. ret (TrimSuffix (TrimSuffix line [CHR 0x0A]) [CHR 0x0D]))"

definition errNilBulkString :: error where
  "errNilBulkString = ErrText ''nil bulk string''"

text \<open>\<^verbatim>\<open>make([]byte, size+2)\<close> panics when the sum leaves the range of \<^verbatim>\<open>int\<close>.\<close>

definition readBulkString :: "'w reader \<Rightarrow> (string, 'w) op" where
  "readBulkString rd =
     bindE (readLine rd) (\<lambda>header.
       if \<not> HasPrefix header ''$'' then fail (ErrText (''unexpected bulk string header: '' @ header))
       else case Atoi (TrimPrefix header ''$'') of
              Inl e \<Rightarrow> fail (Errorf ''parse bulk string size'' e)
            | Inr n \<Rightarrow>
                if n < 0 then fail errNilBulkString
                else if wrap64 (n + 2) < 0 then fail (Panic ''runtime error: makeslice: len out of range'')
                else catchE (rd_ReadFull rd (nat (n + 2))) (\<lambda>e. fail (Errorf ''read bulk string body'' e))
                       (\<lambda>buf. ret (take (nat n) buf)))"

fun readItems :: "'w reader \<Rightarrow> nat \<Rightarrow> (string list, 'w) op" where
  "readItems rd 0 = ret []"
| "readItems rd (Suc n) = bindE (readBulkString rd) (\<lambda>item. bindE (readItems rd n) (\<lambda>items. ret (item # items)))"

definition readBulkStringArray :: "'w reader \<Rightarrow> (string list, 'w) op" where
  "readBulkStringArray rd =
     bindE (readLine rd) (\<lambda>header.
       if \<not> HasPrefix header ''*'' then fail (ErrText (''unexpected array header: '' @ header))
       else case Atoi (TrimPrefix header ''*'') of
              Inl e \<Rightarrow> fail (Errorf ''parse array size'' e)
            | Inr n \<Rightarrow> if n < 0 then ret [] else readItems rd (nat n))"

definition redisError :: "string \<Rightarrow> error" where
  "redisError line = ErrText (''redis error: '' @ TrimPrefix line ''-'')"

definition readInteger :: "'w reader \<Rightarrow> (int, 'w) op" where
  "readInteger rd =
     bindE (readLine rd) (\<lambda>line.
       if HasPrefix line ''-'' then fail (redisError line)
       else if \<not> HasPrefix line '':'' then fail (ErrText (''unexpected integer response: '' @ line))
       else case Atoi (TrimPrefix line '':'') of
              Inl e \<Rightarrow> fail (Errorf ''parse integer response'' e)
            | Inr value \<Rightarrow> ret value)"

section \<open>Reading what was written\<close>

definition EOF :: error where "EOF = ErrText ''EOF''"

definition ErrUnexpectedEOF :: error where "ErrUnexpectedEOF = ErrText ''unexpected EOF''"

definition bytes :: "string reader" where
  "bytes =
     \<lparr>rd_ReadString = (\<lambda>s.
        if CHR 0x0A \<in> set s
        then (Inr (takeWhile (\<lambda>c. c \<noteq> CHR 0x0A) s @ [CHR 0x0A]), tl (dropWhile (\<lambda>c. c \<noteq> CHR 0x0A) s))
        else (Inl EOF, [])),
      rd_ReadFull = (\<lambda>n s.
        if n \<le> length s then (Inr (take n s), drop n s)
        else (Inl (if s = [] then EOF else ErrUnexpectedEOF), []))\<rparr>"

lemma TrimSuffix_last: "TrimSuffix (s @ [c]) [c] = s"
  by (simp add: TrimSuffix_def HasPrefix_def)

text \<open>A line without control characters comes back without its line end, and the stream stands behind it.\<close>

lemma readLine_line:
  assumes "CHR 0x0A \<notin> set line"
  shows "readLine bytes (line @ crlf @ rest) = (Inr line, rest)"
proof -
  have tw: "takeWhile (\<lambda>c. c \<noteq> CHR 0x0A) (line @ crlf @ rest) = line @ [CHR 0x0D]"
    and dw: "dropWhile (\<lambda>c. c \<noteq> CHR 0x0A) (line @ crlf @ rest) = CHR 0x0A # rest"
    using assms by (auto simp: crlf_def takeWhile_append dropWhile_append)
  have "rd_ReadString bytes (line @ crlf @ rest) = (Inr (line @ [CHR 0x0D] @ [CHR 0x0A]), rest)"
    by (simp add: bytes_def tw dw) (simp add: crlf_def)
  then show ?thesis
    using TrimSuffix_last [of "line @ [CHR 0x0D]" "CHR 0x0A"] TrimSuffix_last [of line "CHR 0x0D"]
    by (simp add: readLine_def ret_def)
qed

lemma dec_no_newline: "CHR 0x0A \<notin> set (dec n)"
  by simp

lemma readBulkString_bulk:
  assumes "int (length part) + 2 < 2 ^ 63"
  shows "readBulkString bytes (''$'' @ dec (length part) @ crlf @ part @ crlf @ rest) = (Inr part, rest)"
proof -
  have line: "readLine bytes (''$'' @ dec (length part) @ crlf @ part @ crlf @ rest) =
      (Inr (''$'' @ dec (length part)), part @ crlf @ rest)"
    using readLine_line [of "''$'' @ dec (length part)" "part @ crlf @ rest"] by simp
  have size: "Atoi (dec (length part)) = Inr (int (length part))"
    by (rule Atoi_dec) (use assms in simp)
  have len: "length crlf = 2"
    by (simp add: crlf_def)
  have full: "rd_ReadFull bytes (nat (int (length part) + 2)) (part @ crlf @ rest) = (Inr (part @ crlf), rest)"
    by (simp add: bytes_def len nat_add_distrib)
  have wrap: "wrap64 (int (length part) + 2) = int (length part) + 2"
    by (rule wrap64_id) (use assms in simp)
  show ?thesis
    unfolding readBulkString_def bindE_def line
    by (simp add: HasPrefix_def TrimPrefix_def size wrap catchE_def full ret_def)
qed

lemma readItems_items:
  "\<forall>part \<in> set parts. int (length part) + 2 < 2 ^ 63 \<Longrightarrow>
   readItems bytes (length parts) (concat (map (\<lambda>part. ''$'' @ dec (length part) @ crlf @ part @ crlf) parts) @ rest) =
     (Inr parts, rest)"
proof (induction parts)
  case (Cons p ps)
  then have "readBulkString bytes (''$'' @ dec (length p) @ crlf @ p @ crlf @
      concat (map (\<lambda>part. ''$'' @ dec (length part) @ crlf @ part @ crlf) ps) @ rest) =
      (Inr p, concat (map (\<lambda>part. ''$'' @ dec (length part) @ crlf @ part @ crlf) ps) @ rest)"
    by (intro readBulkString_bulk) simp
  with Cons show ?case
    by (simp add: ret_def)
qed (simp add: ret_def)

text \<open>
  C35: The client's reader inverts its writer. Whatever bytes the parts hold, line ends and binary data included, the array
  written for a command is read back as exactly these parts, and the stream then stands at the byte behind
  it, so a payload cannot smuggle a second command or reply into the stream. The only bound is that a length
  fits a 64-bit integer.
\<close>

theorem resp_round_trip:
  assumes "int (length parts) < 2 ^ 63" and "\<forall>part \<in> set parts. int (length part) + 2 < 2 ^ 63"
  shows "readBulkStringArray bytes (buildArray parts @ rest) = (Inr parts, rest)"
proof -
  let ?body = "concat (map (\<lambda>part. ''$'' @ dec (length part) @ crlf @ part @ crlf) parts) @ rest"
  have line: "readLine bytes (buildArray parts @ rest) = (Inr (''*'' @ dec (length parts)), ?body)"
    using readLine_line [of "''*'' @ dec (length parts)" ?body] by (simp add: buildArray_def)
  have "Atoi (dec (length parts)) = Inr (int (length parts))"
    by (rule Atoi_dec) (use assms in simp)
  then show ?thesis
    using readItems_items [OF assms(2), of rest]
    unfolding readBulkStringArray_def bindE_def line by (simp add: HasPrefix_def TrimPrefix_def)
qed

theorem resp_round_trip_witness:
  "readBulkStringArray bytes (buildArray [''RPUSH'', ''clawflux:jobs'', [CHR 0x0D, CHR 0x0A, CHR ''+'']] @ ''+OK'') =
     (Inr [''RPUSH'', ''clawflux:jobs'', [CHR 0x0D, CHR 0x0A, CHR ''+'']], ''+OK'')"
  by (rule resp_round_trip) simp_all

end
