(* ===== verification/RedisClient.thy ===== *)
theory RedisClient
  imports RedisResp Idgen
begin

text \<open>
  \<^verbatim>\<open>internal/queue/redis/client.go\<close>: the connection pool and the job queue on a Redis server. The network with the server
  behind it is the parameter \<open>network\<close>: dialling, writing, reading a line or a number of bytes and closing, over an
  arbitrary state \<open>'n\<close> and with arbitrary results. The JSON encoding of jobs and dead letters is the parameter
  \<open>codec\<close>. Deadlines set on a connection are not modelled: a call that runs into one fails. The pool is used
  by one call at a time here; its mutex protects it between calls. The count that \<^verbatim>\<open>PromoteDue\<close> and
  \<^verbatim>\<open>ReclaimStale\<close> return beside an error is dropped, as every caller drops it.
\<close>

section \<open>Connections and pool\<close>

record 'n network =
  nw_Dial :: "string \<Rightarrow> (nat, 'n) op"
  nw_Write :: "nat \<Rightarrow> string \<Rightarrow> (unit, 'n) op"
  nw_ReadString :: "nat \<Rightarrow> (string, 'n) op"
  nw_ReadFull :: "nat \<Rightarrow> nat \<Rightarrow> (string, 'n) op"
  nw_Close :: "nat \<Rightarrow> 'n \<Rightarrow> 'n"
  nw_Timeout :: "error \<Rightarrow> bool"

record codec =
  marshalJob :: "Job \<Rightarrow> error + string"
  unmarshalJob :: "string \<Rightarrow> error + Job"
  marshalDead :: "DeadLetterJob \<Rightarrow> error + string"
  unmarshalDead :: "string \<Rightarrow> error + DeadLetterJob"

record conn =
  cn_handle :: nat
  cn_createdAt :: time

record pool =
  p_addr :: string
  p_password :: string
  p_idle :: "conn list"
  p_size :: int
  p_maxSize :: int
  p_idleTimeout :: duration

record 'n redis_world = env +
  pool_st :: pool
  net_st :: 'n

record 'n RClient =
  rc_network :: "'n network"
  rc_codec :: codec
  rc_queue :: string

definition newPool :: "string \<Rightarrow> string \<Rightarrow> int \<Rightarrow> pool" where
  "newPool addr password maxSize =
     \<lparr>p_addr = addr, p_password = password, p_idle = [], p_size = 0, p_maxSize = maxSize, p_idleTimeout = 60 * second\<rparr>"

definition onNet :: "('b, 'n) op \<Rightarrow> ('b, ('n, 'z) redis_world_scheme) op" where
  "onNet f w = (case f (net_st w) of (r, n) \<Rightarrow> (r, w\<lparr>net_st := n\<rparr>))"

definition rconn :: "'n RClient \<Rightarrow> conn \<Rightarrow> ('n, 'z) redis_world_scheme reader" where
  "rconn C c =
     \<lparr>rd_ReadString = onNet (nw_ReadString (rc_network C) (cn_handle c)),
      rd_ReadFull = (\<lambda>n. onNet (nw_ReadFull (rc_network C) (cn_handle c) n))\<rparr>"

definition connWrite :: "'n RClient \<Rightarrow> conn \<Rightarrow> string list \<Rightarrow> (unit, ('n, 'z) redis_world_scheme) op" where
  "connWrite C c args = onNet (nw_Write (rc_network C) (cn_handle c) (buildArray args))"

definition connClose :: "'n RClient \<Rightarrow> conn \<Rightarrow> ('n, 'z) redis_world_scheme \<Rightarrow> ('n, 'z) redis_world_scheme" where
  "connClose C c w = w\<lparr>net_st := nw_Close (rc_network C) (cn_handle c) (net_st w)\<rparr>"

definition poolPut :: "conn \<Rightarrow> ('n, 'z) redis_world_scheme \<Rightarrow> ('n, 'z) redis_world_scheme" where
  "poolPut c w = w\<lparr>pool_st := (pool_st w)\<lparr>p_idle := p_idle (pool_st w) @ [c]\<rparr>\<rparr>"

definition poolDiscard :: "'n RClient \<Rightarrow> conn \<Rightarrow> ('n, 'z) redis_world_scheme \<Rightarrow> ('n, 'z) redis_world_scheme" where
  "poolDiscard C c w =
     (let w = connClose C c w in w\<lparr>pool_st := (pool_st w)\<lparr>p_size := p_size (pool_st w) - 1\<rparr>\<rparr>)"

definition sendCommand :: "'n RClient \<Rightarrow> conn \<Rightarrow> string list \<Rightarrow> (unit, ('n, 'z) redis_world_scheme) op" where
  "sendCommand C c args =
     bindE (connWrite C c args) (\<lambda>_.
     bindE (readLine (rconn C c)) (\<lambda>line. if HasPrefix line ''-'' then fail (redisError line) else ret ()))"

text \<open>What follows a dial that gave the connection \<open>nc\<close>: the conn is made and, with a password, authenticated.\<close>

definition dialAuth :: "'n RClient \<Rightarrow> string \<Rightarrow> nat \<Rightarrow> (conn, ('n, 'z) redis_world_scheme) op" where
  "dialAuth C password nc w =
     (let (now, w) = Now w;
          c = \<lparr>cn_handle = nc, cn_createdAt = now\<rparr>
      in if password \<noteq> []
         then catchE (sendCommand C c [''AUTH'', password])
                (\<lambda>e w. (Inl (Errorf ''redis AUTH'' e), connClose C c w)) (\<lambda>_. ret c) w
         else (Inr c, w))"

definition dial :: "'n RClient \<Rightarrow> (conn, ('n, 'z) redis_world_scheme) op" where
  "dial C w =
     (let p = pool_st w
      in catchE (onNet (nw_Dial (rc_network C) (p_addr p)))
           (\<lambda>e. fail (Errorf (''redis dial '' @ p_addr p) e))
           (dialAuth C (p_password p)) w)"

text \<open>The loop over the idle connections, last first; the list is the idle list reversed.\<close>

fun takeIdle :: "'n RClient \<Rightarrow> conn list \<Rightarrow> ('n, 'z) redis_world_scheme \<Rightarrow> conn option \<times> ('n, 'z) redis_world_scheme" where
  "takeIdle C [] w = (None, w)"
| "takeIdle C (c # rest) w =
     (let w = w\<lparr>pool_st := (pool_st w)\<lparr>p_idle := rev rest\<rparr>\<rparr>;
          (now, w) = Now w
      in if now - cn_createdAt c < p_idleTimeout (pool_st w) then (Some c, w)
         else takeIdle C rest (poolDiscard C c w))"

definition poolGet :: "'n RClient \<Rightarrow> (conn, ('n, 'z) redis_world_scheme) op" where
  "poolGet C w =
     (case takeIdle C (rev (p_idle (pool_st w))) w of
        (Some c, w) \<Rightarrow> (Inr c, w)
      | (None, w) \<Rightarrow>
          if p_size (pool_st w) \<ge> p_maxSize (pool_st w)
          then (Inl (ErrText (''redis pool exhausted (max '' @ Itoa (p_maxSize (pool_st w)) @ '')'')), w)
          else dial C (w\<lparr>pool_st := (pool_st w)\<lparr>p_size := p_size (pool_st w) + 1\<rparr>\<rparr>))"

section \<open>One exchange\<close>

text \<open>\<^verbatim>\<open>if err := f(); err != nil { c.pool.discard(rc); return fmt.Errorf("<text>: %w", err) }\<close>\<close>

definition orDiscard ::
  "'n RClient \<Rightarrow> conn \<Rightarrow> string \<Rightarrow> ('a, ('n, 'z) redis_world_scheme) op \<Rightarrow> ('a \<Rightarrow> ('b, ('n, 'z) redis_world_scheme) op)
    \<Rightarrow> ('b, ('n, 'z) redis_world_scheme) op" where
  "orDiscard C c text f k = catchE f (\<lambda>e w. (Inl (Errorf text e), poolDiscard C c w)) k"

text \<open>\<^verbatim>\<open>c.pool.discard(rc); return err\<close> and \<^verbatim>\<open>c.pool.put(rc); return x\<close>\<close>

definition failDiscard :: "'n RClient \<Rightarrow> conn \<Rightarrow> error \<Rightarrow> ('b, ('n, 'z) redis_world_scheme) op" where
  "failDiscard C c e w = (Inl e, poolDiscard C c w)"

definition givePut :: "conn \<Rightarrow> error + 'b \<Rightarrow> ('b, ('n, 'z) redis_world_scheme) op" where
  "givePut c r w = (r, poolPut c w)"

definition writeIntegerReply :: "'n RClient \<Rightarrow> conn \<Rightarrow> string list \<Rightarrow> (int, ('n, 'z) redis_world_scheme) op" where
  "writeIntegerReply C c args = bindE (connWrite C c args) (\<lambda>_. readInteger (rconn C c))"

definition writeExpectInteger :: "'n RClient \<Rightarrow> conn \<Rightarrow> string list \<Rightarrow> (unit, ('n, 'z) redis_world_scheme) op" where
  "writeExpectInteger C c args = bindE (writeIntegerReply C c args) (\<lambda>_. ret ())"

definition integerReply :: "'n RClient \<Rightarrow> string list \<Rightarrow> (int, ('n, 'z) redis_world_scheme) op" where
  "integerReply C args =
     bindE (poolGet C) (\<lambda>rc.
     orDiscard C rc (''redis '' @ hd args @ '' write'') (connWrite C rc args) (\<lambda>_.
     orDiscard C rc (''redis '' @ hd args @ '' read'') (readInteger (rconn C rc)) (\<lambda>value.
     givePut rc (Inr value))))"

definition withIntegerCommand :: "'n RClient \<Rightarrow> string list \<Rightarrow> (unit, ('n, 'z) redis_world_scheme) op" where
  "withIntegerCommand C args = bindE (integerReply C args) (\<lambda>_. ret ())"

definition readList :: "'n RClient \<Rightarrow> string \<Rightarrow> int \<Rightarrow> int \<Rightarrow> (string list, ('n, 'z) redis_world_scheme) op" where
  "readList C key start stop =
     bindE (poolGet C) (\<lambda>rc.
     orDiscard C rc ''redis LRANGE write'' (connWrite C rc [''LRANGE'', key, Itoa start, Itoa stop]) (\<lambda>_.
     orDiscard C rc ''redis LRANGE read'' (readBulkStringArray (rconn C rc)) (\<lambda>values.
     givePut rc (Inr values))))"

section \<open>The queue\<close>

definition processingQueue :: "'n RClient \<Rightarrow> string" where
  "processingQueue C = rc_queue C @ '':processing''"

definition delayedQueue :: "'n RClient \<Rightarrow> string" where
  "delayedQueue C = rc_queue C @ '':delayed''"

definition deadLetterQueue :: "'n RClient \<Rightarrow> string" where
  "deadLetterQueue C = rc_queue C @ '':dead''"

text \<open>\<^verbatim>\<open>t.UnixMilli()\<close> as decimal text\<close>

definition unixMilli :: "time \<Rightarrow> string" where
  "unixMilli t = Itoa ((t - unixEpoch) div 1000000)"

definition rq_stamp :: "Job \<Rightarrow> 'a env_scheme \<Rightarrow> Job \<times> 'a env_scheme" where
  "rq_stamp job w =
     (let job = job\<lparr>job_LeasedAt := 0\<rparr>
      in if IsZero (job_CreatedAt job) then let (now, w) = Now w in (job\<lparr>job_CreatedAt := now\<rparr>, w) else (job, w))"

definition rq_available :: "Job \<Rightarrow> 'a env_scheme \<Rightarrow> Job \<times> 'a env_scheme" where
  "rq_available job w =
     (if IsZero (job_AvailableAt job) then let (now, w) = Now w in (job\<lparr>job_AvailableAt := now\<rparr>, w) else (job, w))"

definition rq_push :: "'n RClient \<Rightarrow> Job \<Rightarrow> (unit, ('n, 'z) redis_world_scheme) op" where
  "rq_push C job =
     (case marshalJob (rc_codec C) job of
        Inl e \<Rightarrow> fail (Errorf ''marshal job'' e)
      | Inr payload \<Rightarrow>
          bindE (poolGet C) (\<lambda>rc.
          orDiscard C rc ''redis RPUSH write'' (connWrite C rc [''RPUSH'', rc_queue C, payload]) (\<lambda>_.
          orDiscard C rc ''redis RPUSH read'' (readLine (rconn C rc)) (\<lambda>line.
          if HasPrefix line ''-'' then failDiscard C rc (redisError line)
          else givePut rc (Inr ())))))"

definition rq_Enqueue :: "'n RClient \<Rightarrow> Job \<Rightarrow> (unit, ('n, 'z) redis_world_scheme) op" where
  "rq_Enqueue C job w =
     (let (job, w) = rq_stamp job w in let (job, w) = rq_available job w in rq_push C job w)"

definition rq_Dequeue :: "'n RClient \<Rightarrow> (Job, ('n, 'z) redis_world_scheme) op" where
  "rq_Dequeue C =
     bindE (poolGet C) (\<lambda>rc.
     orDiscard C rc ''redis BRPOPLPUSH write''
       (connWrite C rc [''BRPOPLPUSH'', rc_queue C, processingQueue C, ''5'']) (\<lambda>_.
     catchE (readBulkString (rconn C rc))
       (\<lambda>err. if errors_Is err errNilBulkString then givePut rc (Inl DeadlineExceeded)
              else if nw_Timeout (rc_network C) err then failDiscard C rc DeadlineExceeded
              else failDiscard C rc (Errorf ''redis BRPOPLPUSH read'' err))
       (\<lambda>payload.
          case unmarshalJob (rc_codec C) payload of
            Inl e \<Rightarrow> givePut rc (Inl (Errorf ''unmarshal job'' e))
          | Inr job \<Rightarrow>
              (\<lambda>w. let (now, w) = Now w
                   in (let job = job\<lparr>job_LeasedAt := now\<rparr>
                       in case marshalJob (rc_codec C) job of
                            Inl e \<Rightarrow> failDiscard C rc (Errorf ''marshal leased job'' e)
                          | Inr leasedPayload \<Rightarrow>
                              if leasedPayload \<noteq> payload
                              then
                                orDiscard C rc ''redis LPUSH leased job''
                                  (writeExpectInteger C rc [''LPUSH'', processingQueue C, leasedPayload]) (\<lambda>_.
                                orDiscard C rc ''redis LREM original leased job''
                                  (writeExpectInteger C rc [''LREM'', processingQueue C, ''1'', payload]) (\<lambda>_.
                                givePut rc (Inr job)))
                              else givePut rc (Inr job)) w))))"

definition rq_Ack :: "'n RClient \<Rightarrow> Job \<Rightarrow> (unit, ('n, 'z) redis_world_scheme) op" where
  "rq_Ack C job =
     (case marshalJob (rc_codec C) job of
        Inl e \<Rightarrow> fail (Errorf ''marshal ack job'' e)
      | Inr payload \<Rightarrow> withIntegerCommand C [''LREM'', processingQueue C, ''1'', payload])"

definition rq_EnqueueAfter :: "'n RClient \<Rightarrow> Job \<Rightarrow> duration \<Rightarrow> (unit, ('n, 'z) redis_world_scheme) op" where
  "rq_EnqueueAfter C job delay w =
     (let (job, w) = rq_stamp job w in
      let (now, w) = Now w in
      (let job = job\<lparr>job_AvailableAt := now + delay\<rparr>
       in case marshalJob (rc_codec C) job of
            Inl e \<Rightarrow> fail (Errorf ''marshal delayed job'' e)
          | Inr payload \<Rightarrow>
              withIntegerCommand C [''ZADD'', delayedQueue C, unixMilli (job_AvailableAt job), payload]) w)"

fun promoteLoop :: "'n RClient \<Rightarrow> conn \<Rightarrow> string list \<Rightarrow> int \<Rightarrow> (int, ('n, 'z) redis_world_scheme) op" where
  "promoteLoop C rc [] promoted = givePut rc (Inr promoted)"
| "promoteLoop C rc (payload # payloads) promoted =
     orDiscard C rc ''redis ZREM delayed job'' (writeIntegerReply C rc [''ZREM'', delayedQueue C, payload]) (\<lambda>removed.
       if removed = 0 then promoteLoop C rc payloads promoted
       else
         orDiscard C rc ''redis RPUSH promoted job'' (writeExpectInteger C rc [''RPUSH'', rc_queue C, payload]) (\<lambda>_.
         promoteLoop C rc payloads (promoted + 1)))"

definition rq_PromoteDue :: "'n RClient \<Rightarrow> int \<Rightarrow> (int, ('n, 'z) redis_world_scheme) op" where
  "rq_PromoteDue C limit =
     (let limit = (if limit \<le> 0 then 100 else limit)
      in bindE (poolGet C) (\<lambda>rc w.
           let (now, w) = Now w
           in orDiscard C rc ''redis ZRANGEBYSCORE write''
                (connWrite C rc [''ZRANGEBYSCORE'', delayedQueue C, ''-inf'', unixMilli now, ''LIMIT'', ''0'', Itoa limit]) (\<lambda>_.
              orDiscard C rc ''redis ZRANGEBYSCORE read'' (readBulkStringArray (rconn C rc)) (\<lambda>payloads.
              promoteLoop C rc payloads 0)) w))"

fun rq_reclaimLoop :: "'n RClient \<Rightarrow> conn \<Rightarrow> time \<Rightarrow> string list \<Rightarrow> int \<Rightarrow> (int, ('n, 'z) redis_world_scheme) op" where
  "rq_reclaimLoop C rc cutoff [] reclaimed = givePut rc (Inr reclaimed)"
| "rq_reclaimLoop C rc cutoff (payload # payloads) reclaimed =
     (case unmarshalJob (rc_codec C) payload of
        Inl e \<Rightarrow> rq_reclaimLoop C rc cutoff payloads reclaimed
      | Inr job \<Rightarrow>
          if \<not> IsZero (job_LeasedAt job) \<and> cutoff < job_LeasedAt job
          then rq_reclaimLoop C rc cutoff payloads reclaimed
          else
            orDiscard C rc ''redis LREM stale job''
              (writeIntegerReply C rc [''LREM'', processingQueue C, ''1'', payload]) (\<lambda>removed.
            if removed = 0 then rq_reclaimLoop C rc cutoff payloads reclaimed
            else (\<lambda>w.
              let (now, w) = Now w
              in (case marshalJob (rc_codec C) (job\<lparr>job_LeasedAt := 0, job_AvailableAt := now\<rparr>) of
                    Inl e \<Rightarrow> failDiscard C rc (Errorf ''marshal reclaimed job'' e)
                  | Inr requeued \<Rightarrow>
                      orDiscard C rc ''redis RPUSH reclaimed job''
                        (writeExpectInteger C rc [''RPUSH'', rc_queue C, requeued]) (\<lambda>_.
                      rq_reclaimLoop C rc cutoff payloads (reclaimed + 1))) w)))"

definition rq_ReclaimStale :: "'n RClient \<Rightarrow> duration \<Rightarrow> int \<Rightarrow> (int, ('n, 'z) redis_world_scheme) op" where
  "rq_ReclaimStale C staleAfter limit =
     (let limit = (if limit \<le> 0 then 100 else limit);
          staleAfter = (if staleAfter \<le> 0 then 2 * 60 * second else staleAfter)
      in bindE (poolGet C) (\<lambda>rc.
         orDiscard C rc ''redis LRANGE processing write''
           (connWrite C rc [''LRANGE'', processingQueue C, ''0'', Itoa (limit - 1)]) (\<lambda>_.
         orDiscard C rc ''redis LRANGE processing read'' (readBulkStringArray (rconn C rc)) (\<lambda>payloads w.
           let (now, w) = Now w in rq_reclaimLoop C rc (now - staleAfter) payloads 0 w))))"

definition rq_failedAt :: "DeadLetterJob \<Rightarrow> 'a env_scheme \<Rightarrow> DeadLetterJob \<times> 'a env_scheme" where
  "rq_failedAt item w =
     (if IsZero (dl_FailedAt item) then let (now, w) = Now w in (item\<lparr>dl_FailedAt := now\<rparr>, w) else (item, w))"

definition rq_DeadLetter :: "'n RClient \<Rightarrow> DeadLetterJob \<Rightarrow> (unit, ('n, 'z) redis_world_scheme) op" where
  "rq_DeadLetter C item w =
     (let (item, w) = rq_failedAt item w
      in (case marshalDead (rc_codec C) item of
            Inl e \<Rightarrow> fail (Errorf ''marshal dead-letter job'' e)
          | Inr payload \<Rightarrow> withIntegerCommand C [''LPUSH'', deadLetterQueue C, payload]) w)"

fun decodeDead :: "codec \<Rightarrow> string list \<Rightarrow> error + DeadLetterJob list" where
  "decodeDead J [] = Inr []"
| "decodeDead J (payload # payloads) =
     (case unmarshalDead J payload of
        Inl e \<Rightarrow> Inl (Errorf ''unmarshal dead-letter job'' e)
      | Inr item \<Rightarrow> (case decodeDead J payloads of Inl e \<Rightarrow> Inl e | Inr items \<Rightarrow> Inr (item # items)))"

definition rq_ListDeadLetters :: "'n RClient \<Rightarrow> int \<Rightarrow> (DeadLetterJob list, ('n, 'z) redis_world_scheme) op" where
  "rq_ListDeadLetters C limit =
     (let limit = (if limit \<le> 0 then 50 else limit)
      in bindE (readList C (deadLetterQueue C) 0 (limit - 1)) (\<lambda>payloads. ofSum (decodeDead (rc_codec C) payloads)))"

fun replayLoop :: "'n RClient \<Rightarrow> string \<Rightarrow> string list \<Rightarrow> (Job, ('n, 'z) redis_world_scheme) op" where
  "replayLoop C wanted [] = fail ErrNotFound"
| "replayLoop C wanted (payload # payloads) =
     (case unmarshalDead (rc_codec C) payload of
        Inl e \<Rightarrow> replayLoop C wanted payloads
      | Inr item \<Rightarrow>
          if dl_ID item \<noteq> wanted then replayLoop C wanted payloads
          else
            bindE (withIntegerCommand C [''LREM'', deadLetterQueue C, ''1'', payload]) (\<lambda>_ w.
              let (now, w) = Now w
              in (let job = (dl_Job item)\<lparr>job_Attempts := 0, job_LastError := [], job_LeasedAt := 0, job_AvailableAt := now\<rparr>
                  in bindE (rq_Enqueue C job) (\<lambda>_. ret job)) w))"

definition rq_ReplayDeadLetter :: "'n RClient \<Rightarrow> string \<Rightarrow> (Job, ('n, 'z) redis_world_scheme) op" where
  "rq_ReplayDeadLetter C wanted =
     bindE (readList C (deadLetterQueue C) 0 499) (\<lambda>payloads. replayLoop C wanted payloads)"

definition rq_Stats :: "'n RClient \<Rightarrow> (QueueStats, ('n, 'z) redis_world_scheme) op" where
  "rq_Stats C =
     bindE (integerReply C [''LLEN'', rc_queue C]) (\<lambda>ready.
     bindE (integerReply C [''LLEN'', processingQueue C]) (\<lambda>processing.
     bindE (integerReply C [''ZCARD'', delayedQueue C]) (\<lambda>delayed.
     bindE (integerReply C [''LLEN'', deadLetterQueue C]) (\<lambda>deadLetters.
     ret \<lparr>qs_Ready = ready, qs_Processing = processing, qs_Delayed = delayed, qs_DeadLetters = deadLetters\<rparr>))))"

definition rq_Check :: "'n RClient \<Rightarrow> (unit, ('n, 'z) redis_world_scheme) op" where
  "rq_Check C =
     bindE (poolGet C) (\<lambda>rc.
     orDiscard C rc ''redis PING write'' (connWrite C rc [''PING'']) (\<lambda>_.
     orDiscard C rc ''redis PING read'' (readLine (rconn C rc)) (\<lambda>line.
     if line \<noteq> ''+PONG'' then failDiscard C rc (ErrText (''unexpected ping response: '' @ line))
     else givePut rc (Inr ()))))"

definition redis_queue :: "'n RClient \<Rightarrow> ('n, 'z) redis_world_scheme JobQueue" where
  "redis_queue C =
     \<lparr>jq_Enqueue = rq_Enqueue C, jq_Dequeue = (\<lambda>w. Some (rq_Dequeue C w)), jq_JobAcker = Some (rq_Ack C),
      jq_JobScheduler = Some \<lparr>js_EnqueueAfter = rq_EnqueueAfter C, js_PromoteDue = rq_PromoteDue C\<rparr>,
      jq_JobLeaseReclaimer = Some (rq_ReclaimStale C),
      jq_DeadLetterQueue = Some \<lparr>dlq_DeadLetter = rq_DeadLetter C, dlq_ListDeadLetters = rq_ListDeadLetters C,
                                 dlq_ReplayDeadLetter = rq_ReplayDeadLetter C\<rparr>,
      jq_JobQueueInspector = Some (rq_Stats C)\<rparr>"


section \<open>What the calls do to the pool\<close>

text \<open>
  \<open>in_use\<close> is the number of connections the pool has counted and does not hold: lent out, or lost. \<open>moves D f\<close>: the call
  \<open>f\<close> keeps the number of connections within the pool's maximum and changes \<open>in_use\<close> by a number in \<open>D r\<close>, \<open>r\<close> its result.
  Panics end the process and are left out.
\<close>

named_theorems moves_rules \<open>calls and what they do to the pool\<close>

definition in_use :: "('n, 'z) redis_world_scheme \<Rightarrow> int" where
  "in_use w = p_size (pool_st w) - int (length (p_idle (pool_st w)))"

definition panics :: "error + 'b \<Rightarrow> bool" where
  "panics r = (case r of Inl e \<Rightarrow> is_panic e | Inr _ \<Rightarrow> False)"

fun dial_error :: "error \<Rightarrow> bool" where
  "dial_error (ErrWrap s e) = (HasPrefix s ''redis dial '' \<or> HasPrefix s ''redis AUTH: '')"
| "dial_error e = False"

definition moves :: "(error + 'b \<Rightarrow> int set) \<Rightarrow> ('b, ('n, 'z) redis_world_scheme) op \<Rightarrow> bool" where
  "moves D f \<longleftrightarrow>
     (\<forall>w r w'. f w = (r, w') \<longrightarrow> \<not> panics r \<longrightarrow> p_size (pool_st w) \<le> p_maxSize (pool_st w) \<longrightarrow>
        p_size (pool_st w') \<le> p_maxSize (pool_st w) \<and> p_maxSize (pool_st w') = p_maxSize (pool_st w) \<and>
        in_use w' - in_use w \<in> D r)"

definition balanced :: "('b, ('n, 'z) redis_world_scheme) op \<Rightarrow> bool" where
  "balanced = moves (\<lambda>r. case r of Inl e \<Rightarrow> if dial_error e then {0, 1} else {0} | Inr _ \<Rightarrow> {0})"

definition spends :: "('b, ('n, 'z) redis_world_scheme) op \<Rightarrow> bool" where
  "spends = moves (\<lambda>r. {- 1})"

lemma movesD:
  assumes "moves D f" and "f w = (r, w')" and "\<not> panics r" and "p_size (pool_st w) \<le> p_maxSize (pool_st w)"
  shows "p_size (pool_st w') \<le> p_maxSize (pool_st w)" and "p_maxSize (pool_st w') = p_maxSize (pool_st w)"
    and "in_use w' - in_use w \<in> D r"
  using assms unfolding moves_def by blast+

lemma movesI:
  assumes "\<And>w r w'. f w = (r, w') \<Longrightarrow> \<not> panics r \<Longrightarrow> p_size (pool_st w) \<le> p_maxSize (pool_st w) \<Longrightarrow>
    p_size (pool_st w') \<le> p_maxSize (pool_st w) \<and> p_maxSize (pool_st w') = p_maxSize (pool_st w) \<and> in_use w' - in_use w \<in> D r"
  shows "moves D f"
  using assms unfolding moves_def by blast

text \<open>A call may first do things that leave the pool alone.\<close>

lemma moves_pre:
  assumes "\<And>w. \<exists>g w1. pool_st w1 = pool_st w \<and> f w = g w1 \<and> moves D g"
  shows "moves D f"
proof (rule movesI)
  fix w r w' assume run: "f w = (r, w')" "\<not> panics r" "p_size (pool_st w) \<le> p_maxSize (pool_st w)"
  obtain g w1 where g: "pool_st w1 = pool_st w" "f w = g w1" "moves D g" using assms by blast
  have "in_use w1 = in_use w" using g(1) by (simp add: in_use_def)
  with movesD [OF g(3), of w1 r w'] run g
  show "p_size (pool_st w') \<le> p_maxSize (pool_st w) \<and> p_maxSize (pool_st w') = p_maxSize (pool_st w) \<and> in_use w' - in_use w \<in> D r"
    by simp
qed

lemma moves_if [moves_rules]: "(b \<Longrightarrow> moves D f) \<Longrightarrow> (\<not> b \<Longrightarrow> moves D g) \<Longrightarrow> moves D (if b then f else g)"
  by simp

lemma moves_sum [moves_rules]:
  "(\<And>e. r = Inl e \<Longrightarrow> moves D (f e)) \<Longrightarrow> (\<And>a. r = Inr a \<Longrightarrow> moves D (g a)) \<Longrightarrow>
   moves D (case r of Inl e \<Rightarrow> f e | Inr a \<Rightarrow> g a)"
  by (cases r) auto

lemmas spends_if [moves_rules] = moves_if [where D = "\<lambda>r. {- 1}", folded spends_def]
  and spends_sum [moves_rules] = moves_sum [where D = "\<lambda>r. {- 1}", folded spends_def]
  and spends_pre = moves_pre [where D = "\<lambda>r. {- 1}", folded spends_def]
  and balanced_if [moves_rules] =
    moves_if [where D = "\<lambda>r. case r of Inl e \<Rightarrow> if dial_error e then {0, 1} else {0} | Inr _ \<Rightarrow> {0}", folded balanced_def]
  and balanced_sum [moves_rules] =
    moves_sum [where D = "\<lambda>r. case r of Inl e \<Rightarrow> if dial_error e then {0, 1} else {0} | Inr _ \<Rightarrow> {0}", folded balanced_def]
  and balanced_pre =
    moves_pre [where D = "\<lambda>r. case r of Inl e \<Rightarrow> if dial_error e then {0, 1} else {0} | Inr _ \<Rightarrow> {0}", folded balanced_def]

subsection \<open>Exchanges on a connection leave the pool alone\<close>

lemma keeping_onNet [keep]: "keeping pool_st (onNet f)"
  by (rule keepingI) (simp add: onNet_def split: prod.split)

lemma keeping_sum [keep]:
  "(\<And>e. keeping v (f e)) \<Longrightarrow> (\<And>a. keeping v (g a)) \<Longrightarrow> keeping v (case r of Inl e \<Rightarrow> f e | Inr a \<Rightarrow> g a)"
  by (cases r) auto

lemma keeping_rconn [keep]:
  "keeping pool_st (rd_ReadString (rconn C c))" "keeping pool_st (rd_ReadFull (rconn C c) n)"
  by (simp_all add: rconn_def keeping_onNet)

lemma keeping_readLine [keep]: "keeping pool_st (readLine (rconn C c))"
  unfolding readLine_def by (intro keep)

lemma keeping_readBulkString [keep]: "keeping pool_st (readBulkString (rconn C c))"
  unfolding readBulkString_def by (intro keep)

lemma keeping_readItems [keep]: "keeping pool_st (readItems (rconn C c) n)"
  by (induction n) (auto intro!: keep)

lemma keeping_readBulkStringArray [keep]: "keeping pool_st (readBulkStringArray (rconn C c))"
  unfolding readBulkStringArray_def by (intro keep)

lemma keeping_readInteger [keep]: "keeping pool_st (readInteger (rconn C c))"
  unfolding readInteger_def by (intro keep)

lemma keeping_connWrite [keep]: "keeping pool_st (connWrite C c args)"
  unfolding connWrite_def by (intro keep)

lemma keeping_sendCommand [keep]: "keeping pool_st (sendCommand C c args)"
  unfolding sendCommand_def by (intro keep)

lemma keeping_writeIntegerReply [keep]: "keeping pool_st (writeIntegerReply C c args)"
  unfolding writeIntegerReply_def by (intro keep)

lemma keeping_writeExpectInteger [keep]: "keeping pool_st (writeExpectInteger C c args)"
  unfolding writeExpectInteger_def by (intro keep)

lemma pool_connClose [simp]: "pool_st (connClose C c w) = pool_st w"
  by (simp add: connClose_def)

lemma pool_Now: "Now w = (t, w') \<Longrightarrow> pool_st w' = pool_st w"
  by (auto simp: Now_def)

lemma keeping_connClose [keep]: "keeping pool_st (\<lambda>w. (Inl e, connClose C c w))"
  by (rule keepingI) simp

lemma keeping_dialAuth [keep]: "keeping (pool_st :: ('n, 'z) redis_world_scheme \<Rightarrow> pool) (dialAuth C password nc)"
proof (rule keepingI)
  fix w :: "('n, 'z) redis_world_scheme"
  obtain t w1 where n: "Now w = (t, w1)" by fastforce
  have "keeping (pool_st :: ('n, 'z) redis_world_scheme \<Rightarrow> pool) (catchE (sendCommand C c [''AUTH'', password])
      (\<lambda>e w. (Inl (Errorf ''redis AUTH'' e), connClose C c w)) (\<lambda>_. ret c))" for c
    by (intro keep)
  from keepingD [OF this surjective_pairing] pool_Now [OF n]
  show "pool_st (snd (dialAuth C password nc w)) = pool_st w"
    by (simp add: dialAuth_def n Let_def)
qed

lemma keeping_dial [keep]: "keeping pool_st (dial C)"
proof (rule keepingI)
  fix w
  have "keeping pool_st (catchE (onNet (nw_Dial (rc_network C) a)) (\<lambda>e. fail (Errorf (''redis dial '' @ a) e))
      (dialAuth C pw))" for a pw
    by (intro keep)
  from keepingD [OF this surjective_pairing] show "pool_st (snd (dial C w)) = pool_st w"
    unfolding dial_def Let_def .
qed

lemma dial_error_dial:
  assumes "dial C w = (Inl e, w')" and "\<not> is_panic e"
  shows "dial_error e"
proof -
  have auth: "dialAuth C pw nc w1 = (Inl e, w') \<Longrightarrow> dial_error e" for pw nc w1
    using assms(2) by (auto simp: dialAuth_def catchE_def ret_def Errorf_def HasPrefix_def Let_def split: prod.splits sum.splits if_splits)
  show ?thesis
    using assms
    by (auto simp: dial_def catchE_def fail_def Errorf_def HasPrefix_def Let_def
        split: prod.splits sum.splits if_splits dest: auth)
qed


subsection \<open>Taking, giving back and discarding\<close>

lemma takeIdle_pool:
  assumes "takeIdle C cs w = (r, w')" and "p_idle (pool_st w) = rev cs"
  shows "p_size (pool_st w') \<le> p_size (pool_st w) \<and> p_maxSize (pool_st w') = p_maxSize (pool_st w) \<and>
    in_use w' = (if r = None then in_use w else in_use w + 1)"
  using assms
proof (induction C cs w rule: takeIdle.induct)
  case (1 C w)
  then show ?case by auto
next
  case (2 C c rest w)
  define w0 where "w0 = w\<lparr>pool_st := (pool_st w)\<lparr>p_idle := rev rest\<rparr>\<rparr>"
  obtain t w1 where n: "Now w0 = (t, w1)" by fastforce
  have w1: "pool_st w1 = (pool_st w)\<lparr>p_idle := rev rest\<rparr>"
    using pool_Now [OF n] by (simp add: w0_def)
  show ?case
  proof (cases "t - cn_createdAt c < p_idleTimeout (pool_st w1)")
    case True
    with 2(2) n have "r = Some c" "w' = w1" by (auto simp: w0_def [symmetric])
    with w1 2(3) show ?thesis by (simp add: in_use_def)
  next
    case False
    with 2(2) n have run: "takeIdle C rest (poolDiscard C c w1) = (r, w')" by (auto simp: w0_def [symmetric])
    have "p_idle (pool_st (poolDiscard C c w1)) = rev rest"
      by (simp add: poolDiscard_def Let_def w1)
    from 2(1) [OF w0_def n [symmetric] refl False run this] w1 2(3)
    show ?thesis by (auto simp: in_use_def poolDiscard_def Let_def)
  qed
qed

lemma poolGet_moves:
  "moves (\<lambda>r. case r of Inl e \<Rightarrow> if dial_error e then {0, 1} else {0} | Inr _ \<Rightarrow> {1}) (poolGet C)"
proof (rule movesI)
  fix w r w'
  assume run: "poolGet C w = (r, w')" and np: "\<not> panics r" and le: "p_size (pool_st w) \<le> p_maxSize (pool_st w)"
  obtain i w1 where t: "takeIdle C (rev (p_idle (pool_st w))) w = (i, w1)" by fastforce
  note T = takeIdle_pool [OF t, simplified]
  let ?w = "w1\<lparr>pool_st := (pool_st w1)\<lparr>p_size := p_size (pool_st w1) + 1\<rparr>\<rparr>"
  have dial: "i = None \<Longrightarrow> p_size (pool_st w1) < p_maxSize (pool_st w1) \<Longrightarrow> dial C ?w = (r, w')"
    using run t by (simp add: poolGet_def)
  have kept: "dial C ?w = (r, w') \<Longrightarrow> pool_st w' = pool_st ?w"
    by (rule keepingD [OF keeping_dial])
  have err: "dial C ?w = (r, w') \<Longrightarrow> (case r of Inl e \<Rightarrow> dial_error e | Inr _ \<Rightarrow> True)"
    using dial_error_dial [of C ?w] np by (auto simp: panics_def split: sum.splits)
  consider c where "i = Some c" | "i = None" "p_size (pool_st w1) \<ge> p_maxSize (pool_st w1)"
    | "i = None" "p_size (pool_st w1) < p_maxSize (pool_st w1)" by fastforce
  then show "p_size (pool_st w') \<le> p_maxSize (pool_st w) \<and> p_maxSize (pool_st w') = p_maxSize (pool_st w) \<and>
    in_use w' - in_use w \<in> (case r of Inl e \<Rightarrow> if dial_error e then {0, 1} else {0} | Inr _ \<Rightarrow> {1})"
  proof cases
    case 1
    with run t T le show ?thesis by (auto simp: poolGet_def)
  next
    case 2
    with run t T le show ?thesis by (auto simp: poolGet_def)
  next
    case 3
    note d = dial [OF 3]
    from kept [OF d] err [OF d] T 3 show ?thesis by (auto simp: in_use_def split: sum.splits)
  qed
qed

lemma spends_discard [moves_rules]: "spends (failDiscard C c e)"
  unfolding spends_def by (rule movesI) (auto simp: failDiscard_def poolDiscard_def Let_def in_use_def)

lemma spends_put [moves_rules]: "spends (givePut c r)"
  unfolding spends_def by (rule movesI) (auto simp: givePut_def poolPut_def in_use_def)

lemma spends_catch [moves_rules]:
  assumes f: "keeping pool_st f" and h: "\<And>e. spends (h e)" and k: "\<And>a. spends (k a)"
  shows "spends (catchE f h k)"
  unfolding spends_def
proof (rule movesI)
  fix w r w'
  assume run: "catchE f h k w = (r, w')" and np: "\<not> panics r" and le: "p_size (pool_st w) \<le> p_maxSize (pool_st w)"
  obtain r1 w1 where f1: "f w = (r1, w1)" by fastforce
  have same: "pool_st w1 = pool_st w" by (rule keepingD [OF f f1])
  then have use: "in_use w1 = in_use w" by (simp add: in_use_def)
  obtain g where g: "spends g" "g w1 = (r, w')"
  proof (cases r1)
    case (Inl e)
    with run f1 np have "h e w1 = (r, w')" by (auto simp: catchE_def panics_def split: if_splits)
    with h that show ?thesis by blast
  next
    case (Inr a)
    with run f1 k that show ?thesis by (auto simp: catchE_def)
  qed
  from movesD [OF g(1) [unfolded spends_def] g(2) np] le same use
  show "p_size (pool_st w') \<le> p_maxSize (pool_st w) \<and> p_maxSize (pool_st w') = p_maxSize (pool_st w) \<and> in_use w' - in_use w \<in> {- 1}"
    by simp
qed

lemma spends_orDiscard [moves_rules]:
  assumes "keeping pool_st f" and "\<And>a. spends (k a)"
  shows "spends (orDiscard C c text f k)"
  unfolding orDiscard_def using assms spends_discard by (intro moves_rules) (auto simp: failDiscard_def [abs_def])

text \<open>A call that takes a connection and spends it is balanced; balanced calls compose.\<close>

lemma balanced_get [moves_rules]:
  assumes k: "\<And>rc. spends (k rc)"
  shows "balanced (bindE (poolGet C) k)"
  unfolding balanced_def
proof (rule movesI)
  fix w r w'
  assume run: "bindE (poolGet C) k w = (r, w')" and np: "\<not> panics r" and le: "p_size (pool_st w) \<le> p_maxSize (pool_st w)"
  obtain r1 w1 where g: "poolGet C w = (r1, w1)" by fastforce
  show "p_size (pool_st w') \<le> p_maxSize (pool_st w) \<and> p_maxSize (pool_st w') = p_maxSize (pool_st w) \<and>
    in_use w' - in_use w \<in> (case r of Inl e \<Rightarrow> if dial_error e then {0, 1} else {0} | Inr _ \<Rightarrow> {0})"
  proof (cases r1)
    case (Inl e)
    with run g have "r = Inl e" "w' = w1" by (auto simp: bindE_def)
    with movesD [OF poolGet_moves g _ le] Inl np show ?thesis by (simp add: panics_def)
  next
    case (Inr c)
    with run g have kc: "k c w1 = (r, w')" by (simp add: bindE_def)
    note G = movesD [OF poolGet_moves g _ le]
    have "\<not> panics r1" using Inr by (simp add: panics_def)
    note G = G [OF this]
    from movesD [OF k [of c, unfolded spends_def] kc np] G Inr show ?thesis by (auto split: sum.split)
  qed
qed

lemma balanced_bind [moves_rules]:
  assumes f: "balanced f" and k: "\<And>a. balanced (k a)"
  shows "balanced (bindE f k)"
  unfolding balanced_def
proof (rule movesI)
  fix w r w'
  assume run: "bindE f k w = (r, w')" and np: "\<not> panics r" and le: "p_size (pool_st w) \<le> p_maxSize (pool_st w)"
  obtain r1 w1 where g: "f w = (r1, w1)" by fastforce
  note F = movesD [OF f [unfolded balanced_def] g _ le]
  show "p_size (pool_st w') \<le> p_maxSize (pool_st w) \<and> p_maxSize (pool_st w') = p_maxSize (pool_st w) \<and>
    in_use w' - in_use w \<in> (case r of Inl e \<Rightarrow> if dial_error e then {0, 1} else {0} | Inr _ \<Rightarrow> {0})"
  proof (cases r1)
    case (Inl e)
    with run g have "r = Inl e" "w' = w1" by (auto simp: bindE_def)
    with F Inl np show ?thesis by (simp add: panics_def)
  next
    case (Inr c)
    with run g have kc: "k c w1 = (r, w')" by (simp add: bindE_def)
    have "\<not> panics r1" using Inr by (simp add: panics_def)
    note F = F [OF this]
    from movesD [OF k [of c, unfolded balanced_def] kc np] F Inr show ?thesis by (auto split: sum.split)
  qed
qed

lemma balanced_return [moves_rules]: "balanced (ret a)" "balanced (fail e)" "balanced (ofSum s)"
  unfolding balanced_def by (rule movesI, auto simp: ret_def fail_def ofSum_def split: sum.split)+

text \<open>Reading the clock first, once or not at all, changes nothing.\<close>

lemma moves_first:
  assumes s: "\<And>w. pool_st (snd (s w)) = pool_st w" and k: "\<And>a. moves D (k a)"
  shows "moves D (\<lambda>w. let (a, w) = s w in k a w)"
proof (rule moves_pre)
  fix w
  obtain a w1 where n: "s w = (a, w1)" by fastforce
  with k [of a] s [of w] show "\<exists>g w1. pool_st w1 = pool_st w \<and> (let (a, w) = s w in k a w) = g w1 \<and> moves D g"
    by auto
qed

lemma spends_let [moves_rules]: "(\<And>x. spends (f x)) \<Longrightarrow> spends (let x = v in f x)"
  and balanced_let [moves_rules]: "(\<And>x. balanced (g x)) \<Longrightarrow> balanced (let x = v in g x)"
  by simp_all

lemmas spends_first [moves_rules] = moves_first [where D = "\<lambda>r. {- 1}", folded spends_def]
  and balanced_first [moves_rules] =
    moves_first [where D = "\<lambda>r. case r of Inl e \<Rightarrow> if dial_error e then {0, 1} else {0} | Inr _ \<Rightarrow> {0}", folded balanced_def]

lemma pool_clock [moves_rules]:
  "pool_st (snd (Now w)) = pool_st w" "pool_st (snd (rq_stamp job w)) = pool_st w"
  "pool_st (snd (rq_available job w)) = pool_st w" "pool_st (snd (rq_failedAt item w)) = pool_st w"
  by (simp_all add: Now_def rq_stamp_def rq_available_def rq_failedAt_def Let_def)

subsection \<open>The calls of the queue\<close>

lemma balanced_integerReply [moves_rules]: "balanced (integerReply C args)"
  unfolding integerReply_def by (intro moves_rules keep)

lemma balanced_withIntegerCommand [moves_rules]: "balanced (withIntegerCommand C args)"
  unfolding withIntegerCommand_def by (intro moves_rules)

lemma balanced_readList [moves_rules]: "balanced (readList C key start stop)"
  unfolding readList_def by (intro moves_rules keep)

lemma balanced_rq_push [moves_rules]: "balanced (rq_push C job)"
  unfolding rq_push_def by (intro moves_rules keep)

lemma balanced_rq_Enqueue [moves_rules]: "balanced (rq_Enqueue C job)"
  unfolding rq_Enqueue_def [abs_def] by (intro moves_rules)

lemma balanced_rq_Dequeue: "balanced (rq_Dequeue C)"
  unfolding rq_Dequeue_def by (intro moves_rules keep)

lemma balanced_rq_Ack: "balanced (rq_Ack C job)"
  unfolding rq_Ack_def by (intro moves_rules)

lemma balanced_rq_EnqueueAfter: "balanced (rq_EnqueueAfter C job delay)"
  unfolding rq_EnqueueAfter_def [abs_def] by (intro moves_rules)

lemma spends_promoteLoop [moves_rules]: "spends (promoteLoop C rc payloads promoted)"
proof (induction payloads arbitrary: promoted)
  case (Cons p ps)
  show ?case unfolding promoteLoop.simps by (intro moves_rules keep Cons)
qed (simp add: spends_put)

lemma balanced_rq_PromoteDue: "balanced (rq_PromoteDue C limit)"
  unfolding rq_PromoteDue_def by (intro moves_rules keep)

lemma spends_rq_reclaimLoop [moves_rules]: "spends (rq_reclaimLoop C rc cutoff payloads reclaimed)"
proof (induction payloads arbitrary: reclaimed)
  case (Cons p ps)
  show ?case unfolding rq_reclaimLoop.simps by (intro moves_rules keep Cons)
qed (simp add: spends_put)

lemma balanced_rq_ReclaimStale: "balanced (rq_ReclaimStale C staleAfter limit)"
  unfolding rq_ReclaimStale_def by (intro moves_rules keep)

lemma balanced_rq_DeadLetter: "balanced (rq_DeadLetter C item)"
  unfolding rq_DeadLetter_def [abs_def] by (intro moves_rules)

lemma balanced_rq_ListDeadLetters: "balanced (rq_ListDeadLetters C limit)"
  unfolding rq_ListDeadLetters_def by (intro moves_rules)

lemma balanced_replayLoop [moves_rules]: "balanced (replayLoop C wanted payloads)"
proof (induction payloads)
  case (Cons p ps)
  show ?case unfolding replayLoop.simps by (intro moves_rules Cons)
qed (simp add: balanced_return)

lemma balanced_rq_ReplayDeadLetter: "balanced (rq_ReplayDeadLetter C wanted)"
  unfolding rq_ReplayDeadLetter_def by (intro moves_rules)

lemma balanced_rq_Stats: "balanced (rq_Stats C)"
  unfolding rq_Stats_def by (intro moves_rules)

lemma balanced_rq_Check: "balanced (rq_Check C)"
  unfolding rq_Check_def by (intro moves_rules keep)



section \<open>Failed dials\<close>

text \<open>\<open>pool_gets C n\<close>: \<open>n\<close> calls of \<^verbatim>\<open>get\<close> in turn, with their results.\<close>

fun pool_gets :: "'n RClient \<Rightarrow> nat \<Rightarrow> ('n, 'z) redis_world_scheme \<Rightarrow> (error + conn) list \<times> ('n, 'z) redis_world_scheme" where
  "pool_gets C 0 w = ([], w)"
| "pool_gets C (Suc n) w =
     (let (r, w) = poolGet C w in let (rs, w) = pool_gets C n w in (r # rs, w))"

definition refuses :: "'n network \<Rightarrow> bool" where
  "refuses N \<longleftrightarrow> (\<forall>a n. \<exists>e. fst (nw_Dial N a n) = Inl e \<and> \<not> is_panic e)"

definition failed_dial :: "error + 'b \<Rightarrow> bool" where
  "failed_dial r = (case r of Inl e \<Rightarrow> dial_error e | Inr _ \<Rightarrow> False)"

lemma dial_refused:
  assumes "refuses (rc_network C)"
  obtains e w' where "dial C w = (Inl e, w')" and "dial_error e" and "pool_st w' = pool_st w"
proof -
  obtain e n where d: "nw_Dial (rc_network C) (p_addr (pool_st w)) (net_st w) = (Inl e, n)" "\<not> is_panic e"
    using assms unfolding refuses_def by (metis prod.collapse)
  show thesis
    by (rule that [of "Errorf (''redis dial '' @ p_addr (pool_st w)) e" "w\<lparr>net_st := n\<rparr>"])
      (use d in \<open>simp_all add: dial_def Let_def catchE_def onNet_def fail_def Errorf_def HasPrefix_def\<close>)
qed

lemma get_refused:
  assumes "refuses (rc_network C)" and "p_idle (pool_st w) = []" and "p_size (pool_st w) < p_maxSize (pool_st w)"
  obtains r w' where "poolGet C w = (r, w')" and "failed_dial r"
    and "pool_st w' = (pool_st w)\<lparr>p_size := p_size (pool_st w) + 1\<rparr>"
proof -
  let ?w = "w\<lparr>pool_st := (pool_st w)\<lparr>p_size := p_size (pool_st w) + 1\<rparr>\<rparr>"
  obtain e w' where d: "dial C ?w = (Inl e, w')" "dial_error e" "pool_st w' = pool_st ?w"
    using dial_refused [OF assms(1)] by blast
  show thesis
    by (rule that [of "Inl e" w']) (use assms d in \<open>simp_all add: poolGet_def failed_dial_def\<close>)
qed

lemma gets_refused:
  assumes "refuses (rc_network C)" and "p_idle (pool_st w) = []" and "p_size (pool_st w) + int n \<le> p_maxSize (pool_st w)"
  shows "list_all failed_dial (fst (pool_gets C n w)) \<and>
    pool_st (snd (pool_gets C n w)) = (pool_st w)\<lparr>p_size := p_size (pool_st w) + int n\<rparr>"
  using assms
proof (induction n arbitrary: w)
  case (Suc n)
  then obtain r w' where g: "poolGet C w = (r, w')" "failed_dial r"
    "pool_st w' = (pool_st w)\<lparr>p_size := p_size (pool_st w) + 1\<rparr>"
    using get_refused [of C w] by auto
  with Suc.IH [of w'] Suc.prems show ?case
    by (auto simp: algebra_simps split: prod.split)
qed simp

text \<open>
  C37: A failed dial costs a connection for good. When the server refuses connections, each \<^verbatim>\<open>get\<close> on a pool without idle
  connections fails, but stays counted; after as many failures as the pool had free places it is exhausted, and then \<^verbatim>\<open>get\<close>
  fails without dialling and without changing anything, also when the server is back (\<open>C'\<close> may have any network). Only a
  restart of the process ends this. The pool of a client has eight places.
\<close>

theorem pool_leak:
  assumes "refuses (rc_network C)" and "p_idle (pool_st w) = []" and "p_size (pool_st w) \<le> p_maxSize (pool_st w)"
    and "pool_gets C (nat (p_maxSize (pool_st w) - p_size (pool_st w))) w = (rs, w')"
  shows "list_all failed_dial rs \<and>
    poolGet C' w' = (Inl (ErrText (''redis pool exhausted (max '' @ Itoa (p_maxSize (pool_st w)) @ '')'')), w')"
  using gets_refused [of C w "nat (p_maxSize (pool_st w) - p_size (pool_st w))"] assms
  by (simp add: poolGet_def)

definition refused :: "unit network" where
  "refused =
     \<lparr>nw_Dial = (\<lambda>a n. (Inl (ErrText ''connection refused''), n)), nw_Write = (\<lambda>c s n. (Inr (), n)),
      nw_ReadString = (\<lambda>c n. (Inl EOF, n)), nw_ReadFull = (\<lambda>c k n. (Inl EOF, n)), nw_Close = (\<lambda>c n. n),
      nw_Timeout = (\<lambda>e. False)\<rparr>"

definition accepting :: "unit network" where
  "accepting = refused\<lparr>nw_Dial := (\<lambda>a n. (Inr 0, n))\<rparr>"

definition plain_codec :: codec where
  "plain_codec =
     \<lparr>marshalJob = (\<lambda>j. Inr (job_ID j)), unmarshalJob = (\<lambda>s. Inl EOF), marshalDead = (\<lambda>d. Inr (dl_ID d)),
      unmarshalDead = (\<lambda>s. Inl EOF)\<rparr>"

definition cold_pool :: "unit redis_world" where
  "cold_pool =
     \<lparr>clk = (\<lambda>n. 1), ticks = 0, rnd = (\<lambda>n i. 0), rnd_ok = (\<lambda>n. True), draws = 0, sel = (\<lambda>n. None), sels = 0,
      rank = (\<lambda>n k. 0), ranges = 0, pool_st = newPool ''localhost:6379'' [] 8, net_st = ()\<rparr>"

theorem pool_leak_witness:
  "poolGet \<lparr>rc_network = accepting, rc_codec = plain_codec, rc_queue = ''jobs''\<rparr> (snd
     (pool_gets \<lparr>rc_network = refused, rc_codec = plain_codec, rc_queue = ''jobs''\<rparr> 8 cold_pool)) =
   (Inl (ErrText (''redis pool exhausted (max '' @ Itoa 8 @ '')'')),
    snd (pool_gets \<lparr>rc_network = refused, rc_codec = plain_codec, rc_queue = ''jobs''\<rparr> 8 cold_pool))"
  using pool_leak [of "\<lparr>rc_network = refused, rc_codec = plain_codec, rc_queue = ''jobs''\<rparr>" cold_pool
      "fst (pool_gets \<lparr>rc_network = refused, rc_codec = plain_codec, rc_queue = ''jobs''\<rparr> 8 cold_pool)"
      "snd (pool_gets \<lparr>rc_network = refused, rc_codec = plain_codec, rc_queue = ''jobs''\<rparr> 8 cold_pool)"
      "\<lparr>rc_network = accepting, rc_codec = plain_codec, rc_queue = ''jobs''\<rparr>"]
  by (simp add: cold_pool_def newPool_def refuses_def refused_def is_panic_def)

end
