(* ===== verification/Config.thy ===== *)
theory Config
  imports GoLib "HOL-Library.Log_Nat" Complex_Main
begin

text \<open>
  \<^verbatim>\<open>internal/app/config.go\<close>, \<^verbatim>\<open>internal/app/dotenv.go\<close> and the levels of \<^verbatim>\<open>internal/observability/logging.go\<close>: reading the settings of a process from
  its environment and the \<^verbatim>\<open>.env\<close> file, with \<^verbatim>\<open>strconv.ParseBool\<close>, \<^verbatim>\<open>time.ParseDuration\<close> and \<^verbatim>\<open>bufio.Scanner\<close> of the Go library. The
  duration parser works on 64-bit words, since its overflow checks matter, and rounds fractions as \<^verbatim>\<open>float64\<close> does.
\<close>

section \<open>Durations\<close>

type_synonym u64 = "64 word"

text \<open>\<^verbatim>\<open>leadingInt\<close>; \<open>None\<close> is the overflow error\<close>

fun leadingInt :: "u64 \<Rightarrow> string \<Rightarrow> (u64 \<times> string) option" where
  "leadingInt x [] = Some (x, [])"
| "leadingInt x (c # s) =
     (if \<not> is_digit c then Some (x, c # s)
      else if x > 2 ^ 63 div 10 then None
      else
        let x = x * 10 + of_nat (digit_val c)
        in if x > 2 ^ 63 then None else leadingInt x s)"

text \<open>\<^verbatim>\<open>leadingFraction\<close>, with the scale as the number of digits taken, the scale being ten to that power\<close>

fun leadingFraction :: "u64 \<Rightarrow> nat \<Rightarrow> bool \<Rightarrow> string \<Rightarrow> u64 \<times> nat \<times> string" where
  "leadingFraction x n overflow [] = (x, n, [])"
| "leadingFraction x n overflow (c # s) =
     (if \<not> is_digit c then (x, n, c # s)
      else if overflow then leadingFraction x n True s
      else if x > (2 ^ 63 - 1) div 10 then leadingFraction x n True s
      else
        let y = x * 10 + of_nat (digit_val c)
        in if y > 2 ^ 63 then leadingFraction x n True s else leadingFraction y (Suc n) False s)"

text \<open>
  \<^verbatim>\<open>float64\<close>: the nearest number with 53 significant bits, ties to the even one. The values here are far from the limits of
  the exponent.
\<close>

definition round_even :: "rat \<Rightarrow> int" where
  "round_even x =
     (let n = \<lfloor>x\<rfloor>; r = x - of_int n
      in if r < 1 / 2 \<or> r = 1 / 2 \<and> even n then n else n + 1)"

definition ilog2 :: "rat \<Rightarrow> int" where
  "ilog2 x =
     (case quotient_of x of (p, q) \<Rightarrow>
        let n = bitlen p - bitlen q
        in if (if 0 \<le> n then q * 2 ^ nat n \<le> p else q \<le> p * 2 ^ nat (- n)) then n else n - 1)"

definition float64 :: "rat \<Rightarrow> rat" where
  "float64 x =
     (if x = 0 then 0
      else
        let e = ilog2 x - 52
        in if 0 \<le> e then of_int (round_even (x / 2 ^ nat e)) * 2 ^ nat e
           else of_int (round_even (x * 2 ^ nat (- e))) / 2 ^ nat (- e))"

text \<open>\<^verbatim>\<open>uint64(float64(f) * (float64(unit) / scale))\<close>\<close>

definition fractionOf :: "u64 \<Rightarrow> u64 \<Rightarrow> nat \<Rightarrow> u64" where
  "fractionOf f unit n =
     of_int \<lfloor>float64 (float64 (of_int (uint f)) * float64 (float64 (of_int (uint unit)) / 10 ^ n))\<rfloor>"

definition unitMap :: "(string \<times> u64) list" where
  "unitMap =
     [(''ns'', 1), (''us'', 1000), ([CHR 0xC2, CHR 0xB5, CHR ''s''], 1000), ([CHR 0xCE, CHR 0xBC, CHR ''s''], 1000),
      (''ms'', 1000000), (''s'', 1000000000), (''m'', 60000000000), (''h'', 3600000000000)]"

definition number_char :: "char \<Rightarrow> bool" where
  "number_char c \<longleftrightarrow> c = CHR ''.'' \<or> is_digit c"

text \<open>One turn of the loop: a number, perhaps with a fraction, and its unit. \<open>None\<close> is an error; its text is used nowhere.\<close>

definition parse_item :: "string \<Rightarrow> (u64 \<times> string) option" where
  "parse_item s =
     (if \<not> number_char (hd s) then None
      else case leadingInt 0 s of
        None \<Rightarrow> None
      | Some (v, s1) \<Rightarrow>
          (let pre = (length s \<noteq> length s1);
               dot = HasPrefix s1 ''.'';
               (f, n, s2) = (if dot then leadingFraction 0 0 False (tl s1) else (0, 0, s1));
               post = (dot \<and> length (tl s1) \<noteq> length s2);
               u = takeWhile (\<lambda>c. \<not> number_char c) s2;
               s3 = dropWhile (\<lambda>c. \<not> number_char c) s2
           in if \<not> pre \<and> \<not> post then None
              else if u = [] then None
              else case map_of unitMap u of
                None \<Rightarrow> None
              | Some unit \<Rightarrow>
                  if v > 2 ^ 63 div unit then None
                  else
                    let v = v * unit;
                        v' = (if f > 0 then v + fractionOf f unit n else v)
                    in if f > 0 \<and> v' > 2 ^ 63 then None else Some (v', s3)))"

text \<open>The loop; \<open>None\<close> is a run that does not return, \<open>Some None\<close> an error.\<close>

partial_function (option) parse_loop :: "u64 \<Rightarrow> string \<Rightarrow> u64 option option" where
  [code]: "parse_loop d s =
     (if s = [] then Some (Some d)
      else case parse_item s of
        None \<Rightarrow> Some None
      | Some (v, s') \<Rightarrow> if d + v > 2 ^ 63 then Some None else parse_loop (d + v) s')"

definition ParseDuration :: "string \<Rightarrow> duration option option" where
  "ParseDuration orig =
     (let neg = HasPrefix orig ''-'';
          s = (if neg \<or> HasPrefix orig ''+'' then tl orig else orig)
      in if s = ''0'' then Some (Some 0)
         else if s = [] then Some None
         else case parse_loop 0 s of
           None \<Rightarrow> None
         | Some None \<Rightarrow> Some None
         | Some (Some d) \<Rightarrow>
             if neg then Some (Some (wrap64 (- wrap64 (uint d))))
             else if d > 2 ^ 63 - 1 then Some None
             else Some (Some (wrap64 (uint d))))"

section \<open>The environment\<close>

type_synonym environ = "string \<rightharpoonup> string"

definition Getenv :: "environ \<Rightarrow> string \<Rightarrow> string" where
  "Getenv e key = (case e key of None \<Rightarrow> [] | Some v \<Rightarrow> v)"

definition Setenv :: "string \<Rightarrow> string \<Rightarrow> environ \<Rightarrow> error + environ" where
  "Setenv key value e =
     (if key = [] \<or> CHR ''='' \<in> set key \<or> CHR 0x00 \<in> set key \<or> CHR 0x00 \<in> set value
      then Inl (ErrText ''setenv: invalid argument'')
      else Inr (e(key \<mapsto> value)))"

definition env :: "environ \<Rightarrow> string \<Rightarrow> string \<Rightarrow> string" where
  "env e key fallback = (if Getenv e key \<noteq> [] then Getenv e key else fallback)"

definition ParseBool :: "string \<Rightarrow> bool option" where
  "ParseBool s =
     (if s \<in> {''1'', ''t'', ''T'', ''true'', ''TRUE'', ''True''} then Some True
      else if s \<in> {''0'', ''f'', ''F'', ''false'', ''FALSE'', ''False''} then Some False
      else None)"

definition envBool :: "environ \<Rightarrow> string \<Rightarrow> bool \<Rightarrow> bool" where
  "envBool e key fallback =
     (let value = Getenv e key
      in if value = [] then fallback
         else case ParseBool value of None \<Rightarrow> fallback | Some parsed \<Rightarrow> parsed)"

definition envInt :: "environ \<Rightarrow> string \<Rightarrow> int \<Rightarrow> int" where
  "envInt e key fallback =
     (let value = Getenv e key
      in if value = [] then fallback
         else case Atoi value of Inl _ \<Rightarrow> fallback | Inr parsed \<Rightarrow> parsed)"

definition envDuration :: "environ \<Rightarrow> string \<Rightarrow> duration \<Rightarrow> duration option" where
  "envDuration e key fallback =
     (let value = Getenv e key
      in if value = [] then Some fallback
         else case ParseDuration value of
           None \<Rightarrow> None
         | Some None \<Rightarrow> Some fallback
         | Some (Some parsed) \<Rightarrow> Some parsed)"

record Config =
  cf_HTTPAddr :: string
  cf_DatabaseURL :: string
  cf_RepositoryDriver :: string
  cf_RedisAddr :: string
  cf_RedisPassword :: string
  cf_RedisQueue :: string
  cf_JobMaxAttempts :: int
  cf_JobRetryBackoff :: duration
  cf_MediumClientID :: string
  cf_DevelopmentAuth :: bool
  cf_AllowedIngressHost :: string
  cf_ReconcileInterval :: duration
  cf_DBMaxOpenConns :: int
  cf_DBMaxIdleConns :: int
  cf_DBConnMaxLifetime :: duration
  cf_DBConnMaxIdleTime :: duration
  cf_LogLevel :: string
  cf_ShutdownTimeout :: duration

definition LoadConfig :: "environ \<Rightarrow> Config option" where
  "LoadConfig e =
     Option.bind (envDuration e ''JOB_RETRY_BACKOFF'' (2 * second)) (\<lambda>backoff.
     Option.bind (envDuration e ''RECONCILE_INTERVAL'' (30 * second)) (\<lambda>interval.
     Option.bind (envDuration e ''DB_CONN_MAX_LIFETIME'' (1800 * second)) (\<lambda>lifetime.
     Option.bind (envDuration e ''DB_CONN_MAX_IDLE_TIME'' (600 * second)) (\<lambda>idle.
     Option.bind (envDuration e ''SHUTDOWN_TIMEOUT'' (20 * second)) (\<lambda>shutdown.
     Some
       \<lparr>cf_HTTPAddr = env e ''HTTP_ADDR'' '':8080'',
        cf_DatabaseURL = env e ''DATABASE_URL'' [],
        cf_RepositoryDriver = env e ''REPOSITORY_DRIVER'' ''postgres'',
        cf_RedisAddr = env e ''REDIS_ADDR'' ''127.0.0.1:6379'',
        cf_RedisPassword = env e ''REDIS_PASSWORD'' [],
        cf_RedisQueue = env e ''REDIS_QUEUE'' ''clawflux:jobs'',
        cf_JobMaxAttempts = envInt e ''JOB_MAX_ATTEMPTS'' 5,
        cf_JobRetryBackoff = backoff,
        cf_MediumClientID = env e ''MEDIUM_CLIENT_ID'' [],
        cf_DevelopmentAuth = envBool e ''DEVELOPMENT_AUTH'' False,
        cf_AllowedIngressHost = env e ''DEFAULT_INGRESS_HOST'' ''apps.localhost'',
        cf_ReconcileInterval = interval,
        cf_DBMaxOpenConns = envInt e ''DB_MAX_OPEN_CONNS'' 20,
        cf_DBMaxIdleConns = envInt e ''DB_MAX_IDLE_CONNS'' 10,
        cf_DBConnMaxLifetime = lifetime,
        cf_DBConnMaxIdleTime = idle,
        cf_LogLevel = env e ''LOG_LEVEL'' ''info'',
        cf_ShutdownTimeout = shutdown\<rparr>)))))"

datatype Level = LevelDebug | LevelInfo | LevelWarn | LevelError

definition parseLevel :: "string \<Rightarrow> Level" where
  "parseLevel s =
     (let s = ToLower s
      in if s = ''debug'' then LevelDebug
         else if s = ''warn'' \<or> s = ''warning'' then LevelWarn
         else if s = ''error'' then LevelError
         else LevelInfo)"

section \<open>The file\<close>

text \<open>What opening and reading a file gives: nothing there, another error, or its bytes and how reading them ended.\<close>

datatype dotfile = Absent | Unreadable error | Content string "error option"

text \<open>\<^verbatim>\<open>strings.Cut\<close> with a one-byte separator\<close>

definition Cut :: "string \<Rightarrow> char \<Rightarrow> (string \<times> string) option" where
  "Cut s sep =
     (if sep \<in> set s then Some (takeWhile (\<lambda>c. c \<noteq> sep) s, tl (dropWhile (\<lambda>c. c \<noteq> sep) s)) else None)"

text \<open>The lines of \<^verbatim>\<open>bufio.Scanner\<close>: a last line need not end in a newline, and a carriage return before the newline is dropped.\<close>

definition scanLines :: "string \<Rightarrow> string list" where
  "scanLines s = (let ls = Split s (CHR 0x0A) in if last ls = [] then butlast ls else ls)"

definition dropCR :: "string \<Rightarrow> string" where
  "dropCR s = (if s \<noteq> [] \<and> last s = CHR 0x0D then butlast s else s)"

definition maxTokenSize :: nat where
  "maxTokenSize = 64 * 1024"

text \<open>What a line sets: \<open>Inr None\<close> for a blank line or a comment.\<close>

definition parseLine :: "string \<Rightarrow> nat \<Rightarrow> string \<Rightarrow> error + (string \<times> string) option" where
  "parseLine path lineNo raw =
     (if maxTokenSize \<le> length raw then Inl (ErrText ''bufio.Scanner: token too long'')
      else
        let line = TrimSpace (dropCR raw)
        in if line = [] \<or> HasPrefix line ''#'' then Inr None
           else case Cut line (CHR ''='') of
             None \<Rightarrow> Inl (ErrText (path @ '':'' @ dec lineNo @ '': expected KEY=VALUE''))
           | Some (key, value) \<Rightarrow>
               if TrimSpace key = [] then Inl (ErrText (path @ '':'' @ dec lineNo @ '': empty key''))
               else Inr (Some (TrimSpace key, Trim (TrimSpace value) [CHR 0x22, CHR 0x27])))"

fun loadLines :: "string \<Rightarrow> error option \<Rightarrow> nat \<Rightarrow> string list \<Rightarrow> environ \<Rightarrow> error option \<times> environ" where
  "loadLines path err lineNo [] e = (err, e)"
| "loadLines path err lineNo (raw # ls) e =
     (case parseLine path lineNo raw of
        Inl fault \<Rightarrow> (Some fault, e)
      | Inr None \<Rightarrow> loadLines path err (Suc lineNo) ls e
      | Inr (Some (key, value)) \<Rightarrow>
          if Getenv e key \<noteq> [] then loadLines path err (Suc lineNo) ls e
          else case Setenv key value e of
            Inl fault \<Rightarrow> (Some fault, e)
          | Inr e' \<Rightarrow> loadLines path err (Suc lineNo) ls e')"

definition LoadDotEnv :: "string \<Rightarrow> dotfile \<Rightarrow> environ \<Rightarrow> error option \<times> environ" where
  "LoadDotEnv path file e =
     (case file of
        Absent \<Rightarrow> (None, e)
      | Unreadable err \<Rightarrow> (Some err, e)
      | Content s err \<Rightarrow> loadLines path err 1 (scanLines s) e)"

section \<open>The parser ends\<close>

lemma leadingInt_length: "leadingInt x s = Some (v, s') \<Longrightarrow> length s' \<le> length s"
  by (induction x s rule: leadingInt.induct) (auto simp: Let_def split: if_splits)

lemma leadingFraction_length: "leadingFraction x n b s = (f, m, s') \<Longrightarrow> length s' \<le> length s"
  by (induction x n b s rule: leadingFraction.induct) (auto simp: Let_def split: if_splits)

lemma takeWhile_progress: "takeWhile P s \<noteq> [] \<Longrightarrow> length (dropWhile P s) < length s"
  by (cases s) (auto simp: le_imp_less_Suc length_dropWhile_le split: if_splits)

text \<open>Every turn of the loop takes at least the unit off the text.\<close>

lemma parse_item_shorter:
  assumes "parse_item s = Some (v, s')"
  shows "length s' < length s"
proof -
  from assms obtain i s1 where i: "leadingInt 0 s = Some (i, s1)"
    by (auto simp: parse_item_def split: if_splits option.splits)
  define s2 where "s2 = (if HasPrefix s1 ''.'' then snd (snd (leadingFraction 0 0 False (tl s1))) else s1)"
  have "length s2 \<le> length s1"
    using leadingFraction_length [of 0 0 False "tl s1"] by (cases "leadingFraction 0 0 False (tl s1)") (auto simp: s2_def)
  moreover have "takeWhile (\<lambda>c. \<not> number_char c) s2 \<noteq> []" "s' = dropWhile (\<lambda>c. \<not> number_char c) s2"
    using assms i by (auto simp: parse_item_def s2_def Let_def split: if_splits option.splits prod.splits)
  ultimately show ?thesis
    using leadingInt_length [OF i] takeWhile_progress by fastforce
qed

lemma parse_loop_returns: "\<exists>r. parse_loop d s = Some r"
proof (induction s arbitrary: d rule: length_induct)
  case (1 s)
  show ?case
  proof (cases "parse_item s")
    case None
    then show ?thesis by (subst parse_loop.simps) simp
  next
    case (Some p)
    then obtain v s' where p: "parse_item s = Some (v, s')" by (cases p) auto
    with 1 parse_item_shorter have "\<exists>r. parse_loop (d + v) s' = Some r" by blast
    with p show ?thesis by (subst parse_loop.simps) simp
  qed
qed

lemma ParseDuration_returns: "\<exists>r. ParseDuration s = Some r"
proof -
  define t where "t = (if HasPrefix s ''-'' \<or> HasPrefix s ''+'' then tl s else s)"
  obtain r where "parse_loop 0 t = Some r" using parse_loop_returns by blast
  then show ?thesis
    by (cases r) (simp_all add: ParseDuration_def t_def [symmetric] del: HasPrefix_single)
qed

lemma ParseDuration_fits: "ParseDuration s = Some (Some d) \<Longrightarrow> fits64 d"
  using wrap64_fits by (auto simp: ParseDuration_def Let_def split: if_splits option.splits)

lemma Atoi_fits: "Atoi s = Inr i \<Longrightarrow> fits64 i"
  by (auto simp: Atoi_def Let_def split: if_splits option.splits)

lemma envDuration_returns: "fits64 d \<Longrightarrow> \<exists>x. envDuration e key d = Some x \<and> fits64 x"
  using ParseDuration_returns [of "Getenv e key"] ParseDuration_fits
  by (fastforce simp: envDuration_def Let_def split: option.splits)

lemma envInt_fits: "fits64 i \<Longrightarrow> fits64 (envInt e key i)"
  using Atoi_fits by (auto simp: envInt_def Let_def split: sum.split)


section \<open>Reading back a duration\<close>

definition durationText :: "(nat \<times> string) list \<Rightarrow> string" where
  "durationText cs = concat (map (\<lambda>(n, u). dec n @ u) cs)"

fun totalOf :: "(nat \<times> string) list \<Rightarrow> nat" where
  "totalOf [] = 0"
| "totalOf ((n, u) # cs) = n * unat (the (map_of unitMap u)) + totalOf cs"

definition known_units :: "(nat \<times> string) list \<Rightarrow> bool" where
  "known_units cs \<longleftrightarrow> list_all (\<lambda>(n, u). u \<in> fst ` set unitMap) cs"

lemma undec_ge: "undec a s = Some n \<Longrightarrow> a \<le> n"
  by (induction a s rule: undec.induct) (auto split: if_splits)

lemma leadingInt_digits:
  assumes "undec (unat x) ds = Some n" and "n \<le> 2 ^ 63" and "s = [] \<or> \<not> is_digit (hd s)"
  shows "leadingInt x (ds @ s) = Some (of_nat n, s)"
  using assms(1)
proof (induction ds arbitrary: x)
  case Nil
  with assms(3) show ?case by (cases s) auto
next
  case (Cons c ds)
  let ?y = "x * 10 + of_nat (digit_val c)"
  from Cons.prems have c: "is_digit c" and u: "undec (10 * unat x + digit_val c) ds = Some n"
    by (auto split: if_splits)
  have le: "10 * unat x + digit_val c \<le> 2 ^ 63"
    using undec_ge [OF u] assms(2) by simp
  then have y: "unat ?y = 10 * unat x + digit_val c"
    by (simp add: unat_word_ariths unat_of_nat mult.commute)
  have "unat x \<le> 2 ^ 63 div 10" using le by linarith
  then have "\<not> x > 2 ^ 63 div 10" by (simp add: word_less_nat_alt unat_div)
  moreover have "\<not> ?y > 2 ^ 63" using le y by (simp add: word_less_nat_alt)
  ultimately show ?case
    using c Cons.IH [of ?y] u y by simp
qed

lemma unit_shape:
  assumes "map_of unitMap u = Some unit"
  shows "u \<noteq> []" and "\<forall>c \<in> set u. \<not> number_char c" and "0 < unat unit"
  using map_of_SomeD [OF assms] by (auto simp: unitMap_def number_char_def is_digit_def)

lemma parse_item_text:
  assumes u: "map_of unitMap u = Some unit" and b: "n * unat unit \<le> 2 ^ 63" and r: "s = [] \<or> number_char (hd s)"
  shows "parse_item (dec n @ u @ s) = Some (of_nat (n * unat unit), s)"
proof -
  note shape = unit_shape [OF u]
  have nu: "\<not> is_digit (hd (u @ s))" "\<not> HasPrefix (u @ s) ''.''"
    using shape(1,2) by (cases u; auto simp: number_char_def HasPrefix_single)+
  have n: "n \<le> 2 ^ 63 div unat unit" using b shape(3) by (simp add: less_eq_div_iff_mult_less_eq)
  then have "n \<le> 2 ^ 63" by (meson div_le_dividend le_trans)
  then have l: "leadingInt 0 (dec n @ u @ s) = Some (of_nat n, u @ s)"
    using leadingInt_digits [of 0 "dec n" n "u @ s"] undec_dec nu(1) by simp
  have "unat (of_nat n :: u64) = n" using \<open>n \<le> 2 ^ 63\<close> by (simp add: unat_of_nat)
  then have "\<not> (of_nat n :: u64) > 2 ^ 63 div unit"
    using n by (simp add: word_less_nat_alt unat_div)
  moreover have "takeWhile (\<lambda>c. \<not> number_char c) (u @ s) = u" "dropWhile (\<lambda>c. \<not> number_char c) (u @ s) = s"
    using shape(2) r by (cases s; auto simp: takeWhile_append dropWhile_append)+
  moreover have "number_char (hd (dec n @ u @ s))"
    using hd_dec_digit [of n] by (simp add: number_char_def)
  ultimately show ?thesis
    using u l nu(2) shape(1) by (simp add: parse_item_def)
qed

lemma parse_loop_text:
  assumes "known_units cs" and "unat d + totalOf cs \<le> 2 ^ 63"
  shows "parse_loop d (durationText cs) = Some (Some (d + of_nat (totalOf cs)))"
  using assms
proof (induction cs arbitrary: d)
  case Nil
  then show ?case by (subst parse_loop.simps) (simp add: durationText_def)
next
  case (Cons x cs)
  obtain n u where x: "x = (n, u)" by fastforce
  with Cons.prems(1) obtain unit where u: "map_of unitMap u = Some unit"
    by (auto simp: known_units_def dest: weak_map_of_SomeI)
  let ?v = "n * unat unit"
  have s: "durationText (x # cs) = dec n @ u @ durationText cs" by (simp add: durationText_def x)
  have "durationText cs = [] \<or> number_char (hd (durationText cs))"
    using hd_dec_digit by (cases cs) (auto simp: durationText_def number_char_def)
  from parse_item_text [OF u _ this, of n] Cons.prems(2) x u
  have i: "parse_item (durationText (x # cs)) = Some (of_nat ?v, durationText cs)" unfolding s by simp
  have word: "unat (d + of_nat m) = unat d + m" if "unat d + m \<le> 2 ^ 63" for m
    using that by (simp add: unat_word_ariths unat_of_nat)
  have v: "unat (d + of_nat ?v) = unat d + ?v"
    by (rule word) (use Cons.prems(2) x u in simp)
  then have "\<not> d + of_nat ?v > 2 ^ 63"
    using Cons.prems(2) x u by (simp add: word_less_nat_alt)
  then have "parse_loop d (durationText (x # cs)) = parse_loop (d + of_nat ?v) (durationText cs)"
    using s i by (subst parse_loop.simps) simp
  with Cons.IH [of "d + of_nat ?v"] Cons.prems v x u show ?case
    by (simp add: known_units_def add.assoc)
qed

text \<open>
  What is written as a sequence of whole numbers with units is read back as the sum, with either sign, up to the largest
  duration: \<^verbatim>\<open>1h30m\<close> is ninety minutes.
\<close>

theorem ParseDuration_text:
  assumes "cs \<noteq> []" and "known_units cs" and "totalOf cs < 2 ^ 63"
  shows "ParseDuration (durationText cs) = Some (Some (int (totalOf cs))) \<and>
    ParseDuration (''-'' @ durationText cs) = Some (Some (- int (totalOf cs)))"
proof -
  obtain n u cs' where cs: "cs = (n, u) # cs'" using assms(1) by (metis list.exhaust surj_pair)
  with assms(2) have u: "u \<noteq> []"
    by (auto simp: known_units_def unitMap_def)
  have d: "hd (durationText cs) = hd (dec n)" "durationText cs \<noteq> []" "length (durationText cs) \<noteq> 1"
    using u dec_nonempty [of n] by (auto simp: durationText_def cs) (cases u; cases "dec n"; simp)
  have "\<not> HasPrefix (durationText cs) ''-''" "\<not> HasPrefix (durationText cs) ''+''"
    using d hd_dec_digit [of n] by (auto simp: HasPrefix_single)
  moreover have "durationText cs \<noteq> ''0''" using d(3) by auto
  moreover have "parse_loop 0 (durationText cs) = Some (Some (of_nat (totalOf cs)))"
    using parse_loop_text [OF assms(2), of 0] assms(3) by simp
  moreover have "\<not> (of_nat (totalOf cs) :: u64) > 2 ^ 63 - 1" "uint (of_nat (totalOf cs) :: u64) = int (totalOf cs)"
    using assms(3) by (simp_all add: word_less_nat_alt unat_of_nat uint_nat unat_sub)
  ultimately show ?thesis
    using d(2) assms(3) by (simp add: ParseDuration_def HasPrefix_single)
qed

theorem ParseDuration_text_witness:
  "ParseDuration (durationText [(1, ''h''), (30, ''m'')]) = Some (Some (5400 * second))"
proof -
  have "totalOf [(1, ''h''), (30, ''m'')] = 5400000000000" "known_units [(1, ''h''), (30, ''m'')]"
    by (simp_all add: unitMap_def known_units_def)
  then show ?thesis
    using ParseDuration_text [of "[(1, ''h''), (30, ''m'')]"] by simp
qed

section \<open>Precedence of the settings\<close>

text \<open>What the lines of a file assign, and the first value that is not empty.\<close>

definition assigned :: "string list \<Rightarrow> (string \<times> string) list" where
  "assigned ls = List.map_filter (\<lambda>raw. case parseLine [] 0 raw of Inl _ \<Rightarrow> None | Inr kv \<Rightarrow> kv) ls"

definition firstValue :: "string \<Rightarrow> (string \<times> string) list \<Rightarrow> string" where
  "firstValue key as = (case find (\<lambda>(k, v). k = key \<and> v \<noteq> []) as of None \<Rightarrow> [] | Some (k, v) \<Rightarrow> v)"

lemma parseLine_anywhere: "parseLine path n raw = Inr kv \<Longrightarrow> parseLine [] 0 raw = Inr kv"
  by (auto simp: parseLine_def Let_def split: if_splits option.splits prod.splits)

lemma assigned_simps:
  "assigned [] = []"
  "parseLine path n raw = Inr None \<Longrightarrow> assigned (raw # ls) = assigned ls"
  "parseLine path n raw = Inr (Some kv) \<Longrightarrow> assigned (raw # ls) = kv # assigned ls"
  by (simp_all add: assigned_def List.map_filter_simps parseLine_anywhere)

lemma firstValue_simps:
  "firstValue key [] = []"
  "firstValue key ((k, v) # as) = (if k = key \<and> v \<noteq> [] then v else firstValue key as)"
  by (simp_all add: firstValue_def)

lemma Getenv_update: "Getenv (e(k \<mapsto> v)) key = (if k = key then v else Getenv e key)"
  by (simp add: Getenv_def)

lemma Setenv_Inr: "Setenv k v e = Inr e' \<Longrightarrow> e' = e(k \<mapsto> v)"
  by (auto simp: Setenv_def split: if_splits)

text \<open>What one line does when loading succeeds.\<close>

lemma loadLines_step:
  assumes "loadLines path err n (raw # ls) e = (None, e')"
  obtains (blank) "parseLine path n raw = Inr None" "loadLines path err (Suc n) ls e = (None, e')"
  | (kept) k v where "parseLine path n raw = Inr (Some (k, v))" "Getenv e k \<noteq> []" "loadLines path err (Suc n) ls e = (None, e')"
  | (put) k v where "parseLine path n raw = Inr (Some (k, v))" "Getenv e k = []" "\<And>f. Setenv k v f = Inr (f(k \<mapsto> v))"
      "loadLines path err (Suc n) ls (e(k \<mapsto> v)) = (None, e')"
  using assms by (auto simp: Setenv_def split: sum.splits option.splits if_splits)

lemma loadLines_keeps: "Getenv e key \<noteq> [] \<Longrightarrow> Getenv (snd (loadLines path err n ls e)) key = Getenv e key"
proof (induction ls arbitrary: n e)
  case (Cons raw ls)
  have "Getenv (snd (loadLines path err m ls (e(k \<mapsto> v)))) key = Getenv e key" if "Getenv e k = []" for m k v
  proof -
    have "k \<noteq> key" using that Cons.prems by auto
    then have "Getenv (e(k \<mapsto> v)) key = Getenv e key" by (simp only: Getenv_update if_False)
    with Cons.IH Cons.prems show ?thesis by metis
  qed
  with Cons show ?case
    by (auto split: sum.split option.split dest!: Setenv_Inr)
qed simp

lemma loadLines_values:
  "loadLines path err n ls e = (None, e') \<Longrightarrow>
     Getenv e' key = (if Getenv e key \<noteq> [] then Getenv e key else firstValue key (assigned ls))"
proof (induction ls arbitrary: n e)
  case (Cons raw ls)
  from Cons.prems show ?case
  proof (cases rule: loadLines_step)
    case blank
    with Cons.IH show ?thesis by (simp add: assigned_simps(2) [OF blank(1)])
  next
    case (kept k v)
    with Cons.IH show ?thesis by (auto simp: assigned_simps(3) [OF kept(1)] firstValue_simps)
  next
    case (put k v)
    from Cons.IH [OF put(4)] put(2) show ?thesis
      unfolding assigned_simps(3) [OF put(1)] firstValue_simps Getenv_update by (cases "k = key") simp_all
  qed
qed (simp add: assigned_simps firstValue_simps)

lemma loadLines_richer:
  assumes "loadLines path err n ls e = (None, e')" and "\<And>key. Getenv e key \<noteq> [] \<Longrightarrow> Getenv f key \<noteq> []"
  shows "\<exists>f'. loadLines path err n ls f = (None, f')"
  using assms
proof (induction ls arbitrary: n e f)
  case (Cons raw ls)
  from Cons.prems(1) show ?case
  proof (cases rule: loadLines_step)
    case blank
    with Cons.IH [OF blank(2)] Cons.prems(2) show ?thesis by simp
  next
    case (kept k v)
    with Cons.IH [OF kept(3)] Cons.prems(2) show ?thesis by simp
  next
    case (put k v)
    have "\<exists>f'. loadLines path err (Suc n) ls (if Getenv f k \<noteq> [] then f else f(k \<mapsto> v)) = (None, f')"
    proof (rule Cons.IH [OF put(4)])
      fix key assume "Getenv (e(k \<mapsto> v)) key \<noteq> []"
      then show "Getenv (if Getenv f k \<noteq> [] then f else f(k \<mapsto> v)) key \<noteq> []"
        using Cons.prems(2) [of key] unfolding Getenv_update by (cases "k = key") (simp_all add: Getenv_update)
    qed
    with put(1,3) show ?thesis by (simp split: if_splits)
  qed
qed simp


lemmas line_defs = parseLine_def maxTokenSize_def dropCR_def Cut_def TrimSpace_def Trim_def TrimFunc_def is_space_def HasPrefix_def

lemma demo_lines:
  "scanLines ''PORT=1'' = [''PORT=1'']" "parseLine path n ''PORT=1'' = Inr (Some (''PORT'', ''1''))"
  by (simp_all add: scanLines_def line_defs)


text \<open>A variable that is set but empty is taken for one that is not set.\<close>

lemma LoadDotEnv_empty_overwritten:
  "snd (LoadDotEnv ''.env'' (Content ''PORT=1'' None) [''PORT'' \<mapsto> []]) ''PORT'' = Some ''1''"
  by (simp add: LoadDotEnv_def demo_lines Setenv_def Getenv_def)

end
