(* ===== verification/Sql.thy ===== *)
theory Sql
  imports Domain MemQueue
begin

text \<open>
  The SQL of \<^verbatim>\<open>internal/repositories/postgres\<close> and \<^verbatim>\<open>migrations/\<close>: the schema, and the statements the repositories send, as data with an
  evaluation over tables. Inserting and updating convert the arguments to the types of the columns and check nulls,
  unique keys and references as Postgres does; an error has its SQLSTATE. Each statement is one atomic step. The connection may fail at
  any statement, before or after the statement has taken effect, and the order of rows is arbitrary where a query fixes none.
  Text is any text without zero bytes; collations, encodings and messages of errors are not modelled.
\<close>

section \<open>Values\<close>

datatype val = VNull | VText string | VInt int | VTime time | VBytes string

datatype coltype = TUuid | TText | TInt | TTime | TJson

definition pgError :: "string \<Rightarrow> error" where
  "pgError code = ErrStatus code (''SQLSTATE '' @ code)"

text \<open>The input function of type \<^verbatim>\<open>uuid\<close>: sixteen bytes in hexadecimal, a hyphen allowed after every second one, braces allowed.\<close>

definition is_hexchar :: "char \<Rightarrow> bool" where
  "is_hexchar c \<longleftrightarrow> is_hex (lower_char c)"

fun uuid_bytes :: "nat \<Rightarrow> string \<Rightarrow> string option" where
  "uuid_bytes 0 s = (if s = [] then Some [] else None)"
| "uuid_bytes (Suc n) (a # b # s) =
     (if is_hexchar a \<and> is_hexchar b
      then map_option (\<lambda>h. lower_char a # lower_char b # h)
             (uuid_bytes n (if even n \<and> 0 < n \<and> HasPrefix s ''-'' then tl s else s))
      else None)"
| "uuid_bytes (Suc n) _ = None"

definition uuid_out :: "string \<Rightarrow> string" where
  "uuid_out h = take 8 h @ ''-'' @ take 4 (drop 8 h) @ ''-'' @ take 4 (drop 12 h) @ ''-'' @ take 4 (drop 16 h) @ ''-'' @ drop 20 h"

definition uuid_in :: "string \<Rightarrow> string option" where
  "uuid_in s =
     map_option uuid_out
       (if HasPrefix s ''{''
        then if last s = CHR ''}'' \<and> 1 < length s then uuid_bytes 16 (butlast (tl s)) else None
        else uuid_bytes 16 s)"

text \<open>Timestamps have microseconds.\<close>

definition micros :: "time \<Rightarrow> time" where
  "micros t = t div 1000 * 1000"

text \<open>An argument or value converted to the type of a column. \<open>J\<close> is the input function of \<^verbatim>\<open>jsonb\<close>, a parameter.\<close>

fun store_val :: "(string \<Rightarrow> string option) \<Rightarrow> coltype \<Rightarrow> val \<Rightarrow> error + val" where
  "store_val J ty VNull = Inr VNull"
| "store_val J TUuid (VText s) = (case uuid_in s of None \<Rightarrow> Inl (pgError ''22P02'') | Some u \<Rightarrow> Inr (VText u))"
| "store_val J TText (VText s) = (if CHR 0x00 \<in> set s then Inl (pgError ''22021'') else Inr (VText s))"
| "store_val J TInt (VInt i) = (if - (2 ^ 31) \<le> i \<and> i < 2 ^ 31 then Inr (VInt i) else Inl (pgError ''22003''))"
| "store_val J TTime (VTime t) = Inr (VTime (micros t))"
| "store_val J TJson (VBytes s) = (case J s of None \<Rightarrow> Inl (pgError ''22P02'') | Some j \<Rightarrow> Inr (VBytes j))"
| "store_val J ty v = Inl (pgError ''42804'')"

section \<open>Tables\<close>

type_synonym row = "(string \<times> val) list"
type_synonym tables = "string \<Rightarrow> row list"

definition cell :: "row \<Rightarrow> string \<Rightarrow> val" where
  "cell r c = (case map_of r c of None \<Rightarrow> VNull | Some v \<Rightarrow> v)"

text \<open>Columns with their types and whether they are \<^verbatim>\<open>not null\<close>, unique keys, and columns that refer to the \<^verbatim>\<open>id\<close> of another table.\<close>

record table_def =
  td_cols :: "(string \<times> coltype \<times> bool) list"
  td_unique :: "string list list"
  td_refs :: "(string \<times> string) list"

definition schema :: "string \<Rightarrow> table_def" where
  "schema t =
     (if t = ''users'' then
        \<lparr>td_cols = [(''id'', TUuid, True), (''email'', TText, True), (''display_name'', TText, True),
           (''default_tenant_id'', TUuid, False), (''created_at'', TTime, True), (''updated_at'', TTime, True)],
         td_unique = [[''id''], [''email'']], td_refs = []\<rparr>
      else if t = ''tenants'' then
        \<lparr>td_cols = [(''id'', TUuid, True), (''slug'', TText, True), (''name'', TText, True), (''plan'', TText, True),
           (''status'', TText, True), (''created_at'', TTime, True), (''updated_at'', TTime, True)],
         td_unique = [[''id''], [''slug'']], td_refs = []\<rparr>
      else if t = ''tenant_members'' then
        \<lparr>td_cols = [(''tenant_id'', TUuid, True), (''user_id'', TUuid, True), (''role'', TText, True), (''created_at'', TTime, True)],
         td_unique = [[''tenant_id'', ''user_id'']], td_refs = [(''tenant_id'', ''tenants''), (''user_id'', ''users'')]\<rparr>
      else if t = ''apps'' then
        \<lparr>td_cols = [(''id'', TUuid, True), (''tenant_id'', TUuid, True), (''name'', TText, True), (''slug'', TText, True),
           (''desired_state'', TText, True), (''current_deployment_id'', TUuid, False), (''config'', TJson, True),
           (''created_by'', TUuid, True), (''created_at'', TTime, True), (''updated_at'', TTime, True)],
         td_unique = [[''id''], [''tenant_id'', ''slug'']], td_refs = [(''tenant_id'', ''tenants''), (''created_by'', ''users'')]\<rparr>
      else if t = ''deployments'' then
        \<lparr>td_cols = [(''id'', TUuid, True), (''tenant_id'', TUuid, True), (''app_id'', TUuid, True), (''version'', TInt, True),
           (''image_ref'', TText, True), (''config_snapshot'', TJson, True), (''status'', TText, True), (''status_reason'', TText, False),
           (''backend'', TText, True), (''backend_ref'', TJson, True), (''requested_by'', TUuid, True), (''repair_attempts'', TInt, True),
           (''started_at'', TTime, False), (''finished_at'', TTime, False), (''created_at'', TTime, True), (''updated_at'', TTime, True)],
         td_unique = [[''id''], [''app_id'', ''version'']],
         td_refs = [(''tenant_id'', ''tenants''), (''app_id'', ''apps''), (''requested_by'', ''users'')]\<rparr>
      else if t = ''deployment_events'' then
        \<lparr>td_cols = [(''id'', TUuid, True), (''deployment_id'', TUuid, True), (''tenant_id'', TUuid, True), (''type'', TText, True),
           (''message'', TText, True), (''created_at'', TTime, True)],
         td_unique = [[''id'']], td_refs = [(''deployment_id'', ''deployments''), (''tenant_id'', ''tenants'')]\<rparr>
      else if t = ''auth_identities'' then
        \<lparr>td_cols = [(''id'', TUuid, True), (''user_id'', TUuid, True), (''provider'', TText, True), (''provider_user_id'', TText, True),
           (''access_token_encrypted'', TText, False), (''refresh_token_encrypted'', TText, False), (''metadata'', TJson, True),
           (''created_at'', TTime, True), (''updated_at'', TTime, True)],
         td_unique = [[''id''], [''provider'', ''provider_user_id'']], td_refs = [(''user_id'', ''users'')]\<rparr>
      else if t = ''api_keys'' then
        \<lparr>td_cols = [(''id'', TUuid, True), (''tenant_id'', TUuid, True), (''user_id'', TUuid, True), (''name'', TText, True),
           (''key_prefix'', TText, True), (''key_hash'', TText, True), (''last_used_at'', TTime, False), (''expires_at'', TTime, False),
           (''revoked_at'', TTime, False), (''created_at'', TTime, True)],
         td_unique = [[''id'']], td_refs = [(''tenant_id'', ''tenants''), (''user_id'', ''users'')]\<rparr>
      else
        \<lparr>td_cols = [(''id'', TUuid, True), (''tenant_id'', TUuid, True), (''actor_user_id'', TUuid, False),
           (''actor_api_key_id'', TUuid, False), (''action'', TText, True), (''resource_type'', TText, True),
           (''resource_id'', TText, True), (''message'', TText, True), (''created_at'', TTime, True)],
         td_unique = [[''id'']],
         td_refs = [(''tenant_id'', ''tenants''), (''actor_user_id'', ''users''), (''actor_api_key_id'', ''api_keys'')]\<rparr>)"

definition type_of :: "string \<Rightarrow> string \<Rightarrow> coltype" where
  "type_of t c = (case map_of (td_cols (schema t)) c of None \<Rightarrow> TText | Some (ty, _) \<Rightarrow> ty)"

section \<open>Statements\<close>

text \<open>
  \<^verbatim>\<open>$n\<close>, \<^verbatim>\<open>nullif($n, '')\<close>, \<^verbatim>\<open>nullif($n, '')::uuid\<close>, \<^verbatim>\<open>now()\<close>, \<^verbatim>\<open>excluded.c\<close>. A parameter takes the type of its column;
  \<^verbatim>\<open>nullif\<close> on a parameter is of type text, which is no value for a column of another type.
\<close>

datatype expr = Param nat | NullifText nat | NullifUuid nat | NowX | Excluded string

fun eval_expr :: "(string \<Rightarrow> string option) \<Rightarrow> time \<Rightarrow> val list \<Rightarrow> row \<Rightarrow> coltype \<Rightarrow> expr \<Rightarrow> error + val" where
  "eval_expr J now args ex ty (Param n) = store_val J ty (args ! (n - 1))"
| "eval_expr J now args ex ty (NullifText n) =
     (if ty \<noteq> TText then Inl (pgError ''42804'')
      else if args ! (n - 1) = VText [] then Inr VNull else store_val J TText (args ! (n - 1)))"
| "eval_expr J now args ex ty (NullifUuid n) =
     (if ty \<noteq> TUuid then Inl (pgError ''42804'')
      else if args ! (n - 1) = VText [] then Inr VNull else store_val J TUuid (args ! (n - 1)))"
| "eval_expr J now args ex ty NowX = (if ty \<noteq> TTime then Inl (pgError ''42804'') else Inr (VTime (micros now)))"
| "eval_expr J now args ex ty (Excluded c) = Inr (cell ex c)"

fun eval_row ::
  "(string \<Rightarrow> string option) \<Rightarrow> time \<Rightarrow> val list \<Rightarrow> row \<Rightarrow> string \<Rightarrow> (string \<times> expr) list \<Rightarrow> error + row" where
  "eval_row J now args ex t [] = Inr []"
| "eval_row J now args ex t ((c, e) # sets) =
     (case eval_expr J now args ex (type_of t c) e of
        Inl err \<Rightarrow> Inl err
      | Inr v \<Rightarrow> (case eval_row J now args ex t sets of Inl err \<Rightarrow> Inl err | Inr r \<Rightarrow> Inr ((c, v) # r)))"

definition has_null :: "string \<Rightarrow> row \<Rightarrow> bool" where
  "has_null t r \<longleftrightarrow> list_ex (\<lambda>(c, ty, required). required \<and> cell r c = VNull) (td_cols (schema t))"

definition key_of :: "string list \<Rightarrow> row \<Rightarrow> val list" where
  "key_of u r = map (cell r) u"

definition has_dup :: "string \<Rightarrow> row list \<Rightarrow> bool" where
  "has_dup t rows \<longleftrightarrow> list_ex (\<lambda>u. \<not> distinct (filter (\<lambda>k. VNull \<notin> set k) (map (key_of u) rows))) (td_unique (schema t))"

definition refs_ok :: "tables \<Rightarrow> string \<Rightarrow> row \<Rightarrow> bool" where
  "refs_ok T t r \<longleftrightarrow> list_all (\<lambda>(c, t'). cell r c = VNull \<or> cell r c \<in> set (map (\<lambda>x. cell x ''id'') (T t'))) (td_refs (schema t))"

text \<open>Storing new contents of a table, of which \<open>changed\<close> are new.\<close>

definition store_rows :: "tables \<Rightarrow> string \<Rightarrow> row list \<Rightarrow> row list \<Rightarrow> error + tables" where
  "store_rows T t changed rows =
     (if list_ex (has_null t) changed then Inl (pgError ''23502'')
      else if has_dup t rows then Inl (pgError ''23505'')
      else if \<not> list_all (refs_ok T t) changed then Inl (pgError ''23503'')
      else Inr (T(t := rows)))"

text \<open>\<^verbatim>\<open>on conflict (target) do update set ...\<close>\<close>

datatype on_conflict = Refuse | DoUpdate "string list" "(string \<times> expr) list"

definition override :: "row \<Rightarrow> row \<Rightarrow> row" where
  "override old new = foldl (\<lambda>r (c, v). AList.update c v r) old new"

definition sql_insert ::
  "string \<Rightarrow> (string \<times> expr) list \<Rightarrow> on_conflict \<Rightarrow> val list \<Rightarrow> time \<Rightarrow> (string \<Rightarrow> string option) \<Rightarrow> tables \<Rightarrow>
   error + row \<times> tables" where
  "sql_insert t sets oc args now J T =
     (case eval_row J now args [] t sets of
        Inl e \<Rightarrow> Inl e
      | Inr r \<Rightarrow>
          (let add = (case store_rows T t [r] (T t @ [r]) of Inl e \<Rightarrow> Inl e | Inr T' \<Rightarrow> Inr (r, T'))
           in case oc of
                Refuse \<Rightarrow> add
              | DoUpdate target sets' \<Rightarrow>
                  (case find (\<lambda>x. key_of target x = key_of target r \<and> VNull \<notin> set (key_of target r)) (T t) of
                     None \<Rightarrow> add
                   | Some old \<Rightarrow>
                       (case eval_row J now args r t sets' of
                          Inl e \<Rightarrow> Inl e
                        | Inr new \<Rightarrow>
                            (let r' = override old new
                             in case store_rows T t [r'] (map (\<lambda>x. if x = old then r' else x) (T t)) of
                                  Inl e \<Rightarrow> Inl e
                                | Inr T' \<Rightarrow> Inr (r', T'))))))"

text \<open>Conditions \<^verbatim>\<open>c = $n and ...\<close>\<close>

type_synonym conds = "(string \<times> expr) list"

definition matches :: "row \<Rightarrow> row \<Rightarrow> bool" where
  "matches vs r \<longleftrightarrow> list_all (\<lambda>(c, v). v \<noteq> VNull \<and> cell r c = v) vs"

definition sql_update ::
  "string \<Rightarrow> (string \<times> expr) list \<Rightarrow> conds \<Rightarrow> val list \<Rightarrow> time \<Rightarrow> (string \<Rightarrow> string option) \<Rightarrow> tables \<Rightarrow> error + unit \<times> tables" where
  "sql_update t sets cs args now J T =
     (case eval_row J now args [] t sets of
        Inl e \<Rightarrow> Inl e
      | Inr new \<Rightarrow>
          (case eval_row J now args [] t cs of
             Inl e \<Rightarrow> Inl e
           | Inr vs \<Rightarrow>
               (case store_rows T t (map (\<lambda>r. override r new) (filter (matches vs) (T t)))
                       (map (\<lambda>r. if matches vs r then override r new else r) (T t)) of
                  Inl e \<Rightarrow> Inl e
                | Inr T' \<Rightarrow> Inr ((), T'))))"

definition sql_select ::
  "string \<Rightarrow> conds \<Rightarrow> val list \<Rightarrow> time \<Rightarrow> (string \<Rightarrow> string option) \<Rightarrow> tables \<Rightarrow> error + row list \<times> tables" where
  "sql_select t cs args now J T =
     (case eval_row J now args [] t cs of Inl e \<Rightarrow> Inl e | Inr vs \<Rightarrow> Inr (filter (matches vs) (T t), T))"

section \<open>The database\<close>

record pg_world = mq_world +
  pg_tables :: tables
  pg_calls :: nat
  pg_down :: "nat \<Rightarrow> (error \<times> bool) option"
  pg_jsonb :: "string \<Rightarrow> string option"

text \<open>
  One statement sent over the connection. \<open>pg_down\<close> says of each whether the connection fails, with which error, and whether the
  statement had taken effect by then.
\<close>

definition sql :: "(time \<Rightarrow> (string \<Rightarrow> string option) \<Rightarrow> tables \<Rightarrow> error + 'r \<times> tables) \<Rightarrow> ('r, 'a pg_world_scheme) op" where
  "sql f w =
     (let (now, w) = Now w;
          n = pg_calls w;
          w = w\<lparr>pg_calls := Suc n\<rparr>
      in case f now (pg_jsonb w) (pg_tables w) of
           Inl e \<Rightarrow> (Inl (case pg_down w n of None \<Rightarrow> e | Some (e', _) \<Rightarrow> e'), w)
         | Inr (r, T) \<Rightarrow>
             (case pg_down w n of
                None \<Rightarrow> (Inr r, w\<lparr>pg_tables := T\<rparr>)
              | Some (e, reached) \<Rightarrow> (Inl e, if reached then w\<lparr>pg_tables := T\<rparr> else w)))"

text \<open>\<^verbatim>\<open>rows.Err()\<close>, and a transaction step that changes nothing itself\<close>

definition rows_Err :: "(unit, 'a pg_world_scheme) op" where
  "rows_Err w =
     (let n = pg_calls w; w = w\<lparr>pg_calls := Suc n\<rparr>
      in case pg_down w n of None \<Rightarrow> (Inr (), w) | Some (e, _) \<Rightarrow> (Inl e, w))"

text \<open>The rows in the order in which the database happens to find them.\<close>

definition in_some_order :: "row list \<Rightarrow> 'a env_scheme \<Rightarrow> row list \<times> 'a env_scheme" where
  "in_some_order rows w =
     (let (krs, w) = range_map (map (\<lambda>r. (case cell r ''id'' of VText i \<Rightarrow> i | _ \<Rightarrow> [], r)) rows) w in (map snd krs, w))"

text \<open>What \<^verbatim>\<open>order by\<close> compares.\<close>

definition order_val :: "string \<Rightarrow> row \<Rightarrow> int" where
  "order_val c r = (case cell r c of VTime t \<Rightarrow> t | VInt i \<Rightarrow> i | _ \<Rightarrow> 0)"

text \<open>Result columns: \<^verbatim>\<open>c\<close> and \<^verbatim>\<open>coalesce(c, '')\<close>\<close>

datatype out = Col string | Coalesce string

fun out_val :: "row \<Rightarrow> out \<Rightarrow> val" where
  "out_val r (Col c) = cell r c"
| "out_val r (Coalesce c) = (if cell r c = VNull then VText [] else cell r c)"

definition ErrNoRows :: error where
  "ErrNoRows = ErrText ''sql: no rows in result set''"

text \<open>\<^verbatim>\<open>QueryRowContext(...).Scan(...)\<close> on the rows found: the first one.\<close>

definition first_row :: "row list \<Rightarrow> error + row" where
  "first_row rows = (case rows of [] \<Rightarrow> Inl ErrNoRows | r # _ \<Rightarrow> Inr r)"

section \<open>Scanning\<close>

definition bindS :: "error + 'a \<Rightarrow> ('a \<Rightarrow> error + 'b) \<Rightarrow> error + 'b" where
  "bindS x f = (case x of Inl e \<Rightarrow> Inl e | Inr a \<Rightarrow> f a)"

definition badScan :: error where
  "badScan = ErrText ''sql: Scan error: converting driver value: unsupported''"

fun scanText :: "val \<Rightarrow> error + string" where
  "scanText (VText s) = Inr s" | "scanText _ = Inl badScan"

fun scanTextPtr :: "val \<Rightarrow> error + string option" where
  "scanTextPtr (VText s) = Inr (Some s)" | "scanTextPtr VNull = Inr None" | "scanTextPtr _ = Inl badScan"

fun scanInt :: "val \<Rightarrow> error + int" where
  "scanInt (VInt i) = Inr i" | "scanInt _ = Inl badScan"

fun scanTime :: "val \<Rightarrow> error + time" where
  "scanTime (VTime t) = Inr t" | "scanTime _ = Inl badScan"

fun scanTimePtr :: "val \<Rightarrow> error + time option" where
  "scanTimePtr (VTime t) = Inr (Some t)" | "scanTimePtr VNull = Inr None" | "scanTimePtr _ = Inl badScan"

fun scanBytes :: "val \<Rightarrow> error + string" where
  "scanBytes (VBytes s) = Inr s" | "scanBytes VNull = Inr []" | "scanBytes _ = Inl badScan"

fun mapS :: "('a \<Rightarrow> error + 'b) \<Rightarrow> 'a list \<Rightarrow> error + 'b list" where
  "mapS f [] = Inr []"
| "mapS f (x # xs) = bindS (f x) (\<lambda>y. bindS (mapS f xs) (\<lambda>ys. Inr (y # ys)))"

end
