(* ===== verification/PgRepos.thy ===== *)
theory PgRepos
  imports Sql MemStore
begin

text \<open>
  \<^verbatim>\<open>internal/repositories/postgres\<close>: every repository, statement by statement, over the database of \<open>Sql\<close>. The JSON codec of the configurations is a
  parameter. Text in a status or role column that is no status or role, which no statement writes, is a scan error here.
\<close>

section \<open>Base\<close>

record jcodec =
  jc_config :: "AppConfig \<Rightarrow> error + string"
  jc_unconfig :: "string \<Rightarrow> error + AppConfig"
  jc_ref :: "BackendRef \<Rightarrow> error + string"
  jc_unref :: "string \<Rightarrow> error + BackendRef"
  jc_metadata :: "gomap \<Rightarrow> error + string"

definition zeroAppConfig :: AppConfig where
  "zeroAppConfig =
     \<lparr>cfg_Image = [], cfg_Port = 0, cfg_Env = None, cfg_Replicas = 0, cfg_CPURequest = [], cfg_MemoryRequest = [],
      cfg_CPULimit = [], cfg_MemoryLimit = [], cfg_Public = False, cfg_Domain = [], cfg_ServiceAccountName = [],
      cfg_OpenClaw = None,
      cfg_Reliability = \<lparr>rel_AutoRepair = False, rel_MaxRepairAttempts = 0, rel_HealthCheckPath = [],
        rel_HealthCheckTimeoutSeconds = 0, rel_RollbackOnFailedHealthCheck = False, rel_FallbackProviders = []\<rparr>\<rparr>"

definition fromJSON :: "(string \<Rightarrow> error + 't) \<Rightarrow> 't \<Rightarrow> string \<Rightarrow> error + 't" where
  "fromJSON decode out raw = (if raw = [] then Inr out else decode raw)"

text \<open>\<^verbatim>\<open>errors.As(err, &pgErr)\<close>\<close>

fun pgCode :: "error \<Rightarrow> string option" where
  "pgCode (ErrStatus code m) = Some code"
| "pgCode (ErrWrap s e) = pgCode e"
| "pgCode e = None"

definition mapSQLError :: "error \<Rightarrow> error" where
  "mapSQLError err =
     (if errors_Is err ErrNoRows then ErrNotFound
      else if pgCode err = Some ''23505'' then ErrConflict
      else if pgCode err = Some ''23503'' then ErrValidation
      else err)"

definition nullableTime :: "time option \<Rightarrow> val" where
  "nullableTime t = (case t of None \<Rightarrow> VNull | Some t \<Rightarrow> VTime t)"

text \<open>A call with its error changed, as in \<^verbatim>\<open>return wrap("...", mapSQLError(err))\<close>.\<close>

definition mapErr :: "(error \<Rightarrow> error) \<Rightarrow> ('b, 'w) op \<Rightarrow> ('b, 'w) op" where
  "mapErr g f w = (case f w of (Inl e, w) \<Rightarrow> (Inl (g e), w) | (Inr a, w) \<Rightarrow> (Inr a, w))"

definition labelled :: "string \<Rightarrow> error + 'b \<Rightarrow> error + 'b" where
  "labelled op x = (case x of Inl e \<Rightarrow> Inl (Errorf op e) | Inr a \<Rightarrow> Inr a)"

definition discard :: "('b, 'w) op \<Rightarrow> (unit, 'w) op" where
  "discard f = bindE f (\<lambda>_. ret ())"

text \<open>\<^verbatim>\<open>QueryRowContext\<close> and \<^verbatim>\<open>Scan\<close>, and a loop over \<^verbatim>\<open>rows.Next()\<close>\<close>

definition queryRow :: "(row list, 'a pg_world_scheme) op \<Rightarrow> (row \<Rightarrow> error + 'b) \<Rightarrow> ('b, 'a pg_world_scheme) op" where
  "queryRow q scan =
     bindE q (\<lambda>rows w. let (rows, w) = in_some_order rows w in (bindS (first_row rows) scan, w))"

definition queryRows ::
  "(row list, 'a pg_world_scheme) op \<Rightarrow> (row list \<Rightarrow> row list) \<Rightarrow> (row \<Rightarrow> error + 'b) \<Rightarrow> string \<Rightarrow> ('b list, 'a pg_world_scheme) op" where
  "queryRows q arrange scan op =
     bindE q (\<lambda>rows w.
       let (rows, w) = in_some_order rows w
       in case mapS scan (arrange rows) of
            Inl e \<Rightarrow> (Inl e, w)
          | Inr items \<Rightarrow> bindE (mapErr (Errorf op) rows_Err) (\<lambda>_. ret items) w)"

section \<open>Users and tenants\<close>

definition scanUser :: "row \<Rightarrow> error + User" where
  "scanUser r =
     bindS (scanText (out_val r (Col ''id''))) (\<lambda>i.
     bindS (scanText (out_val r (Col ''email''))) (\<lambda>email.
     bindS (scanText (out_val r (Col ''display_name''))) (\<lambda>name.
     bindS (scanText (out_val r (Coalesce ''default_tenant_id''))) (\<lambda>tenant.
     bindS (scanTime (out_val r (Col ''created_at''))) (\<lambda>created.
     bindS (scanTime (out_val r (Col ''updated_at''))) (\<lambda>updated.
     Inr \<lparr>user_ID = i, user_Email = email, user_DisplayName = name, user_DefaultTenantID = tenant,
          user_CreatedAt = created, user_UpdatedAt = updated\<rparr>))))))"

definition pg_UpsertByEmail :: "string \<Rightarrow> string \<Rightarrow> (User, 'a pg_world_scheme) op" where
  "pg_UpsertByEmail email displayName w =
     (let (uid, w) = NewUUID w
      in mapErr (\<lambda>e. Errorf ''upsert user'' (mapSQLError e))
           (bindE
             (sql (sql_insert ''users''
                [(''id'', Param 1), (''email'', Param 2), (''display_name'', Param 3), (''created_at'', NowX), (''updated_at'', NowX)]
                (DoUpdate [''email''] [(''display_name'', Excluded ''display_name''), (''updated_at'', NowX)])
                [VText uid, VText email, VText displayName]))
             (\<lambda>r. ofSum (scanUser r))) w)"

definition pg_User_GetByID :: "string \<Rightarrow> (User, 'a pg_world_scheme) op" where
  "pg_User_GetByID userID =
     mapErr mapSQLError (queryRow (sql (sql_select ''users'' [(''id'', Param 1)] [VText userID])) scanUser)"

definition pg_sanitizeSlug :: "string \<Rightarrow> string" where
  "pg_sanitizeSlug s =
     (let s = ToLower (TrimSpace s);
          s = ReplaceAll s (CHR ''@'') (CHR ''-'');
          s = ReplaceAll s (CHR ''.'') (CHR ''-'');
          s = ReplaceAll s (CHR ''_'') (CHR ''-'')
      in if s = [] then ''tenant'' else s)"

fun pg_fallback :: "string list \<Rightarrow> string" where
  "pg_fallback [] = []"
| "pg_fallback (v # vs) = (if TrimSpace v \<noteq> [] then v else pg_fallback vs)"

text \<open>
  A transaction: its steps work on the tables, \<^verbatim>\<open>now()\<close> is the time of its beginning, and unless the commit takes effect the tables
  are what they were.
\<close>

definition sqlAt :: "time \<Rightarrow> (time \<Rightarrow> (string \<Rightarrow> string option) \<Rightarrow> tables \<Rightarrow> error + 'r \<times> tables) \<Rightarrow> ('r, 'a pg_world_scheme) op" where
  "sqlAt now f = sql (\<lambda>_. f now)"

definition inTx :: "string \<Rightarrow> string \<Rightarrow> (time \<Rightarrow> ('b, 'a pg_world_scheme) op) \<Rightarrow> ('b, 'a pg_world_scheme) op" where
  "inTx opBegin opCommit body w =
     (let (now, w) = Now w; T = pg_tables w
      in case rows_Err w of
           (Inl e, w) \<Rightarrow> (Inl (Errorf opBegin e), w)
         | (Inr _, w) \<Rightarrow>
             (case body now w of
                (Inl e, w) \<Rightarrow> (Inl e, w\<lparr>pg_tables := T\<rparr>)
              | (Inr a, w) \<Rightarrow>
                  (let n = pg_calls w; w = w\<lparr>pg_calls := Suc n\<rparr>
                   in case pg_down w n of
                        None \<Rightarrow> (Inr a, w)
                      | Some (e, reached) \<Rightarrow> (Inl (Errorf opCommit e), if reached then w else w\<lparr>pg_tables := T\<rparr>))))"

definition role_string :: "Role \<Rightarrow> string" where
  "role_string r = (case r of RoleOwner \<Rightarrow> ''owner'' | RoleAdmin \<Rightarrow> ''admin'' | RoleMember \<Rightarrow> ''member'')"

definition pg_CreatePersonalTenant :: "User \<Rightarrow> (Tenant, 'a pg_world_scheme) op" where
  "pg_CreatePersonalTenant user =
     inTx ''begin tenant tx'' ''commit tenant tx'' (\<lambda>now w.
       let (tid, w) = NewUUID w;
           tenant = \<lparr>tenant_ID = tid, tenant_Slug = pg_sanitizeSlug (user_Email user),
                     tenant_Name = pg_fallback [user_DisplayName user, user_Email user], tenant_Plan = ''free'',
                     tenant_Status = ''active'', tenant_CreatedAt = 0, tenant_UpdatedAt = 0\<rparr>
       in bindE
            (mapErr (Errorf ''insert tenant'')
              (bindE
                (sqlAt now (sql_insert ''tenants''
                   [(''id'', Param 1), (''slug'', Param 2), (''name'', Param 3), (''plan'', Param 4), (''status'', Param 5),
                    (''created_at'', NowX), (''updated_at'', NowX)] Refuse
                   [VText (tenant_ID tenant), VText (tenant_Slug tenant), VText (tenant_Name tenant), VText (tenant_Plan tenant),
                    VText (tenant_Status tenant)]))
                (\<lambda>r. ofSum (bindS (scanTime (cell r ''created_at'')) (\<lambda>created.
                             bindS (scanTime (cell r ''updated_at'')) (\<lambda>updated.
                             Inr (tenant\<lparr>tenant_CreatedAt := created, tenant_UpdatedAt := updated\<rparr>)))))))
            (\<lambda>tenant.
          bindE
            (mapErr (\<lambda>e. Errorf ''insert tenant member'' (mapSQLError e))
              (sqlAt now (sql_insert ''tenant_members''
                 [(''tenant_id'', Param 1), (''user_id'', Param 2), (''role'', Param 3), (''created_at'', NowX)] Refuse
                 [VText (tenant_ID tenant), VText (user_ID user), VText (role_string RoleOwner)])))
            (\<lambda>_.
          bindE
            (mapErr (Errorf ''update user tenant'')
              (sqlAt now (sql_update ''users'' [(''default_tenant_id'', Param 2), (''updated_at'', NowX)] [(''id'', Param 1)]
                 [VText (user_ID user), VText (tenant_ID tenant)])))
            (\<lambda>_. ret tenant))) w)"

definition pg_Tenant_GetByID :: "string \<Rightarrow> (Tenant, 'a pg_world_scheme) op" where
  "pg_Tenant_GetByID tenantID =
     mapErr mapSQLError (queryRow (sql (sql_select ''tenants'' [(''id'', Param 1)] [VText tenantID])) (\<lambda>r.
       bindS (scanText (cell r ''id'')) (\<lambda>i.
       bindS (scanText (cell r ''slug'')) (\<lambda>slug.
       bindS (scanText (cell r ''name'')) (\<lambda>name.
       bindS (scanText (cell r ''plan'')) (\<lambda>plan.
       bindS (scanText (cell r ''status'')) (\<lambda>status.
       bindS (scanTime (cell r ''created_at'')) (\<lambda>created.
       bindS (scanTime (cell r ''updated_at'')) (\<lambda>updated.
       Inr \<lparr>tenant_ID = i, tenant_Slug = slug, tenant_Name = name, tenant_Plan = plan, tenant_Status = status,
            tenant_CreatedAt = created, tenant_UpdatedAt = updated\<rparr>)))))))))"

definition pg_AddMember :: "TenantMember \<Rightarrow> (unit, 'a pg_world_scheme) op" where
  "pg_AddMember member =
     mapErr (\<lambda>e. Errorf ''add tenant member'' (mapSQLError e))
       (discard (sql (sql_insert ''tenant_members''
          [(''tenant_id'', Param 1), (''user_id'', Param 2), (''role'', Param 3), (''created_at'', Param 4)]
          (DoUpdate [''tenant_id'', ''user_id''] [(''role'', Excluded ''role'')])
          [VText (member_TenantID member), VText (member_UserID member), VText (role_string (member_Role member)),
           VTime (member_CreatedAt member)])))"

definition scanRole :: "val \<Rightarrow> error + Role" where
  "scanRole v =
     bindS (scanText v) (\<lambda>s. case find (\<lambda>r. role_string r = s) [RoleOwner, RoleAdmin, RoleMember] of
       None \<Rightarrow> Inl badScan | Some r \<Rightarrow> Inr r)"

definition pg_GetMember :: "string \<Rightarrow> string \<Rightarrow> (TenantMember, 'a pg_world_scheme) op" where
  "pg_GetMember tenantID userID =
     mapErr mapSQLError
       (queryRow (sql (sql_select ''tenant_members'' [(''tenant_id'', Param 1), (''user_id'', Param 2)] [VText tenantID, VText userID])) (\<lambda>r.
          bindS (scanText (cell r ''tenant_id'')) (\<lambda>t.
          bindS (scanText (cell r ''user_id'')) (\<lambda>u.
          bindS (scanRole (cell r ''role'')) (\<lambda>role.
          bindS (scanTime (cell r ''created_at'')) (\<lambda>created.
          Inr \<lparr>member_TenantID = t, member_UserID = u, member_Role = role, member_CreatedAt = created\<rparr>))))))"

definition pg_Identity_Upsert :: "jcodec \<Rightarrow> AuthIdentity \<Rightarrow> (unit, 'a pg_world_scheme) op" where
  "pg_Identity_Upsert C identity =
     bindE (ofSum (labelled ''marshal auth identity'' (jc_metadata C (ident_Metadata identity)))) (\<lambda>metadata.
     mapErr (\<lambda>e. Errorf ''upsert auth identity'' (mapSQLError e))
       (discard (sql (sql_insert ''auth_identities''
          [(''id'', Param 1), (''user_id'', Param 2), (''provider'', Param 3), (''provider_user_id'', Param 4),
           (''access_token_encrypted'', NullifText 5), (''refresh_token_encrypted'', NullifText 6), (''metadata'', Param 7),
           (''created_at'', NowX), (''updated_at'', NowX)]
          (DoUpdate [''provider'', ''provider_user_id'']
             [(''user_id'', Excluded ''user_id''), (''access_token_encrypted'', Excluded ''access_token_encrypted''),
              (''refresh_token_encrypted'', Excluded ''refresh_token_encrypted''), (''metadata'', Excluded ''metadata''), (''updated_at'', NowX)])
          [VText (ident_ID identity), VText (ident_UserID identity), VText (ident_Provider identity),
           VText (ident_ProviderUserID identity), VText (ident_AccessToken identity), VText (ident_RefreshToken identity),
           VBytes metadata]))))"

section \<open>API keys\<close>

definition pg_Key_Create :: "APIKey \<Rightarrow> (unit, 'a pg_world_scheme) op" where
  "pg_Key_Create key =
     mapErr (\<lambda>e. Errorf ''create api key'' (mapSQLError e))
       (discard (sql (sql_insert ''api_keys''
          [(''id'', Param 1), (''tenant_id'', Param 2), (''user_id'', Param 3), (''name'', Param 4), (''key_prefix'', Param 5),
           (''key_hash'', Param 6), (''last_used_at'', Param 7), (''expires_at'', Param 8), (''revoked_at'', Param 9), (''created_at'', Param 10)]
          Refuse
          [VText (key_ID key), VText (key_TenantID key), VText (key_UserID key), VText (key_Name key), VText (key_KeyPrefix key),
           VText (key_KeyHash key), nullableTime (key_LastUsedAt key), nullableTime (key_ExpiresAt key),
           nullableTime (key_RevokedAt key), VTime (key_CreatedAt key)])))"

definition scanKey :: "row \<Rightarrow> error + APIKey" where
  "scanKey r =
     bindS (scanText (cell r ''id'')) (\<lambda>i.
     bindS (scanText (cell r ''tenant_id'')) (\<lambda>t.
     bindS (scanText (cell r ''user_id'')) (\<lambda>u.
     bindS (scanText (cell r ''name'')) (\<lambda>name.
     bindS (scanText (cell r ''key_prefix'')) (\<lambda>pre.
     bindS (scanText (cell r ''key_hash'')) (\<lambda>hash.
     bindS (scanTimePtr (cell r ''last_used_at'')) (\<lambda>used.
     bindS (scanTimePtr (cell r ''expires_at'')) (\<lambda>expires.
     bindS (scanTimePtr (cell r ''revoked_at'')) (\<lambda>revoked.
     bindS (scanTime (cell r ''created_at'')) (\<lambda>created.
     Inr \<lparr>key_ID = i, key_TenantID = t, key_UserID = u, key_Name = name, key_KeyPrefix = pre, key_KeyHash = hash,
          key_LastUsedAt = used, key_ExpiresAt = expires, key_RevokedAt = revoked, key_CreatedAt = created\<rparr>))))))))))"

definition pg_Key_ListByTenant :: "string \<Rightarrow> (APIKey list, 'a pg_world_scheme) op" where
  "pg_Key_ListByTenant tenantID =
     queryRows (mapErr (Errorf ''list api keys'') (sql (sql_select ''api_keys'' [(''tenant_id'', Param 1)] [VText tenantID])))
       (sort_key (\<lambda>r. - order_val ''created_at'' r)) (\<lambda>r. labelled ''scan api key'' (scanKey r)) ''list api key rows''"

definition pg_Key_Revoke :: "string \<Rightarrow> string \<Rightarrow> time \<Rightarrow> (unit, 'a pg_world_scheme) op" where
  "pg_Key_Revoke tenantID keyID revokedAt =
     mapErr (\<lambda>e. Errorf ''revoke api key'' (mapSQLError e))
       (sql (sql_update ''api_keys'' [(''revoked_at'', Param 3)] [(''tenant_id'', Param 1), (''id'', Param 2)]
          [VText tenantID, VText keyID, VTime revokedAt]))"

definition pg_GetByHash :: "string \<Rightarrow> (APIKey, 'a pg_world_scheme) op" where
  "pg_GetByHash keyHash =
     bindE (mapErr mapSQLError (queryRow (sql (sql_select ''api_keys'' [(''key_hash'', Param 1)] [VText keyHash])) scanKey)) (\<lambda>key w.
       case sql (sql_update ''api_keys'' [(''last_used_at'', NowX)] [(''id'', Param 1)] [VText (key_ID key)]) w of
         (Inl _, w) \<Rightarrow> (Inr key, w)
       | (Inr _, w) \<Rightarrow> (let (now, w) = Now w in (Inr (key\<lparr>key_LastUsedAt := Some now\<rparr>), w)))"

section \<open>Audit logs\<close>

definition pg_Audit_Create :: "AuditLog \<Rightarrow> (unit, 'a pg_world_scheme) op" where
  "pg_Audit_Create log =
     mapErr (\<lambda>e. Errorf ''create audit log'' (mapSQLError e))
       (discard (sql (sql_insert ''audit_logs''
          [(''id'', Param 1), (''tenant_id'', Param 2), (''actor_user_id'', NullifText 3), (''actor_api_key_id'', NullifText 4),
           (''action'', Param 5), (''resource_type'', Param 6), (''resource_id'', Param 7), (''message'', Param 8), (''created_at'', Param 9)]
          Refuse
          [VText (audit_ID log), VText (audit_TenantID log), VText (audit_ActorUserID log), VText (audit_ActorAPIKeyID log),
           VText (audit_Action log), VText (audit_ResourceType log), VText (audit_ResourceID log), VText (audit_Message log),
           VTime (audit_CreatedAt log)])))"

definition scanAudit :: "row \<Rightarrow> error + AuditLog" where
  "scanAudit r =
     bindS (scanText (cell r ''id'')) (\<lambda>i.
     bindS (scanText (cell r ''tenant_id'')) (\<lambda>t.
     bindS (scanText (out_val r (Coalesce ''actor_user_id''))) (\<lambda>u.
     bindS (scanText (out_val r (Coalesce ''actor_api_key_id''))) (\<lambda>k.
     bindS (scanText (cell r ''action'')) (\<lambda>action.
     bindS (scanText (cell r ''resource_type'')) (\<lambda>rtype.
     bindS (scanText (cell r ''resource_id'')) (\<lambda>rid.
     bindS (scanText (cell r ''message'')) (\<lambda>message.
     bindS (scanTime (cell r ''created_at'')) (\<lambda>created.
     Inr \<lparr>audit_ID = i, audit_TenantID = t, audit_ActorUserID = u, audit_ActorAPIKeyID = k, audit_Action = action,
          audit_ResourceType = rtype, audit_ResourceID = rid, audit_Message = message, audit_CreatedAt = created\<rparr>)))))))))"

definition pg_Audit_ListByTenant :: "string \<Rightarrow> int \<Rightarrow> (AuditLog list, 'a pg_world_scheme) op" where
  "pg_Audit_ListByTenant tenantID limit =
     (let limit = (if limit \<le> 0 then 50 else limit)
      in queryRows (mapErr (Errorf ''list audit logs'') (sql (sql_select ''audit_logs'' [(''tenant_id'', Param 1)] [VText tenantID])))
           (\<lambda>rows. take (nat limit) (sort_key (\<lambda>r. - order_val ''created_at'' r) rows))
           (\<lambda>r. labelled ''scan audit log'' (scanAudit r)) ''list audit log rows'')"

section \<open>Apps\<close>

definition pg_App_Create :: "jcodec \<Rightarrow> App \<Rightarrow> (unit, 'a pg_world_scheme) op" where
  "pg_App_Create C app =
     bindE (ofSum (labelled ''marshal app config'' (jc_config C (app_Config app)))) (\<lambda>config.
     mapErr (\<lambda>e. Errorf ''create app'' (mapSQLError e))
       (discard (sql (sql_insert ''apps''
          [(''id'', Param 1), (''tenant_id'', Param 2), (''name'', Param 3), (''slug'', Param 4), (''desired_state'', Param 5),
           (''current_deployment_id'', NullifUuid 6), (''config'', Param 7), (''created_by'', Param 8), (''created_at'', Param 9),
           (''updated_at'', Param 10)]
          Refuse
          [VText (app_ID app), VText (app_TenantID app), VText (app_Name app), VText (app_Slug app), VText (app_DesiredState app),
           VText (app_CurrentDeploymentID app), VBytes config, VText (app_CreatedBy app), VTime (app_CreatedAt app),
           VTime (app_UpdatedAt app)]))))"

definition pg_App_Update :: "jcodec \<Rightarrow> App \<Rightarrow> (unit, 'a pg_world_scheme) op" where
  "pg_App_Update C app =
     bindE (ofSum (labelled ''marshal app config'' (jc_config C (app_Config app)))) (\<lambda>config.
     mapErr (\<lambda>e. Errorf ''update app'' (mapSQLError e))
       (sql (sql_update ''apps''
          [(''name'', Param 3), (''slug'', Param 4), (''desired_state'', Param 5), (''current_deployment_id'', NullifUuid 6),
           (''config'', Param 7), (''updated_at'', Param 8)]
          [(''id'', Param 1), (''tenant_id'', Param 2)]
          [VText (app_ID app), VText (app_TenantID app), VText (app_Name app), VText (app_Slug app), VText (app_DesiredState app),
           VText (app_CurrentDeploymentID app), VBytes config, VTime (app_UpdatedAt app)])))"

text \<open>The columns of a row, the configuration as bytes beside the app.\<close>

definition scanApp :: "row \<Rightarrow> error + string \<times> App" where
  "scanApp r =
     bindS (scanText (cell r ''id'')) (\<lambda>i.
     bindS (scanText (cell r ''tenant_id'')) (\<lambda>t.
     bindS (scanText (cell r ''name'')) (\<lambda>name.
     bindS (scanText (cell r ''slug'')) (\<lambda>slug.
     bindS (scanText (cell r ''desired_state'')) (\<lambda>desired.
     bindS (scanText (out_val r (Coalesce ''current_deployment_id''))) (\<lambda>current.
     bindS (scanBytes (cell r ''config'')) (\<lambda>raw.
     bindS (scanText (cell r ''created_by'')) (\<lambda>creator.
     bindS (scanTime (cell r ''created_at'')) (\<lambda>created.
     bindS (scanTime (cell r ''updated_at'')) (\<lambda>updated.
     Inr (raw, \<lparr>app_ID = i, app_TenantID = t, app_Name = name, app_Slug = slug, app_DesiredState = desired,
          app_CurrentDeploymentID = current, app_Config = zeroAppConfig, app_CreatedBy = creator, app_CreatedAt = created,
          app_UpdatedAt = updated\<rparr>)))))))))))"

definition decodeApp :: "jcodec \<Rightarrow> string \<times> App \<Rightarrow> error + App" where
  "decodeApp C = (\<lambda>(raw, app).
     bindS (labelled ''decode app config'' (fromJSON (jc_unconfig C) zeroAppConfig raw)) (\<lambda>config.
     Inr (app\<lparr>app_Config := config\<rparr>)))"

definition pg_App_GetByID :: "jcodec \<Rightarrow> string \<Rightarrow> string \<Rightarrow> (App, 'a pg_world_scheme) op" where
  "pg_App_GetByID C tenantID appID =
     bindE
       (mapErr mapSQLError
         (queryRow (sql (sql_select ''apps'' [(''tenant_id'', Param 1), (''id'', Param 2)] [VText tenantID, VText appID])) scanApp))
       (\<lambda>x. ofSum (decodeApp C x))"

definition pg_App_ListByTenant :: "jcodec \<Rightarrow> string \<Rightarrow> (App list, 'a pg_world_scheme) op" where
  "pg_App_ListByTenant C tenantID =
     queryRows (mapErr (Errorf ''list apps'') (sql (sql_select ''apps'' [(''tenant_id'', Param 1)] [VText tenantID])))
       (sort_key (order_val ''created_at'')) (\<lambda>r. bindS (labelled ''scan app'' (scanApp r)) (decodeApp C)) ''list apps rows''"

section \<open>Deployments\<close>

definition pg_Dep_Create :: "jcodec \<Rightarrow> Deployment \<Rightarrow> (unit, 'a pg_world_scheme) op" where
  "pg_Dep_Create C d =
     bindE (ofSum (labelled ''marshal deployment config'' (jc_config C (dep_ConfigSnapshot d)))) (\<lambda>config.
     bindE (ofSum (labelled ''marshal deployment ref'' (jc_ref C (dep_BackendRef d)))) (\<lambda>ref.
     mapErr (\<lambda>e. Errorf ''create deployment'' (mapSQLError e))
       (discard (sql (sql_insert ''deployments''
          [(''id'', Param 1), (''tenant_id'', Param 2), (''app_id'', Param 3), (''version'', Param 4), (''image_ref'', Param 5),
           (''config_snapshot'', Param 6), (''status'', Param 7), (''status_reason'', NullifText 8), (''backend'', Param 9),
           (''backend_ref'', Param 10), (''requested_by'', Param 11), (''repair_attempts'', Param 12), (''started_at'', Param 13),
           (''finished_at'', Param 14), (''created_at'', Param 15), (''updated_at'', Param 16)]
          Refuse
          [VText (dep_ID d), VText (dep_TenantID d), VText (dep_AppID d), VInt (dep_Version d), VText (dep_ImageRef d), VBytes config,
           VText (status_string (dep_Status d)), VText (dep_StatusReason d), VText (dep_Backend d), VBytes ref,
           VText (dep_RequestedBy d), VInt (dep_RepairAttempts d), nullableTime (dep_StartedAt d), nullableTime (dep_FinishedAt d),
           VTime (dep_CreatedAt d), VTime (dep_UpdatedAt d)])))))"

definition pg_Dep_Update :: "jcodec \<Rightarrow> Deployment \<Rightarrow> (unit, 'a pg_world_scheme) op" where
  "pg_Dep_Update C d =
     bindE (ofSum (labelled ''marshal deployment config'' (jc_config C (dep_ConfigSnapshot d)))) (\<lambda>config.
     bindE (ofSum (labelled ''marshal deployment ref'' (jc_ref C (dep_BackendRef d)))) (\<lambda>ref.
     mapErr (\<lambda>e. Errorf ''update deployment'' (mapSQLError e))
       (sql (sql_update ''deployments''
          [(''image_ref'', Param 4), (''config_snapshot'', Param 5), (''status'', Param 6), (''status_reason'', NullifText 7),
           (''backend'', Param 8), (''backend_ref'', Param 9), (''repair_attempts'', Param 10), (''started_at'', Param 11),
           (''finished_at'', Param 12), (''updated_at'', Param 13)]
          [(''id'', Param 1), (''tenant_id'', Param 2), (''app_id'', Param 3)]
          [VText (dep_ID d), VText (dep_TenantID d), VText (dep_AppID d), VText (dep_ImageRef d), VBytes config,
           VText (status_string (dep_Status d)), VText (dep_StatusReason d), VText (dep_Backend d), VBytes ref,
           VInt (dep_RepairAttempts d), nullableTime (dep_StartedAt d), nullableTime (dep_FinishedAt d), VTime (dep_UpdatedAt d)]))))"

definition allStatuses :: "DeploymentStatus list" where
  "allStatuses =
     [DeploymentStatusRequested, DeploymentStatusQueued, DeploymentStatusProvisioning, DeploymentStatusRunning,
      DeploymentStatusDegraded, DeploymentStatusRecovering, DeploymentStatusFailed, DeploymentStatusCancelled,
      DeploymentStatusDeleting, DeploymentStatusDeleted]"

definition statusOf :: "string \<Rightarrow> error + DeploymentStatus" where
  "statusOf s = (case find (\<lambda>st. status_string st = s) allStatuses of None \<Rightarrow> Inl badScan | Some st \<Rightarrow> Inr st)"

definition scanDep :: "row \<Rightarrow> error + string \<times> string \<times> Deployment" where
  "scanDep r =
     bindS (scanText (cell r ''id'')) (\<lambda>i.
     bindS (scanText (cell r ''tenant_id'')) (\<lambda>t.
     bindS (scanText (cell r ''app_id'')) (\<lambda>a.
     bindS (scanInt (cell r ''version'')) (\<lambda>version.
     bindS (scanText (cell r ''image_ref'')) (\<lambda>image.
     bindS (scanBytes (cell r ''config_snapshot'')) (\<lambda>rawConfig.
     bindS (bindS (scanText (cell r ''status'')) statusOf) (\<lambda>status.
     bindS (scanText (out_val r (Coalesce ''status_reason''))) (\<lambda>rsn.
     bindS (scanText (cell r ''backend'')) (\<lambda>backend.
     bindS (scanBytes (cell r ''backend_ref'')) (\<lambda>rawRef.
     bindS (scanText (cell r ''requested_by'')) (\<lambda>requester.
     bindS (scanInt (cell r ''repair_attempts'')) (\<lambda>attempts.
     bindS (scanTimePtr (cell r ''started_at'')) (\<lambda>started.
     bindS (scanTimePtr (cell r ''finished_at'')) (\<lambda>finished.
     bindS (scanTime (cell r ''created_at'')) (\<lambda>created.
     bindS (scanTime (cell r ''updated_at'')) (\<lambda>updated.
     Inr (rawConfig, rawRef, \<lparr>dep_ID = i, dep_TenantID = t, dep_AppID = a, dep_Version = version, dep_ImageRef = image,
          dep_ConfigSnapshot = zeroAppConfig, dep_Status = status, dep_StatusReason = rsn, dep_Backend = backend,
          dep_BackendRef = zeroBackendRef, dep_RequestedBy = requester, dep_RepairAttempts = attempts, dep_StartedAt = started,
          dep_FinishedAt = finished, dep_CreatedAt = created, dep_UpdatedAt = updated\<rparr>)))))))))))))))))"

definition decodeDep :: "string \<Rightarrow> string \<Rightarrow> jcodec \<Rightarrow> string \<times> string \<times> Deployment \<Rightarrow> error + Deployment" where
  "decodeDep opConfig opRef C = (\<lambda>(rawConfig, rawRef, d).
     bindS (labelled opConfig (fromJSON (jc_unconfig C) zeroAppConfig rawConfig)) (\<lambda>config.
     bindS (labelled opRef (fromJSON (jc_unref C) zeroBackendRef rawRef)) (\<lambda>ref.
     Inr (d\<lparr>dep_ConfigSnapshot := config, dep_BackendRef := ref\<rparr>))))"

definition pg_Dep_GetByID :: "jcodec \<Rightarrow> string \<Rightarrow> string \<Rightarrow> (Deployment, 'a pg_world_scheme) op" where
  "pg_Dep_GetByID C tenantID deploymentID =
     bindE
       (mapErr mapSQLError
         (queryRow (sql (sql_select ''deployments'' [(''tenant_id'', Param 1), (''id'', Param 2)] [VText tenantID, VText deploymentID])) scanDep))
       (\<lambda>x. ofSum (decodeDep ''decode deployment config'' ''decode deployment ref'' C x))"

definition pg_Dep_ListByApp :: "jcodec \<Rightarrow> string \<Rightarrow> string \<Rightarrow> (Deployment list, 'a pg_world_scheme) op" where
  "pg_Dep_ListByApp C tenantID appID =
     queryRows
       (mapErr (Errorf ''list deployments'')
         (sql (sql_select ''deployments'' [(''tenant_id'', Param 1), (''app_id'', Param 2)] [VText tenantID, VText appID])))
       (sort_key (order_val ''version''))
       (\<lambda>r. bindS (labelled ''scan deployment'' (scanDep r)) (decodeDep ''decode deployment config'' ''decode deployment ref'' C))
       ''list deployment rows''"

definition pg_ListActive :: "jcodec \<Rightarrow> int \<Rightarrow> (Deployment list, 'a pg_world_scheme) op" where
  "pg_ListActive C limit =
     (let limit = (if limit \<le> 0 then 100 else limit)
      in queryRows
           (mapErr (Errorf ''list active deployments'')
             (sql (\<lambda>now J T. Inr (filter (\<lambda>r. cell r ''status'' \<in>
                {VText ''queued'', VText ''provisioning'', VText ''running'', VText ''degraded'', VText ''recovering'', VText ''deleting''})
                (T ''deployments''), T))))
           (\<lambda>rows. take (nat limit) (sort_key (order_val ''updated_at'') rows))
           (\<lambda>r. bindS (labelled ''scan active deployment'' (scanDep r))
                  (decodeDep ''decode active deployment config'' ''decode active deployment ref'' C))
           ''list active deployment rows'')"

definition maxVersion :: "row list \<Rightarrow> int option" where
  "maxVersion rows = (if rows = [] then None else Some (Max (set (map (order_val ''version'') rows))))"

definition pg_NextVersion :: "string \<Rightarrow> string \<Rightarrow> (int, 'a pg_world_scheme) op" where
  "pg_NextVersion tenantID appID =
     mapErr (Errorf ''next deployment version'')
       (sql (\<lambda>now J T.
          case sql_select ''deployments'' [(''tenant_id'', Param 1), (''app_id'', Param 2)] [VText tenantID, VText appID] now J T of
            Inl e \<Rightarrow> Inl e
          | Inr (rows, T) \<Rightarrow>
              (let next = (case maxVersion rows of None \<Rightarrow> 0 | Some v \<Rightarrow> v) + 1
               in if next < 2 ^ 31 then Inr (next, T) else Inl (pgError ''22003''))))"

section \<open>Events\<close>

definition pg_Event_Create :: "DeploymentEvent \<Rightarrow> (unit, 'a pg_world_scheme) op" where
  "pg_Event_Create event =
     mapErr (\<lambda>e. Errorf ''create deployment event'' (mapSQLError e))
       (discard (sql (sql_insert ''deployment_events''
          [(''id'', Param 1), (''deployment_id'', Param 2), (''tenant_id'', Param 3), (''type'', Param 4), (''message'', Param 5),
           (''created_at'', Param 6)]
          Refuse
          [VText (ev_ID event), VText (ev_DeploymentID event), VText (ev_TenantID event), VText (ev_Type event),
           VText (ev_Message event), VTime (ev_CreatedAt event)])))"

definition scanEvent :: "row \<Rightarrow> error + DeploymentEvent" where
  "scanEvent r =
     bindS (scanText (cell r ''id'')) (\<lambda>i.
     bindS (scanText (cell r ''deployment_id'')) (\<lambda>d.
     bindS (scanText (cell r ''tenant_id'')) (\<lambda>t.
     bindS (scanText (cell r ''type'')) (\<lambda>ty.
     bindS (scanText (cell r ''message'')) (\<lambda>message.
     bindS (scanTime (cell r ''created_at'')) (\<lambda>created.
     Inr \<lparr>ev_ID = i, ev_DeploymentID = d, ev_TenantID = t, ev_Type = ty, ev_Message = message, ev_CreatedAt = created\<rparr>))))))"

definition pg_ListByDeployment :: "string \<Rightarrow> string \<Rightarrow> (DeploymentEvent list, 'a pg_world_scheme) op" where
  "pg_ListByDeployment tenantID deploymentID =
     queryRows
       (mapErr (Errorf ''list deployment events'')
         (sql (sql_select ''deployment_events'' [(''tenant_id'', Param 1), (''deployment_id'', Param 2)] [VText tenantID, VText deploymentID])))
       (sort_key (order_val ''created_at'')) (\<lambda>r. labelled ''scan deployment event'' (scanEvent r)) ''list event rows''"

section \<open>Administration\<close>

definition pg_Summary :: "(AdminSummary, 'a pg_world_scheme) op" where
  "pg_Summary =
     mapErr (Errorf ''admin summary'')
       (sql (\<lambda>now J T. Inr (
          \<lparr>sum_Users = int (length (T ''users'')), sum_Tenants = int (length (T ''tenants'')), sum_Apps = int (length (T ''apps'')),
           sum_Deployments = int (length (T ''deployments'')),
           sum_FailedDeployments = int (length (filter (\<lambda>r. cell r ''status'' = VText ''failed'') (T ''deployments''))),
           sum_RepositoryDriver = []\<rparr>, T)))"

text \<open>The joins of the overview: an app with the email of an owner of its tenant, once for each, and its deployment of the greatest version.\<close>

definition ownerEmailsOf :: "tables \<Rightarrow> row \<Rightarrow> val list" where
  "ownerEmailsOf T a =
     (let ms = filter (\<lambda>m. cell m ''tenant_id'' = cell a ''tenant_id'' \<and> cell m ''role'' = VText ''owner'') (T ''tenant_members'')
      in if ms = [] then [VText []]
         else concat (map (\<lambda>m. let us = filter (\<lambda>u. cell u ''id'' = cell m ''user_id'') (T ''users'')
                                in if us = [] then [VText []] else map (\<lambda>u. out_val u (Coalesce ''email'')) us) ms))"

definition latestOf :: "tables \<Rightarrow> row \<Rightarrow> row" where
  "latestOf T a =
     (case sort_key (\<lambda>d. - order_val ''version'' d) (filter (\<lambda>d. cell d ''app_id'' = cell a ''id'') (T ''deployments'')) of
        [] \<Rightarrow> [] | d # _ \<Rightarrow> d)"

definition deref :: "'b option \<Rightarrow> error + 'b" where
  "deref p = (case p of None \<Rightarrow> Inl NilDereference | Some x \<Rightarrow> Inr x)"

definition scanStatusPtr :: "val \<Rightarrow> error + DeploymentStatus option" where
  "scanStatusPtr v =
     bindS (scanTextPtr v) (\<lambda>p. case p of None \<Rightarrow> Inr None | Some s \<Rightarrow> bindS (statusOf s) (\<lambda>st. Inr (Some st)))"

definition scanIntPtr :: "val \<Rightarrow> error + int option" where
  "scanIntPtr v = (if v = VNull then Inr None else bindS (scanInt v) (\<lambda>i. Inr (Some i)))"

text \<open>The deployment columns of the overview, as pointers; the repair attempts are not among them.\<close>

record latestCols =
  lc_ID :: "string option"
  lc_TenantID :: "string option"
  lc_AppID :: "string option"
  lc_Version :: "int option"
  lc_ImageRef :: "string option"
  lc_rawConfig :: string
  lc_Status :: "DeploymentStatus option"
  lc_StatusReason :: "string option"
  lc_Backend :: "string option"
  lc_rawRef :: string
  lc_RequestedBy :: "string option"
  lc_StartedAt :: "time option"
  lc_FinishedAt :: "time option"
  lc_CreatedAt :: "time option"
  lc_UpdatedAt :: "time option"

definition scanLatest :: "row \<Rightarrow> error + latestCols" where
  "scanLatest d =
     bindS (scanTextPtr (cell d ''id'')) (\<lambda>depID.
     bindS (scanTextPtr (cell d ''tenant_id'')) (\<lambda>depTenantID.
     bindS (scanTextPtr (cell d ''app_id'')) (\<lambda>depAppID.
     bindS (scanIntPtr (cell d ''version'')) (\<lambda>depVersion.
     bindS (scanTextPtr (cell d ''image_ref'')) (\<lambda>depImageRef.
     bindS (scanBytes (cell d ''config_snapshot'')) (\<lambda>rawDepConfig.
     bindS (scanStatusPtr (cell d ''status'')) (\<lambda>depStatus.
     bindS (scanTextPtr (out_val d (Coalesce ''status_reason''))) (\<lambda>depStatusReason.
     bindS (scanTextPtr (cell d ''backend'')) (\<lambda>depBackend.
     bindS (scanBytes (cell d ''backend_ref'')) (\<lambda>rawDepRef.
     bindS (scanTextPtr (cell d ''requested_by'')) (\<lambda>depRequestedBy.
     bindS (scanTimePtr (cell d ''started_at'')) (\<lambda>depStartedAt.
     bindS (scanTimePtr (cell d ''finished_at'')) (\<lambda>depFinishedAt.
     bindS (scanTimePtr (cell d ''created_at'')) (\<lambda>depCreatedAt.
     bindS (scanTimePtr (cell d ''updated_at'')) (\<lambda>depUpdatedAt.
     Inr \<lparr>lc_ID = depID, lc_TenantID = depTenantID, lc_AppID = depAppID, lc_Version = depVersion, lc_ImageRef = depImageRef,
          lc_rawConfig = rawDepConfig, lc_Status = depStatus, lc_StatusReason = depStatusReason, lc_Backend = depBackend,
          lc_rawRef = rawDepRef, lc_RequestedBy = depRequestedBy, lc_StartedAt = depStartedAt, lc_FinishedAt = depFinishedAt,
          lc_CreatedAt = depCreatedAt, lc_UpdatedAt = depUpdatedAt\<rparr>)))))))))))))))"

definition latestDeployment :: "jcodec \<Rightarrow> latestCols \<Rightarrow> error + Deployment option" where
  "latestDeployment C l =
     (case lc_ID l of
        None \<Rightarrow> Inr None
      | Some i \<Rightarrow>
          bindS (deref (lc_TenantID l)) (\<lambda>t.
          bindS (deref (lc_AppID l)) (\<lambda>a.
          bindS (deref (lc_Version l)) (\<lambda>version.
          bindS (deref (lc_ImageRef l)) (\<lambda>image.
          bindS (deref (lc_Status l)) (\<lambda>status.
          bindS (deref (lc_Backend l)) (\<lambda>backend.
          bindS (deref (lc_RequestedBy l)) (\<lambda>requester.
          bindS (deref (lc_CreatedAt l)) (\<lambda>created.
          bindS (deref (lc_UpdatedAt l)) (\<lambda>updated.
          bindS (labelled ''decode dep config snapshot'' (fromJSON (jc_unconfig C) zeroAppConfig (lc_rawConfig l))) (\<lambda>config.
          bindS (labelled ''decode dep backend ref'' (fromJSON (jc_unref C) zeroBackendRef (lc_rawRef l))) (\<lambda>ref.
          Inr (Some
            \<lparr>dep_ID = i, dep_TenantID = t, dep_AppID = a, dep_Version = version, dep_ImageRef = image,
             dep_ConfigSnapshot = config, dep_Status = status,
             dep_StatusReason = (case lc_StatusReason l of None \<Rightarrow> [] | Some s \<Rightarrow> s), dep_Backend = backend,
             dep_BackendRef = ref, dep_RequestedBy = requester, dep_RepairAttempts = 0, dep_StartedAt = lc_StartedAt l,
             dep_FinishedAt = lc_FinishedAt l, dep_CreatedAt = created, dep_UpdatedAt = updated\<rparr>)))))))))))))"

definition scanInstance :: "jcodec \<Rightarrow> row \<times> val \<times> row \<Rightarrow> error + AdminInstance" where
  "scanInstance C = (\<lambda>(a, email, d).
     bindS (labelled ''scan instance row'' (scanApp a)) (\<lambda>x.
     bindS (labelled ''scan instance row'' (scanText email)) (\<lambda>userEmail.
     bindS (labelled ''scan instance row'' (scanLatest d)) (\<lambda>l.
     bindS (decodeApp C x) (\<lambda>app.
     bindS (latestDeployment C l) (\<lambda>deployment.
     Inr \<lparr>inst_App = app, inst_Deployment = deployment, inst_UserEmail = userEmail\<rparr>))))))"

definition pg_ListAllInstances :: "jcodec \<Rightarrow> (AdminInstance list, 'a pg_world_scheme) op" where
  "pg_ListAllInstances C =
     bindE (mapErr (Errorf ''list all instances'') (sql (\<lambda>now J T. Inr (T, T)))) (\<lambda>T w.
       let (apps, w) = in_some_order (T ''apps'') w;
           rows = concat (map (\<lambda>a. map (\<lambda>email. (a, email, latestOf T a)) (ownerEmailsOf T a))
                    (sort_key (\<lambda>r. - order_val ''created_at'' r) apps))
       in case mapS (scanInstance C) rows of
            Inl e \<Rightarrow> (Inl e, w)
          | Inr items \<Rightarrow> bindE (mapErr (Errorf ''list all instances rows'') rows_Err) (\<lambda>_. ret items) w)"

section \<open>The repositories\<close>

definition pg_users :: "'a pg_world_scheme UserRepository" where
  "pg_users = \<lparr>ur_UpsertByEmail = pg_UpsertByEmail, ur_GetByID = pg_User_GetByID\<rparr>"

definition pg_tenants :: "'a pg_world_scheme TenantRepository" where
  "pg_tenants =
     \<lparr>tr_CreatePersonalTenant = pg_CreatePersonalTenant, tr_GetByID = pg_Tenant_GetByID, tr_AddMember = pg_AddMember,
      tr_GetMember = pg_GetMember\<rparr>"

definition pg_identities :: "jcodec \<Rightarrow> 'a pg_world_scheme AuthIdentityRepository" where
  "pg_identities C = \<lparr>air_Upsert = pg_Identity_Upsert C\<rparr>"

definition pg_keys :: "'a pg_world_scheme APIKeyRepository" where
  "pg_keys =
     \<lparr>kr_Create = pg_Key_Create, kr_ListByTenant = pg_Key_ListByTenant, kr_Revoke = pg_Key_Revoke, kr_GetByHash = pg_GetByHash\<rparr>"

definition pg_audit :: "'a pg_world_scheme AuditRepository" where
  "pg_audit = \<lparr>aur_Create = pg_Audit_Create, aur_ListByTenant = pg_Audit_ListByTenant\<rparr>"

definition pg_apps :: "jcodec \<Rightarrow> 'a pg_world_scheme AppRepository" where
  "pg_apps C =
     \<lparr>ar_Create = pg_App_Create C, ar_Update = pg_App_Update C, ar_GetByID = pg_App_GetByID C,
      ar_ListByTenant = pg_App_ListByTenant C\<rparr>"

definition pg_deployments :: "jcodec \<Rightarrow> 'a pg_world_scheme DeploymentRepository" where
  "pg_deployments C =
     \<lparr>dr_Create = pg_Dep_Create C, dr_Update = pg_Dep_Update C, dr_GetByID = pg_Dep_GetByID C,
      dr_ListByApp = pg_Dep_ListByApp C, dr_ListActive = pg_ListActive C, dr_NextVersion = pg_NextVersion\<rparr>"

definition pg_events :: "'a pg_world_scheme EventRepository" where
  "pg_events = \<lparr>er_Create = pg_Event_Create, er_ListByDeployment = pg_ListByDeployment\<rparr>"

definition pg_admin :: "jcodec \<Rightarrow> 'a pg_world_scheme AdminRepository" where
  "pg_admin C = \<lparr>adr_Summary = pg_Summary, adr_ListAllInstances = pg_ListAllInstances C\<rparr>"

end
