(* ===== verification/PgProps.thy ===== *)
theory PgProps
  imports PgRepos AuthServices
begin

text \<open>
  What holds of the Postgres repositories: what is created is read back, up to the microseconds of a timestamp, by its tenant only;
  reads and updates stay within a tenant; a slug that is taken is a conflict; and no audit entry is ever written.
\<close>

section \<open>Statements\<close>

abbreviation connected :: "'a pg_world_scheme \<Rightarrow> bool" where
  "connected w \<equiv> \<forall>n. pg_down w n = None"

lemma sql_connected:
  "connected w \<Longrightarrow> sql f w =
     (let (now, w) = Now w; w = w\<lparr>pg_calls := Suc (pg_calls w)\<rparr>
      in case f now (pg_jsonb w) (pg_tables w) of Inl e \<Rightarrow> (Inl e, w) | Inr (r, T) \<Rightarrow> (Inr r, w\<lparr>pg_tables := T\<rparr>))"
  by (simp add: sql_def Now_def Let_def split: sum.split)

text \<open>A statement that fails on every database leaves the tables alone.\<close>

lemma sql_refused:
  assumes "\<And>now J T. \<exists>e. f now J T = Inl e"
  shows "\<exists>e w'. sql f w = (Inl e, w') \<and> pg_tables w' = pg_tables w"
proof -
  obtain e where "f (clk w (ticks w)) (pg_jsonb w) (pg_tables w) = Inl e" using assms by blast
  then show ?thesis by (simp add: sql_def Now_def Let_def)
qed

lemma mapErr_Inl: "f w = (Inl e, w') \<Longrightarrow> mapErr g f w = (Inl (g e), w')"
  by (simp add: mapErr_def)

lemma discard_Inl: "f w = (Inl e, w') \<Longrightarrow> discard f w = (Inl e, w')"
  by (simp add: discard_def bindE_def)

section \<open>The audit log\<close>

text \<open>The parameter \<^verbatim>\<open>$3\<close> is of type text by way of \<^verbatim>\<open>nullif\<close>, and the column is a \<^verbatim>\<open>uuid\<close>.\<close>

lemma audit_insert_refused:
  "\<exists>e. sql_insert ''audit_logs''
     ((''id'', Param 1) # (''tenant_id'', Param 2) # (''actor_user_id'', NullifText 3) # sets) oc args now J T = Inl e"
proof -
  have "type_of ''audit_logs'' ''actor_user_id'' = TUuid" by (simp add: type_of_def schema_def)
  then show ?thesis by (auto simp: sql_insert_def split: sum.split)
qed

lemma sql_refused_mapErr:
  assumes "\<And>now J T. \<exists>e. f now J T = Inl e"
  shows "\<exists>e w'. mapErr g (discard (sql f)) w = (Inl e, w') \<and> pg_tables w' = pg_tables w"
proof -
  obtain e w' where "sql f w = (Inl e, w')" "pg_tables w' = pg_tables w"
    using sql_refused [where f = f and w = w] assms by blast
  then show ?thesis by (simp add: mapErr_Inl discard_Inl)
qed

lemma pg_Audit_Create_fails: "\<exists>e w'. pg_Audit_Create log w = (Inl e, w') \<and> pg_tables w' = pg_tables w"
  unfolding pg_Audit_Create_def by (rule sql_refused_mapErr, rule audit_insert_refused)

lemma pg_tables_more: "env.more w = env.more w' \<Longrightarrow> pg_tables w = pg_tables w'"
  by (cases w; cases w') (simp add: pg_world.defs mq_world.defs)

lemma pg_tables_NewUUID [simp]: "pg_tables (snd (NewUUID w)) = pg_tables w"
  by (rule pg_tables_more) (simp add: frame)


section \<open>Personal tenants\<close>

text \<open>What the statements refuse, they refuse with an error of the database.\<close>

lemma store_val_error: "store_val J ty v = Inl e \<Longrightarrow> \<exists>code. e = pgError code"
  by (induction J ty v rule: store_val.induct) (auto split: option.splits if_splits)

lemma eval_expr_error: "eval_expr J now args ex ty x = Inl e \<Longrightarrow> \<exists>code. e = pgError code"
  by (cases x) (auto split: if_splits dest: store_val_error)

lemma eval_row_error: "eval_row J now args ex t sets = Inl e \<Longrightarrow> \<exists>code. e = pgError code"
  by (induction sets) (auto split: sum.splits dest: eval_expr_error)

lemma store_rows_error: "store_rows T t changed rows = Inl e \<Longrightarrow> \<exists>code. e = pgError code"
  by (auto simp: store_rows_def split: if_splits)

lemma has_dupI:
  assumes "u \<in> set (td_unique (schema t))" "r0 \<in> set rows" "key_of u r0 = key_of u r" "VNull \<notin> set (key_of u r)"
  shows "has_dup t (rows @ [r])"
proof -
  have "key_of u r \<in> set (filter (\<lambda>k. VNull \<notin> set k) (map (key_of u) rows))" using assms(2-4) by (simp flip: assms(3))
  then have "\<not> distinct (filter (\<lambda>k. VNull \<notin> set k) (map (key_of u) (rows @ [r])))" using assms(4) by simp
  then show ?thesis using assms(1) unfolding has_dup_def list_ex_iff by blast
qed

text \<open>Inserting a row with a key that is taken.\<close>

lemma store_rows_taken:
  assumes "u \<in> set (td_unique (schema t))" "r0 \<in> set (T t)" "key_of u r0 = key_of u r" "VNull \<notin> set (key_of u r)"
  shows "\<exists>code. store_rows T t [r] (T t @ [r]) = Inl (pgError code)"
  using has_dupI [OF assms] by (auto simp: store_rows_def)

lemma insert_taken:
  assumes "\<And>r. eval_row J now args [] t sets = Inr r \<Longrightarrow>
     u \<in> set (td_unique (schema t)) \<and> r0 \<in> set (T t) \<and> key_of u r0 = key_of u r \<and> VNull \<notin> set (key_of u r)"
  shows "\<exists>code. sql_insert t sets Refuse args now J T = Inl (pgError code)"
proof (cases "eval_row J now args [] t sets")
  case (Inl e)
  then show ?thesis using eval_row_error [OF Inl] by (auto simp: sql_insert_def)
next
  case (Inr r)
  then show ?thesis using assms [OF Inr] store_rows_taken [of u t r0 T r] by (auto simp: sql_insert_def)
qed

text \<open>A transaction whose body fails on the tables it begins with.\<close>

lemma inTx_fails:
  assumes up: "connected w"
    and body: "\<And>now w1. pg_tables w1 = pg_tables w \<Longrightarrow> connected w1 \<Longrightarrow> \<exists>e w2. body now w1 = (Inl e, w2) \<and> P e"
  shows "\<exists>e w'. inTx opBegin opCommit body w = (Inl e, w') \<and> P e \<and> pg_tables w' = pg_tables w"
proof -
  let ?w = "w\<lparr>ticks := Suc (ticks w), pg_calls := Suc (pg_calls w)\<rparr>"
  obtain e w2 where "body (clk w (ticks w)) ?w = (Inl e, w2)" "P e" using body [of ?w "clk w (ticks w)"] up by auto
  then show ?thesis using up by (simp add: inTx_def Now_def rows_Err_def Let_def)
qed

lemma connected_NewUUID: "connected (snd (NewUUID w)) = connected w"
proof -
  have "env.more w = env.more w' \<Longrightarrow> pg_down w = pg_down w'" for w w' :: "'a pg_world_scheme"
    by (cases w; cases w') (simp add: pg_world.defs mq_world.defs)
  then show ?thesis by (metis more_NewUUID)
qed

text \<open>The key of a row that an insert computes from its arguments.\<close>

lemma eval_row_cell:
  "eval_row J now args ex t sets = Inr r \<Longrightarrow>
   cell r c = (case map_of sets c of None \<Rightarrow> VNull
     | Some x \<Rightarrow> (case eval_expr J now args ex (type_of t c) x of Inl e \<Rightarrow> VNull | Inr v \<Rightarrow> v))"
proof (induction sets arbitrary: r)
  case Nil
  then show ?case by (simp add: cell_def)
next
  case (Cons s sets)
  obtain c' x where s: "s = (c', x)" by (cases s)
  obtain v r' where v: "eval_expr J now args ex (type_of t c') x = Inr v" and r': "eval_row J now args ex t sets = Inr r'"
    and r: "r = (c', v) # r'"
    using Cons.prems by (auto simp: s split: sum.splits)
  have "cell r c = (if c = c' then v else cell r' c)" by (auto simp: r cell_def)
  then show ?case using Cons.IH [OF r'] v by (auto simp: s split: option.splits)
qed

lemma store_text: "store_val J TText (VText s) = Inr v \<Longrightarrow> v = VText s"
  by (simp split: if_splits)

lemma tenant_insert_taken:
  assumes "r0 \<in> set (T ''tenants'')" "cell r0 ''slug'' = VText slug"
  shows "\<exists>code. sql_insert ''tenants''
     [(''id'', Param 1), (''slug'', Param 2), (''name'', Param 3), (''plan'', Param 4), (''status'', Param 5),
      (''created_at'', NowX), (''updated_at'', NowX)] Refuse [i, VText slug, n, p, st] now J T = Inl (pgError code)"
proof (rule insert_taken [where u = "[''slug'']" and ?r0.0 = r0], intro conjI)
  fix r
  assume r: "eval_row J now [i, VText slug, n, p, st] [] ''tenants''
     [(''id'', Param 1), (''slug'', Param 2), (''name'', Param 3), (''plan'', Param 4), (''status'', Param 5),
      (''created_at'', NowX), (''updated_at'', NowX)] = Inr r"
  have "type_of ''tenants'' ''slug'' = TText" by (simp add: type_of_def schema_def)
  with r have c: "cell r ''slug'' = VText slug"
    by (auto simp: eval_row_cell [OF r, of "''slug''"] split: sum.splits if_splits)
  show "[''slug''] \<in> set (td_unique (schema ''tenants''))" by (simp add: schema_def)
  show "r0 \<in> set (T ''tenants'')" by (fact assms(1))
  show "key_of [''slug''] r0 = key_of [''slug''] r" using c assms(2) by (simp add: key_of_def)
  show "VNull \<notin> set (key_of [''slug''] r)" using c by (simp add: key_of_def)
qed

text \<open>
  C20: A user whose email address has the slug of a tenant that is already there gets no personal tenant: the transaction fails at its first
  statement, no table changes, and the error is not \<open>ErrConflict\<close>, the one which callers recognise.
\<close>

theorem pg_personal_tenant_slug_taken:
  assumes "connected w" "r \<in> set (pg_tables w ''tenants'')" "cell r ''slug'' = VText (pg_sanitizeSlug (user_Email user))"
  shows "\<exists>e w'. pg_CreatePersonalTenant user w = (Inl e, w') \<and> \<not> errors_Is e ErrConflict \<and> pg_tables w' = pg_tables w"
  unfolding pg_CreatePersonalTenant_def
proof (rule inTx_fails [OF assms(1)], goal_cases)
  case (1 now w1)
  obtain tid w2 where u: "NewUUID w1 = (tid, w2)" by (cases "NewUUID w1")
  then have w2: "pg_tables w2 = pg_tables w" "connected w2"
    using 1 pg_tables_NewUUID [of w1] connected_NewUUID [of w1] by simp_all
  obtain code where c: "sql_insert ''tenants''
     [(''id'', Param 1), (''slug'', Param 2), (''name'', Param 3), (''plan'', Param 4), (''status'', Param 5),
      (''created_at'', NowX), (''updated_at'', NowX)] Refuse
     [VText tid, VText (pg_sanitizeSlug (user_Email user)), VText (pg_fallback [user_DisplayName user, user_Email user]),
      VText ''free'', VText ''active''] now (pg_jsonb w2) (pg_tables w2) = Inl (pgError code)"
    using tenant_insert_taken [where T = "pg_tables w", OF assms(2,3)] unfolding w2(1) by blast
  show ?case
    using c w2(2)
    by (simp add: u sqlAt_def sql_def Now_def mapErr_def bindE_def Let_def Errorf_def pgError_def del: pg_fallback.simps)
qed

section \<open>Tenants\<close>

text \<open>The rows that are not those of a tenant, in every table.\<close>

definition foreign :: "string \<Rightarrow> tables \<Rightarrow> tables" where
  "foreign tenantID T t =
     filter (\<lambda>r. case uuid_in tenantID of None \<Rightarrow> True | Some u \<Rightarrow> cell r ''tenant_id'' \<noteq> VText u) (T t)"

lemma keeping_sql [keep]:
  assumes "\<And>now J T r T'. f now J T = Inr (r, T') \<Longrightarrow> g T' = g T"
  shows "keeping (\<lambda>w. g (pg_tables w)) (sql f)"
  by (rule keepingI) (auto simp: sql_def Now_def Let_def assms split: sum.split option.split)

lemma keeping_mapErr [keep]: "keeping v f \<Longrightarrow> keeping v (mapErr g f)"
  by (auto simp: keeping_def mapErr_def split: prod.splits sum.splits)

lemma keeping_discard [keep]: "keeping v f \<Longrightarrow> keeping v (discard f)"
  unfolding discard_def by (intro keep) (auto simp: keeping_def ret_def)

lemma keeping_ofSum [keep]: "keeping v (ofSum x)"
  by (simp add: keeping_def ofSum_def)

lemma cell_override: "cell (override old new) c = (case map_of (rev new) c of None \<Rightarrow> cell old c | Some v \<Rightarrow> v)"
proof (induction new rule: rev_induct)
  case Nil
  then show ?case by (simp add: override_def)
next
  case (snoc x new)
  obtain k v where x: "x = (k, v)" by (cases x)
  have "cell (AList.update k v r) c = (if c = k then v else cell r c)" for r
    by (simp add: cell_def update_conv')
  then show ?case using snoc by (simp add: x override_def)
qed

lemma eval_row_keys: "eval_row J now args ex t sets = Inr r \<Longrightarrow> map fst r = map fst sets"
proof (induction sets arbitrary: r)
  case (Cons s sets)
  then show ?case by (cases s) (auto split: sum.splits)
qed simp

lemma override_keeps:
  assumes "eval_row J now args ex t sets = Inr new" "c \<notin> fst ` set sets"
  shows "cell (override old new) c = cell old c"
proof -
  have "c \<notin> fst ` set new" using eval_row_keys [OF assms(1)] assms(2) by (metis list.set_map)
  then show ?thesis by (simp add: cell_override map_of_eq_None_iff [THEN iffD2])
qed

text \<open>The argument that stands for the tenant, stored in a row or compared with one.\<close>

lemma eval_row_tenant:
  assumes "eval_row J now args ex t sets = Inr r" "map_of sets ''tenant_id'' = Some (Param n)" "args ! (n - 1) = VText tenantID"
    and ty: "type_of t ''tenant_id'' = TUuid"
  shows "\<exists>u. uuid_in tenantID = Some u \<and> cell r ''tenant_id'' = VText u \<and> (''tenant_id'', VText u) \<in> set r"
proof -
  have in_r: "\<exists>v. eval_expr J now args ex (type_of t c) x = Inr v \<and> (c, v) \<in> set r"
    if "eval_row J now args ex t sets = Inr r" "(c, x) \<in> set sets" for c x sets r
    using that
  proof (induction sets arbitrary: r)
    case (Cons s sets)
    then show ?case by (cases s) (fastforce split: sum.splits)
  qed simp
  obtain v where v: "eval_expr J now args ex (type_of t ''tenant_id'') (Param n) = Inr v" "(''tenant_id'', v) \<in> set r"
    using in_r [OF assms(1) map_of_SomeD [OF assms(2)]] by blast
  then obtain u where u: "uuid_in tenantID = Some u" "v = VText u" using assms(3) by (auto simp: ty split: option.splits)
  moreover have "cell r ''tenant_id'' = v" using v(1) by (simp add: eval_row_cell [OF assms(1)] assms(2))
  ultimately show ?thesis using v(2) by blast
qed

lemma insert_foreign:
  assumes "sql_insert t sets Refuse args now J T = Inr (r, T')"
    and "map_of sets ''tenant_id'' = Some (Param n)" "args ! (n - 1) = VText tenantID" "type_of t ''tenant_id'' = TUuid"
  shows "foreign tenantID T' = foreign tenantID T"
proof -
  have "eval_row J now args [] t sets = Inr r" and T': "T' = T(t := T t @ [r])"
    using assms(1) by (auto simp: sql_insert_def store_rows_def Let_def split: sum.splits if_splits)
  from eval_row_tenant [OF this(1) assms(2-4)] show ?thesis by (auto simp: foreign_def T')
qed

lemma foreign_replace:
  assumes "\<And>r. r \<in> set (T t) \<Longrightarrow> cell (f r) ''tenant_id'' = cell r ''tenant_id''"
    and "\<And>r. r \<in> set (T t) \<Longrightarrow> f r \<noteq> r \<Longrightarrow> uuid_in tenantID = Some u \<and> cell r ''tenant_id'' = VText u"
  shows "foreign tenantID (T(t := map f (T t))) = foreign tenantID T"
proof -
  have "filter P (map f rows) = filter P rows"
    if "\<And>r. r \<in> set rows \<Longrightarrow> P (f r) = P r" "\<And>r. r \<in> set rows \<Longrightarrow> f r \<noteq> r \<Longrightarrow> \<not> P r" for P and rows :: "row list"
    using that by (induction rows) auto
  then show ?thesis unfolding foreign_def fun_eq_iff using assms by (auto split: option.split)
qed

lemma matchesD: "matches vs r \<Longrightarrow> (c, v) \<in> set vs \<Longrightarrow> cell r c = v"
  by (auto simp: matches_def list_all_iff)

lemma update_foreign:
  assumes "sql_update t sets cs args now J T = Inr (r, T')"
    and "map_of cs ''tenant_id'' = Some (Param n)" "args ! (n - 1) = VText tenantID" "type_of t ''tenant_id'' = TUuid"
    and "''tenant_id'' \<notin> fst ` set sets"
  shows "foreign tenantID T' = foreign tenantID T"
proof -
  obtain new vs where new: "eval_row J now args [] t sets = Inr new" and vs: "eval_row J now args [] t cs = Inr vs"
    and T': "T' = T(t := map (\<lambda>r. if matches vs r then override r new else r) (T t))"
    using assms(1) by (auto simp: sql_update_def store_rows_def split: sum.splits if_splits)
  obtain u where u: "uuid_in tenantID = Some u" "(''tenant_id'', VText u) \<in> set vs"
    using eval_row_tenant [OF vs assms(2-4)] by blast
  show ?thesis unfolding T'
    by (rule foreign_replace [where u = u])
       (auto simp: override_keeps [OF new assms(5)] u(1) dest: matchesD [OF _ u(2)] split: if_splits)
qed

lemma upsert_member_foreign:
  assumes "sql_insert ''tenant_members''
     [(''tenant_id'', Param 1), (''user_id'', Param 2), (''role'', Param 3), (''created_at'', Param 4)]
     (DoUpdate [''tenant_id'', ''user_id''] [(''role'', Excluded ''role'')]) (VText tenantID # args) now J T = Inr (r, T')"
  shows "foreign tenantID T' = foreign tenantID T"
proof -
  let ?sets = "[(''tenant_id'', Param 1), (''user_id'', Param 2), (''role'', Param 3), (''created_at'', Param 4)]"
  obtain r0 where r0: "eval_row J now (VText tenantID # args) [] ''tenant_members'' ?sets = Inr r0"
    using assms by (auto simp: sql_insert_def split: sum.splits simp del: eval_row.simps)
  obtain u where u: "uuid_in tenantID = Some u" "cell r0 ''tenant_id'' = VText u"
    using eval_row_tenant [OF r0, of 1 tenantID] by (auto simp: type_of_def schema_def)
  show ?thesis
  proof (cases "find (\<lambda>x. key_of [''tenant_id'', ''user_id''] x = key_of [''tenant_id'', ''user_id''] r0 \<and>
      VNull \<notin> set (key_of [''tenant_id'', ''user_id''] r0)) (T ''tenant_members'')")
    case None
    then have "T' = T(''tenant_members'' := T ''tenant_members'' @ [r0])"
      using assms r0 by (auto simp: sql_insert_def store_rows_def Let_def split: sum.splits if_splits simp del: eval_row.simps)
    then show ?thesis using u by (auto simp: foreign_def)
  next
    case (Some old)
    then have old: "cell old ''tenant_id'' = VText u" using u(2) by (auto simp: key_of_def dest!: find_SomeD)
    have "T' = T(''tenant_members'' := map (\<lambda>x. if x = old then override old [(''role'', cell r0 ''role'')] else x) (T ''tenant_members''))"
      using assms r0 Some by (auto simp: sql_insert_def store_rows_def Let_def split: sum.splits if_splits)
    then show ?thesis
      by (simp only:) (rule foreign_replace [where u = u], auto simp: cell_override old u(1) split: if_splits)
  qed
qed

lemma type_of_tenant:
  "t \<in> {''apps'', ''deployments'', ''deployment_events'', ''api_keys'', ''tenant_members'', ''audit_logs''} \<Longrightarrow> type_of t ''tenant_id'' = TUuid"
  by (auto simp: type_of_def schema_def)

text \<open>
  C14: What the Postgres repositories write for a tenant leaves every row of every other tenant, in every table, as it was, in the same order,
  also when the statement or the connection fails: creating and updating apps and deployments, events, members, API keys and revoking them.
\<close>

theorem pg_writes_confined:
  fixes w :: "'a pg_world_scheme"
  shows
  "foreign (app_TenantID app) (pg_tables (snd (pg_App_Create C app w))) = foreign (app_TenantID app) (pg_tables w) \<and>
   foreign (app_TenantID app) (pg_tables (snd (pg_App_Update C app w))) = foreign (app_TenantID app) (pg_tables w) \<and>
   foreign (dep_TenantID d) (pg_tables (snd (pg_Dep_Create C d w))) = foreign (dep_TenantID d) (pg_tables w) \<and>
   foreign (dep_TenantID d) (pg_tables (snd (pg_Dep_Update C d w))) = foreign (dep_TenantID d) (pg_tables w) \<and>
   foreign (ev_TenantID event) (pg_tables (snd (pg_Event_Create event w))) = foreign (ev_TenantID event) (pg_tables w) \<and>
   foreign (member_TenantID m) (pg_tables (snd (pg_AddMember m w))) = foreign (member_TenantID m) (pg_tables w) \<and>
   foreign (key_TenantID key) (pg_tables (snd (pg_Key_Create key w))) = foreign (key_TenantID key) (pg_tables w) \<and>
   foreign tenantID (pg_tables (snd (pg_Key_Revoke tenantID keyID at w))) = foreign tenantID (pg_tables w)"
proof -
  have run: "g (pg_tables (snd (f w))) = g (pg_tables w)" if "keeping (\<lambda>w. g (pg_tables w)) f"
    for f :: "(unit, 'a pg_world_scheme) op" and g :: "tables \<Rightarrow> tables"
    using that by (metis keepingD prod.collapse)
  show ?thesis
  proof (intro conjI; rule run)
    show "keeping (\<lambda>w :: 'a pg_world_scheme. foreign (app_TenantID app) (pg_tables w)) (pg_App_Create C app)"
      unfolding pg_App_Create_def by (intro keep) (erule insert_foreign [where n = 2]; simp add: type_of_tenant)
    show "keeping (\<lambda>w :: 'a pg_world_scheme. foreign (app_TenantID app) (pg_tables w)) (pg_App_Update C app)"
      unfolding pg_App_Update_def by (intro keep) (erule update_foreign [where n = 2]; simp add: type_of_tenant)
    show "keeping (\<lambda>w :: 'a pg_world_scheme. foreign (dep_TenantID d) (pg_tables w)) (pg_Dep_Create C d)"
      unfolding pg_Dep_Create_def by (intro keep) (erule insert_foreign [where n = 2]; simp add: type_of_tenant)
    show "keeping (\<lambda>w :: 'a pg_world_scheme. foreign (dep_TenantID d) (pg_tables w)) (pg_Dep_Update C d)"
      unfolding pg_Dep_Update_def by (intro keep) (erule update_foreign [where n = 2]; simp add: type_of_tenant)
    show "keeping (\<lambda>w :: 'a pg_world_scheme. foreign (ev_TenantID event) (pg_tables w)) (pg_Event_Create event)"
      unfolding pg_Event_Create_def by (intro keep) (erule insert_foreign [where n = 3]; simp add: type_of_tenant)
    show "keeping (\<lambda>w :: 'a pg_world_scheme. foreign (member_TenantID m) (pg_tables w)) (pg_AddMember m)"
      unfolding pg_AddMember_def by (intro keep) (erule upsert_member_foreign)
    show "keeping (\<lambda>w :: 'a pg_world_scheme. foreign (key_TenantID key) (pg_tables w)) (pg_Key_Create key)"
      unfolding pg_Key_Create_def by (intro keep) (erule insert_foreign [where n = 2]; simp add: type_of_tenant)
    show "keeping (\<lambda>w :: 'a pg_world_scheme. foreign tenantID (pg_tables w)) (pg_Key_Revoke tenantID keyID at)"
      unfolding pg_Key_Revoke_def by (intro keep) (erule update_foreign [where n = 1]; simp add: type_of_tenant)
  qed
qed

text \<open>What a query returns was scanned from rows it found.\<close>

lemma in_some_order_set [simp]: "set (fst (in_some_order rows w)) = set rows"
proof -
  let ?m = "map (\<lambda>r. (case cell r ''id'' of VText i \<Rightarrow> i | _ \<Rightarrow> [], r)) rows"
  have "set (fst (in_some_order rows w)) = snd ` set ?m"
    by (simp only: in_some_order_def Let_def split_beta fst_conv set_map range_map_set)
  also have "\<dots> = set rows" by (simp add: image_image)
  finally show ?thesis .
qed

lemma mapErr_InrD: "mapErr g f w = (Inr a, w') \<Longrightarrow> f w = (Inr a, w')"
  by (auto simp: mapErr_def split: prod.splits sum.splits)

lemma bindS_InrD: "bindS x f = Inr b \<Longrightarrow> \<exists>a. x = Inr a \<and> f a = Inr b"
  by (auto simp: bindS_def split: sum.splits)

lemma labelled_InrD: "labelled op x = Inr a \<Longrightarrow> x = Inr a"
  by (auto simp: labelled_def split: sum.splits)

lemma mapS_InrD: "mapS f xs = Inr ys \<Longrightarrow> y \<in> set ys \<Longrightarrow> \<exists>x\<in>set xs. f x = Inr y"
  by (induction xs arbitrary: ys) (auto dest!: bindS_InrD)

lemma queryRow_InrD:
  assumes "queryRow q scan w = (Inr a, w')"
  obtains rows w1 r where "q w = (Inr rows, w1)" "r \<in> set rows" "scan r = Inr a"
proof -
  obtain rows w1 where q: "q w = (Inr rows, w1)" and b: "bindS (first_row (fst (in_some_order rows w1))) scan = Inr a"
    using assms unfolding queryRow_def by (elim bindE_InrD) (simp add: Let_def split_beta)
  from bindS_InrD [OF b]
  obtain r where r: "first_row (fst (in_some_order rows w1)) = Inr r" "scan r = Inr a" by (elim exE conjE)
  have "r \<in> set (fst (in_some_order rows w1))"
    using r(1) by (cases "fst (in_some_order rows w1)") (simp_all add: first_row_def del: in_some_order_set)
  then have "r \<in> set rows" by simp
  with q r(2) show ?thesis by (intro that)
qed

lemma queryRows_InrD:
  assumes "queryRows q arrange scan op w = (Inr xs, w')" and "\<And>rows. set (arrange rows) \<subseteq> set rows"
  obtains rows w1 where "q w = (Inr rows, w1)" "\<And>x. x \<in> set xs \<Longrightarrow> \<exists>r\<in>set rows. scan r = Inr x"
proof -
  obtain rows w1 where q: "q w = (Inr rows, w1)"
    and k: "(case mapS scan (arrange (fst (in_some_order rows w1))) of
       Inl e \<Rightarrow> (Inl e, snd (in_some_order rows w1))
     | Inr items \<Rightarrow> bindE (mapErr (Errorf op) rows_Err) (\<lambda>_. ret items) (snd (in_some_order rows w1))) = (Inr xs, w')"
    using assms(1) unfolding queryRows_def by (elim bindE_InrD) (simp add: Let_def split_beta)
  have m: "mapS scan (arrange (fst (in_some_order rows w1))) = Inr xs"
    using k by (auto simp: bindE_def ret_def split: sum.splits prod.splits)
  show ?thesis
  proof (rule that [OF q])
    fix x assume "x \<in> set xs"
    then obtain r where "r \<in> set (arrange (fst (in_some_order rows w1)))" "scan r = Inr x" using mapS_InrD [OF m] by blast
    then show "\<exists>r\<in>set rows. scan r = Inr x" using assms(2) in_some_order_set by blast
  qed
qed

lemma select_tenant:
  assumes "sql (sql_select t cs args) w = (Inr rows, w1)"
    and "map_of cs ''tenant_id'' = Some (Param n)" "args ! (n - 1) = VText tenantID" "type_of t ''tenant_id'' = TUuid"
  obtains u where "uuid_in tenantID = Some u" "\<And>r. r \<in> set rows \<Longrightarrow> cell r ''tenant_id'' = VText u"
proof -
  obtain vs now where vs: "eval_row (pg_jsonb w) now args [] t cs = Inr vs" and rows: "rows = filter (matches vs) (pg_tables w t)"
    using assms(1) by (auto simp: sql_def sql_select_def Now_def Let_def split: sum.splits option.splits)
  obtain u where "uuid_in tenantID = Some u" "(''tenant_id'', VText u) \<in> set vs" using eval_row_tenant [OF vs assms(2-4)] by blast
  then show ?thesis using rows by (intro that) (auto dest: matchesD)
qed

lemma scan_tenant:
  "scanApp r = Inr (raw, app) \<Longrightarrow> cell r ''tenant_id'' = VText (app_TenantID app)"
  "scanDep r = Inr (rawConfig, rawRef, d) \<Longrightarrow> cell r ''tenant_id'' = VText (dep_TenantID d)"
  "scanKey r = Inr key \<Longrightarrow> cell r ''tenant_id'' = VText (key_TenantID key)"
  "scanAudit r = Inr log \<Longrightarrow> cell r ''tenant_id'' = VText (audit_TenantID log)"
  "scanEvent r = Inr event \<Longrightarrow> cell r ''tenant_id'' = VText (ev_TenantID event)"
proof -
  have t: "scanText v = Inr s \<Longrightarrow> v = VText s" for v s by (cases v) auto
  show
    "scanApp r = Inr (raw, app) \<Longrightarrow> cell r ''tenant_id'' = VText (app_TenantID app)"
    "scanDep r = Inr (rawConfig, rawRef, d) \<Longrightarrow> cell r ''tenant_id'' = VText (dep_TenantID d)"
    "scanKey r = Inr key \<Longrightarrow> cell r ''tenant_id'' = VText (key_TenantID key)"
    "scanAudit r = Inr log \<Longrightarrow> cell r ''tenant_id'' = VText (audit_TenantID log)"
    "scanEvent r = Inr event \<Longrightarrow> cell r ''tenant_id'' = VText (ev_TenantID event)"
    by (auto simp: scanApp_def scanDep_def scanKey_def scanAudit_def scanEvent_def dest!: bindS_InrD t)
qed

lemma row_tenant:
  assumes "queryRow (sql (sql_select t ((''tenant_id'', Param 1) # cs) (VText tenantID # args))) scan w = (Inr a, w')"
    and "\<And>r. scan r = Inr a \<Longrightarrow> cell r ''tenant_id'' = VText x" and "type_of t ''tenant_id'' = TUuid"
  shows "uuid_in tenantID = Some x"
proof -
  obtain rows w1 r where q: "sql (sql_select t ((''tenant_id'', Param 1) # cs) (VText tenantID # args)) w = (Inr rows, w1)"
    and r: "r \<in> set rows" "scan r = Inr a"
    by (rule queryRow_InrD [OF assms(1)])
  obtain u where "uuid_in tenantID = Some u" "cell r ''tenant_id'' = VText u"
    using select_tenant [OF q, of 1 tenantID] assms(3) r(1) by auto
  then show ?thesis using assms(2) [OF r(2)] by simp
qed

lemma rows_tenant:
  assumes "queryRows (mapErr g (sql (sql_select t ((''tenant_id'', Param 1) # cs) (VText tenantID # args)))) arrange scan op w = (Inr xs, w')"
    and "\<And>rows. set (arrange rows) \<subseteq> set rows" "x \<in> set xs"
    and "\<And>r. scan r = Inr x \<Longrightarrow> cell r ''tenant_id'' = VText y" and "type_of t ''tenant_id'' = TUuid"
  shows "uuid_in tenantID = Some y"
proof -
  obtain rows w1 where q: "mapErr g (sql (sql_select t ((''tenant_id'', Param 1) # cs) (VText tenantID # args))) w = (Inr rows, w1)"
    and rows: "\<And>x. x \<in> set xs \<Longrightarrow> \<exists>r\<in>set rows. scan r = Inr x"
    using queryRows_InrD [OF assms(1,2)] by blast
  obtain r where r: "r \<in> set rows" "scan r = Inr x" using rows [OF assms(3)] by (elim bexE)
  obtain u where "uuid_in tenantID = Some u" "cell r ''tenant_id'' = VText u"
    using select_tenant [OF mapErr_InrD [OF q], of 1 tenantID] assms(5) r(1) by auto
  then show ?thesis using assms(4) [OF r(2)] by simp
qed

lemma decode_tenant:
  "decodeApp C (raw, app') = Inr app \<Longrightarrow> app_TenantID app = app_TenantID app'"
  "decodeDep op op' C (rawConfig, rawRef, d') = Inr d \<Longrightarrow> dep_TenantID d = dep_TenantID d'"
  by (auto simp: decodeApp_def decodeDep_def dest!: bindS_InrD)

lemma pg_App_GetByID_tenant:
  assumes "pg_App_GetByID C t i w = (Inr app, w')"
  shows "uuid_in t = Some (app_TenantID app)"
proof -
  obtain raw app' w1 where
    q: "queryRow (sql (sql_select ''apps'' [(''tenant_id'', Param 1), (''id'', Param 2)] [VText t, VText i])) scanApp w = (Inr (raw, app'), w1)"
    and "decodeApp C (raw, app') = Inr app"
    using assms unfolding pg_App_GetByID_def by (elim bindE_InrD) (auto dest!: mapErr_InrD simp: ofSum_def)
  then show ?thesis using row_tenant [OF q scan_tenant(1)] by (simp add: type_of_tenant decode_tenant(1))
qed

lemma pg_Dep_GetByID_tenant:
  assumes "pg_Dep_GetByID C t i w = (Inr d, w')"
  shows "uuid_in t = Some (dep_TenantID d)"
proof -
  obtain rawConfig rawRef d' w1 where
    q: "queryRow (sql (sql_select ''deployments'' [(''tenant_id'', Param 1), (''id'', Param 2)] [VText t, VText i])) scanDep w =
        (Inr (rawConfig, rawRef, d'), w1)"
    and "decodeDep ''decode deployment config'' ''decode deployment ref'' C (rawConfig, rawRef, d') = Inr d"
    using assms unfolding pg_Dep_GetByID_def by (elim bindE_InrD) (auto dest!: mapErr_InrD simp: ofSum_def)
  then show ?thesis using row_tenant [OF q scan_tenant(2)] by (simp add: type_of_tenant decode_tenant(2))
qed

lemma scanned_tenant:
  "bindS (labelled op (scanApp r)) (decodeApp C) = Inr app \<Longrightarrow> cell r ''tenant_id'' = VText (app_TenantID app)"
  "bindS (labelled op (scanDep r)) (decodeDep op' op'' C) = Inr d \<Longrightarrow> cell r ''tenant_id'' = VText (dep_TenantID d)"
  by (auto simp: decode_tenant scan_tenant dest!: bindS_InrD labelled_InrD)

lemma labelled_tenant:
  "labelled op (scanKey r) = Inr key \<Longrightarrow> cell r ''tenant_id'' = VText (key_TenantID key)"
  "labelled op (scanAudit r) = Inr log \<Longrightarrow> cell r ''tenant_id'' = VText (audit_TenantID log)"
  "labelled op (scanEvent r) = Inr event \<Longrightarrow> cell r ''tenant_id'' = VText (ev_TenantID event)"
  by (auto dest!: labelled_InrD intro: scan_tenant)

lemma pg_App_ListByTenant_tenant: "pg_App_ListByTenant C t w = (Inr xs, w') \<Longrightarrow> app \<in> set xs \<Longrightarrow> uuid_in t = Some (app_TenantID app)"
  unfolding pg_App_ListByTenant_def Let_def
  by (erule rows_tenant, auto simp: type_of_tenant dest: in_set_takeD intro: scanned_tenant)

lemma pg_Dep_ListByApp_tenant: "pg_Dep_ListByApp C t i w = (Inr xs, w') \<Longrightarrow> d \<in> set xs \<Longrightarrow> uuid_in t = Some (dep_TenantID d)"
  unfolding pg_Dep_ListByApp_def Let_def
  by (erule rows_tenant, auto simp: type_of_tenant dest: in_set_takeD intro: scanned_tenant)

lemma pg_ListByDeployment_tenant: "pg_ListByDeployment t i w = (Inr xs, w') \<Longrightarrow> event \<in> set xs \<Longrightarrow> uuid_in t = Some (ev_TenantID event)"
  unfolding pg_ListByDeployment_def Let_def
  by (erule rows_tenant, auto simp: type_of_tenant dest: in_set_takeD intro: labelled_tenant)

lemma pg_Key_ListByTenant_tenant: "pg_Key_ListByTenant t w = (Inr xs, w') \<Longrightarrow> key \<in> set xs \<Longrightarrow> uuid_in t = Some (key_TenantID key)"
  unfolding pg_Key_ListByTenant_def Let_def
  by (erule rows_tenant, auto simp: type_of_tenant dest: in_set_takeD intro: labelled_tenant)

lemma pg_Audit_ListByTenant_tenant: "pg_Audit_ListByTenant t limit w = (Inr xs, w') \<Longrightarrow> log \<in> set xs \<Longrightarrow> uuid_in t = Some (audit_TenantID log)"
  unfolding pg_Audit_ListByTenant_def Let_def
  by (erule rows_tenant, auto simp: type_of_tenant dest: in_set_takeD intro: labelled_tenant)

lemma pg_GetMember_tenant:
  assumes "pg_GetMember t i w = (Inr m, w')"
  shows "uuid_in t = Some (member_TenantID m)"
proof -
  have v: "scanText v = Inr s \<Longrightarrow> v = VText s" for v s by (cases v) auto
  show ?thesis
    using assms unfolding pg_GetMember_def
    by (elim mapErr_InrD [THEN row_tenant]) (auto simp: type_of_tenant dest!: bindS_InrD v)
qed

text \<open>
  C15: What the Postgres repositories return to a tenant is the tenant's own: every app, deployment, event, API key, audit entry and membership
  that a call with a tenant id returns has this tenant, whatever else the call asks for and whatever the tables hold.
\<close>

theorem pg_reads_confined:
  "(pg_App_GetByID C t i w = (Inr app, w1) \<longrightarrow> uuid_in t = Some (app_TenantID app)) \<and>
   (pg_App_ListByTenant C t w = (Inr as, w2) \<longrightarrow> (\<forall>app\<in>set as. uuid_in t = Some (app_TenantID app))) \<and>
   (pg_Dep_GetByID C t i w = (Inr d, w3) \<longrightarrow> uuid_in t = Some (dep_TenantID d)) \<and>
   (pg_Dep_ListByApp C t i w = (Inr ds, w4) \<longrightarrow> (\<forall>d\<in>set ds. uuid_in t = Some (dep_TenantID d))) \<and>
   (pg_ListByDeployment t i w = (Inr evs, w5) \<longrightarrow> (\<forall>event\<in>set evs. uuid_in t = Some (ev_TenantID event))) \<and>
   (pg_Key_ListByTenant t w = (Inr ks, w6) \<longrightarrow> (\<forall>key\<in>set ks. uuid_in t = Some (key_TenantID key))) \<and>
   (pg_Audit_ListByTenant t limit w = (Inr logs, w7) \<longrightarrow> (\<forall>log\<in>set logs. uuid_in t = Some (audit_TenantID log))) \<and>
   (pg_GetMember t i w = (Inr m, w8) \<longrightarrow> uuid_in t = Some (member_TenantID m))"
  by (intro conjI impI ballI;
      (erule pg_App_GetByID_tenant pg_Dep_GetByID_tenant pg_GetMember_tenant | erule (1) pg_App_ListByTenant_tenant |
       erule (1) pg_Dep_ListByApp_tenant | erule (1) pg_ListByDeployment_tenant | erule (1) pg_Key_ListByTenant_tenant |
       erule (1) pg_Audit_ListByTenant_tenant))

section \<open>Deployments\<close>

text \<open>A codec and the database's \<^verbatim>\<open>jsonb\<close> give back what they were given.\<close>

definition reads_back :: "('x \<Rightarrow> error + string) \<Rightarrow> (string \<Rightarrow> error + 'x) \<Rightarrow> (string \<Rightarrow> string option) \<Rightarrow> 'x \<Rightarrow> bool" where
  "reads_back encode decode J x \<longleftrightarrow>
     (case encode x of Inl _ \<Rightarrow> False
      | Inr s \<Rightarrow> (case J s of None \<Rightarrow> False | Some s' \<Rightarrow> s' \<noteq> [] \<and> decode s' = Inr x))"

definition canonical :: "string \<Rightarrow> bool" where
  "canonical s \<longleftrightarrow> uuid_in s = Some s"

text \<open>A deployment as the database keeps it.\<close>

definition stored :: "Deployment \<Rightarrow> Deployment" where
  "stored d =
     d\<lparr>dep_StartedAt := map_option micros (dep_StartedAt d), dep_FinishedAt := map_option micros (dep_FinishedAt d),
       dep_CreatedAt := micros (dep_CreatedAt d), dep_UpdatedAt := micros (dep_UpdatedAt d)\<rparr>"

abbreviation textOrNull :: "string \<Rightarrow> val" where
  "textOrNull s \<equiv> if s = [] then VNull else VText s"

definition depRow :: "string \<Rightarrow> string \<Rightarrow> Deployment \<Rightarrow> row" where
  "depRow config ref d =
     [(''id'', VText (dep_ID d)), (''tenant_id'', VText (dep_TenantID d)), (''app_id'', VText (dep_AppID d)),
      (''version'', VInt (dep_Version d)), (''image_ref'', VText (dep_ImageRef d)), (''config_snapshot'', VBytes config),
      (''status'', VText (status_string (dep_Status d))), (''status_reason'', textOrNull (dep_StatusReason d)),
      (''backend'', VText (dep_Backend d)), (''backend_ref'', VBytes ref), (''requested_by'', VText (dep_RequestedBy d)),
      (''repair_attempts'', VInt (dep_RepairAttempts d)), (''started_at'', nullableTime (map_option micros (dep_StartedAt d))),
      (''finished_at'', nullableTime (map_option micros (dep_FinishedAt d))), (''created_at'', VTime (micros (dep_CreatedAt d))),
      (''updated_at'', VTime (micros (dep_UpdatedAt d)))]"

lemma statusOf_string: "statusOf (status_string st) = Inr st"
  by (cases st) (simp_all add: statusOf_def allStatuses_def)

lemma scan_nullableTime [simp]: "scanTimePtr (nullableTime t) = Inr t"
  by (cases t) (simp_all add: nullableTime_def)

lemma scan_depRow:
  "scanDep (depRow config ref d) =
     Inr (config, ref, (stored d)\<lparr>dep_ConfigSnapshot := zeroAppConfig, dep_BackendRef := zeroBackendRef\<rparr>)"
  by (simp add: scanDep_def depRow_def cell_def bindS_def statusOf_string stored_def)

lemma store_nullableTime: "store_val J TTime (nullableTime t) = Inr (nullableTime (map_option micros t))"
  by (cases t) (simp_all add: nullableTime_def)

lemma deployment_types:
  "type_of ''deployments'' ''id'' = TUuid" "type_of ''deployments'' ''tenant_id'' = TUuid" "type_of ''deployments'' ''app_id'' = TUuid"
  "type_of ''deployments'' ''version'' = TInt" "type_of ''deployments'' ''image_ref'' = TText"
  "type_of ''deployments'' ''config_snapshot'' = TJson" "type_of ''deployments'' ''status'' = TText"
  "type_of ''deployments'' ''status_reason'' = TText" "type_of ''deployments'' ''backend'' = TText"
  "type_of ''deployments'' ''backend_ref'' = TJson" "type_of ''deployments'' ''requested_by'' = TUuid"
  "type_of ''deployments'' ''repair_attempts'' = TInt" "type_of ''deployments'' ''started_at'' = TTime"
  "type_of ''deployments'' ''finished_at'' = TTime" "type_of ''deployments'' ''created_at'' = TTime"
  "type_of ''deployments'' ''updated_at'' = TTime"
  by (simp_all add: type_of_def schema_def)

text \<open>The insert of a deployment.\<close>

abbreviation depSets :: "(string \<times> expr) list" where
  "depSets \<equiv>
     [(''id'', Param 1), (''tenant_id'', Param 2), (''app_id'', Param 3), (''version'', Param 4), (''image_ref'', Param 5),
      (''config_snapshot'', Param 6), (''status'', Param 7), (''status_reason'', NullifText 8), (''backend'', Param 9),
      (''backend_ref'', Param 10), (''requested_by'', Param 11), (''repair_attempts'', Param 12), (''started_at'', Param 13),
      (''finished_at'', Param 14), (''created_at'', Param 15), (''updated_at'', Param 16)]"

abbreviation depArgs :: "string \<Rightarrow> string \<Rightarrow> Deployment \<Rightarrow> val list" where
  "depArgs config ref d \<equiv>
     [VText (dep_ID d), VText (dep_TenantID d), VText (dep_AppID d), VInt (dep_Version d), VText (dep_ImageRef d), VBytes config,
      VText (status_string (dep_Status d)), VText (dep_StatusReason d), VText (dep_Backend d), VBytes ref,
      VText (dep_RequestedBy d), VInt (dep_RepairAttempts d), nullableTime (dep_StartedAt d), nullableTime (dep_FinishedAt d),
      VTime (dep_CreatedAt d), VTime (dep_UpdatedAt d)]"

lemma eval_depRow:
  assumes "eval_row J now (depArgs config ref d) [] ''deployments'' depSets = Inr r"
    and "canonical (dep_ID d)" "canonical (dep_TenantID d)" "canonical (dep_AppID d)" "canonical (dep_RequestedBy d)"
    and "J config = Some config'" "J ref = Some ref'"
  shows "r = depRow config' ref' d"
  using assms by (simp add: deployment_types canonical_def store_nullableTime depRow_def split: if_splits)

lemma key_unique:
  assumes "\<not> has_dup t (rows @ [r])" "u \<in> set (td_unique (schema t))" "VNull \<notin> set (key_of u r)" "r' \<in> set rows"
  shows "key_of u r' \<noteq> key_of u r"
  using has_dupI [OF assms(2,4) _ assms(3)] assms(1) by blast

lemma sql_InrD:
  assumes "sql f w = (Inr r, w')"
  obtains now T where "f now (pg_jsonb w) (pg_tables w) = Inr (r, T)" "pg_tables w' = T" "pg_jsonb w' = pg_jsonb w" "pg_down w' = pg_down w"
  using assms by (auto simp: sql_def Now_def Let_def split: sum.splits option.splits)

lemma insert_InrD:
  "sql_insert t sets Refuse args now J T = Inr (r, T') \<Longrightarrow>
   eval_row J now args [] t sets = Inr r \<and> T' = T(t := T t @ [r]) \<and> \<not> has_dup t (T t @ [r])"
  by (auto simp: sql_insert_def store_rows_def Let_def split: sum.splits if_splits)

definition wfDeployment :: "jcodec \<Rightarrow> (string \<Rightarrow> string option) \<Rightarrow> Deployment \<Rightarrow> bool" where
  "wfDeployment C J d \<longleftrightarrow>
     canonical (dep_ID d) \<and> canonical (dep_TenantID d) \<and> canonical (dep_AppID d) \<and> canonical (dep_RequestedBy d) \<and>
     reads_back (jc_config C) (jc_unconfig C) J (dep_ConfigSnapshot d) \<and> reads_back (jc_ref C) (jc_unref C) J (dep_BackendRef d)"

lemma reads_backE:
  assumes "reads_back enc decd J x"
  obtains s s' where "enc x = Inr s" "J s = Some s'" "s' \<noteq> []" "decd s' = Inr x"
  using assms by (auto simp: reads_back_def split: sum.splits option.splits)

lemma pg_Dep_Create_InrD:
  assumes run: "pg_Dep_Create C d w = (Inr (), w1)" and d: "wfDeployment C (pg_jsonb w) d"
  obtains config ref where
    "pg_tables w1 = (pg_tables w)(''deployments'' := pg_tables w ''deployments'' @ [depRow config ref d])"
    "\<not> has_dup ''deployments'' (pg_tables w ''deployments'' @ [depRow config ref d])"
    "decodeDep ''decode deployment config'' ''decode deployment ref'' C
       (config, ref, (stored d)\<lparr>dep_ConfigSnapshot := zeroAppConfig, dep_BackendRef := zeroBackendRef\<rparr>) = Inr (stored d)"
    "pg_jsonb w1 = pg_jsonb w" "pg_down w1 = pg_down w"
proof -
  obtain c c' where c: "jc_config C (dep_ConfigSnapshot d) = Inr c" "pg_jsonb w c = Some c'" "c' \<noteq> []"
      "jc_unconfig C c' = Inr (dep_ConfigSnapshot d)"
    using d by (auto simp: wfDeployment_def elim: reads_backE)
  obtain f f' where f: "jc_ref C (dep_BackendRef d) = Inr f" "pg_jsonb w f = Some f'" "f' \<noteq> []" "jc_unref C f' = Inr (dep_BackendRef d)"
    using d by (auto simp: wfDeployment_def elim: reads_backE)
  have "\<exists>r. sql (sql_insert ''deployments'' depSets Refuse (depArgs c f d)) w = (Inr r, w1)"
    using run [unfolded pg_Dep_Create_def c(1) f(1) labelled_def sum.case]
    by (auto simp: ofSum_def discard_def ret_def bindE_def mapErr_def split: prod.splits sum.splits)
  then obtain r T now where
    i: "sql_insert ''deployments'' depSets Refuse (depArgs c f d) now (pg_jsonb w) (pg_tables w) = Inr (r, T)"
    and w1: "pg_tables w1 = T" "pg_jsonb w1 = pg_jsonb w" "pg_down w1 = pg_down w"
    by (elim exE sql_InrD)
  note i = insert_InrD [OF i]
  have r: "r = depRow c' f' d"
    by (rule eval_depRow [OF i [THEN conjunct1] _ _ _ _ c(2) f(2)]) (use d in \<open>simp_all add: wfDeployment_def\<close>)
  note T = i [THEN conjunct2, THEN conjunct1, unfolded r] and dup = i [THEN conjunct2, THEN conjunct2, unfolded r]
  show ?thesis
  proof (rule that [of c' f'])
    show "pg_tables w1 = (pg_tables w)(''deployments'' := pg_tables w ''deployments'' @ [depRow c' f' d])" unfolding w1(1) by (fact T)
    show "decodeDep ''decode deployment config'' ''decode deployment ref'' C
       (c', f', (stored d)\<lparr>dep_ConfigSnapshot := zeroAppConfig, dep_BackendRef := zeroBackendRef\<rparr>) = Inr (stored d)"
      using c f by (simp add: decodeDep_def fromJSON_def labelled_def bindS_def stored_def)
  qed (fact dup w1(2) w1(3))+
qed

text \<open>Reading by tenant and id in a table where the id is unique.\<close>

lemma select_by_id:
  assumes "connected w" "pg_tables w ''deployments'' = rows @ [depRow config ref d]"
    and "\<not> has_dup ''deployments'' (rows @ [depRow config ref d])"
    and "uuid_in t = Some u" "canonical (dep_ID d)"
  obtains w' where "pg_tables w' = pg_tables w"
    "sql (sql_select ''deployments'' [(''tenant_id'', Param 1), (''id'', Param 2)] [VText t, VText (dep_ID d)]) w =
       (Inr (if u = dep_TenantID d then [depRow config ref d] else []), w')"
proof -
  have c: "cell (depRow config ref d) ''id'' = VText (dep_ID d)" "cell (depRow config ref d) ''tenant_id'' = VText (dep_TenantID d)"
    by (simp_all add: depRow_def cell_def)
  have "cell r ''id'' \<noteq> VText (dep_ID d)" if "r \<in> set rows" for r
    using key_unique [OF assms(3), of "[''id'']" r] that c by (simp add: key_of_def schema_def)
  then have "filter (matches [(''tenant_id'', VText u), (''id'', VText (dep_ID d))]) rows = []"
    by (auto simp: filter_empty_conv matches_def)
  moreover have "matches [(''tenant_id'', VText u), (''id'', VText (dep_ID d))] (depRow config ref d) \<longleftrightarrow> u = dep_TenantID d"
    by (auto simp: matches_def c)
  ultimately show ?thesis
    using assms(1,2,4,5) that
    by (simp add: sql_connected sql_select_def Now_def Let_def deployment_types canonical_def)
qed

text \<open>When the insert succeeds: values that the columns can hold, a new id, a new version of the app, and a tenant, an app and a user that exist.\<close>

definition storable :: "Deployment \<Rightarrow> bool" where
  "storable d \<longleftrightarrow>
     CHR 0x00 \<notin> set (dep_ImageRef d @ dep_StatusReason d @ dep_Backend d) \<and>
     - (2 ^ 31) \<le> dep_Version d \<and> dep_Version d < 2 ^ 31 \<and> - (2 ^ 31) \<le> dep_RepairAttempts d \<and> dep_RepairAttempts d < 2 ^ 31"

definition fits :: "tables \<Rightarrow> Deployment \<Rightarrow> bool" where
  "fits T d \<longleftrightarrow>
     \<not> has_dup ''deployments'' (T ''deployments'') \<and>
     list_all (\<lambda>r. cell r ''id'' \<noteq> VText (dep_ID d) \<and>
       (cell r ''app_id'' \<noteq> VText (dep_AppID d) \<or> cell r ''version'' \<noteq> VInt (dep_Version d))) (T ''deployments'') \<and>
     list_ex (\<lambda>r. cell r ''id'' = VText (dep_TenantID d)) (T ''tenants'') \<and>
     list_ex (\<lambda>r. cell r ''id'' = VText (dep_AppID d)) (T ''apps'') \<and>
     list_ex (\<lambda>r. cell r ''id'' = VText (dep_RequestedBy d)) (T ''users'')"

lemma status_string_text: "CHR 0x00 \<notin> set (status_string st)"
  by (cases st) simp_all

lemma eval_depRow_ok:
  assumes "storable d" "canonical (dep_ID d)" "canonical (dep_TenantID d)" "canonical (dep_AppID d)" "canonical (dep_RequestedBy d)"
    and "J config = Some config'" "J ref = Some ref'"
  shows "eval_row J now (depArgs config ref d) [] ''deployments'' depSets = Inr (depRow config' ref' d)"
  using assms
  by (simp add: deployment_types canonical_def store_nullableTime depRow_def storable_def status_string_text)

lemma depRow_cells:
  "cell (depRow config ref d) ''id'' = VText (dep_ID d)" "cell (depRow config ref d) ''tenant_id'' = VText (dep_TenantID d)"
  "cell (depRow config ref d) ''app_id'' = VText (dep_AppID d)" "cell (depRow config ref d) ''version'' = VInt (dep_Version d)"
  "cell (depRow config ref d) ''requested_by'' = VText (dep_RequestedBy d)"
  by (simp_all add: depRow_def cell_def)

lemma store_depRow:
  assumes "fits T d"
  shows "store_rows T ''deployments'' [depRow config ref d] (T ''deployments'' @ [depRow config ref d]) =
    Inr (T(''deployments'' := T ''deployments'' @ [depRow config ref d]))"
proof -
  have u: "td_unique (schema ''deployments'') = [[''id''], [''app_id'', ''version'']]"
    and refs: "td_refs (schema ''deployments'') = [(''tenant_id'', ''tenants''), (''app_id'', ''apps''), (''requested_by'', ''users'')]"
    by (simp_all add: schema_def)
  have "\<not> has_null ''deployments'' (depRow config ref d)" by (simp add: has_null_def schema_def depRow_def cell_def)
  moreover have "\<not> has_dup ''deployments'' (T ''deployments'' @ [depRow config ref d])"
    using assms by (auto simp: fits_def has_dup_def u key_of_def depRow_cells list_all_iff)
  moreover have "refs_ok T ''deployments'' (depRow config ref d)"
  proof -
    have ex: "list_ex (\<lambda>r. cell r ''id'' = v) rows \<Longrightarrow> v \<in> set (map (\<lambda>x. cell x ''id'') rows)" for v rows
      by (induction rows) auto
    show ?thesis using assms ex unfolding fits_def by (simp add: refs_ok_def refs depRow_cells del: set_map)
  qed
  ultimately show ?thesis by (simp add: store_rows_def)
qed

lemma pg_Dep_Create_ok:
  assumes "connected w" "wfDeployment C (pg_jsonb w) d" "storable d" "fits (pg_tables w) d"
  shows "\<exists>w1. pg_Dep_Create C d w = (Inr (), w1)"
proof -
  obtain c c' where c: "jc_config C (dep_ConfigSnapshot d) = Inr c" "pg_jsonb w c = Some c'"
    using assms(2) by (auto simp: wfDeployment_def elim: reads_backE)
  obtain f f' where f: "jc_ref C (dep_BackendRef d) = Inr f" "pg_jsonb w f = Some f'"
    using assms(2) by (auto simp: wfDeployment_def elim: reads_backE)
  have e: "eval_row (pg_jsonb w) now (depArgs c f d) [] ''deployments'' depSets = Inr (depRow c' f' d)" for now
    by (rule eval_depRow_ok) (use assms(2,3) c(2) f(2) in \<open>simp_all add: wfDeployment_def\<close>)
  have "sql_insert ''deployments'' depSets Refuse (depArgs c f d) now (pg_jsonb w) (pg_tables w) =
      Inr (depRow c' f' d, (pg_tables w)(''deployments'' := pg_tables w ''deployments'' @ [depRow c' f' d]))" for now
    unfolding sql_insert_def e by (simp add: store_depRow [OF assms(4)])
  then show ?thesis
    using assms(1)
    by (simp add: pg_Dep_Create_def c(1) f(1) labelled_def ofSum_def bindE_def mapErr_def discard_def ret_def sql_connected Now_def Let_def)
qed

text \<open>
  C16: A deployment that the columns can hold, with an id and a version that are new and a tenant, an app and a user that exist, is created, and
  reading it back by its tenant gives the same deployment, its times cut to microseconds, while every other tenant that asks for its
  id gets \<open>ErrNotFound\<close>.
\<close>

theorem pg_deployment_roundtrip:
  assumes "connected w" "wfDeployment C (pg_jsonb w) d" "storable d" "fits (pg_tables w) d"
  shows "\<exists>w1. pg_Dep_Create C d w = (Inr (), w1) \<and>
    (\<exists>w2. pg_Dep_GetByID C (dep_TenantID d) (dep_ID d) w1 = (Inr (stored d), w2) \<and> pg_tables w2 = pg_tables w1) \<and>
    (\<forall>t u. uuid_in t = Some u \<and> u \<noteq> dep_TenantID d \<longrightarrow> (\<exists>w2. pg_Dep_GetByID C t (dep_ID d) w1 = (Inl ErrNotFound, w2)))"
proof -
  obtain w1 where run: "pg_Dep_Create C d w = (Inr (), w1)" using pg_Dep_Create_ok [OF assms] by blast
  obtain config ref where
    T: "pg_tables w1 ''deployments'' = pg_tables w ''deployments'' @ [depRow config ref d]"
      "\<not> has_dup ''deployments'' (pg_tables w ''deployments'' @ [depRow config ref d])"
    and dec: "decodeDep ''decode deployment config'' ''decode deployment ref'' C
       (config, ref, (stored d)\<lparr>dep_ConfigSnapshot := zeroAppConfig, dep_BackendRef := zeroBackendRef\<rparr>) = Inr (stored d)"
    and up: "connected w1"
    by (rule pg_Dep_Create_InrD [OF run assms(2)]) (use assms(1) in simp)
  have ids: "canonical (dep_ID d)" "uuid_in (dep_TenantID d) = Some (dep_TenantID d)"
    using assms(2) by (simp_all add: wfDeployment_def canonical_def)
  have order: "in_some_order [r] w' = ([r], w'\<lparr>ranges := Suc (ranges w')\<rparr>)" "in_some_order [] w' = ([], w'\<lparr>ranges := Suc (ranges w')\<rparr>)"
    for r and w' :: "'a pg_world_scheme"
    by (simp_all add: in_some_order_def range_map_def)
  have own: "\<exists>w2. pg_Dep_GetByID C (dep_TenantID d) (dep_ID d) w1 = (Inr (stored d), w2) \<and> pg_tables w2 = pg_tables w1"
    by (rule select_by_id [OF up T ids(2,1)])
       (simp add: pg_Dep_GetByID_def bindE_def queryRow_def order first_row_def bindS_def scan_depRow mapErr_def ofSum_def dec)
  have other: "\<exists>w2. pg_Dep_GetByID C t (dep_ID d) w1 = (Inl ErrNotFound, w2)" if "uuid_in t = Some u" "u \<noteq> dep_TenantID d" for t u
    by (rule select_by_id [OF up T that(1) ids(1)])
       (simp add: that(2) pg_Dep_GetByID_def bindE_def queryRow_def order first_row_def bindS_def mapErr_def mapSQLError_def ErrNoRows_def)
  show ?thesis using run own other by blast
qed

text \<open>Versions: the next one is above all there are, and one that is taken is a conflict.\<close>

lemma pg_NextVersion_InrD:
  assumes "pg_NextVersion t a w = (Inr v, w')" "canonical t" "canonical a"
  shows "pg_tables w' = pg_tables w" "pg_jsonb w' = pg_jsonb w" "pg_down w' = pg_down w"
    "v = (case maxVersion (filter (matches [(''tenant_id'', VText t), (''app_id'', VText a)]) (pg_tables w ''deployments''))
          of None \<Rightarrow> 0 | Some m \<Rightarrow> m) + 1"
proof -
  have s: "sql_select ''deployments'' [(''tenant_id'', Param 1), (''app_id'', Param 2)] [VText t, VText a] now J T =
      Inr (filter (matches [(''tenant_id'', VText t), (''app_id'', VText a)]) (T ''deployments''), T)" for now J T
    using assms(2,3) by (simp add: sql_select_def deployment_types canonical_def)
  obtain now T where "(let next = (case maxVersion (filter (matches [(''tenant_id'', VText t), (''app_id'', VText a)]) (pg_tables w ''deployments''))
          of None \<Rightarrow> 0 | Some m \<Rightarrow> m) + 1
        in if next < 2 ^ 31 then Inr (next, pg_tables w) else Inl (pgError ''22003'')) = Inr (v, T)"
    "pg_tables w' = T" "pg_jsonb w' = pg_jsonb w" "pg_down w' = pg_down w"
    using mapErr_InrD [OF assms(1) [unfolded pg_NextVersion_def]] by (rule sql_InrD) (simp only: s sum.case prod.case)
  then show "pg_tables w' = pg_tables w" "pg_jsonb w' = pg_jsonb w" "pg_down w' = pg_down w"
    "v = (case maxVersion (filter (matches [(''tenant_id'', VText t), (''app_id'', VText a)]) (pg_tables w ''deployments''))
          of None \<Rightarrow> 0 | Some m \<Rightarrow> m) + 1"
    by (auto simp: Let_def split: if_splits)
qed

lemma maxVersion_above: "r \<in> set rows \<Longrightarrow> order_val ''version'' r < (case maxVersion rows of None \<Rightarrow> 0 | Some m \<Rightarrow> m) + 1"
  by (auto simp: maxVersion_def intro: le_imp_0_less zle_iff_zadd [THEN iffD2] order_le_less_trans [OF Max_ge])

lemma pg_Dep_Create_taken:
  assumes "connected w" "wfDeployment C (pg_jsonb w) d" "storable d"
    and "r \<in> set (pg_tables w ''deployments'')" "cell r ''app_id'' = VText (dep_AppID d)" "cell r ''version'' = VInt (dep_Version d)"
  shows "\<exists>e w'. pg_Dep_Create C d w = (Inl e, w') \<and> errors_Is e ErrConflict \<and> pg_tables w' = pg_tables w"
proof -
  obtain c c' where c: "jc_config C (dep_ConfigSnapshot d) = Inr c" "pg_jsonb w c = Some c'"
    using assms(2) by (auto simp: wfDeployment_def elim: reads_backE)
  obtain f f' where f: "jc_ref C (dep_BackendRef d) = Inr f" "pg_jsonb w f = Some f'"
    using assms(2) by (auto simp: wfDeployment_def elim: reads_backE)
  have e: "eval_row (pg_jsonb w) now (depArgs c f d) [] ''deployments'' depSets = Inr (depRow c' f' d)" for now
    by (rule eval_depRow_ok) (use assms(2,3) c(2) f(2) in \<open>simp_all add: wfDeployment_def\<close>)
  have "has_dup ''deployments'' (pg_tables w ''deployments'' @ [depRow c' f' d])"
    by (rule has_dupI [OF _ assms(4), of "[''app_id'', ''version'']"]) (simp_all add: schema_def key_of_def depRow_cells assms(5,6))
  moreover have "\<not> has_null ''deployments'' (depRow c' f' d)" by (simp add: has_null_def schema_def depRow_def cell_def)
  ultimately have "sql_insert ''deployments'' depSets Refuse (depArgs c f d) now (pg_jsonb w) (pg_tables w) = Inl (pgError ''23505'')" for now
    unfolding sql_insert_def e by (simp add: store_rows_def)
  then show ?thesis
    using assms(1)
    by (simp add: pg_Dep_Create_def c(1) f(1) labelled_def ofSum_def bindE_def mapErr_def discard_def ret_def sql_connected Now_def Let_def
        mapSQLError_def pgError_def ErrNoRows_def Errorf_def)
qed

text \<open>
  C17: When two requests read the next version of an app before either has created its deployment, they read the same version, which is above
  those of all the app's deployments; once the first has created its deployment, the second is refused with \<open>ErrConflict\<close> and
  changes nothing. So no version of an app is given twice.
\<close>

theorem pg_version_race:
  assumes "connected w" "wfDeployment C (pg_jsonb w) d" "wfDeployment C (pg_jsonb w) d'" "storable d'"
    and "dep_TenantID d' = dep_TenantID d" "dep_AppID d' = dep_AppID d"
    and "pg_NextVersion (dep_TenantID d) (dep_AppID d) w = (Inr (dep_Version d), w1)"
    and "pg_NextVersion (dep_TenantID d) (dep_AppID d) w1 = (Inr (dep_Version d'), w2)"
    and "pg_Dep_Create C d w2 = (Inr (), w3)"
  shows "dep_Version d' = dep_Version d \<and>
    (\<forall>r\<in>set (pg_tables w ''deployments''). cell r ''tenant_id'' = VText (dep_TenantID d) \<and> cell r ''app_id'' = VText (dep_AppID d) \<longrightarrow>
       order_val ''version'' r < dep_Version d) \<and>
    (\<exists>e w4. pg_Dep_Create C d' w3 = (Inl e, w4) \<and> errors_Is e ErrConflict \<and> pg_tables w4 = pg_tables w3)"
proof -
  have can: "canonical (dep_TenantID d)" "canonical (dep_AppID d)" using assms(2) by (simp_all add: wfDeployment_def)
  note v1 = pg_NextVersion_InrD [OF assms(7) can] and v2 = pg_NextVersion_InrD [OF assms(8) can]
  have same: "dep_Version d' = dep_Version d" using v1(1,4) v2(4) by simp
  have above: "order_val ''version'' r < dep_Version d"
    if "r \<in> set (pg_tables w ''deployments'')" "cell r ''tenant_id'' = VText (dep_TenantID d)" "cell r ''app_id'' = VText (dep_AppID d)" for r
    unfolding v1(4) by (rule maxVersion_above) (simp add: that matches_def)
  have J: "pg_jsonb w2 = pg_jsonb w" and down: "connected w2" using v1(2,3) v2(2,3) assms(1) by simp_all
  obtain config ref where T: "pg_tables w3 = (pg_tables w2)(''deployments'' := pg_tables w2 ''deployments'' @ [depRow config ref d])"
    and w3: "pg_jsonb w3 = pg_jsonb w" "connected w3"
    by (rule pg_Dep_Create_InrD [OF assms(9)]) (use assms(2) J down in simp_all)
  have "\<exists>e w4. pg_Dep_Create C d' w3 = (Inl e, w4) \<and> errors_Is e ErrConflict \<and> pg_tables w4 = pg_tables w3"
    by (rule pg_Dep_Create_taken [OF w3(2) _ assms(4), of _ "depRow config ref d"])
       (simp_all add: T w3(1) assms(3,6) same depRow_cells)
  then show ?thesis using same above by blast
qed

end
