(* ===== verification/Bootstrap.thy ===== *)
theory Bootstrap
  imports HttpRuntime RedisClient Config PgProps
begin

text \<open>
  \<^verbatim>\<open>internal/app/bootstrap.go\<close>: building the runtime from a configuration, and its HTTP handler, worker and reconciler. The drivers a
  configuration chooses from are a record; those of memory, Redis and Postgres are the models of the other theories, the database library
  and the client library of Kubernetes are parameters. With the memory drivers the result is the system that \<open>Runtime\<close> and \<open>HttpRuntime\<close>
  are about, in a state where their hypotheses hold.
\<close>

section \<open>Drivers\<close>

record 'w Repositories =
  rp_users :: "'w UserRepository"
  rp_identities :: "'w AuthIdentityRepository"
  rp_keys :: "'w APIKeyRepository"
  rp_admin :: "'w AdminRepository"
  rp_audit :: "'w AuditRepository"
  rp_tenants :: "'w TenantRepository"
  rp_apps :: "'w AppRepository"
  rp_deployments :: "'w DeploymentRepository"
  rp_events :: "'w EventRepository"

record database_Config =
  dc_URL :: string
  dc_MaxOpenConns :: int
  dc_MaxIdleConns :: int
  dc_ConnMaxLifetime :: duration
  dc_ConnMaxIdleTime :: duration

record 'w Drivers =
  dv_memoryQueue :: "'w \<Rightarrow> ('w JobQueue \<times> 'w HealthChecker) \<times> 'w"
  dv_redisQueue :: "string \<Rightarrow> string \<Rightarrow> string \<Rightarrow> 'w \<Rightarrow> ('w JobQueue \<times> 'w HealthChecker) \<times> 'w"
  dv_memory :: "'w \<Rightarrow> 'w Repositories \<times> 'w"
  dv_Open :: "database_Config \<Rightarrow> ('w sql_DB, 'w) op"
  dv_postgres :: "'w sql_DB \<Rightarrow> 'w Repositories"
  dv_NewBackend :: "('w DeploymentBackend, 'w) op"

text \<open>
  \<^verbatim>\<open>internal/platform/database/open.go\<close> over the database library, a parameter: opening a handle, its four settings and closing it. The
  timeout of the ping is not modelled.
\<close>

record 'w sql_library =
  sq_Open :: "string \<Rightarrow> ('w sql_DB, 'w) op"
  sq_SetMaxOpenConns :: "'w sql_DB \<Rightarrow> int \<Rightarrow> 'w \<Rightarrow> 'w"
  sq_SetMaxIdleConns :: "'w sql_DB \<Rightarrow> int \<Rightarrow> 'w \<Rightarrow> 'w"
  sq_SetConnMaxLifetime :: "'w sql_DB \<Rightarrow> duration \<Rightarrow> 'w \<Rightarrow> 'w"
  sq_SetConnMaxIdleTime :: "'w sql_DB \<Rightarrow> duration \<Rightarrow> 'w \<Rightarrow> 'w"
  sq_Close :: "'w sql_DB \<Rightarrow> (unit, 'w) op"

definition database_Open :: "'w sql_library \<Rightarrow> database_Config \<Rightarrow> ('w sql_DB, 'w) op" where
  "database_Open S cfg =
     catchE (sq_Open S (dc_URL cfg)) (\<lambda>err. fail (ErrWrap (''open database: '' @ Error err) err)) (\<lambda>db w.
       let w = (if dc_MaxOpenConns cfg > 0 then sq_SetMaxOpenConns S db (dc_MaxOpenConns cfg) w else w);
           w = (if dc_MaxIdleConns cfg > 0 then sq_SetMaxIdleConns S db (dc_MaxIdleConns cfg) w else w);
           w = (if dc_ConnMaxLifetime cfg > 0 then sq_SetConnMaxLifetime S db (dc_ConnMaxLifetime cfg) w else w);
           w = (if dc_ConnMaxIdleTime cfg > 0 then sq_SetConnMaxIdleTime S db (dc_ConnMaxIdleTime cfg) w else w)
       in catchE (db_PingContext db)
            (\<lambda>err w. let (_, w) = sq_Close S db w in fail (ErrWrap (''ping database: '' @ Error err) err) w)
            (\<lambda>_. ret db) w)"

text \<open>A new Redis client starts with an empty pool of eight places.\<close>

definition NewClientWithPassword ::
  "'n network \<Rightarrow> codec \<Rightarrow> string \<Rightarrow> string \<Rightarrow> string \<Rightarrow> ('n, 'z) redis_world_scheme \<Rightarrow> 'n RClient \<times> ('n, 'z) redis_world_scheme" where
  "NewClientWithPassword net cod addr password queue w =
     (\<lparr>rc_network = net, rc_codec = cod, rc_queue = queue\<rparr>, w\<lparr>pool_st := newPool addr password 8\<rparr>)"

section \<open>The runtime\<close>

record 'w Runtime =
  rt_Config :: Config
  rt_DB :: "'w sql_DB option"
  rt_AuthService :: "'w AuthService"
  rt_APIKeyService :: "'w APIKeyService"
  rt_AdminService :: "'w AdminService"
  rt_AuditService :: "'w AuditService"
  rt_HealthService :: "'w HealthService"
  rt_AppService :: "'w AppService"
  rt_DeploymentService :: "'w DeploymentService"
  rt_ReliabilityService :: "'w ReliabilityService"
  rt_Scheduler :: "'w Scheduler"
  rt_Backend :: "'w DeploymentBackend"
  rt_Queue :: "'w JobQueue"
  rt_Repos :: "'w Repositories"

definition chooseQueue :: "'w Drivers \<Rightarrow> Config \<Rightarrow> 'w \<Rightarrow> ('w JobQueue \<times> 'w HealthChecker) \<times> 'w" where
  "chooseQueue D cfg =
     (if cf_RedisAddr cfg = ''memory'' then dv_memoryQueue D
      else dv_redisQueue D (cf_RedisAddr cfg) (cf_RedisPassword cfg) (cf_RedisQueue cfg))"

text \<open>\<^verbatim>\<open>%q\<close> on ASCII text\<close>

definition quote_char :: "char \<Rightarrow> string" where
  "quote_char c =
     (if c = CHR 0x22 \<or> c = CHR 0x5C then [CHR 0x5C, c]
      else if c = CHR 0x07 then [CHR 0x5C, CHR ''a'']
      else if c = CHR 0x08 then [CHR 0x5C, CHR ''b'']
      else if c = CHR 0x0C then [CHR 0x5C, CHR ''f'']
      else if c = CHR 0x0A then [CHR 0x5C, CHR ''n'']
      else if c = CHR 0x0D then [CHR 0x5C, CHR ''r'']
      else if c = CHR 0x09 then [CHR 0x5C, CHR ''t'']
      else if c = CHR 0x0B then [CHR 0x5C, CHR ''v'']
      else if (of_char c :: nat) < 32 \<or> c = CHR 0x7F then [CHR 0x5C, CHR ''x''] @ hex_byte (of_char c)
      else [c])"

definition Quote :: "string \<Rightarrow> string" where
  "Quote s = quoted (concat (map quote_char s))"

definition chooseRepositories :: "'w Drivers \<Rightarrow> Config \<Rightarrow> ('w sql_DB option \<times> 'w Repositories, 'w) op" where
  "chooseRepositories D cfg w =
     (if cf_RepositoryDriver cfg = ''memory'' then (let (repos, w) = dv_memory D w in (Inr (None, repos), w))
      else if cf_RepositoryDriver cfg = ''postgres''
      then if cf_DatabaseURL cfg = []
           then fail (ErrText ''DATABASE_URL is required when REPOSITORY_DRIVER=postgres'') w
           else
             catchE
               (dv_Open D \<lparr>dc_URL = cf_DatabaseURL cfg, dc_MaxOpenConns = cf_DBMaxOpenConns cfg, dc_MaxIdleConns = cf_DBMaxIdleConns cfg,
                 dc_ConnMaxLifetime = cf_DBConnMaxLifetime cfg, dc_ConnMaxIdleTime = cf_DBConnMaxIdleTime cfg\<rparr>)
               (\<lambda>err. fail (ErrWrap (''open postgres: '' @ Error err) err))
               (\<lambda>db. ret (Some db, dv_postgres D db)) w
      else fail (ErrText (''unsupported repository driver '' @ Quote (cf_RepositoryDriver cfg) @ '' (choose postgres or memory)'')) w)"

definition NewRuntime :: "'a env_scheme Drivers \<Rightarrow> Config \<Rightarrow> ('a env_scheme Runtime, 'a env_scheme) op" where
  "NewRuntime D cfg w =
     (let ((queue, queueHealth), w) = chooseQueue D cfg w
      in bindE (chooseRepositories D cfg) (\<lambda>(db, repos).
         let apiKeyService = \<lparr>aks_keys = rp_keys repos\<rparr>;
             authService = NewAuthService (rp_users repos) (rp_tenants repos) (Some (rp_identities repos)) (Some apiKeyService)
               [medium_New (cf_MediumClientID cfg)];
             appService = \<lparr>as_apps = rp_apps repos, as_tenants = rp_tenants repos\<rparr>;
             scheduler = NewSchedulerService queue;
             deploymentService = NewDeploymentService (rp_apps repos) (rp_deployments repos) (rp_events repos) scheduler;
             reliabilityService = \<lparr>rs_queue = queue, rs_deployments = rp_deployments repos, rs_scheduler = scheduler\<rparr>;
             adminService = \<lparr>ads_repo = rp_admin repos, ads_repositoryDriver = cf_RepositoryDriver cfg\<rparr>;
             auditService = Some (rp_audit repos);
             healthService = \<lparr>hs_db = db, hs_queue = Some queueHealth\<rparr>
         in catchE (dv_NewBackend D) (\<lambda>err. fail (ErrWrap (''init kubernetes backend: '' @ Error err) err)) (\<lambda>backend.
            let deploymentService = SetBackend deploymentService (Some backend)
            in ret
              \<lparr>rt_Config = cfg, rt_DB = db, rt_AuthService = authService, rt_APIKeyService = apiKeyService,
               rt_AdminService = adminService, rt_AuditService = auditService, rt_HealthService = healthService,
               rt_AppService = appService, rt_DeploymentService = deploymentService,
               rt_ReliabilityService = reliabilityService, rt_Scheduler = scheduler, rt_Backend = backend,
               rt_Queue = queue, rt_Repos = repos\<rparr>)) w)"

text \<open>What handlers read from outside the program: the digest, the JSON decoders, the build variables and host name, the files.\<close>

record outside =
  os_sha :: digest
  os_decode :: decoders
  os_build :: "string \<times> string \<times> string"
  os_file :: "string \<rightharpoonup> body"

definition HTTPHandler :: "outside \<Rightarrow> 'w Runtime \<Rightarrow> 'w Router" where
  "HTTPHandler out r =
     \<lparr>r_auth = rt_AuthService r, r_apiKeys = rt_APIKeyService r, r_admin = rt_AdminService r, r_audit = rt_AuditService r,
      r_health = rt_HealthService r, r_apps = rt_AppService r, r_deployments = rt_DeploymentService r,
      r_reliability = rt_ReliabilityService r, r_devAuth = cf_DevelopmentAuth (rt_Config r),
      r_repository = cf_RepositoryDriver (rt_Config r), r_backend = be_Name (rt_Backend r),
      r_ingressHost = cf_AllowedIngressHost (rt_Config r), r_sha = os_sha out, r_decode = os_decode out,
      r_build = os_build out, r_file = os_file out\<rparr>"

definition Runtime_Worker :: "'a env_scheme Runtime \<Rightarrow> 'a env_scheme Consumer" where
  "Runtime_Worker r =
     (let consumer = NewConsumer (rt_Queue r) (cf_JobMaxAttempts (rt_Config r)) (cf_JobRetryBackoff (rt_Config r));
          repos = rt_Repos r;
          deploymentCreate = \<lparr>ch_apps = rp_apps repos, ch_deployments = rp_deployments repos, ch_backend = rt_Backend r,
                              ch_service = rt_DeploymentService r, ch_scheduler = rt_Scheduler r\<rparr>;
          deploymentDelete = \<lparr>dh_apps = rp_apps repos, dh_deployments = rp_deployments repos, dh_backend = rt_Backend r,
                              dh_service = rt_DeploymentService r\<rparr>;
          deploymentSync = \<lparr>sh_apps = rp_apps repos, sh_deployments = rp_deployments repos, sh_backend = rt_Backend r,
                            sh_scheduler = rt_Scheduler r, sh_service = rt_DeploymentService r\<rparr>;
          consumer = Register JobTypeDeploymentCreate (create_Handle deploymentCreate) consumer;
          consumer = Register JobTypeDeploymentDelete (delete_Handle deploymentDelete) consumer
      in Register JobTypeDeploymentSync (sync_Handle deploymentSync) consumer)"

definition Runtime_Close :: "'w sql_library \<Rightarrow> 'w Runtime \<Rightarrow> (unit, 'w) op" where
  "Runtime_Close S r = (case rt_DB r of None \<Rightarrow> ret () | Some db \<Rightarrow> sq_Close S db)"

section \<open>The system in memory\<close>

definition memory_repositories :: "'a store_world_scheme Repositories" where
  "memory_repositories =
     \<lparr>rp_users = mem_users, rp_identities = mem_identities, rp_keys = mem_keys, rp_admin = mem_admin, rp_audit = mem_audit,
      rp_tenants = mem_tenants, rp_apps = mem_apps, rp_deployments = mem_deployments, rp_events = mem_events\<rparr>"

text \<open>The drivers on a cluster whose client configuration loads; Redis and Postgres are parameters.\<close>

definition memory_drivers ::
  "'c kube \<Rightarrow> (string \<Rightarrow> string \<Rightarrow> string \<Rightarrow> ('c, 'z) kube_world_scheme \<Rightarrow>
     (('c, 'z) kube_world_scheme JobQueue \<times> ('c, 'z) kube_world_scheme HealthChecker) \<times> ('c, 'z) kube_world_scheme) \<Rightarrow>
   ('c, 'z) kube_world_scheme sql_library \<Rightarrow>
   (('c, 'z) kube_world_scheme sql_DB \<Rightarrow> ('c, 'z) kube_world_scheme Repositories) \<Rightarrow> ('c, 'z) kube_world_scheme Drivers" where
  "memory_drivers K redis lib postgres =
     \<lparr>dv_memoryQueue = (\<lambda>w. ((mq_queue, \<lparr>hc_Check = mq_Check\<rparr>), w\<lparr>mq := mq_NewClient\<rparr>)),
      dv_redisQueue = redis,
      dv_memory = (\<lambda>w. (memory_repositories, w\<lparr>store := NewState\<rparr>)),
      dv_Open = database_Open lib, dv_postgres = postgres, dv_NewBackend = ret (kube_backend K)\<rparr>"

definition settings_of :: "Config \<Rightarrow> outside \<Rightarrow> settings" where
  "settings_of cfg out =
     \<lparr>st_devAuth = cf_DevelopmentAuth cfg, st_ingressHost = cf_AllowedIngressHost cfg,
      st_mediumClientID = cf_MediumClientID cfg, st_sha = os_sha out, st_decode = os_decode out,
      st_build = os_build out, st_file = os_file out\<rparr>"

lemma fresh_state:
  "ok_view (mem_abs (w\<lparr>mq := mq_NewClient, store := NewState\<rparr>))" "wf_store (store (w\<lparr>mq := mq_NewClient, store := NewState\<rparr>))"
  "mq_bag (w\<lparr>mq := mq_NewClient, store := NewState\<rparr>) = \<lparr>live = {#}, leases = {#}, graves = {#}\<rparr>"
  using wf_NewState by (simp_all add: ok_view_def mq_NewClient_def NewState_def mq_bag_def event_list_def)

lemma NewRuntime_on_memory:
  assumes "cf_RepositoryDriver cfg = ''memory''" and "cf_RedisAddr cfg = ''memory''"
  shows "\<exists>rt w'. NewRuntime (memory_drivers K redis lib postgres) cfg w = (Inr rt, w') \<and>
    HTTPHandler out rt = mem_Router K (settings_of cfg out) \<and>
    Runtime_Worker rt = Worker K (cf_JobMaxAttempts cfg) (cf_JobRetryBackoff cfg) \<and>
    rt_ReliabilityService rt = mem_ReliabilityService \<and>
    ok_view (mem_abs w') \<and> wf_store (store w') \<and> mq_bag w' = \<lparr>live = {#}, leases = {#}, graves = {#}\<rparr> \<and>
    rt_Config rt = cfg \<and> rt_DB rt = None"
proof -
  let ?rt = "\<lparr>rt_Config = cfg, rt_DB = None, rt_AuthService = mem_AuthService (cf_MediumClientID cfg), rt_APIKeyService = mem_APIKeyService,
     rt_AdminService = \<lparr>ads_repo = mem_admin, ads_repositoryDriver = ''memory''\<rparr>, rt_AuditService = Some mem_audit,
     rt_HealthService = \<lparr>hs_db = None, hs_queue = Some \<lparr>hc_Check = mq_Check\<rparr>\<rparr>,
     rt_AppService = mem_AppService, rt_DeploymentService = kube_service K,
     rt_ReliabilityService = mem_ReliabilityService, rt_Scheduler = NewSchedulerService mq_queue, rt_Backend = kube_backend K,
     rt_Queue = mq_queue, rt_Repos = memory_repositories\<rparr>"
  have run: "NewRuntime (memory_drivers K redis lib postgres) cfg w = (Inr ?rt, w\<lparr>mq := mq_NewClient, store := NewState\<rparr>)"
    using assms
    by (simp add: NewRuntime_def chooseQueue_def chooseRepositories_def memory_drivers_def bindE_def catchE_def ret_def Let_def
        memory_repositories_def mem_AuthService_def mem_APIKeyService_def mem_AppService_def mem_DeploymentService_def
        mem_ReliabilityService_def)
  have "HTTPHandler out ?rt = mem_Router K (settings_of cfg out)"
    using assms(1) by (simp add: HTTPHandler_def mem_Router_def settings_of_def)
  moreover have "Runtime_Worker ?rt = Worker K (cf_JobMaxAttempts cfg) (cf_JobRetryBackoff cfg)"
    by (simp add: Runtime_Worker_def Worker_def memory_repositories_def Let_def)
  moreover have "rt_ReliabilityService ?rt = mem_ReliabilityService" by simp
  ultimately show ?thesis
    unfolding run using fresh_state [of w] by (intro exI conjI) (rule refl | assumption | simp)+
qed



text \<open>
  A configuration without usable repositories is refused before the database or the cluster is contacted: an unknown driver, and Postgres, the default driver,
  without a database address.
\<close>

lemma NewRuntime_refuses:
  assumes "cf_RepositoryDriver cfg \<notin> {''memory'', ''postgres''} \<or> cf_RepositoryDriver cfg = ''postgres'' \<and> cf_DatabaseURL cfg = []"
  shows "\<exists>text. NewRuntime D cfg w = (Inl (ErrText text), snd (chooseQueue D cfg w))"
  using assms by (auto simp: NewRuntime_def chooseRepositories_def bindE_def fail_def split: prod.split)

lemma NewRuntime_refuses_default:
  "\<exists>cfg. LoadConfig Map.empty = Some cfg \<and> (\<forall>D w. \<exists>text. NewRuntime D cfg w = (Inl (ErrText text), snd (chooseQueue D cfg w)))"
proof -
  obtain cfg where c: "LoadConfig Map.empty = Some cfg" "cf_RepositoryDriver cfg = ''postgres''" "cf_DatabaseURL cfg = []"
    by (simp add: LoadConfig_def envDuration_def env_def Getenv_def)
  with NewRuntime_refuses [of cfg] show ?thesis by auto
qed

section \<open>The system on a database\<close>

definition postgres_repositories :: "jcodec \<Rightarrow> 'a pg_world_scheme Repositories" where
  "postgres_repositories C =
     \<lparr>rp_users = pg_users, rp_identities = pg_identities C, rp_keys = pg_keys, rp_admin = pg_admin C, rp_audit = pg_audit,
      rp_tenants = pg_tenants, rp_apps = pg_apps C, rp_deployments = pg_deployments C, rp_events = pg_events\<rparr>"

text \<open>The runtime with \<^verbatim>\<open>REPOSITORY_DRIVER=postgres\<close>, the default, works on these repositories.\<close>

lemma NewRuntime_postgres:
  assumes "cf_RepositoryDriver cfg = ''postgres''" "NewRuntime D cfg w = (Inr rt, w')"
    and "\<And>db. dv_postgres D db = postgres_repositories C"
  shows "rt_Repos rt = postgres_repositories C" "rt_AuditService rt = Some pg_audit" "\<exists>db. rt_DB rt = Some db"
  using assms(2)
  by (auto simp: NewRuntime_def chooseRepositories_def assms(1,3) postgres_repositories_def bindE_def catchE_def ret_def fail_def Let_def
      split: prod.splits sum.splits if_splits)

end
