(* ===== verification/EntryPoints.thy ===== *)
theory EntryPoints
  imports Bootstrap
begin

text \<open>
  \<^verbatim>\<open>cmd/api/main.go\<close> and \<^verbatim>\<open>cmd/worker/main.go\<close>: starting a process, the goroutines it runs and how it ends. After the start a
  process is a step relation with one rule for each thing a goroutine can do: serving a request, one turn of the worker loop, one pass of the
  reconciler, and the ways to stop. The steps of different goroutines interleave in any order; one step is a whole request, turn or pass. The \<^verbatim>\<open>http.Server\<close> is a
  parameter: which requests it hands to the handler, when it fails and what shutting it down returns is arbitrary. Log lines are left out.
\<close>

section \<open>Starting\<close>

text \<open>The exit code of a process that stops while starting, or its runtime. A panic ends a process with code 2.\<close>

definition exit_code :: "error \<Rightarrow> int" where
  "exit_code err = (if is_panic err then 2 else 1)"

definition start ::
  "'a env_scheme Drivers \<Rightarrow> dotfile \<Rightarrow> environ \<Rightarrow> 'a env_scheme \<Rightarrow> ((int + 'a env_scheme Runtime) \<times> 'a env_scheme) option" where
  "start D file e w =
     (case LoadDotEnv ''.env'' file e of
        (Some err, _) \<Rightarrow> Some (Inl 1, w)
      | (None, e) \<Rightarrow>
          (case LoadConfig e of
             None \<Rightarrow> None
           | Some cfg \<Rightarrow>
               (case NewRuntime D cfg w of
                  (Inl err, w) \<Rightarrow> Some (Inl (exit_code err), w)
                | (Inr runtime, w) \<Rightarrow> Some (Inr runtime, w))))"

datatype command = Api | WorkerCommand

datatype goroutine = Server | WorkerLoop | ReconcilerLoop

definition goroutines :: "command \<Rightarrow> 'w Runtime \<Rightarrow> goroutine list" where
  "goroutines cmd runtime =
     (case cmd of
        Api \<Rightarrow> Server # (if cf_RedisAddr (rt_Config runtime) = ''memory'' then [WorkerLoop, ReconcilerLoop] else [])
      | WorkerCommand \<Rightarrow> [ReconcilerLoop, WorkerLoop])"

section \<open>One turn of the loops\<close>

datatype turn = Took Job | Panicked Job error | Idle | Stop error

text \<open>One iteration of \<^verbatim>\<open>Consumer.Run\<close>.\<close>

definition run_turn :: "'a env_scheme Consumer \<Rightarrow> 'a env_scheme \<Rightarrow> (turn \<times> 'a env_scheme Consumer \<times> 'a env_scheme) option" where
  "run_turn c w =
     (case ctx_Done w of
        (Some e, w) \<Rightarrow> Some (Stop e, c, w)
      | (None, w) \<Rightarrow>
          (case runMaintenance c w of
             (c, w) \<Rightarrow>
               (case jq_Dequeue (co_queue c) w of
                  None \<Rightarrow> None
                | Some (Inl err, w) \<Rightarrow> Some (if errors_Is err DeadlineExceeded then Idle else Stop err, c, w)
                | Some (Inr job, w) \<Rightarrow>
                    (case processJob c job w of
                       (Inl panic, w) \<Rightarrow> Some (Panicked job panic, c, w)
                     | (Inr _, w) \<Rightarrow> Some (Took job, c, w)))))"

text \<open>The loop is the iteration of its turns.\<close>

lemma Run_turns:
  "Run c w =
     (case run_turn c w of
        None \<Rightarrow> None
      | Some (Stop e, c, w) \<Rightarrow> Some (e, w)
      | Some (Panicked j e, c, w) \<Rightarrow> Some (e, w)
      | Some (_, c, w) \<Rightarrow> Run c w)"
  by (subst Run.simps) (auto simp: run_turn_def split: option.split prod.split sum.split)

text \<open>One iteration of \<^verbatim>\<open>RunReconciler\<close>; \<open>None\<close> is its end.\<close>

definition reconciler_turn :: "'a env_scheme ReliabilityService \<Rightarrow> 'a env_scheme \<Rightarrow> 'a env_scheme option \<times> 'a env_scheme" where
  "reconciler_turn s w =
     (case ctx_Done w of
        (Some e, w) \<Rightarrow> (None, w)
      | (None, w) \<Rightarrow> (let w = snd (ReconcileOnce s 100 (PromoteDue s w)) in (Some w, w)))"

lemma RunReconciler_turns:
  "RunReconciler s w = (case reconciler_turn s w of (None, w) \<Rightarrow> Some w | (Some w, _) \<Rightarrow> RunReconciler s w)"
  by (subst RunReconciler.simps) (auto simp: reconciler_turn_def Let_def split: option.split prod.split)

section \<open>A process\<close>

record 'w process =
  ps_consumer :: "'w Consumer"
  ps_working :: bool
  ps_exit :: "int option"
  ps_world :: 'w

definition launch :: "'a env_scheme Runtime \<Rightarrow> 'a env_scheme \<Rightarrow> 'a env_scheme process" where
  "launch runtime w = \<lparr>ps_consumer = Runtime_Worker runtime, ps_working = True, ps_exit = None, ps_world = w\<rparr>"

text \<open>What \<^verbatim>\<open>Run\<close> having returned means to the process: the API goes on without its worker, the worker command ends. A panic ends either at once.\<close>

definition worker_stopped :: "'w sql_library \<Rightarrow> command \<Rightarrow> 'w Runtime \<Rightarrow> error \<Rightarrow> 'w process \<Rightarrow> 'w process" where
  "worker_stopped lib cmd runtime err p =
     (let p = p\<lparr>ps_working := False\<rparr>
      in case cmd of
           Api \<Rightarrow> p
         | WorkerCommand \<Rightarrow>
             if err \<noteq> Canceled then p\<lparr>ps_exit := Some 1\<rparr>
             else p\<lparr>ps_exit := Some 0, ps_world := snd (Runtime_Close lib runtime (ps_world p))\<rparr>)"

text \<open>\<^verbatim>\<open>http.ErrServerClosed\<close>\<close>

definition ErrServerClosed :: error where
  "ErrServerClosed = ErrText ''http: Server closed''"

definition server_returned :: "error \<Rightarrow> 'w process \<Rightarrow> 'w process" where
  "server_returned err p = (if \<not> errors_Is err ErrServerClosed then p\<lparr>ps_exit := Some 1\<rparr> else p)"

definition shut_down :: "'w sql_library \<Rightarrow> 'w Runtime \<Rightarrow> error option \<Rightarrow> 'w process \<Rightarrow> 'w process" where
  "shut_down lib runtime r p =
     (case r of
        Some err \<Rightarrow> p\<lparr>ps_exit := Some 1\<rparr>
      | None \<Rightarrow> p\<lparr>ps_exit := Some 0, ps_world := snd (Runtime_Close lib runtime (ps_world p))\<rparr>)"

datatype event =
    Served request response
  | Turned turn
  | ReconcilerPassed
  | ServerReturned error
  | ShutDown "error option"

inductive process_step ::
  "'a env_scheme sql_library \<Rightarrow> command \<Rightarrow> outside \<Rightarrow> 'a env_scheme Runtime \<Rightarrow> 'a env_scheme process \<Rightarrow> event \<Rightarrow>
   'a env_scheme process \<Rightarrow> bool"
  for lib cmd out runtime where
  step_serve: "ps_exit p = None \<Longrightarrow> Server \<in> set (goroutines cmd runtime) \<Longrightarrow> serve (HTTPHandler out runtime) req (ps_world p) = (rw, w) \<Longrightarrow>
     process_step lib cmd out runtime p (Served req rw) (p\<lparr>ps_world := w\<rparr>)"
| step_turn: "ps_exit p = None \<Longrightarrow> ps_working p \<Longrightarrow> WorkerLoop \<in> set (goroutines cmd runtime) \<Longrightarrow>
     run_turn (ps_consumer p) (ps_world p) = Some (t, c, w) \<Longrightarrow> p1 = p\<lparr>ps_consumer := c, ps_world := w\<rparr> \<Longrightarrow>
     process_step lib cmd out runtime p (Turned t) (case t of Stop err \<Rightarrow> worker_stopped lib cmd runtime err p1 | Panicked j e \<Rightarrow> p1\<lparr>ps_exit := Some 2\<rparr> | _ \<Rightarrow> p1)"
| step_reconcile: "ps_exit p = None \<Longrightarrow> ReconcilerLoop \<in> set (goroutines cmd runtime) \<Longrightarrow>
     reconciler_turn (rt_ReliabilityService runtime) (ps_world p) = (r, w) \<Longrightarrow>
     process_step lib cmd out runtime p ReconcilerPassed (p\<lparr>ps_world := w\<rparr>)"
| step_server_returned: "ps_exit p = None \<Longrightarrow> Server \<in> set (goroutines cmd runtime) \<Longrightarrow>
     process_step lib cmd out runtime p (ServerReturned err) (server_returned err p)"
| step_shut_down: "ps_exit p = None \<Longrightarrow> cmd = Api \<Longrightarrow> ctx_Done (ps_world p) = (Some e, w) \<Longrightarrow>
     process_step lib cmd out runtime p (ShutDown r) (shut_down lib runtime r (p\<lparr>ps_world := w\<rparr>))"

inductive_cases process_stepE: "process_step lib cmd out runtime p ev p'"

inductive process_run ::
  "'a env_scheme sql_library \<Rightarrow> command \<Rightarrow> outside \<Rightarrow> 'a env_scheme Runtime \<Rightarrow> 'a env_scheme process \<Rightarrow> event list \<Rightarrow>
   'a env_scheme process \<Rightarrow> bool"
  for lib cmd out runtime where
  process_Nil: "process_run lib cmd out runtime p [] p"
| process_Cons: "process_step lib cmd out runtime p ev p1 \<Longrightarrow> process_run lib cmd out runtime p1 evs p2 \<Longrightarrow>
     process_run lib cmd out runtime p (ev # evs) p2"

text \<open>Once it has ended, a process does nothing more.\<close>

lemma ended: "process_run lib cmd out runtime p evs p' \<Longrightarrow> ps_exit p = Some code \<Longrightarrow> evs = [] \<and> p' = p"
  by (erule process_run.cases) (auto elim: process_stepE)

end
