(* ===== verification/SystemRun.thy ===== *)
theory SystemRun
  imports EntryPoints
begin

text \<open>
  The API process with its embedded worker and reconciler, over the memory drivers, from its start through any interleaving of requests, turns of the worker
  and passes of the reconciler: the records stay well formed, every job that was accepted is still owed unless a worker took it, and what a tenant owns is
  changed only by steps on behalf of that tenant.
\<close>

section \<open>Steps that keep records and jobs\<close>

text \<open>A call, and a handler, that keeps the records well formed and takes no job off the queue.\<close>

definition keeps_faith :: "'a store_world_scheme \<Rightarrow> 'a store_world_scheme \<Rightarrow> bool" where
  "keeps_faith w w' \<longleftrightarrow> ok_view (mem_abs w') \<and> owed (mq_bag w) \<subseteq># owed (mq_bag w')"

definition sound :: "('b, 'a store_world_scheme) op \<Rightarrow> bool" where
  "sound f \<longleftrightarrow> (\<forall>w r w'. ok_view (mem_abs w) \<longrightarrow> f w = (r, w') \<longrightarrow> keeps_faith w w')"

definition sound_handler :: "(unit, response \<times> 'a store_world_scheme) op \<Rightarrow> bool" where
  "sound_handler h \<longleftrightarrow> (\<forall>rw w out rw' w'. ok_view (mem_abs w) \<longrightarrow> h (rw, w) = (out, (rw', w')) \<longrightarrow> keeps_faith w w')"

named_theorems sounds \<open>calls and handlers that keep records and jobs\<close>

lemma keeps_faith_core: "core w' = core w \<Longrightarrow> ok_view (mem_abs w) \<Longrightarrow> keeps_faith w w'"
  using core_plane [of w' w] by (simp add: keeps_faith_def)

lemma keeps_faith_trans: "keeps_faith w w1 \<Longrightarrow> keeps_faith w1 w2 \<Longrightarrow> keeps_faith w w2"
  unfolding keeps_faith_def by (blast intro: subset_mset.order_trans)

lemma keeps_faith_ok: "keeps_faith w w' \<Longrightarrow> ok_view (mem_abs w')"
  by (simp add: keeps_faith_def)

lemma safe_step_faith: "safe_step t c w w' \<Longrightarrow> keeps_faith w w'"
  by (simp add: safe_step_def keeps_faith_def grows_def owed_def image_mset_subseteq_mono)

lemma soundI: "(\<And>w r w'. ok_view (mem_abs w) \<Longrightarrow> f w = (r, w') \<Longrightarrow> keeps_faith w w') \<Longrightarrow> sound f"
  by (simp add: sound_def)

lemma soundD: "sound f \<Longrightarrow> ok_view (mem_abs w) \<Longrightarrow> f w = (r, w') \<Longrightarrow> keeps_faith w w'"
  by (simp add: sound_def)

lemma sound_harmless: "harmless f \<Longrightarrow> sound f"
  by (rule soundI, rule keeps_faith_core, rule keepingD)

lemma sound_own: "own_call t f B \<Longrightarrow> sound f"
proof (rule soundI)
  fix w r w' assume "own_call t f B" "ok_view (mem_abs w)" "f w = (r, w')"
  then have "case r of Inl e \<Rightarrow> safe_step t False w w' | Inr a \<Rightarrow> safe_step t (clashes t (mem_abs w) (B a)) w w'"
    unfolding own_call_def by (auto split: sum.split)
  then show "keeps_faith w w'" by (auto split: sum.splits intro: safe_step_faith)
qed

lemma sound_respond [sounds]: "sound_handler (respond f)"
  by (auto simp: sound_handler_def respond_def intro: keeps_faith_core)

lemma sound_call [sounds]:
  assumes "sound f" and "\<And>a. sound_handler (k a)"
  shows "sound_handler (call f k)"
  unfolding sound_handler_def
proof (intro allI impI)
  fix rw w out rw' w' assume ok: "ok_view (mem_abs w)" and run: "call f k (rw, w) = (out, (rw', w'))"
  obtain r w1 where f: "f w = (r, w1)" by fastforce
  note F = soundD [OF assms(1) ok f]
  show "keeps_faith w w'"
  proof (cases r)
    case (Inl e)
    with run f F show ?thesis by (auto simp: call_def split: if_splits)
  next
    case (Inr a)
    with run f have "k a (rw, w1) = (out, (rw', w'))" by (simp add: call_def)
    with assms(2) [of a] keeps_faith_ok [OF F] have "keeps_faith w1 w'" unfolding sound_handler_def by blast
    with F show ?thesis by (rule keeps_faith_trans)
  qed
qed

lemma sound_ignoring [sounds]:
  assumes "sound f" and "sound_handler k"
  shows "sound_handler (ignoring f k)"
  unfolding sound_handler_def
proof (intro allI impI)
  fix rw w out rw' w' assume ok: "ok_view (mem_abs w)" and run: "ignoring f k (rw, w) = (out, (rw', w'))"
  obtain r w1 where f: "f w = (r, w1)" by fastforce
  note F = soundD [OF assms(1) ok f]
  have "k (rw, w1) = (out, (rw', w')) \<or> w' = w1" using run f by (auto simp: ignoring_def split: sum.splits if_splits)
  with assms(2) keeps_faith_ok [OF F] F show "keeps_faith w w'" unfolding sound_handler_def by (blast intro: keeps_faith_trans)
qed

lemma sound_branches [sounds]:
  "(b \<Longrightarrow> sound_handler f) \<Longrightarrow> (\<not> b \<Longrightarrow> sound_handler g) \<Longrightarrow> sound_handler (if b then f else g)"
  "sound_handler f \<Longrightarrow> (\<And>x xs. sound_handler (h x xs)) \<Longrightarrow> sound_handler (case l of [] \<Rightarrow> f | x # xs \<Rightarrow> h x xs)"
  "sound_handler f \<Longrightarrow> (\<And>x. sound_handler (k x)) \<Longrightarrow> sound_handler (case p of None \<Rightarrow> f | Some x \<Rightarrow> k x)"
  by (auto split: list.split option.split)

lemma sound_Let [sounds]: "(\<And>x. sound_handler (f x)) \<Longrightarrow> sound_handler (let x = y in f x)"
  by simp

lemma sound_pair [sounds]: "(\<And>x y. sound_handler (f x y)) \<Longrightarrow> sound_handler (case p of (x, y) \<Rightarrow> f x y)"
  by (cases p) simp

lemma sound_adminOnly [sounds]: "sound_handler k \<Longrightarrow> sound_handler (adminOnly actor k)"
  by (simp add: adminOnly_def sounds)

lemma sound_catch [sounds]:
  assumes "sound f" "\<And>e. sound (h e)" "\<And>a. sound (k a)"
  shows "sound (catchE f h k)"
proof (rule soundI)
  fix w r w' assume ok: "ok_view (mem_abs w)" and run: "catchE f h k w = (r, w')"
  obtain r1 w1 where f: "f w = (r1, w1)" by fastforce
  note F = soundD [OF assms(1) ok f]
  have "w' = w1 \<or> (\<exists>e. h e w1 = (r, w')) \<or> (\<exists>a. k a w1 = (r, w'))"
    using run f by (auto simp: catchE_def split: sum.splits if_splits)
  with assms(2,3) keeps_faith_ok [OF F] F show "keeps_faith w w'"
    unfolding sound_def by (blast intro: keeps_faith_trans)
qed

lemma sound_bind [sounds]: "sound f \<Longrightarrow> (\<And>a. sound (k a)) \<Longrightarrow> sound (bindE f k)"
  unfolding bindE_catch by (intro sound_catch sound_harmless [of "fail e" for e] keeping_fail)

section \<open>The calls of the platform handlers\<close>

lemma sound_fail [sounds]: "sound (fail e)" "sound (ret a)" "sound (ofSum s)"
  by (rule sound_harmless, intro keep)+

lemmas sound_services [sounds] =
  sound_own [OF own_ListApps] sound_own [OF own_GetApp] sound_own [OF own_CreateApp] sound_own [OF own_UpdateApp]
  sound_own [OF own_GetDeployment] sound_own [OF own_ListDeployments] sound_own [OF own_ListEvents] sound_own [OF own_PlanDeployment]
  sound_own [OF own_CreateDeployment] sound_own [OF own_RetryDeployment] sound_own [OF own_CancelDeployment]
  sound_own [OF own_DeleteDeployment] sound_own [OF own_ListKeys] sound_own [OF own_CreateKey] sound_own [OF own_Audit]

lemma sound_deployApp [sounds]: "sound (deployApp mem_AppService target inp)"
  unfolding deployApp_def by (intro sounds) (auto split: option.split intro!: sounds)

lemma sound_quiet [sounds]:
  "sound (requestActor sha d (mem_AuthService c) req)" "sound (EnsureActor (mem_AuthService c) e n)"
  "sound (Record (Some mem_audit) actor a b' c' d')" "sound (RevokeKey mem_APIKeyService actor i)"
  by (rule sound_harmless, intro keep)+

lemma harmless_queries:
  "harmless (admin_ListAllInstances \<lparr>ads_repo = mem_admin, ads_repositoryDriver = drv\<rparr> actor)"
  "harmless (admin_Summary \<lparr>ads_repo = mem_admin, ads_repositoryDriver = drv\<rparr> actor)"
  "harmless (Status mem_ReliabilityService actor)" "harmless (ListDeadLetters mem_ReliabilityService actor l)"
  "harmless (trimDeployMaps inp)" "harmless (readinessOp (mem_Router K cfg))"
  by (rule keepingI;
      simp add: admin_ListAllInstances_def admin_Summary_def mem_admin_def mem_ListAllInstances_def mem_Summary_def Status_def queueStats_def
        ListDeadLetters_def mem_ReliabilityService_def mq_queue_def mq_deadLetters_def mq_ListDeadLetters_def mq_Stats_def trimDeployMaps_def
        trimMap_def readinessOp_def mem_Router_def Readiness_def mq_Check_def range_map_def core_def bindE_def fail_def ret_def Let_def
        split_beta split: prod.split)+

lemmas sound_queries [sounds] = harmless_queries [THEN sound_harmless]

lemma mem_AuthService_parts:
  "au_providers (mem_AuthService c) p = (if p = ''medium'' then Some (medium_New c) else None)"
  "au_identities (mem_AuthService c) = Some \<lparr>air_Upsert = mem_Identity_Upsert\<rparr>"
  by (simp_all add: mem_AuthService_def NewAuthService_def mem_identities_def medium_New_def)

lemma harmless_oauth:
  "harmless (LoginURL (mem_AuthService c) p u)" "harmless (HandleOAuthCallback (mem_AuthService c) p code u)"
proof -
  have starts: "harmless (BeginAuth c st u)" and finish: "harmless (HandleCallback code u)" for st code u
    by (rule keepingI; simp add: BeginAuth_def HandleCallback_def core_def ret_def fail_def Let_def)+
  have upsert: "harmless (\<lambda>w. case NewUUID w of (uid, w) \<Rightarrow> case mem_Identity_Upsert (f uid) w of (_, w) \<Rightarrow> (Inr a, w))" for f a
    by (rule keepingI) (simp add: mem_Identity_Upsert_def core_def Let_def split_beta)
  show "harmless (LoginURL (mem_AuthService c) p u)"
    by (cases "p = ''medium''") (simp_all add: LoginURL_def mem_AuthService_parts medium_New_def keep starts)
  show "harmless (HandleOAuthCallback (mem_AuthService c) p code u)"
    by (cases "p = ''medium''") (auto simp: HandleOAuthCallback_def mem_AuthService_parts medium_New_def intro!: keep finish upsert)
qed

lemma owed_grows: "live b \<subseteq># live b' \<Longrightarrow> leases b' = leases b \<Longrightarrow> owed b \<subseteq># owed b'"
  by (simp add: owed_def image_mset_subseteq_mono)

lemma sound_Replay [sounds]: "sound (ReplayDeadLetter mem_ReliabilityService actor i)"
proof (rule soundI)
  fix w r w' assume ok: "ok_view (mem_abs w)" and run: "ReplayDeadLetter mem_ReliabilityService actor i w = (r, w')"
  have "store w' = store w"
    using run by (auto simp: ReplayDeadLetter_def mem_ReliabilityService_def mq_queue_def mq_deadLetters_def mq_ReplayDeadLetter_def fail_def
        Now_def Let_def split: if_splits option.splits)
  from mem_abs_store [OF this] ok have "ok_view (mem_abs w')" by simp
  moreover have "w' = w \<or> dlq_ReplayDeadLetter mq_deadLetters i w = (r, w')"
    using run by (auto simp: ReplayDeadLetter_def mem_ReliabilityService_def mq_queue_def fail_def split: if_splits)
  then have "owed (mq_bag w) \<subseteq># owed (mq_bag w')"
    using mqi.replay_job [of i w _ w'] mqi.replay_err [of i w _ w'] by (cases r) (auto simp: owed_def)
  ultimately show "keeps_faith w w'" by (simp add: keeps_faith_def)
qed

lemma reconciled_owed: "reconciled ds b b' \<Longrightarrow> owed b \<subseteq># owed b'"
proof (induction ds b b' rule: reconciled.induct)
  case (2 d ds b b')
  then obtain j where "reconciled ds (b_enq j b) b'" by (auto simp: queues_def)
  then have "owed (b_enq j b) \<subseteq># owed b'" using 2 by blast
  moreover have "owed b \<subseteq># owed (b_enq j b)" by (simp add: owed_def b_enq_def)
  ultimately show ?case by (rule subset_mset.order_trans [rotated])
qed simp

lemma ReconcileOnce_faith:
  assumes "ok_view (mem_abs w)"
  shows "keeps_faith w (snd (ReconcileOnce mem_ReliabilityService limit w))" "mem_abs (snd (ReconcileOnce mem_ReliabilityService limit w)) = mem_abs w"
  using ReconcileOnce_schedules [of limit w] assms reconciled_owed by (auto simp: keeps_faith_def split: prod.splits)

lemma sound_reconcile [sounds]: "sound (reconcileOp mem_ReliabilityService actor limit)"
proof (rule soundI)
  fix w r w' assume ok: "ok_view (mem_abs w)" and run: "reconcileOp mem_ReliabilityService actor limit w = (r, w')"
  have "w' = w \<or> w' = snd (ReconcileOnce mem_ReliabilityService limit w)"
    using run by (auto simp: reconcileOp_def ReconcileActive_def split: prod.splits option.splits if_splits)
  with ReconcileOnce_faith(1) [OF ok] ok show "keeps_faith w w'" by (auto intro: keeps_faith_core)
qed

section \<open>Every request\<close>

lemma mem_Router_reliability: "r_reliability (mem_Router K cfg) = mem_ReliabilityService"
  by (simp add: mem_Router_def)

lemma handlers_sound:
  assumes "(p, h) \<in> set (tenantRoutes (mem_Router K cfg) @ adminRoutes (mem_Router K cfg))"
  shows "sound_handler (h req)"
  using assms
  unfolding tenantRoutes_def adminRoutes_def
  apply simp
  apply (elim disjE conjE; simp only:; unfold handleMe_def handleAPIKeys_def handleAPIKeyRoutes_def handleAuditLogs_def handleApps_def handleAppRoutes_def
      handleDeploymentRoutes_def handleAdminInstances_def handleAdminSummary_def handleAdminBackends_def handleAdminPreflight_def handleAdminReliability_def
      handleAdminReconcile_def handleAdminDeadLetters_def handleAdminDeadLetterRoutes_def handleAdminUsers_def handleAdminOpenClawDeploy_def
      createApp_def listApps_def getApp_def updateApp_def createDeployment_def listDeployments_def planDeployment_def
    getDeployment_def listDeploymentEvents_def retryDeployment_def cancelDeployment_def deleteDeployment_def createAPIKey_def
    listAPIKeys_def deleteAPIKey_def replayDeadLetter_def createAdminUser_def adminDeployOpenClaw_def mem_Router_simps mem_Router_reliability)
  apply (intro sounds)+
  done

lemma sound_withMiddleware:
  assumes "\<And>req. sound_handler (h req)"
  shows "sound_handler (withMiddleware h req)"
  unfolding sound_handler_def
proof (intro allI impI)
  fix rw w out rw' w' assume ok: "ok_view (mem_abs w)" and run: "withMiddleware h req (rw, w) = (out, (rw', w'))"
  obtain i w1 where i: "requestID req w = (i, w1)" by fastforce
  have c: "core w1 = core w" using core_env [OF more_requestID [of req w]] i by simp
  have "h (req\<lparr>rq_requestID := i\<rparr>) (setHeader ''X-Request-ID'' i rw, w1) = (out, (rw', w'))"
    using run i by (simp add: withMiddleware_def withRequestID_def)
  with assms ok core_plane [OF c] have "keeps_faith w1 w'" unfolding sound_handler_def by metis
  with keeps_faith_core [OF c ok] show "keeps_faith w w'" by (rule keeps_faith_trans)
qed

lemma sound_guarded:
  assumes "(p, h) \<in> set (tenantRoutes (mem_Router K cfg) @ adminRoutes (mem_Router K cfg))"
  shows "sound_handler (guarded (mem_Router K cfg) h req)"
  unfolding guarded_def withActor_def mem_Router_simps
  by (intro sound_withMiddleware sound_call sound_quiet handlers_sound [OF assms])

text \<open>The public handlers touch no app, deployment, event or job at all.\<close>

definition quiet_handler :: "(unit, response \<times> 'a store_world_scheme) op \<Rightarrow> bool" where
  "quiet_handler h \<longleftrightarrow> (\<forall>rw w out rw' w'. h (rw, w) = (out, (rw', w')) \<longrightarrow> core w' = core w)"

lemma quiet_respond: "quiet_handler (respond f)"
  by (auto simp: quiet_handler_def respond_def)

lemma quiet_call: "harmless f \<Longrightarrow> (\<And>a. quiet_handler (k a)) \<Longrightarrow> quiet_handler (call f k)"
  unfolding quiet_handler_def keeping_def call_def
  by (fastforce split: prod.splits sum.splits if_splits)

lemma quiet_withMiddleware:
  assumes "\<And>req. quiet_handler (h req)"
  shows "quiet_handler (withMiddleware h req)"
  unfolding quiet_handler_def
proof (intro allI impI)
  fix rw w out rw' w' assume run: "withMiddleware h req (rw, w) = (out, (rw', w'))"
  obtain i w1 where i: "requestID req w = (i, w1)" by fastforce
  have "core w1 = core w" using core_env [OF more_requestID [of req w]] i by simp
  moreover have "h (req\<lparr>rq_requestID := i\<rparr>) (setHeader ''X-Request-ID'' i rw, w1) = (out, (rw', w'))"
    using run i by (simp add: withMiddleware_def withRequestID_def)
  ultimately show "core w' = core w" using assms unfolding quiet_handler_def by metis
qed

lemma public_quiet:
  assumes "(p, h) \<in> set (publicRoutes (mem_Router K cfg))"
  shows "quiet_handler (h req)"
proof -
  note quiet = quiet_respond quiet_call harmless_queries(6) harmless_oauth
  have "quiet_handler (handleHealth r req)" "quiet_handler (handleProviders r req)" "quiet_handler (handleSwaggerUI req)"
    "quiet_handler (swaggerRoutes r req)" for r :: "('a, 'b) kube_world_scheme Router" and req
    by (auto simp: handleHealth_def handleProviders_def handleSwaggerUI_def swaggerRoutes_def handleSwaggerAssets_def Let_def quiet
        split: option.split)
  moreover have "quiet_handler (handleReady (mem_Router K cfg) req)" "quiet_handler (handleMediumLogin (mem_Router K cfg) req)"
    "quiet_handler (handleMediumCallback (mem_Router K cfg) req)" for req
    unfolding handleReady_def handleMediumLogin_def handleMediumCallback_def mem_Router_simps by (intro quiet)+
  ultimately show ?thesis
    using assms by (auto simp: publicRoutes_def intro!: quiet_withMiddleware)
qed

lemma quiet_sound: "quiet_handler h \<Longrightarrow> sound_handler h"
  unfolding quiet_handler_def sound_handler_def by (blast intro: keeps_faith_core)

lemma mux_sound:
  fixes R :: "('c, 'z) kube_world_scheme Router"
  assumes R: "R = mem_Router K cfg"
  shows "sound_handler (serveMux (routes R) req)"
proof (cases "route (routes R) req")
  case (Found p h)
  then have "(p, h) \<in> set (routes R)" by (auto dest: route_FoundD)
  then have "sound_handler (h req)"
    by (auto simp: R routes_def intro: quiet_sound [OF public_quiet] sound_guarded)
  then show ?thesis by (simp add: mux_Found [OF Found])
qed (simp_all add: serveMux_def sounds)

lemma core_Now: "core (snd (Now w)) = core w"
  by (rule core_env [OF more_Now])

lemma serve_faith:
  fixes w :: "('c, 'z) kube_world_scheme"
  assumes ok: "ok_view (mem_abs w)" and run: "serve (mem_Router K cfg) req w = (rw, w')"
  shows "keeps_faith w w'"
proof -
  obtain out rw1 w1 where m: "serveMux (routes (mem_Router K cfg)) req (freshWriter, snd (Now w)) = (out, (rw1, w1))"
    by (metis surj_pair)
  have f: "keeps_faith w (snd (Now w))" by (rule keeps_faith_core [OF core_Now ok])
  moreover have "keeps_faith (snd (Now w)) w1"
    using mux_sound [OF refl, of K cfg req] keeps_faith_ok [OF f] m unfolding sound_handler_def by blast
  ultimately have k: "keeps_faith w w1" by (rule keeps_faith_trans)
  have "core w' = core w1" using serve_mux [OF m] run core_Now by (cases out) auto
  then show ?thesis by (rule keeps_faith_trans [OF k keeps_faith_core [OF _ keeps_faith_ok [OF k]]])
qed

section \<open>Every turn of the worker and the reconciler\<close>

lemma store_reclaim_loop:
  fixes w :: "'a store_world_scheme"
  shows "store (snd (reclaim_loop limit cutoff js n rdy kpt w)) = store w"
  by (induction limit cutoff js n rdy kpt w rule: reclaim_loop.induct) (auto simp: Now_def Let_def)

lemma store_maintenance:
  fixes w :: "'a store_world_scheme"
  shows "store (snd (mq_PromoteDue n w)) = store w" "store (snd (mq_ReclaimStale d n w)) = store w"
  by (simp_all add: mq_PromoteDue_def mq_promoteDueLocked_def mq_ReclaimStale_def Now_def Let_def split_beta store_reclaim_loop)

lemma maintenance_kept:
  assumes "mem_abs w1 = mem_abs w" "owed (mq_bag w1) = owed (mq_bag w)"
  shows "mem_abs (snd (mq_PromoteDue n w1)) = mem_abs w" "owed (mq_bag (snd (mq_PromoteDue n w1))) = owed (mq_bag w)"
    "mem_abs (snd (mq_ReclaimStale d n w1)) = mem_abs w" "owed (mq_bag (snd (mq_ReclaimStale d n w1))) = owed (mq_bag w)"
  using mem_abs_store [OF store_maintenance(1) [of n w1]] mem_abs_store [OF store_maintenance(2) [of d n w1]] assms
    mqi.promote [of n w1] mqi.reclaim [of d n w1]
  by (simp_all add: mq_scheduler_def) (metis surjective_pairing)+

lemma queue_parts: "jq_JobScheduler mq_queue = Some mq_scheduler" "jq_JobLeaseReclaimer mq_queue = Some mq_ReclaimStale"
  "js_PromoteDue mq_scheduler = mq_PromoteDue"
  by (simp_all add: mq_queue_def mq_scheduler_def)

lemma runMaintenance_kept:
  assumes "runMaintenance c w = (c', w')" "co_queue c = mq_queue"
  shows "mem_abs w' = mem_abs w \<and> owed (mq_bag w') = owed (mq_bag w) \<and> (\<exists>m. c' = c\<lparr>co_lastMaintenance := m\<rparr>)"
proof -
  obtain now w1 where n: "Now w = (now, w1)" by fastforce
  have p: "mem_abs w1 = mem_abs w" "mq_bag w1 = mq_bag w" using core_plane [OF core_Now [of w]] n by simp_all
  show ?thesis
  proof (cases "\<not> IsZero (co_lastMaintenance c) \<and> now - co_lastMaintenance c < second")
    case True
    then have "c' = c" "w' = w1" using assms(1) n by (simp_all add: runMaintenance_def)
    moreover have "c = c\<lparr>co_lastMaintenance := co_lastMaintenance c\<rparr>" by simp
    ultimately show ?thesis using p by metis
  next
    case False
    then have "c' = c\<lparr>co_lastMaintenance := now\<rparr>" "w' = snd (mq_ReclaimStale (co_leaseTimeout c) 100 (snd (mq_PromoteDue 100 w1)))"
      using assms n by (auto simp: runMaintenance_def queue_parts Let_def)
    then show ?thesis using maintenance_kept [of "snd (mq_PromoteDue 100 w1)" w] maintenance_kept [of w1 w] p by auto
  qed
qed

lemma processJob_maintenance: "processJob (c\<lparr>co_lastMaintenance := m\<rparr>) = processJob c"
proof -
  have e: "ackJob (c\<lparr>co_lastMaintenance := m\<rparr>) = ackJob c" "deadLetterJob (c\<lparr>co_lastMaintenance := m\<rparr>) = deadLetterJob c"
    "retryDelay (c\<lparr>co_lastMaintenance := m\<rparr>) = retryDelay c"
    by (simp_all add: fun_eq_iff ackJob_def deadLetterJob_def retryDelay_def)
  have r: "retryJob (c\<lparr>co_lastMaintenance := m\<rparr>) = retryJob c"
    by (intro ext) (simp add: retryJob_def e Let_def cong: if_cong option.case_cong)
  show ?thesis
    by (intro ext) (simp add: processJob_def e r cong: if_cong option.case_cong sum.case_cong prod.case_cong)
qed

fun taken :: "turn \<Rightarrow> string multiset" where
  "taken (Took j) = {#job_ID j#}"
| "taken _ = {#}"

fun tenant_of :: "turn \<Rightarrow> string option" where
  "tenant_of (Took j) = Some (job_TenantID j)"
| "tenant_of (Panicked j e) = Some (job_TenantID j)"
| "tenant_of _ = None"

definition spared :: "string option \<Rightarrow> view \<Rightarrow> view \<Rightarrow> bool" where
  "spared t v v' = (case t of None \<Rightarrow> v' = v | Some t \<Rightarrow> others_kept t v v')"

lemma run_turn_safe:
  fixes w :: "('c, 'z) kube_world_scheme"
  assumes run: "run_turn ((Worker K n b)\<lparr>co_lastMaintenance := m\<rparr>) w = Some (t, c', w')" and ok: "ok_view (mem_abs w)"
  shows "(\<exists>m'. c' = (Worker K n b)\<lparr>co_lastMaintenance := m'\<rparr>) \<and> ok_view (mem_abs w') \<and>
    owed (mq_bag w) \<subseteq># owed (mq_bag w') + taken t \<and> spared (tenant_of t) (mem_abs w) (mem_abs w')"
proof -
  let ?c = "(Worker K n b)\<lparr>co_lastMaintenance := m\<rparr>"
  obtain d w1 where d: "ctx_Done w = (d, w1)" by fastforce
  then have "env.more w1 = env.more w" by (auto simp: ctx_Done_def)
  then have p1: "mem_abs w1 = mem_abs w" "mq_bag w1 = mq_bag w" using core_plane [OF core_env] by blast+
  obtain c2 w2 where c2: "runMaintenance ?c w1 = (c2, w2)" by fastforce
  have "co_queue ?c = mq_queue" using Worker_queue by simp
  from runMaintenance_kept [OF c2 this] p1 obtain m' where m': "c2 = (Worker K n b)\<lparr>co_lastMaintenance := m'\<rparr>"
    and p2: "mem_abs w2 = mem_abs w" "owed (mq_bag w2) = owed (mq_bag w)" by auto
  have q: "co_queue c2 = mq_queue" using Worker_queue by (simp add: m')
  show ?thesis
  proof (cases d)
    case (Some e)
    then have "t = Stop e" "c' = ?c" "w' = w1" using run d by (simp_all add: run_turn_def)
    then show ?thesis using p1 ok by (auto simp: spared_def)
  next
    case None
    then obtain rj w3 where dq: "jq_Dequeue mq_queue w2 = Some (rj, w3)"
      using run d c2 q by (auto simp: run_turn_def split: option.splits)
    have p3: "mem_abs w3 = mem_abs w" "owed (mq_bag w3) = owed (mq_bag w)"
      using mem_abs_store [OF store_Dequeue [of w2 "(rj, w3)"]] mqi.dequeue_owed [OF dq] dq p2 by (simp_all add: mq_queue_def)
    show ?thesis
    proof (cases rj)
      case (Inl err)
      then have "t \<in> {Idle, Stop err}" "c' = c2" "w' = w3" using run d c2 q dq None by (auto simp: run_turn_def split: if_splits)
      then show ?thesis using p3 ok m' by (auto simp: spared_def)
    next
      case (Inr j)
      obtain r w4 where pj: "processJob (Worker K n b) j w3 = (r, w4)" by fastforce
      have dj: "mq_Dequeue w2 = Some (Inr j, w3)" using dq Inr by (simp add: mq_queue_def)
      have ok2: "ok_view (mem_abs w2)" using ok p2 by simp
      note T = worker_turn [OF ok2 dj pj]
      have t: "w' = w4" "c' = c2" "t = (case r of Inl e \<Rightarrow> Panicked j e | Inr _ \<Rightarrow> Took j)"
        using run d c2 q dq None Inr pj by (auto simp: run_turn_def m' processJob_maintenance split: sum.splits)
      have "owed (mq_bag w3) \<subseteq># owed (mq_bag w4)" if panic: "r = Inl e" for e
      proof -
        obtain h where h: "co_handlers (Worker K n b) (job_Type j) = Some h" "h j w3 = (Inl e, w4)"
          using pj panic by (auto simp: processJob_def Let_def split: option.splits sum.splits prod.splits if_splits)
        have "grows (mq_bag w3) (mq_bag w4)"
          using worker_handler [OF h(1), unfolded triple_def, rule_format, OF _ _ h(2)] ok p3 by simp
        then show ?thesis by (simp add: grows_def owed_def image_mset_subseteq_mono)
      qed
      then show ?thesis using T t m' p2 p3 by (cases r) (auto simp: spared_def)
    qed
  qed
qed

lemma reconciler_turn_safe:
  fixes w :: "'a store_world_scheme"
  assumes run: "reconciler_turn mem_ReliabilityService w = (r, w')" and ok: "ok_view (mem_abs w)"
  shows "keeps_faith w w'" "mem_abs w' = mem_abs w"
proof -
  obtain d w1 where d: "ctx_Done w = (d, w1)" by fastforce
  then have "env.more w1 = env.more w" by (auto simp: ctx_Done_def)
  then have p1: "mem_abs w1 = mem_abs w" "mq_bag w1 = mq_bag w" using core_plane [OF core_env] by blast+
  define w2 where "w2 = PromoteDue mem_ReliabilityService w1"
  have "w2 = snd (mq_ReclaimStale (10 * 60 * second) 100 (snd (mq_PromoteDue 100 w1)))"
    by (simp add: w2_def PromoteDue_def mem_ReliabilityService_def queue_parts)
  then have p2: "mem_abs w2 = mem_abs w" "owed (mq_bag w2) = owed (mq_bag w)"
    using maintenance_kept [of "snd (mq_PromoteDue 100 w1)" w] maintenance_kept [of w1 w] p1 by simp_all
  have f2: "keeps_faith w w2" using p2 ok by (simp add: keeps_faith_def)
  have "w' = w1 \<or> w' = snd (ReconcileOnce mem_ReliabilityService 100 w2)"
    using run d by (auto simp: reconciler_turn_def w2_def Let_def split: option.splits)
  then show "keeps_faith w w'" "mem_abs w' = mem_abs w"
    using ReconcileOnce_faith [OF keeps_faith_ok [OF f2], of 100] f2 p1 p2 ok by (auto simp: keeps_faith_def intro: subset_mset.order_trans)
qed

section \<open>The process\<close>

text \<open>What the start over the memory drivers gives: the parts that are verified, and a worker.\<close>

definition embedded :: "'c kube \<Rightarrow> settings \<Rightarrow> outside \<Rightarrow> ('c, 'z) kube_world_scheme Runtime \<Rightarrow> int \<Rightarrow> duration \<Rightarrow> bool" where
  "embedded K cfg out rt n b \<longleftrightarrow>
     HTTPHandler out rt = mem_Router K cfg \<and> Runtime_Worker rt = Worker K n b \<and> rt_ReliabilityService rt = mem_ReliabilityService \<and> rt_DB rt = None"

definition sane :: "'c kube \<Rightarrow> int \<Rightarrow> duration \<Rightarrow> ('c, 'z) kube_world_scheme process \<Rightarrow> bool" where
  "sane K n b p \<longleftrightarrow> (\<exists>m. ps_consumer p = (Worker K n b)\<lparr>co_lastMaintenance := m\<rparr>) \<and> ok_view (mem_abs (ps_world p))"

fun taken_by :: "event \<Rightarrow> string multiset" where
  "taken_by (Turned t) = taken t"
| "taken_by _ = {#}"

lemma close_without_database: "rt_DB rt = None \<Longrightarrow> snd (Runtime_Close lib rt w) = w"
  by (simp add: Runtime_Close_def ret_def)

lemma process_step_safe:
  assumes e: "embedded K cfg out rt n b" and s: "sane K n b p" and step: "process_step lib cmd out rt p ev p'"
  shows "sane K n b p' \<and> owed (mq_bag (ps_world p)) \<subseteq># owed (mq_bag (ps_world p')) + taken_by ev"
  using step
proof cases
  case (step_serve req rw w)
  then have "keeps_faith (ps_world p) w" using e s serve_faith unfolding embedded_def sane_def by metis
  then show ?thesis using step_serve s by (auto simp: sane_def keeps_faith_def)
next
  case (step_turn t c w p1)
  obtain m where m: "ps_consumer p = (Worker K n b)\<lparr>co_lastMaintenance := m\<rparr>" and ok: "ok_view (mem_abs (ps_world p))"
    using s by (auto simp: sane_def)
  have r: "run_turn ((Worker K n b)\<lparr>co_lastMaintenance := m\<rparr>) (ps_world p) = Some (t, c, w)" using step_turn m by simp
  have db: "rt_DB rt = None" using e by (simp add: embedded_def)
  from run_turn_safe [OF r ok] step_turn show ?thesis
    by (cases t; cases cmd) (auto simp: sane_def worker_stopped_def close_without_database [OF db] Let_def)
next
  case (step_reconcile r w)
  then have "keeps_faith (ps_world p) w" using e s reconciler_turn_safe(1) unfolding embedded_def sane_def by metis
  then show ?thesis using step_reconcile s by (auto simp: sane_def keeps_faith_def)
next
  case (step_server_returned err)
  then show ?thesis using s by (auto simp: sane_def server_returned_def)
next
  case (step_shut_down e' w r)
  have db: "rt_DB rt = None" using e by (simp add: embedded_def)
  have "env.more w = env.more (ps_world p)" using step_shut_down by (auto simp: ctx_Done_def)
  then have "mem_abs w = mem_abs (ps_world p)" "mq_bag w = mq_bag (ps_world p)" using core_plane [OF core_env] by blast+
  then show ?thesis using step_shut_down s by (cases r) (auto simp: sane_def shut_down_def close_without_database [OF db])
qed

lemma process_run_safe:
  assumes "process_run lib cmd out rt p evs p'" "embedded K cfg out rt n b" "sane K n b p"
  shows "sane K n b p' \<and> owed (mq_bag (ps_world p)) \<subseteq># owed (mq_bag (ps_world p')) + sum_list (map taken_by evs)"
  using assms
proof (induction rule: process_run.induct)
  case (process_Cons p ev p1 evs p2)
  from process_step_safe [OF process_Cons.prems(1,2) process_Cons.hyps(1)] have s: "sane K n b p1"
    and o: "owed (mq_bag (ps_world p)) \<subseteq># owed (mq_bag (ps_world p1)) + taken_by ev" by blast+
  from process_Cons.IH [OF process_Cons.prems(1) s] have "sane K n b p2"
    and "owed (mq_bag (ps_world p1)) + taken_by ev \<subseteq># owed (mq_bag (ps_world p2)) + sum_list (map taken_by evs) + taken_by ev"
    by (auto intro: subset_mset.add_mono)
  with o show ?case by (auto simp: ac_simps intro: subset_mset.order_trans)
qed simp

lemma started:
  assumes "LoadDotEnv ''.env'' file e = (None, e')" "LoadConfig e' = Some cfg"
    and "cf_RepositoryDriver cfg = ''memory''" "cf_RedisAddr cfg = ''memory''"
    and "start (memory_drivers K redis lib postgres) file e w0 = Some (Inr rt, w)"
  shows "embedded K (settings_of cfg out) out rt (cf_JobMaxAttempts cfg) (cf_JobRetryBackoff cfg)"
    and "sane K (cf_JobMaxAttempts cfg) (cf_JobRetryBackoff cfg) (launch rt w)" and "rt_Config rt = cfg"
proof -
  have r: "NewRuntime (memory_drivers K redis lib postgres) cfg w0 = (Inr rt, w)"
    using assms(1,2,5) by (simp add: start_def split: prod.splits sum.splits)
  note parts = NewRuntime_on_memory [OF assms(3,4), where K = K and redis = redis and lib = lib and postgres = postgres and w = w0 and out = out]
  show "embedded K (settings_of cfg out) out rt (cf_JobMaxAttempts cfg) (cf_JobRetryBackoff cfg)" "rt_Config rt = cfg"
    using parts r by (auto simp: embedded_def)
  have "Runtime_Worker rt = Worker K (cf_JobMaxAttempts cfg) (cf_JobRetryBackoff cfg)" "ok_view (mem_abs w)" using parts r by auto
  moreover have "\<exists>m. c = c\<lparr>co_lastMaintenance := m\<rparr>" for c :: "('a, 'b) kube_world_scheme Consumer"
    by (rule exI [of _ "co_lastMaintenance c"]) simp
  ultimately show "sane K (cf_JobMaxAttempts cfg) (cf_JobRetryBackoff cfg) (launch rt w)" by (simp add: sane_def launch_def)
qed

text \<open>
  C3: The API process with its embedded worker and reconciler, started over the memory drivers, keeps its state sound through every interleaving of requests
  (those of platform administrators included), turns of the worker and passes of the reconciler. At every point of every run the records are
  well formed, and between any two points every job that was waiting or leased still is, unless a turn of the worker took it.
\<close>

theorem process_keeps_faith:
  assumes "LoadDotEnv ''.env'' file e = (None, e')" "LoadConfig e' = Some cfg"
    and "cf_RepositoryDriver cfg = ''memory''" "cf_RedisAddr cfg = ''memory''"
    and "start (memory_drivers K redis lib postgres) file e w0 = Some (Inr rt, w)"
    and "process_run lib Api out rt (launch rt w) evs1 p1" "process_run lib Api out rt p1 evs2 p2"
  shows "ok_view (mem_abs (ps_world p2)) \<and>
    owed (mq_bag (ps_world p1)) \<subseteq># owed (mq_bag (ps_world p2)) + sum_list (map taken_by evs2)"
proof -
  note emb = started(1) [OF assms(1-5), where out = out] and s0 = started(2) [OF assms(1-5)]
  have "sane K (cf_JobMaxAttempts cfg) (cf_JobRetryBackoff cfg) p1" using process_run_safe [OF assms(6) emb s0] by blast
  from process_run_safe [OF assms(7) emb this] show ?thesis by (auto simp: sane_def)
qed

section \<open>Tenants of a process\<close>

lemma route_elsewhere:
  assumes "route (routes r) req = Found p h" and "HasPrefix (rq_Path req) ''/v1/'' \<Longrightarrow> HasPrefix (rq_Path req) ''/v1/auth/''"
  shows "(p, h) \<in> set (publicRoutes r)"
proof (rule ccontr)
  assume "(p, h) \<notin> set (publicRoutes r)"
  then obtain g where g: "(p, g) \<in> set (tenantRoutes r @ adminRoutes r)"
    using route_FoundD [OF assms(1)] by (auto simp: routes_def)
  have pre: "prefix p (rq_Path req)" using route_FoundD [OF assms(1)] by (simp add: HasPrefix_prefix)
  from g have "prefix ''/v1/'' p" "\<not> prefix ''/v1/auth/'' p" "\<not> prefix p ''/v1/auth/''"
    by (auto simp: tenantRoutes_def adminRoutes_def)
  moreover from this pre have "prefix ''/v1/auth/'' (rq_Path req)"
    using assms(2) prefix_order.trans unfolding HasPrefix_prefix by blast
  ultimately show False using prefix_agree [OF pre] by blast
qed

definition request_tenant :: "settings \<Rightarrow> request \<Rightarrow> 'a store_world_scheme \<Rightarrow> string option" where
  "request_tenant cfg req w =
     (case fst (requestActor (st_sha cfg) (st_devAuth cfg) (mem_AuthService (st_mediumClientID cfg)) req (snd (requestID req (snd (Now w))))) of
        Inl _ \<Rightarrow> None | Inr actor \<Rightarrow> Some (actor_TenantID actor))"

lemma serve_spares:
  fixes w :: "('c, 'z) kube_world_scheme"
  assumes ok: "ok_view (mem_abs w)" and plain: "\<not> headerAdmin req" and run: "serve (mem_Router K cfg) req w = (rw, w')"
    and fresh: "\<And>t. request_tenant cfg req w = Some t \<Longrightarrow> \<not> list_ex (clashes t (mem_abs w)) (rw_Body rw)"
  shows "spared (request_tenant cfg req w) (mem_abs w) (mem_abs w')"
proof (cases "HasPrefix (rq_Path req) ''/v1/'' \<and> \<not> HasPrefix (rq_Path req) ''/v1/auth/''")
  case True
  with request_confined [OF ok plain _ _ run] fresh show ?thesis
    by (auto simp: request_tenant_def spared_def split: sum.splits)
next
  case False
  define R where "R = (mem_Router K cfg :: ('c, 'z) kube_world_scheme Router)"
  obtain out rw1 w1 where m: "serveMux (routes R) req (freshWriter, snd (Now w)) = (out, (rw1, w1))" by (metis surj_pair)
  have "quiet_handler (serveMux (routes R) req)"
  proof (cases "route (routes R) req")
    case (Found p h)
    with route_elsewhere [OF Found] False have "(p, h) \<in> set (publicRoutes R)" by blast
    from public_quiet [OF this [unfolded R_def]] show ?thesis by (simp add: mux_Found [OF Found])
  qed (simp_all add: serveMux_def quiet_respond)
  then have "core w1 = core (snd (Now w))" using m unfolding quiet_handler_def by blast
  moreover have "core w' = core w1" using serve_mux [OF m] run core_Now by (cases out) (auto simp: R_def)
  ultimately have "mem_abs w' = mem_abs w" using core_plane core_Now by metis
  then show ?thesis by (simp add: spared_def split: option.split)
qed

text \<open>A step that is not on behalf of tenant \<open>t\<close>, and does not claim platform administration; an identifier that was issued twice is excluded.\<close>

fun bystander :: "settings \<Rightarrow> string \<Rightarrow> 'a store_world_scheme \<Rightarrow> event \<Rightarrow> bool" where
  "bystander cfg t w (Served req rw) \<longleftrightarrow>
     \<not> headerAdmin req \<and>
     (case request_tenant cfg req w of None \<Rightarrow> True | Some u \<Rightarrow> u \<noteq> t \<and> \<not> list_ex (clashes u (mem_abs w)) (rw_Body rw))"
| "bystander cfg t w (Turned turn) \<longleftrightarrow> tenant_of turn \<noteq> Some t"
| "bystander cfg t w _ \<longleftrightarrow> True"

inductive others_run ::
  "('c, 'z) kube_world_scheme sql_library \<Rightarrow> command \<Rightarrow> outside \<Rightarrow> ('c, 'z) kube_world_scheme Runtime \<Rightarrow> settings \<Rightarrow> string \<Rightarrow>
   ('c, 'z) kube_world_scheme process \<Rightarrow> event list \<Rightarrow> ('c, 'z) kube_world_scheme process \<Rightarrow> bool"
  for lib cmd out rt cfg t where
  others_Nil: "others_run lib cmd out rt cfg t p [] p"
| others_Cons: "process_step lib cmd out rt p ev p1 \<Longrightarrow> bystander cfg t (ps_world p) ev \<Longrightarrow> others_run lib cmd out rt cfg t p1 evs p2 \<Longrightarrow>
     others_run lib cmd out rt cfg t p (ev # evs) p2"

definition tenant_kept :: "string \<Rightarrow> view \<Rightarrow> view \<Rightarrow> bool" where
  "tenant_kept t v v' \<longleftrightarrow>
     (\<forall>i a. v_apps v i = Some a \<longrightarrow> app_TenantID a = t \<longrightarrow> v_apps v' i = Some a) \<and>
     (\<forall>i d. v_deps v i = Some d \<longrightarrow> dep_TenantID d = t \<longrightarrow> v_deps v' i = Some d)"

lemma spared_tenant: "spared u v v' \<Longrightarrow> u \<noteq> Some t \<Longrightarrow> tenant_kept t v v'"
  by (auto simp: spared_def tenant_kept_def others_kept_def split: option.splits)

lemma process_step_spares:
  assumes e: "embedded K cfg out rt n b" and s: "sane K n b p" and step: "process_step lib cmd out rt p ev p'"
    and bys: "bystander cfg t (ps_world p) ev"
  shows "tenant_kept t (mem_abs (ps_world p)) (mem_abs (ps_world p'))"
  using step
proof cases
  case (step_serve req rw w)
  have "serve (mem_Router K cfg) req (ps_world p) = (rw, w)" "ok_view (mem_abs (ps_world p))"
    using step_serve e s by (auto simp: embedded_def sane_def)
  from serve_spares [OF this(2) _ this(1)] bys step_serve(1) have "spared (request_tenant cfg req (ps_world p)) (mem_abs (ps_world p)) (mem_abs w)"
    by (auto split: option.splits)
  moreover have "request_tenant cfg req (ps_world p) \<noteq> Some t" using bys step_serve(1) by (auto split: option.splits)
  ultimately show ?thesis using step_serve spared_tenant by simp
next
  case (step_turn u c w p1)
  obtain m where m: "ps_consumer p = (Worker K n b)\<lparr>co_lastMaintenance := m\<rparr>" and ok: "ok_view (mem_abs (ps_world p))"
    using s by (auto simp: sane_def)
  have r: "run_turn ((Worker K n b)\<lparr>co_lastMaintenance := m\<rparr>) (ps_world p) = Some (u, c, w)" using step_turn m by simp
  have db: "rt_DB rt = None" using e by (simp add: embedded_def)
  have "tenant_kept t (mem_abs (ps_world p)) (mem_abs w)" using run_turn_safe [OF r ok] bys step_turn(1) spared_tenant by auto
  then show ?thesis using step_turn by (cases u; cases cmd) (auto simp: worker_stopped_def close_without_database [OF db] Let_def)
next
  case (step_reconcile r w)
  then have "mem_abs w = mem_abs (ps_world p)" using e s reconciler_turn_safe(2) unfolding embedded_def sane_def by metis
  then show ?thesis using step_reconcile by (simp add: tenant_kept_def)
next
  case (step_server_returned err)
  then show ?thesis by (simp add: server_returned_def tenant_kept_def)
next
  case (step_shut_down e' w r)
  have db: "rt_DB rt = None" using e by (simp add: embedded_def)
  have "env.more w = env.more (ps_world p)" using step_shut_down by (auto simp: ctx_Done_def)
  then have "mem_abs w = mem_abs (ps_world p)" using core_plane [OF core_env] by blast
  then show ?thesis using step_shut_down by (cases r) (auto simp: shut_down_def close_without_database [OF db] tenant_kept_def)
qed

lemma others_run_spares:
  assumes "others_run lib cmd out rt cfg t p evs p'" "embedded K cfg out rt n b" "sane K n b p"
  shows "tenant_kept t (mem_abs (ps_world p)) (mem_abs (ps_world p'))"
  using assms
proof (induction rule: others_run.induct)
  case (others_Cons p ev p1 evs p2)
  have "sane K n b p1" using process_step_safe [OF others_Cons.prems(1,2) others_Cons.hyps(1)] by blast
  then show ?case
    using others_Cons.IH [OF others_Cons.prems(1)] process_step_spares [OF others_Cons.prems(1,2) others_Cons.hyps(1,2)]
    by (simp add: tenant_kept_def)
qed (simp add: tenant_kept_def)


section \<open>An instance\<close>

definition demo_environ :: environ where
  "demo_environ = [''REPOSITORY_DRIVER'' \<mapsto> ''memory'', ''REDIS_ADDR'' \<mapsto> ''memory'']"

definition demo_outside :: outside where
  "demo_outside = \<lparr>os_sha = demo_sha, os_decode = st_decode demo_settings, os_build = ([], [], []), os_file = Map.empty\<rparr>"

abbreviation demo_drivers where
  "demo_drivers redis lib postgres \<equiv> memory_drivers demo_kube redis lib postgres"

lemma demo_start:
  obtains cfg rt w where "LoadDotEnv ''.env'' Absent demo_environ = (None, demo_environ)" "LoadConfig demo_environ = Some cfg"
    "cf_RepositoryDriver cfg = ''memory''" "cf_RedisAddr cfg = ''memory''"
    "start (demo_drivers redis lib postgres) Absent demo_environ demo_site = Some (Inr rt, w)"
proof -
  obtain cfg where c: "LoadConfig demo_environ = Some cfg" "cf_RepositoryDriver cfg = ''memory''" "cf_RedisAddr cfg = ''memory''"
    by (simp add: demo_environ_def LoadConfig_def envDuration_def env_def Getenv_def)
  obtain rt w where "NewRuntime (demo_drivers redis lib postgres) cfg demo_site = (Inr rt, w)"
    using NewRuntime_on_memory [OF c(2,3), where K = demo_kube and redis = redis and lib = lib and postgres = postgres and w = demo_site] by blast
  then show ?thesis
    using c by (intro that [of cfg rt w]) (simp_all add: start_def LoadDotEnv_def)
qed

text \<open>A run of one request, which any tenant but the caller's may be a bystander to.\<close>

lemma demo_serve:
  assumes "rt_Config rt = cfg" "cf_RedisAddr cfg = ''memory''"
  obtains rw p where "process_step lib Api demo_outside rt (launch rt w) (Served (demo_request ''/healthz'' []) rw) p"
proof -
  obtain rw w' where s: "serve (HTTPHandler demo_outside rt) (demo_request ''/healthz'' []) w = (rw, w')" by fastforce
  have "process_step lib Api demo_outside rt (launch rt w) (Served (demo_request ''/healthz'' []) rw) ((launch rt w)\<lparr>ps_world := w'\<rparr>)"
    by (rule step_serve) (simp_all add: launch_def goroutines_def s)
  then show ?thesis by (rule that)
qed

lemma demo_reconcile:
  assumes "rt_Config rt = cfg" "cf_RedisAddr cfg = ''memory''" "ps_exit p = None"
  obtains p' where "process_step lib Api demo_outside rt p ReconcilerPassed p'"
proof -
  obtain r w' where s: "reconciler_turn (rt_ReliabilityService rt) (ps_world p) = (r, w')" by fastforce
  have "process_step lib Api demo_outside rt p ReconcilerPassed (p\<lparr>ps_world := w'\<rparr>)"
    by (rule step_reconcile [OF _ _ s]) (simp_all add: goroutines_def assms)
  then show ?thesis by (rule that)
qed

theorem process_keeps_faith_witness:
  "\<forall>redis lib postgres. \<exists>rt w rw p. start (demo_drivers redis lib postgres) Absent demo_environ demo_site = Some (Inr rt, w) \<and>
     process_run lib Api demo_outside rt (launch rt w) [Served (demo_request ''/healthz'' []) rw] p \<and> ok_view (mem_abs (ps_world p))"
proof (intro allI)
  fix redis lib postgres
  obtain cfg rt w where c: "LoadDotEnv ''.env'' Absent demo_environ = (None, demo_environ)" "LoadConfig demo_environ = Some cfg"
    "cf_RepositoryDriver cfg = ''memory''" "cf_RedisAddr cfg = ''memory''"
    "start (demo_drivers redis lib postgres) Absent demo_environ demo_site = Some (Inr rt, w)" by (rule demo_start)
  obtain rw p where st: "process_step lib Api demo_outside rt (launch rt w) (Served (demo_request ''/healthz'' []) rw) p"
    by (rule demo_serve [OF started(3) [OF c] c(4)])
  note run = process_Cons [OF st process_Nil]
  from process_keeps_faith [OF c process_Nil run] c(5) run
  show "\<exists>rt w rw p. start (demo_drivers redis lib postgres) Absent demo_environ demo_site = Some (Inr rt, w) \<and>
     process_run lib Api demo_outside rt (launch rt w) [Served (demo_request ''/healthz'' []) rw] p \<and> ok_view (mem_abs (ps_world p))"
    by (intro exI conjI) (assumption | elim conjE)+
qed


end
