(* ===== verification/Rollout.thy ===== *)
theory Rollout
  imports Runtime
begin

text \<open>
  What the worker achieves, over the memory repositories, the memory queue and the Kubernetes backend. For each job the outcome is stated on every branch: what is
  asked of the cluster, what the records are afterwards, and which jobs there are. Together the outcomes show that an accepted request leads to a
  running deployment on a cluster that accepts and reports it.
\<close>

section \<open>The end of a job\<close>

text \<open>A failed attempt: the job waits with its attempt counted, or is a dead letter; its lease is released.\<close>

definition retried :: "int \<Rightarrow> Job \<Rightarrow> error \<Rightarrow> bag \<Rightarrow> bag \<Rightarrow> bool" where
  "retried n j e b b' \<longleftrightarrow>
     (let j' = j\<lparr>job_Attempts := job_Attempts j + 1, job_LastError := Error e\<rparr>
      in if job_Attempts j + 1 < n then b' = b_ack j (b_enq j' b)
         else \<exists>i t. b' = b_ack j (b_bury \<lparr>dl_ID = i, dl_Job = j', dl_Reason = Error e, dl_FailedAt = t, dl_FinalAttempt = job_Attempts j + 1\<rparr> b))"

lemma mem_ack:
  assumes "co_queue c = mq_queue" "ackJob c j w = (r, w')"
  shows "mq_bag w' = b_ack j (mq_bag w)" "mem_abs w' = mem_abs w"
proof -
  show "mem_abs w' = mem_abs w" using mem_abs_store [OF keepingD [OF keeps_ackJob [OF assms(1)] assms(2)]] by simp
  have "w' = snd (mq_Ack j w)" using assms by (simp add: ackJob_def mq_queue_def)
  then show "mq_bag w' = b_ack j (mq_bag w)" by (simp add: mq_Ack_bag)
qed

lemma mem_retry_job:
  assumes q: "co_queue c = mq_queue" and run: "retryJob c j e w = (r, w')"
  shows "retried (co_maxAttempts c) j e (mq_bag w) (mq_bag w')" "mem_abs w' = mem_abs w"
proof -
  define j' where "j' = j\<lparr>job_Attempts := job_Attempts j + 1, job_LastError := Error e\<rparr>"
  show "mem_abs w' = mem_abs w" using mem_abs_store [OF keepingD [OF keeps_retryJob [OF q] run]] by simp
  show "retried (co_maxAttempts c) j e (mq_bag w) (mq_bag w')"
  proof (cases "job_Attempts j + 1 < co_maxAttempts c")
    case True
    obtain w1 where e: "mq_EnqueueAfter j' (retryDelay c (job_Attempts j + 1)) w = (Inr (), w1)"
      by (simp add: mq_EnqueueAfter_def Let_def split_beta)
    have "ackJob c j w1 = (r, w')"
      using run True e q by (simp add: retryJob_def j'_def [symmetric] bindE_def mq_queue_def mq_scheduler_def Let_def) (simp add: j'_def)
    with mq_EnqueueAfter_bag [of j' "retryDelay c (job_Attempts j + 1)" w] e mem_ack(1) [OF q] True
    show ?thesis by (simp add: retried_def j'_def)
  next
    case False
    obtain r1 w1 where b: "deadLetterJob c j' (Error e) w = (r1, w1)" by fastforce
    have "r1 = Inr ()" using mem_bury_ok [OF q, of j' "Error e" w] b by simp
    with mqi.bury_job [OF b q] obtain i t where
      m: "mq_bag w1 = b_bury \<lparr>dl_ID = i, dl_Job = j', dl_Reason = Error e, dl_FailedAt = t, dl_FinalAttempt = job_Attempts j'\<rparr> (mq_bag w)" by auto
    have "ackJob c j w1 = (r, w')"
      using run False b \<open>r1 = Inr ()\<close> by (simp add: retryJob_def j'_def [symmetric] bindE_def Let_def) (simp add: j'_def)
    with m mem_ack(1) [OF q] False show ?thesis unfolding retried_def j'_def by (auto simp: Let_def)
  qed
qed

text \<open>What the loop makes of the outcome of a handler.\<close>

lemma process_outcome:
  assumes q: "co_queue c = mq_queue" and h: "co_handlers c (job_Type j) = Some h" "h j w = (x, w1)" and run: "processJob c j w = (r, w')"
  shows "mem_abs w' = mem_abs w1"
    and "case x of
        Inr _ \<Rightarrow> r = Inr () \<and> mq_bag w' = b_ack j (mq_bag w1)
      | Inl e \<Rightarrow> if is_panic e then r = Inl e \<and> mq_bag w' = mq_bag w1
                else r = Inr () \<and> retried (co_maxAttempts c) j e (mq_bag w1) (mq_bag w')"
proof -
  obtain ra wa where a: "ackJob c j w1 = (ra, wa)" by fastforce
  show "mem_abs w' = mem_abs w1" using mem_abs_processJob [OF q run] h by simp
  show "case x of
        Inr _ \<Rightarrow> r = Inr () \<and> mq_bag w' = b_ack j (mq_bag w1)
      | Inl e \<Rightarrow> if is_panic e then r = Inl e \<and> mq_bag w' = mq_bag w1
                else r = Inr () \<and> retried (co_maxAttempts c) j e (mq_bag w1) (mq_bag w')"
  proof (cases x)
    case (Inl e)
    obtain rr wr where rt: "retryJob c j e w1 = (rr, wr)" by fastforce
    from Inl run h rt mem_retry_job(1) [OF q rt] show ?thesis by (auto simp: processJob_def)
  next
    case (Inr y)
    with run h a mem_ack(1) [OF q a] show ?thesis by (auto simp: processJob_def)
  qed
qed

section \<open>Records and events\<close>

text \<open>The deployment is stored as \<open>d\<close>, these events were recorded of it, and every other record is as it was.\<close>

definition recorded :: "Deployment \<Rightarrow> (string \<times> string) list \<Rightarrow> view \<Rightarrow> view \<Rightarrow> bool" where
  "recorded d log v v' \<longleftrightarrow>
     (\<exists>es. list_all2 (\<lambda>(ty, msg). event_of d ty msg) log es \<and>
        v' = v\<lparr>v_deps := (v_deps v)(dep_ID d \<mapsto> d), v_events := (v_events v)(dep_ID d := v_events v (dep_ID d) @ es)\<rparr>)"

lemma recorded_Nil: "v_deps v (dep_ID d) = Some d \<Longrightarrow> recorded d [] v v"
  by (simp add: recorded_def map_upd_triv)

lemma recorded_logged:
  assumes "recorded d log v v1" "logged d' ty msg v1 v2" "dep_ID d' = dep_ID d" "dep_TenantID d' = dep_TenantID d"
  shows "recorded d' (log @ [(ty, msg)]) v v2"
proof -
  obtain es where es: "list_all2 (\<lambda>(ty, msg). event_of d ty msg) log es"
    "v1 = v\<lparr>v_deps := (v_deps v)(dep_ID d \<mapsto> d), v_events := (v_events v)(dep_ID d := v_events v (dep_ID d) @ es)\<rparr>"
    using assms(1) by (auto simp: recorded_def)
  obtain e where e: "event_of d' ty msg e" "v2 = put_event e (put_dep d' v1)" using assms(2) by (auto simp: logged_def)
  have same: "event_of d' = event_of d" using assms(3,4) by (intro ext) (simp add: event_of_def)
  have "list_all2 (\<lambda>(ty, msg). event_of d' ty msg) (log @ [(ty, msg)]) (es @ [e])"
    using es(1) e(1) by (simp add: list_all2_appendI same)
  moreover have "v2 = v\<lparr>v_deps := (v_deps v)(dep_ID d' \<mapsto> d'), v_events := (v_events v)(dep_ID d' := v_events v (dep_ID d') @ es @ [e])\<rparr>"
    using e es(2) assms(3) by (simp add: event_of_def put_event_def put_dep_def)
  ultimately show ?thesis unfolding recorded_def by blast
qed

lemma logged_recorded: "logged d ty msg v v' \<Longrightarrow> recorded d [(ty, msg)] v v'"
  unfolding logged_def recorded_def
  by (elim exE conjE, rule_tac x = "[e]" in exI) (simp add: event_of_def put_event_def put_dep_def)

lemma recorded_simps:
  "recorded d log v v' \<Longrightarrow> v_deps v' = (v_deps v)(dep_ID d \<mapsto> d)" "recorded d log v v' \<Longrightarrow> v_apps v' = v_apps v"
  by (auto simp: recorded_def)

text \<open>On the memory store a stored deployment is always marked, with one event.\<close>

lemma mem_markE:
  assumes "recorded d0 log v (mem_abs w)" "dep_ID d = dep_ID d0" "dep_TenantID d = dep_TenantID d0"
  obtains now w' where "markE (mem_DeploymentService b) d st rsn w = (Inr (marked now st rsn d), w')"
    "recorded (marked now st rsn d) (log @ [(status_string st, rsn)]) v (mem_abs w')" "mq_bag w' = mq_bag w"
proof -
  have i: "v_deps (mem_abs w) (dep_ID d) \<noteq> None" using recorded_simps(1) [OF assms(1)] assms(2) by simp
  obtain r d' w' where m: "MarkDeploymentStatus (mem_DeploymentService b) d st rsn w = ((r, d'), w')" by (metis surj_pair)
  then have r: "r = Inr ()" using mem_mark_ok [OF i, of b st rsn] by simp
  with mem_mark [OF m] obtain now where "d' = marked now st rsn d" "mq_bag w' = mq_bag w"
    "logged d' (status_string st) rsn (mem_abs w) (mem_abs w')" by auto
  then show ?thesis using m r recorded_logged [OF assms(1)] assms(2,3) by (intro that [of now w']) (simp_all add: markE_def)
qed

lemma mem_markFailed:
  assumes "recorded d log v (mem_abs w)"
  obtains now w' where "markFailed (mem_DeploymentService b) d err w = (Inl err, w')"
    "recorded (marked now DeploymentStatusFailed (Error err) d) (log @ [(''failed'', Error err)]) v (mem_abs w')" "mq_bag w' = mq_bag w"
proof -
  obtain now w' where "markE (mem_DeploymentService b) d DeploymentStatusFailed (Error err) w = (Inr (marked now DeploymentStatusFailed (Error err) d), w')"
    "recorded (marked now DeploymentStatusFailed (Error err) d) (log @ [(status_string DeploymentStatusFailed, Error err)]) v (mem_abs w')"
    "mq_bag w' = mq_bag w"
    by (rule mem_markE [OF assms refl refl])
  then show ?thesis
    by (intro that [of w' now]) (auto simp: markE_def markFailed_def split: prod.splits sum.splits)
qed

section \<open>The cluster is asked by the backend only\<close>

lemma cluster_more: "env.more w' = env.more w \<Longrightarrow> cluster w' = cluster w"
  by (cases w; cases w') simp

lemma cluster_Now: "cluster (snd (Now w)) = cluster w" and cluster_NewUUID: "cluster (snd (NewUUID w)) = cluster w"
  by (rule cluster_more, rule more_Now) (rule cluster_more, rule more_NewUUID)

lemma cluster_Mark: "cluster (snd (MarkDeploymentStatus (mem_DeploymentService b) d st rsn w)) = cluster w"
  by (simp add: MarkDeploymentStatus_def mem_service_simps bindE_def Let_def split_beta mem_event_ok mem_deployments_def mem_Dep_Update_def
      newEvent_def cluster_Now cluster_NewUUID split: sum.split option.split)

lemma cluster_markE: "cluster (snd (markE (mem_DeploymentService b) d st rsn w)) = cluster w"
  using cluster_Mark [of b d st rsn w] by (simp add: markE_def split_beta split: sum.split)

lemma cluster_markFailed: "cluster (snd (markFailed (mem_DeploymentService b) d err w)) = cluster w"
  using cluster_Mark [of b d DeploymentStatusFailed "Error err" w] by (simp add: markFailed_def split_beta)

lemma cluster_EnqueueAfter: "cluster (snd (mq_EnqueueAfter j t w)) = cluster w"
  by (simp add: mq_EnqueueAfter_def stampCreated_def Now_def Let_def split_beta)

lemma cluster_Enqueue: "cluster (snd (mq_Enqueue j w)) = cluster w"
  by (simp add: mq_Enqueue_def stampCreated_def stampAvailable_def Now_def Let_def split_beta)

lemma cluster_ScheduleSync: "cluster (snd (sch_ScheduleSync (NewSchedulerService mq_queue) d w)) = cluster w"
  by (simp add: NewSchedulerService_def ScheduleSync_def mq_queue_def mq_scheduler_def newJob_def Let_def split_beta
      cluster_EnqueueAfter cluster_Now cluster_NewUUID)

lemma cluster_process:
  assumes q: "co_queue c = mq_queue" and h: "co_handlers c (job_Type j) = Some h" "h j w = (x, w1)" and run: "processJob c j w = (r, w')"
  shows "cluster w' = cluster w1"
proof -
  have a: "cluster (snd (ackJob c j w)) = cluster w" for w :: "('a, 'b) kube_world_scheme" and j
    using q by (simp add: ackJob_def mq_queue_def mq_Ack_def)
  have b: "cluster (snd (deadLetterJob c j m w)) = cluster w" for w :: "('a, 'b) kube_world_scheme" and j m
    using q by (simp add: deadLetterJob_def mq_queue_def mq_deadLetters_def mq_DeadLetter_def Let_def split_beta cluster_Now cluster_NewUUID)
  have "cluster (snd (retryJob c j e w1)) = cluster w1" for e
    using q
    by (simp add: a b cluster_EnqueueAfter retryJob_def bindE_def Let_def mq_queue_def mq_scheduler_def split_beta split: sum.split)
  then show ?thesis using h run a by (auto simp: processJob_def split: sum.splits if_splits)
qed

section \<open>Creating\<close>

lemma kube_backend_calls: "be_Submit (kube_backend K) = Submit K" "be_GetStatus (kube_backend K) = GetStatus K" "be_Delete (kube_backend K) = Delete K"
  by (simp_all add: kube_backend_def)

lemma Submit_status:
  assumes "Submit K app dep w = (Inr st, w')"
  shows "bs_Status st = DeploymentStatusProvisioning" "bs_Reason st = ''kubernetes resources applied, waiting for rollout''"
  using assms unfolding Submit_def Let_def bindE_def ret_def by (auto split: prod.splits sum.splits)

abbreviation create_handler :: "'c kube \<Rightarrow> ('c, 'z) kube_world_scheme DeploymentCreateHandler" where
  "create_handler K \<equiv> \<lparr>ch_apps = mem_apps, ch_deployments = mem_deployments, ch_backend = kube_backend K,
     ch_service = kube_service K, ch_scheduler = NewSchedulerService mq_queue\<rparr>"

abbreviation sync_handler :: "'c kube \<Rightarrow> ('c, 'z) kube_world_scheme DeploymentSyncHandler" where
  "sync_handler K \<equiv> \<lparr>sh_apps = mem_apps, sh_deployments = mem_deployments, sh_backend = kube_backend K,
     sh_scheduler = NewSchedulerService mq_queue, sh_service = kube_service K\<rparr>"

lemma Worker_handlers:
  "co_handlers (Worker K n b) JobTypeDeploymentCreate = Some (create_Handle (create_handler K))"
  "co_handlers (Worker K n b) JobTypeDeploymentSync = Some (sync_Handle (sync_handler K))"
  by (simp_all add: Worker_def Register_def NewConsumer_def Let_def)

lemma Worker_attempts: "co_maxAttempts (Worker K n b) = max 1 n"
  by (simp add: Worker_def Register_def NewConsumer_def Let_def max_def)

text \<open>
  The handler asks the cluster exactly once, for the deployment as it was marked before; then the deployment is marked with the answer and watched, or marked failed.
\<close>

lemma create_Handle_outcome:
  fixes w :: "('c, 'z) kube_world_scheme"
  assumes ok: "ok_view (mem_abs w)"
    and d: "v_deps (mem_abs w) (job_DeploymentID j) = Some d" "dep_TenantID d = job_TenantID j"
      "dep_Status d \<notin> {DeploymentStatusCancelled, DeploymentStatusDeleting, DeploymentStatusDeleted}"
    and a: "v_apps (mem_abs w) (job_AppID j) = Some a" "app_TenantID a = job_TenantID j"
    and run: "create_Handle (create_handler K) j w = (x, w')"
  shows "\<exists>t1 (w1 :: ('c, 'z) kube_world_scheme) s w2. let d1 = marked t1 DeploymentStatusProvisioning ''creating kubernetes resources'' d in
     cluster w1 = cluster w \<and> Submit K a d1 w1 = (s, w2) \<and> cluster w' = cluster w2 \<and>
     (case s of
        Inr st \<Rightarrow> x = Inr () \<and> (\<exists>t2 k. let d2 = marked t2 DeploymentStatusProvisioning ''kubernetes resources applied, waiting for rollout''
            (d1\<lparr>dep_BackendRef := bs_Ref st\<rparr>) in
          recorded d2 [(''provisioning'', ''creating kubernetes resources''), (''provisioning'', ''kubernetes resources applied, waiting for rollout'')]
            (mem_abs w) (mem_abs w') \<and> job_for JobTypeDeploymentSync d2 k \<and> mq_bag w' = b_enq k (mq_bag w))
      | Inl e \<Rightarrow> x = Inl e \<and> mq_bag w' = mq_bag w \<and>
          (if is_panic e then recorded d1 [(''provisioning'', ''creating kubernetes resources'')] (mem_abs w) (mem_abs w')
           else \<exists>t2. recorded (marked t2 DeploymentStatusFailed (Error e) d1)
             [(''provisioning'', ''creating kubernetes resources''), (''failed'', Error e)] (mem_abs w) (mem_abs w')))"
proof -
  let ?s = "kube_service K :: ('c, 'z) kube_world_scheme DeploymentService"
  have i: "dep_ID d = job_DeploymentID j" using ok d(1) by (simp add: ok_view_def)
  then have "recorded d [] (mem_abs w) (mem_abs w)" using d(1) by (intro recorded_Nil) simp
  then obtain t1 w1 where m1: "markE ?s d DeploymentStatusProvisioning ''creating kubernetes resources'' w =
      (Inr (marked t1 DeploymentStatusProvisioning ''creating kubernetes resources'' d), w1)"
    and r1: "recorded (marked t1 DeploymentStatusProvisioning ''creating kubernetes resources'' d)
      ([] @ [(status_string DeploymentStatusProvisioning, ''creating kubernetes resources'')]) (mem_abs w) (mem_abs w1)" "mq_bag w1 = mq_bag w"
    by (rule mem_markE) (rule refl)+
  define d1 where "d1 = marked t1 DeploymentStatusProvisioning ''creating kubernetes resources'' d"
  obtain s w2 where sub: "Submit K a d1 w1 = (s, w2)" by fastforce
  have f2: "mem_abs w2 = mem_abs w1" "mq_bag w2 = mq_bag w1"
    using khp.backend_frame(2) [of K a d1 w1 s w2] sub by (simp_all add: kube_backend_calls)
  have r2: "recorded d1 [(''provisioning'', ''creating kubernetes resources'')] (mem_abs w) (mem_abs w2)" "mq_bag w2 = mq_bag w"
    using r1 f2 by (simp_all add: d1_def)
  have c1: "cluster w1 = cluster w" using cluster_markE [of _ d DeploymentStatusProvisioning "''creating kubernetes resources''" w] m1 by (metis snd_conv)
  have go: "create_Handle (create_handler K) j w =
      catchE (Submit K a d1) (markFailed ?s d1) (\<lambda>status.
               bindE (markE ?s (d1\<lparr>dep_BackendRef := bs_Ref status\<rparr>) (bs_Status status) (bs_Reason status)) (\<lambda>deployment.
               bindE (if bs_Status status = DeploymentStatusRunning
                      then ar_Update mem_apps (a\<lparr>app_CurrentDeploymentID := dep_ID deployment\<rparr>)
                      else ret ()) (\<lambda>_.
               if bs_Status status = DeploymentStatusRunning \<or> bs_Status status = DeploymentStatusProvisioning
               then sch_ScheduleSync (NewSchedulerService mq_queue) deployment
               else ret ()))) w1"
    using d a m1 by (simp add: create_Handle_def bindE_def mem_get_dep mem_get_app d1_def kube_backend_calls cong: if_cong)
  show ?thesis
  proof (cases s)
    case (Inl e)
    show ?thesis
    proof (cases "is_panic e")
      case True
      then have "x = Inl e" "w' = w2" using go run sub Inl by (simp_all add: catchE_def)
      then show ?thesis
        using sub Inl True r2 c1 by (intro exI [of _ t1] exI [of _ w1] exI [of _ s] exI [of _ w2]) (simp add: Let_def d1_def)
    next
      case False
      obtain t2 w3 where m3: "markFailed ?s d1 e w2 = (Inl e, w3)"
        "recorded (marked t2 DeploymentStatusFailed (Error e) d1) ([(''provisioning'', ''creating kubernetes resources'')] @ [(''failed'', Error e)])
          (mem_abs w) (mem_abs w3)" "mq_bag w3 = mq_bag w2"
        by (rule mem_markFailed [OF r2(1)])
      have "x = Inl e" "w' = w3" using go run sub Inl False m3(1) by (simp_all add: catchE_def)
      moreover have "cluster w3 = cluster w2" using cluster_markFailed [of _ d1 e w2] m3(1) by (metis snd_conv)
      ultimately show ?thesis
        using sub Inl False r2(2) m3 c1 by (intro exI [of _ t1] exI [of _ w1] exI [of _ s] exI [of _ w2]) (auto simp: Let_def d1_def)
    qed
  next
    case (Inr st)
    let ?rsn = "''kubernetes resources applied, waiting for rollout''"
    note st = Submit_status [OF sub [unfolded Inr]]
    have same: "dep_ID (d1\<lparr>dep_BackendRef := bs_Ref st\<rparr>) = dep_ID d1" "dep_TenantID (d1\<lparr>dep_BackendRef := bs_Ref st\<rparr>) = dep_TenantID d1" by simp_all
    obtain t2 w3 where m3: "markE ?s (d1\<lparr>dep_BackendRef := bs_Ref st\<rparr>) DeploymentStatusProvisioning ?rsn w2 =
        (Inr (marked t2 DeploymentStatusProvisioning ?rsn (d1\<lparr>dep_BackendRef := bs_Ref st\<rparr>)), w3)"
      and r3: "recorded (marked t2 DeploymentStatusProvisioning ?rsn (d1\<lparr>dep_BackendRef := bs_Ref st\<rparr>))
        ([(''provisioning'', ''creating kubernetes resources'')] @ [(status_string DeploymentStatusProvisioning, ?rsn)]) (mem_abs w) (mem_abs w3)"
        "mq_bag w3 = mq_bag w2"
      by (rule mem_markE [OF r2(1) same])
    define d2 where "d2 = marked t2 DeploymentStatusProvisioning ?rsn (d1\<lparr>dep_BackendRef := bs_Ref st\<rparr>)"
    have "sch_ScheduleSync (NewSchedulerService mq_queue) d2 w3 = (x, w')"
      using go run sub Inr st m3 by (simp add: catchE_def bindE_def ret_def d2_def)
    note sync = mem_schedules(3) [OF this]
    have "cluster w3 = cluster w2" using cluster_markE m3 by (metis snd_conv)
    moreover have "cluster w' = cluster w3"
      using cluster_ScheduleSync \<open>sch_ScheduleSync (NewSchedulerService mq_queue) d2 w3 = (x, w')\<close> by (metis snd_conv)
    ultimately show ?thesis
      using sub Inr r2(2) r3 c1 sync unfolding queues_def
      by (intro exI [of _ t1] exI [of _ w1] exI [of _ s] exI [of _ w2]) (auto simp: Let_def d1_def [symmetric] d2_def intro!: exI [of _ t2])
  qed
qed

lemma create_job:
  fixes w :: "('c, 'z) kube_world_scheme"
  assumes "ok_view (mem_abs w)" and "job_Type j = JobTypeDeploymentCreate"
    and "v_deps (mem_abs w) (job_DeploymentID j) = Some d" "dep_TenantID d = job_TenantID j"
    and "dep_Status d \<notin> {DeploymentStatusCancelled, DeploymentStatusDeleting, DeploymentStatusDeleted}"
    and "v_apps (mem_abs w) (job_AppID j) = Some a" "app_TenantID a = job_TenantID j"
    and "processJob (Worker K n b) j w = (r, w')"
  shows "\<exists>t1 (w1 :: ('c, 'z) kube_world_scheme) s w2. let d1 = marked t1 DeploymentStatusProvisioning ''creating kubernetes resources'' d in
     cluster w1 = cluster w \<and> Submit K a d1 w1 = (s, w2) \<and> cluster w' = cluster w2 \<and>
     (case s of
        Inr st \<Rightarrow> r = Inr () \<and> (\<exists>t2 k. let d2 = marked t2 DeploymentStatusProvisioning ''kubernetes resources applied, waiting for rollout''
            (d1\<lparr>dep_BackendRef := bs_Ref st\<rparr>) in
          recorded d2 [(''provisioning'', ''creating kubernetes resources''), (''provisioning'', ''kubernetes resources applied, waiting for rollout'')]
            (mem_abs w) (mem_abs w') \<and> job_for JobTypeDeploymentSync d2 k \<and> mq_bag w' = b_ack j (b_enq k (mq_bag w)))
      | Inl e \<Rightarrow>
          if is_panic e
          then r = Inl e \<and> recorded d1 [(''provisioning'', ''creating kubernetes resources'')] (mem_abs w) (mem_abs w') \<and> mq_bag w' = mq_bag w
          else r = Inr () \<and> retried (max 1 n) j e (mq_bag w) (mq_bag w') \<and>
            (\<exists>t2. recorded (marked t2 DeploymentStatusFailed (Error e) d1)
               [(''provisioning'', ''creating kubernetes resources''), (''failed'', Error e)] (mem_abs w) (mem_abs w')))"
    (is "\<exists>t1 w1 s w2. ?P t1 w1 s w2")
proof -
  obtain x wh where h: "create_Handle (create_handler K) j w = (x, wh)" by fastforce
  have w: "co_handlers (Worker K n b) (job_Type j) = Some (create_Handle (create_handler K))" using assms(2) by (simp add: Worker_handlers)
  note p = process_outcome [OF Worker_queue w h assms(8), unfolded Worker_attempts] cluster_process [OF Worker_queue w h assms(8)]
  from create_Handle_outcome [OF assms(1,3-7) h] obtain t1 and w1 :: "('c, 'z) kube_world_scheme" and s w2 where o:
    "let d1 = marked t1 DeploymentStatusProvisioning ''creating kubernetes resources'' d in
     cluster w1 = cluster w \<and> Submit K a d1 w1 = (s, w2) \<and> cluster wh = cluster w2 \<and>
     (case s of
        Inr st \<Rightarrow> x = Inr () \<and> (\<exists>t2 k. let d2 = marked t2 DeploymentStatusProvisioning ''kubernetes resources applied, waiting for rollout''
            (d1\<lparr>dep_BackendRef := bs_Ref st\<rparr>) in
          recorded d2 [(''provisioning'', ''creating kubernetes resources''), (''provisioning'', ''kubernetes resources applied, waiting for rollout'')]
            (mem_abs w) (mem_abs wh) \<and> job_for JobTypeDeploymentSync d2 k \<and> mq_bag wh = b_enq k (mq_bag w))
      | Inl e \<Rightarrow> x = Inl e \<and> mq_bag wh = mq_bag w \<and>
          (if is_panic e then recorded d1 [(''provisioning'', ''creating kubernetes resources'')] (mem_abs w) (mem_abs wh)
           else \<exists>t2. recorded (marked t2 DeploymentStatusFailed (Error e) d1)
             [(''provisioning'', ''creating kubernetes resources''), (''failed'', Error e)] (mem_abs w) (mem_abs wh)))"
    by blast
  show ?thesis
  proof (rule exI [of _ t1], rule exI [of _ w1], rule exI [of _ s], rule exI [of _ w2], cases s)
    case (Inl e)
    with o p show "?P t1 w1 s w2" by (cases "is_panic e") (simp_all add: Let_def)
  next
    case (Inr st)
    define d2 where "d2 t2 = marked t2 DeploymentStatusProvisioning ''kubernetes resources applied, waiting for rollout''
      ((marked t1 DeploymentStatusProvisioning ''creating kubernetes resources'' d)\<lparr>dep_BackendRef := bs_Ref st\<rparr>)" for t2
    from o Inr obtain t2 k where "recorded (d2 t2) [(''provisioning'', ''creating kubernetes resources''),
        (''provisioning'', ''kubernetes resources applied, waiting for rollout'')] (mem_abs w) (mem_abs wh)"
      "job_for JobTypeDeploymentSync (d2 t2) k" "mq_bag wh = b_enq k (mq_bag w)" by (auto simp: Let_def d2_def)
    then have "\<exists>t2 k. recorded (d2 t2) [(''provisioning'', ''creating kubernetes resources''),
        (''provisioning'', ''kubernetes resources applied, waiting for rollout'')] (mem_abs w) (mem_abs w') \<and>
        job_for JobTypeDeploymentSync (d2 t2) k \<and> mq_bag w' = b_ack j (b_enq k (mq_bag w))"
      using o p Inr by (intro exI [of _ t2] exI [of _ k]) (simp add: Let_def)
    with o p Inr show "?P t1 w1 s w2" by (simp add: Let_def d2_def)
  qed
qed



section \<open>Watching\<close>

lemma GetStatus_range:
  assumes "GetStatus K ref w = (Inr st, w')"
  shows "bs_Status st \<in> {DeploymentStatusRunning, DeploymentStatusFailed, DeploymentStatusProvisioning, DeploymentStatusDegraded}"
  using assms
  by (auto simp: GetStatus_def catchE_def ret_def fail_def mapDeploymentStatus_def Let_def split: prod.splits sum.splits if_splits option.splits)

text \<open>What a report of the cluster about the deployment \<open>d\<close> of the app \<open>a\<close> leads to.\<close>

definition made_current :: "App \<Rightarrow> Deployment \<Rightarrow> view \<Rightarrow> view" where
  "made_current a d v = (if app_CurrentDeploymentID a = dep_ID d then v else put_app (a\<lparr>app_CurrentDeploymentID := dep_ID d\<rparr>) v)"

definition synced :: "App \<Rightarrow> Deployment \<Rightarrow> BackendStatus \<Rightarrow> view \<Rightarrow> bag \<Rightarrow> view \<Rightarrow> bag \<Rightarrow> bool" where
  "synced a d st v b v' b' \<longleftrightarrow>
     (let policy = normalizeReliability (cfg_Reliability (dep_ConfigSnapshot d)); reason = bs_Reason st
      in case bs_Status st of
           DeploymentStatusRunning \<Rightarrow>
             \<exists>t v1. recorded (marked t DeploymentStatusRunning reason d) [(''running'', reason)] v v1 \<and> v' = made_current a d v1 \<and> b' = b
         | DeploymentStatusFailed \<Rightarrow>
             \<exists>d'. repaired d d' \<and>
               (if \<not> rel_AutoRepair policy
                then dep_Status d' = DeploymentStatusFailed \<and> recorded d' [(''failed'', reason)] v v' \<and> b' = b
                else if dep_RepairAttempts d \<ge> rel_MaxRepairAttempts policy
                then dep_Status d' = DeploymentStatusFailed \<and> recorded d' [(''failed'', ''auto-repair limit reached: '' @ reason)] v v' \<and> b' = b
                else dep_Status d' = DeploymentStatusRecovering \<and> dep_RepairAttempts d' = dep_RepairAttempts d + 1 \<and>
                  recorded d' [(''auto_repair_queued'', ''auto-repair queued: '' @ reason)] v v' \<and> queues JobTypeDeploymentCreate d' b b')
         | s \<Rightarrow>
             \<exists>t. recorded (marked t s reason d) [(status_string s, reason)] v v' \<and> queues JobTypeDeploymentSync d b b')"

lemma queues_marked: "queues typ (marked t st rsn d) b b' \<longleftrightarrow> queues typ d b b'"
  by (simp add: queues_def job_for_def)

lemma mem_update_app:
  "v_apps (mem_abs w) (app_ID a) \<noteq> None \<Longrightarrow>
    ar_Update mem_apps a w = (Inr (), w\<lparr>store := (store w)\<lparr>apps := AList.update (app_ID a) a (apps (store w))\<rparr>\<rparr>) \<and>
    mem_abs (w\<lparr>store := (store w)\<lparr>apps := AList.update (app_ID a) a (apps (store w))\<rparr>\<rparr>) = put_app a (mem_abs w)"
  by (auto simp: mem_apps_def mem_App_Update_def mem_abs_def put_app_def update_conv' event_list_def)

lemma sync_apply_outcome:
  fixes w :: "('c, 'z) kube_world_scheme"
  assumes rec: "recorded d0 [] v (mem_abs w)" "dep_ID d = dep_ID d0" "dep_TenantID d = dep_TenantID d0"
    and st: "bs_Status st \<in> {DeploymentStatusRunning, DeploymentStatusFailed, DeploymentStatusProvisioning, DeploymentStatusDegraded}"
    and a: "v_apps v (job_AppID j) = Some a" "app_ID a = job_AppID j" "app_TenantID a = job_TenantID j"
  obtains t and w1 w' :: "('c, 'z) kube_world_scheme" where "sync_apply (sync_handler K) j st d w = (Inr (), w')" "cluster w' = cluster w"
    "recorded (marked t (bs_Status st) (bs_Reason st) d) [(status_string (bs_Status st), bs_Reason st)] v (mem_abs w1)" "mq_bag w1 = mq_bag w"
    "mem_abs w' = (if bs_Status st = DeploymentStatusRunning then made_current a d (mem_abs w1) else mem_abs w1)"
    "if bs_Status st \<in> {DeploymentStatusProvisioning, DeploymentStatusDegraded} then queues JobTypeDeploymentSync d (mq_bag w) (mq_bag w')
     else mq_bag w' = mq_bag w"
proof -
  let ?s = "kube_service K :: ('c, 'z) kube_world_scheme DeploymentService"
  obtain t w1 where m: "markE ?s d (bs_Status st) (bs_Reason st) w = (Inr (marked t (bs_Status st) (bs_Reason st) d), w1)"
    and r: "recorded (marked t (bs_Status st) (bs_Reason st) d) ([] @ [(status_string (bs_Status st), bs_Reason st)]) v (mem_abs w1)" "mq_bag w1 = mq_bag w"
    by (rule mem_markE [OF rec])
  have c: "cluster w1 = cluster w" using cluster_markE m by (metis snd_conv)
  have app: "v_apps (mem_abs w1) (job_AppID j) = Some a" using recorded_simps(2) [OF r(1)] a(1) by simp
  show ?thesis
  proof (cases "bs_Status st \<in> {DeploymentStatusProvisioning, DeploymentStatusDegraded}")
    case True
    obtain x w' where s: "sch_ScheduleSync (NewSchedulerService mq_queue) (marked t (bs_Status st) (bs_Reason st) d) w1 = (x, w')" by fastforce
    have "cluster w' = cluster w1" using cluster_ScheduleSync s by (metis snd_conv)
    with mem_schedules(3) [OF s] True m r s c show ?thesis
      by (intro that [of w' t w1]) (auto simp: sync_apply_def bindE_def queues_marked)
  next
    case False
    show ?thesis
    proof (cases "bs_Status st = DeploymentStatusRunning \<and> app_CurrentDeploymentID a \<noteq> dep_ID d")
      case True
      define a' where "a' = a\<lparr>app_CurrentDeploymentID := dep_ID d\<rparr>"
      have "v_apps (mem_abs w1) (app_ID a') \<noteq> None" using app a(2) by (simp add: a'_def)
      from mem_update_app [OF this] obtain w2 where up: "ar_Update mem_apps a' w1 = (Inr (), w2)" "mem_abs w2 = put_app a' (mem_abs w1)"
        and "cluster w2 = cluster w1" "mq_bag w2 = mq_bag w1" by (simp add: mq_bag_def)
      then show ?thesis
        using True m r c app a(3)
        by (intro that [of w2 t w1]) (simp_all add: sync_apply_def bindE_def mem_get_app made_current_def a'_def del: mem_abs_simps)
    next
      case other: False
      with False st have "bs_Status st = DeploymentStatusRunning \<Longrightarrow> app_CurrentDeploymentID a = dep_ID d"
        "bs_Status st = DeploymentStatusRunning \<or> bs_Status st = DeploymentStatusFailed" by auto
      then show ?thesis
        using m r c app a
        by (intro that [of w1 t w1]) (auto simp: sync_apply_def bindE_def ret_def mem_get_app made_current_def)
    qed
  qed
qed

text \<open>Auto-repair on the memory store.\<close>

lemma cluster_repair: "cluster (snd (QueueAutoRepair (mem_DeploymentService b) d rsn w)) = cluster w"
  by (simp add: QueueAutoRepair_def Let_def split_beta cluster_Mark bindE_def mem_service_simps mem_deployments_def mem_Dep_Update_def mem_event_ok
      newEvent_def newJob_def NewSchedulerService_def ScheduleDeployment_def mq_queue_def cluster_Enqueue cluster_Now cluster_NewUUID
      split: sum.split option.split)

lemma mem_repair_outcome:
  assumes rec: "recorded d0 [] v (mem_abs w)" "dep_ID d = dep_ID d0" "dep_TenantID d = dep_TenantID d0"
    and run: "QueueAutoRepair (mem_DeploymentService b) d rsn w = ((r, d'), w')"
    and pol: "pol = normalizeReliability (cfg_Reliability (dep_ConfigSnapshot d))"
  shows "repaired d d'"
    and "if \<not> rel_AutoRepair pol then r = Inl ErrValidation \<and> w' = w \<and> dep_RepairAttempts d' = dep_RepairAttempts d
      else if dep_RepairAttempts d \<ge> rel_MaxRepairAttempts pol
      then r = Inr () \<and> dep_Status d' = DeploymentStatusFailed \<and>
        recorded d' [(''failed'', ''auto-repair limit reached: '' @ rsn)] v (mem_abs w') \<and> mq_bag w' = mq_bag w
      else r = Inr () \<and> dep_Status d' = DeploymentStatusRecovering \<and> dep_RepairAttempts d' = dep_RepairAttempts d + 1 \<and>
        recorded d' [(''auto_repair_queued'', ''auto-repair queued: '' @ rsn)] v (mem_abs w') \<and>
        queues JobTypeDeploymentCreate d' (mq_bag w) (mq_bag w')"
proof -
  note view = mem_repair [OF run]
  then show d': "repaired d d'" by blast
  have i: "v_deps (mem_abs w) (dep_ID d) \<noteq> None" using recorded_simps(1) [OF rec(1)] rec(2) by simp
  have max: "\<not> rel_MaxRepairAttempts pol \<le> 0" using normalizeReliability_wf [of "cfg_Reliability (dep_ConfigSnapshot d)"] by (simp add: pol wf_policy_def)
  have same: "dep_ID d' = dep_ID d0" "dep_TenantID d' = dep_TenantID d0" using d' rec(2,3) by (simp_all add: repaired_def)
  note keep = recorded_logged [OF rec(1) _ same]
  consider (off) "\<not> rel_AutoRepair pol"
    | (limit) "rel_AutoRepair pol" "dep_RepairAttempts d \<ge> rel_MaxRepairAttempts pol"
    | (go) "rel_AutoRepair pol" "dep_RepairAttempts d < rel_MaxRepairAttempts pol" by linarith
  then show "if \<not> rel_AutoRepair pol then r = Inl ErrValidation \<and> w' = w \<and> dep_RepairAttempts d' = dep_RepairAttempts d
      else if dep_RepairAttempts d \<ge> rel_MaxRepairAttempts pol
      then r = Inr () \<and> dep_Status d' = DeploymentStatusFailed \<and>
        recorded d' [(''failed'', ''auto-repair limit reached: '' @ rsn)] v (mem_abs w') \<and> mq_bag w' = mq_bag w
      else r = Inr () \<and> dep_Status d' = DeploymentStatusRecovering \<and> dep_RepairAttempts d' = dep_RepairAttempts d + 1 \<and>
        recorded d' [(''auto_repair_queued'', ''auto-repair queued: '' @ rsn)] v (mem_abs w') \<and>
        queues JobTypeDeploymentCreate d' (mq_bag w) (mq_bag w')"
  proof cases
    case off
    then show ?thesis using run by (auto simp: QueueAutoRepair_def pol [symmetric] Let_def)
  next
    case limit
    define d1 where "d1 = d\<lparr>dep_ConfigSnapshot := (dep_ConfigSnapshot d)
      \<lparr>cfg_Reliability := (cfg_Reliability (dep_ConfigSnapshot d))\<lparr>rel_FallbackProviders := rel_FallbackProviders pol\<rparr>\<rparr>\<rparr>"
    have m: "MarkDeploymentStatus (mem_DeploymentService b) d1 DeploymentStatusFailed (''auto-repair limit reached: '' @ rsn) w = ((r, d'), w')"
      using run limit max by (simp add: QueueAutoRepair_def pol [symmetric] d1_def)
    have "v_deps (mem_abs w) (dep_ID d1) \<noteq> None" using i by (simp add: d1_def)
    then have "r = Inr ()" using mem_mark_ok [of w d1 b DeploymentStatusFailed "''auto-repair limit reached: '' @ rsn"] m by simp
    moreover from this have "logged d' ''failed'' (''auto-repair limit reached: '' @ rsn) (mem_abs w) (mem_abs w')" "mq_bag w' = mq_bag w"
      "dep_Status d' = DeploymentStatusFailed" using mem_mark [OF m] by auto
    ultimately show ?thesis using limit keep by (simp add: not_less)
  next
    case go
    obtain now w1 where n: "Now w = (now, w1)" by fastforce
    define d2 where "d2 = (d\<lparr>dep_ConfigSnapshot := (dep_ConfigSnapshot d)
      \<lparr>cfg_Reliability := (cfg_Reliability (dep_ConfigSnapshot d))\<lparr>rel_FallbackProviders := rel_FallbackProviders pol\<rparr>\<rparr>\<rparr>)
      \<lparr>dep_RepairAttempts := dep_RepairAttempts d + 1, dep_Status := DeploymentStatusRecovering,
       dep_StatusReason := ''auto-repair queued: '' @ rsn, dep_FinishedAt := None, dep_UpdatedAt := now\<rparr>"
    have "v_deps (mem_abs w1) (dep_ID d2) \<noteq> None" using i mcp.now_frame [OF n] by (simp add: d2_def)
    note tail = mem_tail_ok [where put = "dr_Update mem_deployments d2" and mk = "newEvent d2 ''auto_repair_queued'' (''auto-repair queued: '' @ rsn) now"
        and d = d2, OF mem_update_ok [OF this]]
    have "QueueAutoRepair (mem_DeploymentService b) d rsn w =
        (case bindE (dr_Update mem_deployments d2) (\<lambda>_ w. case newEvent d2 ''auto_repair_queued'' (''auto-repair queued: '' @ rsn) now w of (e, w) \<Rightarrow>
           bindE (er_Create mem_events e) (\<lambda>_. sch_ScheduleDeployment (NewSchedulerService mq_queue) d2) w) w1 of (r, w) \<Rightarrow> ((r, d2), w))"
      using go max n by (simp add: QueueAutoRepair_def pol [symmetric] mem_service_simps d2_def Let_def)
    then have "r = Inr ()" "d' = d2" using tail run by (auto split: prod.splits)
    then have "r = Inr ()" "dep_Status d' = DeploymentStatusRecovering" by (simp_all add: d2_def)
    then show ?thesis using go view keep by auto
  qed
qed

lemma sync_Handle_outcome:
  fixes w :: "('c, 'z) kube_world_scheme"
  assumes ok: "ok_view (mem_abs w)"
    and d: "v_deps (mem_abs w) (job_DeploymentID j) = Some d" "dep_TenantID d = job_TenantID j"
      "dep_Status d \<notin> {DeploymentStatusCancelled, DeploymentStatusDeleted}"
    and a: "v_apps (mem_abs w) (job_AppID j) = Some a" "app_TenantID a = job_TenantID j"
    and run: "sync_Handle (sync_handler K) j w = (x, w')" and ask: "GetStatus K (dep_BackendRef d) w = (s, w1)"
  shows "cluster w' = cluster w1"
    and "case s of Inl e \<Rightarrow> x = Inl e \<and> mem_abs w' = mem_abs w \<and> mq_bag w' = mq_bag w
      | Inr st \<Rightarrow> x = Inr () \<and> synced a (d\<lparr>dep_BackendRef := bs_Ref st\<rparr>) st (mem_abs w) (mq_bag w) (mem_abs w') (mq_bag w')"
proof -
  have ids: "dep_ID d = job_DeploymentID j" "app_ID a = job_AppID j" using ok d(1) a(1) by (simp_all add: ok_view_def)
  have f: "mem_abs w1 = mem_abs w" "mq_bag w1 = mq_bag w"
    using khp.backend_frame(4) [of K "dep_BackendRef d" w s w1] ask by (simp_all add: kube_backend_calls)
  have rec: "recorded d [] (mem_abs w) (mem_abs w1)" using d(1) ids f by (simp add: recorded_Nil)
  have main: "cluster w' = cluster w1 \<and> (case s of Inl e \<Rightarrow> x = Inl e \<and> mem_abs w' = mem_abs w \<and> mq_bag w' = mq_bag w
      | Inr st \<Rightarrow> x = Inr () \<and> synced a (d\<lparr>dep_BackendRef := bs_Ref st\<rparr>) st (mem_abs w) (mq_bag w) (mem_abs w') (mq_bag w'))"
  proof (cases s)
    case (Inl e)
    then show ?thesis using run ask f d by (auto simp: sync_Handle_def bindE_def mem_get_dep kube_backend_calls)
  next
    case (Inr st)
    define d1 where "d1 = d\<lparr>dep_BackendRef := bs_Ref st\<rparr>"
    have same: "dep_ID d1 = dep_ID d" "dep_TenantID d1 = dep_TenantID d" by (simp_all add: d1_def)
    note range = GetStatus_range [OF ask [unfolded Inr]]
    note ao = sync_apply_outcome [OF rec _ _ range a(1) ids(2) a(2), where K = K, unfolded f]
    have go: "sync_Handle (sync_handler K) j w =
        (if bs_Status st = DeploymentStatusFailed
         then case QueueAutoRepair (kube_service K) d1 (bs_Reason st) w1 of
                ((Inr _, _), w) \<Rightarrow> (Inr (), w)
              | ((Inl _, deployment), w) \<Rightarrow> sync_apply (sync_handler K) j st deployment w
         else sync_apply (sync_handler K) j st d1 w1)"
      using ask Inr d by (simp add: sync_Handle_def bindE_def mem_get_dep kube_backend_calls d1_def Let_def)
    have "cluster w' = cluster w1 \<and> x = Inr () \<and> synced a d1 st (mem_abs w) (mq_bag w) (mem_abs w') (mq_bag w')"
    proof (cases "bs_Status st = DeploymentStatusFailed")
      case False
      obtain t and w2 wa :: "('c, 'z) kube_world_scheme" where s: "sync_apply (sync_handler K) j st d1 w1 = (Inr (), wa)" "cluster wa = cluster w1"
        "recorded (marked t (bs_Status st) (bs_Reason st) d1) [(status_string (bs_Status st), bs_Reason st)] (mem_abs w) (mem_abs w2)"
        "mem_abs wa = (if bs_Status st = DeploymentStatusRunning then made_current a d1 (mem_abs w2) else mem_abs w2)"
        "if bs_Status st \<in> {DeploymentStatusProvisioning, DeploymentStatusDegraded} then queues JobTypeDeploymentSync d1 (mq_bag w) (mq_bag wa)
        else mq_bag wa = mq_bag w"
        by (rule ao [OF same])
      then show ?thesis using go run False range by (auto simp: synced_def Let_def) blast
    next
      case True
      obtain r2 d2 w2 where q: "QueueAutoRepair (kube_service K) d1 (bs_Reason st) w1 = ((r2, d2), w2)" by (metis surj_pair)
      note out = mem_repair_outcome [OF rec same q refl]
      have c: "cluster w2 = cluster w1" using cluster_repair q by (metis snd_conv)
      show ?thesis
      proof (cases r2)
        case (Inr y)
        with True go run q c out f show ?thesis by (auto simp: synced_def Let_def split: if_splits)
      next
        case (Inl e)
        then have off: "\<not> rel_AutoRepair (normalizeReliability (cfg_Reliability (dep_ConfigSnapshot d1)))" "w2 = w1"
          using out(2) by (auto split: if_splits)
        have ids2: "dep_ID d2 = dep_ID d" "dep_TenantID d2 = dep_TenantID d" using out(1) same by (simp_all add: repaired_def)
        obtain t and w3 wa :: "('c, 'z) kube_world_scheme" where s: "sync_apply (sync_handler K) j st d2 w1 = (Inr (), wa)" "cluster wa = cluster w1"
          "recorded (marked t (bs_Status st) (bs_Reason st) d2) [(status_string (bs_Status st), bs_Reason st)] (mem_abs w) (mem_abs w3)"
          "mem_abs wa = (if bs_Status st = DeploymentStatusRunning then made_current a d2 (mem_abs w3) else mem_abs w3)"
          "if bs_Status st \<in> {DeploymentStatusProvisioning, DeploymentStatusDegraded} then queues JobTypeDeploymentSync d2 (mq_bag w) (mq_bag wa)
          else mq_bag wa = mq_bag w"
          by (rule ao [OF ids2])
        have "repaired d1 (marked t DeploymentStatusFailed (bs_Reason st) d2)"
          using out off Inl by (simp add: repaired_def)
        then show ?thesis
          using go run q Inl off True s by (auto simp: synced_def Let_def intro!: exI [of _ "marked t DeploymentStatusFailed (bs_Reason st) d2"])
      qed
    qed
    then show ?thesis using Inr by (simp add: d1_def)
  qed
  then show "cluster w' = cluster w1" by simp
  from main show "case s of Inl e \<Rightarrow> x = Inl e \<and> mem_abs w' = mem_abs w \<and> mq_bag w' = mq_bag w
      | Inr st \<Rightarrow> x = Inr () \<and> synced a (d\<lparr>dep_BackendRef := bs_Ref st\<rparr>) st (mem_abs w) (mq_bag w) (mem_abs w') (mq_bag w')" by simp
qed

lemma sync_job:
  fixes w :: "('c, 'z) kube_world_scheme"
  assumes "ok_view (mem_abs w)" and "job_Type j = JobTypeDeploymentSync"
    and "v_deps (mem_abs w) (job_DeploymentID j) = Some d" "dep_TenantID d = job_TenantID j"
    and "dep_Status d \<notin> {DeploymentStatusCancelled, DeploymentStatusDeleted}"
    and "v_apps (mem_abs w) (job_AppID j) = Some a" "app_TenantID a = job_TenantID j"
    and "processJob (Worker K n b) j w = (r, w')" and "GetStatus K (dep_BackendRef d) w = (s, w1)"
  shows "cluster w' = cluster w1 \<and>
    (case s of
       Inr st \<Rightarrow> r = Inr () \<and> (\<exists>b1. synced a (d\<lparr>dep_BackendRef := bs_Ref st\<rparr>) st (mem_abs w) (mq_bag w) (mem_abs w') b1 \<and> mq_bag w' = b_ack j b1)
     | Inl e \<Rightarrow> mem_abs w' = mem_abs w \<and>
         (if is_panic e then r = Inl e \<and> mq_bag w' = mq_bag w else r = Inr () \<and> retried (max 1 n) j e (mq_bag w) (mq_bag w')))"
proof -
  obtain x wh where h: "sync_Handle (sync_handler K) j w = (x, wh)" by fastforce
  have w: "co_handlers (Worker K n b) (job_Type j) = Some (sync_Handle (sync_handler K))" using assms(2) by (simp add: Worker_handlers)
  from process_outcome [OF Worker_queue w h assms(8), unfolded Worker_attempts] cluster_process [OF Worker_queue w h assms(8)]
    sync_Handle_outcome [OF assms(1,3-7) h assms(9)]
  show ?thesis by (cases s) auto
qed

text \<open>
  C7: What a job to watch a deployment achieves. The cluster is asked for the status of the resources the deployment refers to, and nothing else is asked of it. A running
  deployment is recorded as such and becomes the current one of its app, and watching ends. One that is still rolling out or degraded is recorded and watched on. A failed
  one is repaired while its policy and its attempts allow it, by a job that creates it again, and otherwise recorded as failed. When the cluster cannot be asked,
  nothing is recorded and the job is retried or a dead letter. The job is done in every other case, one event is recorded, and no other record changes.
\<close>

theorem sync_job_outcome:
  fixes w :: "('c, 'z) kube_world_scheme"
  assumes "ok_view (mem_abs w)" and "job_Type j = JobTypeDeploymentSync"
    and "v_deps (mem_abs w) (job_DeploymentID j) = Some d" "dep_TenantID d = job_TenantID j"
    and "dep_Status d \<notin> {DeploymentStatusCancelled, DeploymentStatusDeleted}"
    and "v_apps (mem_abs w) (job_AppID j) = Some a" "app_TenantID a = job_TenantID j"
    and "processJob (Worker K n b) j w = (r, w')" and "GetStatus K (dep_BackendRef d) w = (s, w1)"
  shows "cluster w' = cluster w1 \<and>
    (case s of
       Inr st \<Rightarrow> r = Inr () \<and> (\<exists>b1. synced a (d\<lparr>dep_BackendRef := bs_Ref st\<rparr>) st (mem_abs w) (mq_bag w) (mem_abs w') b1 \<and> mq_bag w' = b_ack j b1)
     | Inl e \<Rightarrow> mem_abs w' = mem_abs w \<and>
         (if is_panic e then r = Inl e \<and> mq_bag w' = mq_bag w else r = Inr () \<and> retried (max 1 n) j e (mq_bag w) (mq_bag w')))"
  by (rule sync_job [OF assms])


section \<open>From the request to the running deployment\<close>

lemma job_for_core: "job_core j = job_core k \<Longrightarrow> job_for typ d j \<longleftrightarrow> job_for typ d k"
proof -
  assume c: "job_core j = job_core k"
  have "job_Type j = job_Type k" "job_TenantID j = job_TenantID k" "job_AppID j = job_AppID k" "job_DeploymentID j = job_DeploymentID k"
    "job_Attempts j = job_Attempts k"
    using arg_cong [OF c, of job_Type] arg_cong [OF c, of job_TenantID] arg_cong [OF c, of job_AppID] arg_cong [OF c, of job_DeploymentID]
      arg_cong [OF c, of job_Attempts] by (simp_all add: job_core_def)
  then show ?thesis by (simp add: job_for_def)
qed

text \<open>Taking the only job there is.\<close>

lemma take_only:
  fixes w :: "'a store_world_scheme"
  assumes deq: "mq_Dequeue w = Some (Inr j, w')" and b: "live (mq_bag w) = {#job_core k#}" and k: "job_for typ d k"
  shows "job_for typ d j" "live (mq_bag w') = {#}" "graves (mq_bag w') = graves (mq_bag w)" "mem_abs w' = mem_abs w"
proof -
  have "jq_Dequeue mq_queue w = Some (Inr j, w')" using deq by (simp add: mq_queue_def)
  note d = mqi.dequeue_job [OF this]
  then have "job_core j = job_core k" using b by simp
  then show "job_for typ d j" using k job_for_core by blast
  show "live (mq_bag w') = {#}" "graves (mq_bag w') = graves (mq_bag w)" using d b by (simp_all add: b_lease_def)
  show "mem_abs w' = mem_abs w" using mem_abs_store [OF store_Dequeue [OF deq]] by simp
qed

lemma ok_view_recorded: "ok_view v \<Longrightarrow> recorded d log v v' \<Longrightarrow> ok_view v'"
  by (auto simp: ok_view_def recorded_def split: if_splits)

text \<open>A job on a cluster that does its part.\<close>

definition same_request :: "Deployment \<Rightarrow> Deployment \<Rightarrow> bool" where
  "same_request d' d \<longleftrightarrow> dep_ID d' = dep_ID d \<and> dep_TenantID d' = dep_TenantID d \<and> dep_AppID d' = dep_AppID d \<and>
     dep_Version d' = dep_Version d \<and> dep_ConfigSnapshot d' = dep_ConfigSnapshot d"

lemma create_job_accepted:
  fixes w :: "('c, 'z) kube_world_scheme"
  assumes "ok_view (mem_abs w)" and "job_Type j = JobTypeDeploymentCreate"
    and "v_deps (mem_abs w) (job_DeploymentID j) = Some d" "dep_TenantID d = job_TenantID j"
    and "dep_Status d \<notin> {DeploymentStatusCancelled, DeploymentStatusDeleting, DeploymentStatusDeleted}"
    and "v_apps (mem_abs w) (job_AppID j) = Some a" "app_TenantID a = job_TenantID j"
    and "processJob (Worker K n b) j w = (r, w')"
    and accepts: "\<And>d (w :: ('c, 'z) kube_world_scheme). \<exists>st w'. Submit K a d w = (Inr st, w')"
  obtains d' k log where "r = Inr ()" "recorded d' log (mem_abs w) (mem_abs w')" "same_request d' d" "dep_Status d' = DeploymentStatusProvisioning"
    "job_for JobTypeDeploymentSync d' k" "mq_bag w' = b_ack j (b_enq k (mq_bag w))"
proof -
  let ?d1 = "\<lambda>t. marked t DeploymentStatusProvisioning ''creating kubernetes resources'' d"
  from create_job [OF assms(1-8)] obtain t and w1 :: "('c, 'z) kube_world_scheme" and s w2 where s: "Submit K a (?d1 t) w1 = (s, w2)"
    and "case s of Inl e \<Rightarrow> True | Inr st \<Rightarrow> r = Inr () \<and> (\<exists>t2 k. let d2 = marked t2 DeploymentStatusProvisioning
        ''kubernetes resources applied, waiting for rollout'' ((?d1 t)\<lparr>dep_BackendRef := bs_Ref st\<rparr>) in
          recorded d2 [(''provisioning'', ''creating kubernetes resources''), (''provisioning'', ''kubernetes resources applied, waiting for rollout'')]
            (mem_abs w) (mem_abs w') \<and> job_for JobTypeDeploymentSync d2 k \<and> mq_bag w' = b_ack j (b_enq k (mq_bag w)))"
    unfolding Let_def by (elim exE conjE) (simp split: sum.splits)
  moreover obtain st where "s = Inr st" using accepts [of "?d1 t" w1] s by auto
  ultimately show ?thesis by (auto simp: Let_def same_request_def intro: that)
qed

lemma sync_job_running:
  fixes w :: "('c, 'z) kube_world_scheme"
  assumes ok: "ok_view (mem_abs w)" and "job_Type j = JobTypeDeploymentSync"
    and "v_deps (mem_abs w) (job_DeploymentID j) = Some d" "dep_TenantID d = job_TenantID j"
    and "dep_Status d \<notin> {DeploymentStatusCancelled, DeploymentStatusDeleted}"
    and app: "v_apps (mem_abs w) (job_AppID j) = Some a" "app_TenantID a = job_TenantID j"
    and "processJob (Worker K n b) j w = (r, w')"
    and ready: "\<exists>st w1. GetStatus K (dep_BackendRef d) w = (Inr st, w1) \<and> bs_Status st = DeploymentStatusRunning"
  obtains d' where "r = Inr ()" "same_request d' d" "dep_Status d' = DeploymentStatusRunning" "v_deps (mem_abs w') (dep_ID d) = Some d'"
    "v_apps (mem_abs w') = (v_apps (mem_abs w))(job_AppID j \<mapsto> a\<lparr>app_CurrentDeploymentID := dep_ID d\<rparr>)" "mq_bag w' = b_ack j (mq_bag w)"
proof -
  have aid: "app_ID a = job_AppID j" using ok app(1) by (simp add: ok_view_def)
  obtain st w1 where st: "GetStatus K (dep_BackendRef d) w = (Inr st, w1)" "bs_Status st = DeploymentStatusRunning" using ready by blast
  define d1 where "d1 = d\<lparr>dep_BackendRef := bs_Ref st\<rparr>"
  from sync_job [OF assms(1-8) st(1)] st(2) obtain t v1 where r: "r = Inr ()" "mq_bag w' = b_ack j (mq_bag w)"
    and rec: "recorded (marked t DeploymentStatusRunning (bs_Reason st) d1) [(''running'', bs_Reason st)] (mem_abs w) v1"
    and v: "mem_abs w' = made_current a d1 v1"
    by (auto simp: synced_def Let_def d1_def)
  have "v_apps (mem_abs w') = (v_apps (mem_abs w))(job_AppID j \<mapsto> a\<lparr>app_CurrentDeploymentID := dep_ID d\<rparr>)"
    unfolding v made_current_def using recorded_simps(2) [OF rec] app(1) aid by (auto simp: d1_def fun_upd_idem)
  moreover have "v_deps (mem_abs w') (dep_ID d) = Some (marked t DeploymentStatusRunning (bs_Reason st) d1)"
    unfolding v made_current_def using recorded_simps(1) [OF rec] by (simp add: d1_def)
  ultimately show ?thesis
    using r by (intro that [of "marked t DeploymentStatusRunning (bs_Reason st) d1"]) (simp_all add: same_request_def d1_def)
qed

text \<open>No call changes the clock or when the context is done.\<close>

abbreviation steady :: "('b, 'a env_scheme) op \<Rightarrow> bool" where
  "steady \<equiv> keeping (\<lambda>w. (clk w, sel w))"

lemma steady_Now: "(clk (snd (Now w)), sel (snd (Now w))) = (clk w, sel w)"
  by (simp add: Now_def)

lemma steady_NewUUID: "(clk (snd (NewUUID w)), sel (snd (NewUUID w))) = (clk w, sel w)"
  by (simp add: NewUUID_def New_def rand_Read_def Now_def)

lemmas steady_env = steady_Now [simplified] steady_NewUUID [simplified]

lemma steady_memory:
  "steady (mq_Enqueue j)" "steady (mq_EnqueueAfter j t)" "steady (mq_Ack j)" "steady (mq_DeadLetter dl)"
  "steady (mem_Dep_Update d)" "steady (mem_Dep_Create d)" "steady (mem_Event_Create e)" "steady (mem_NextVersion ti i)" "steady (mem_App_Update a)"
  "steady (mem_Dep_GetByID ti i)" "steady (mem_App_GetByID ti i)"
  by (rule keepingI, simp add: mq_Enqueue_def mq_EnqueueAfter_def mq_Ack_def mq_DeadLetter_def stampCreated_def stampAvailable_def
      mem_Dep_Update_def mem_Dep_Create_def mem_Event_Create_def mem_NextVersion_def mem_App_Update_def mem_Dep_GetByID_def mem_App_GetByID_def
      Now_def Let_def split_beta split: option.split)+

lemma keeping_snd: "keeping v f \<Longrightarrow> v (snd (f w)) = v w"
  using keepingD [of v f w "fst (f w)" "snd (f w)"] by simp

lemmas steady_snd = steady_memory [THEN keeping_snd, simplified]

lemma steady_Mark:
  "clk (snd (MarkDeploymentStatus (mem_DeploymentService b) d st rsn w)) = clk w \<and>
   sel (snd (MarkDeploymentStatus (mem_DeploymentService b) d st rsn w)) = sel w"
  by (simp add: MarkDeploymentStatus_def mem_service_simps bindE_def Let_def split_beta mem_event_ok mem_deployments_def mem_Dep_Update_def
      newEvent_def steady_env split: sum.split option.split)

lemma steady_marks: "steady (markE (mem_DeploymentService b) d st rsn)" "steady (markFailed (mem_DeploymentService b) d e)"
  by (rule keepingI, simp add: markE_def markFailed_def steady_Mark split_beta split: sum.split)+

lemma steady_schedules: "steady (sch_ScheduleSync (NewSchedulerService mq_queue) d)" "steady (sch_ScheduleDeployment (NewSchedulerService mq_queue) d)"
  by (rule keepingI, simp add: NewSchedulerService_def ScheduleSync_def ScheduleDeployment_def mq_queue_def mq_scheduler_def newJob_def Let_def split_beta
      steady_env steady_snd)+

lemma steady_Submit: "steady (Submit K a d)"
  by (rule keeping_Submit) (simp_all add: keeping_api_def keeping_def onCluster_def range_map_def split: prod.splits)

lemma steady_create: "steady (create_Handle (create_handler K) j)"
  unfolding create_Handle_def
  by (intro keep) (simp_all add: kube_backend_calls mem_deployments_def mem_apps_def steady_memory steady_marks steady_Submit steady_schedules)

lemma steady_process_create:
  assumes "job_Type j = JobTypeDeploymentCreate"
  shows "steady (processJob (Worker K n b) j)"
proof (rule keepingI)
  fix w :: "('a, 'b) kube_world_scheme"
  let ?c = "Worker K n b :: ('a, 'b) kube_world_scheme Consumer"
  have q: "co_queue ?c = mq_queue" by (rule Worker_queue)
  have ack: "steady (ackJob ?c j)" for j using steady_memory(3) q by (simp add: ackJob_def mq_queue_def)
  have bury: "steady (deadLetterJob ?c j m)" for j m
    using q by (intro keepingI) (simp add: deadLetterJob_def mq_queue_def mq_deadLetters_def Let_def split_beta steady_env steady_snd)
  have retry: "steady (retryJob ?c j e)" for e
    unfolding retryJob_def Let_def q
    by (intro keep bury ack; simp add: mq_queue_def mq_scheduler_def) (intro keep steady_memory ack)
  obtain x w1 where h: "create_Handle (create_handler K) j w = (x, w1)" by fastforce
  show "(clk (snd (processJob ?c j w)), sel (snd (processJob ?c j w))) = (clk w, sel w)"
    using keepingD [OF steady_create h] ack [of j] retry assms
    by (auto simp: processJob_def Worker_handlers h keeping_def split: sum.splits) (metis surjective_pairing)+
qed

lemma steady_CreateDeployment: "steady (CreateDeployment (mem_DeploymentService b) actor i)"
  by (intro keepingI) (simp add: CreateDeployment_def mem_service_simps bindE_def Let_def split_beta newEvent_def mem_apps_def mem_deployments_def mem_events_def
      ret_def steady_env steady_snd steady_schedules [THEN keeping_snd, simplified] split: sum.split)

lemma steady_Dequeue:
  fixes w :: "'a store_world_scheme"
  assumes "mq_Dequeue w = Some y"
  shows "(clk (snd y), sel (snd y)) = (clk w, sel w)"
  using assms
proof (rule mq_Dequeue.raw_induct [rotated])
  fix f :: "'a store_world_scheme \<Rightarrow> ((error + Job) \<times> 'a store_world_scheme) option" and w y
  assume IH: "\<And>w y. f w = Some y \<Longrightarrow> (clk (snd y), sel (snd y)) = (clk w, sel w)"
    and body: "(case mq_Dequeue_poll w of
        (Some job, w) \<Rightarrow> Some (Inr job, w)
      | (None, w) \<Rightarrow>
          (case ctx_Done w of (Some e, w) \<Rightarrow> Some (Inl e, w) | (None, w) \<Rightarrow> f w)) = Some y"
  obtain o1 w1 where p: "mq_Dequeue_poll w = (o1, w1)" by fastforce
  then have "clk w1 = clk w" "sel w1 = sel w"
    by (auto simp: mq_Dequeue_poll_def mq_promoteDueLocked_def Now_def Let_def split: list.splits prod.splits)
  with IH body p show "(clk (snd y), sel (snd y)) = (clk w, sel w)"
    by (cases o1) (auto simp: ctx_Done_def split: option.splits)
qed

text \<open>While the context is not done and the clock advances, a worker gets a job if there is one.\<close>

definition never_done :: "'a env_scheme \<Rightarrow> bool" where
  "never_done w \<longleftrightarrow> (\<forall>n. sel w n = None)"

definition clock_advances :: "'a env_scheme \<Rightarrow> bool" where
  "clock_advances w \<longleftrightarrow> (\<forall>t. \<exists>n. \<forall>m \<ge> n. t \<le> clk w m)"

lemma Dequeue_gets:
  assumes "live (mq_bag w) \<noteq> {#}" "never_done w" "clock_advances w"
  obtains j w' where "mq_Dequeue w = Some (Inr j, w')"
proof -
  have "\<exists>k. wakes k w"
  proof (cases "ready (mq w)")
    case Nil
    then obtain j where j: "j \<in> set (delayed (mq w))" using assms(1) by (cases "delayed (mq w)") (auto simp: mq_bag_def)
    obtain n where "\<forall>m \<ge> n. job_AvailableAt j \<le> clk w m" using assms(3) by (auto simp: clock_advances_def)
    then have "due (clk w (ticks w + n)) j" by (simp add: due_def)
    with j show ?thesis by (auto simp: wakes_def)
  qed (auto simp: wakes_def)
  then obtain x w' where x: "mq_Dequeue w = Some (x, w')" "isl x \<longrightarrow> (\<exists>n. sel w n \<noteq> None)" using Dequeue_ends by blast
  then have "\<not> isl x" using assms(2) by (simp add: never_done_def)
  then show ?thesis using x(1) by (cases x) (auto intro: that)
qed

lemma steady_kept:
  "(clk w', sel w') = (clk w, sel w) \<Longrightarrow> never_done w \<Longrightarrow> never_done w'"
  "(clk w', sel w') = (clk w, sel w) \<Longrightarrow> clock_advances w \<Longrightarrow> clock_advances w'"
  by (simp_all add: never_done_def clock_advances_def)

text \<open>The turn that creates the deployment, and the one that finds it running, when they are the only jobs.\<close>

lemma first_turn:
  fixes w :: "('c, 'z) kube_world_scheme"
  assumes ok: "ok_view (mem_abs w)" and d: "v_deps (mem_abs w) (dep_ID d) = Some d" and snap: "snapshot_of a d"
    and app: "v_apps (mem_abs w) (app_ID a) = Some a"
    and only: "live (mq_bag w) = {#job_core k#}" "job_for JobTypeDeploymentCreate d k"
    and accepts: "\<And>d (w :: ('c, 'z) kube_world_scheme). \<exists>st w'. Submit K a d w = (Inr st, w')"
    and turn: "mq_Dequeue w = Some (Inr j, w1)" "processJob (Worker K n b) j w1 = (r, w2)"
  obtains d' k' where "job_Type j = JobTypeDeploymentCreate" "r = Inr ()" "ok_view (mem_abs w2)" "v_deps (mem_abs w2) (dep_ID d') = Some d'" "same_request d' d"
    "dep_Status d' = DeploymentStatusProvisioning" "v_apps (mem_abs w2) (app_ID a) = Some a"
    "live (mq_bag w2) = {#job_core k'#}" "job_for JobTypeDeploymentSync d' k'" "graves (mq_bag w2) = graves (mq_bag w)"
proof -
  note t = take_only [OF turn(1) only]
  note j = t(1) [unfolded job_for_def]
  have dj: "v_deps (mem_abs w1) (job_DeploymentID j) = Some d" "dep_TenantID d = job_TenantID j"
    "dep_Status d \<notin> {DeploymentStatusCancelled, DeploymentStatusDeleting, DeploymentStatusDeleted}"
    "v_apps (mem_abs w1) (job_AppID j) = Some a" "app_TenantID a = job_TenantID j"
    using d t(4) j snap app by (simp_all add: snapshot_of_def)
  have ok1: "ok_view (mem_abs w1)" using ok t(4) by simp
  obtain d' k' log where r: "r = Inr ()" and rec: "recorded d' log (mem_abs w1) (mem_abs w2)"
    and d': "same_request d' d" "dep_Status d' = DeploymentStatusProvisioning"
    and k': "job_for JobTypeDeploymentSync d' k'" "mq_bag w2 = b_ack j (b_enq k' (mq_bag w1))"
    by (rule create_job_accepted [OF ok1 conjunct1 [OF j] dj turn(2) accepts])
  have "live (mq_bag w2) = {#job_core k'#}" "graves (mq_bag w2) = graves (mq_bag w)" using k'(2) t by (simp_all add: b_ack_def b_enq_def)
  then show ?thesis
    using r d' k'(1) ok_view_recorded [OF ok1 rec] recorded_simps [OF rec] j app t(4)
    by (intro that [of d' k']) simp_all
qed

lemma second_turn:
  fixes w :: "('c, 'z) kube_world_scheme"
  assumes ok: "ok_view (mem_abs w)" and d: "v_deps (mem_abs w) (dep_ID d) = Some d" and status: "dep_Status d = DeploymentStatusProvisioning"
    and app: "v_apps (mem_abs w) (app_ID a) = Some a" "dep_TenantID d = app_TenantID a" "dep_AppID d = app_ID a"
    and only: "live (mq_bag w) = {#job_core k#}" "job_for JobTypeDeploymentSync d k"
    and ready: "\<And>ref (w :: ('c, 'z) kube_world_scheme). \<exists>st w'. GetStatus K ref w = (Inr st, w') \<and> bs_Status st = DeploymentStatusRunning"
    and turn: "mq_Dequeue w = Some (Inr j, w1)" "processJob (Worker K n b) j w1 = (r, w2)"
  obtains d' where "r = Inr ()" "same_request d' d" "dep_Status d' = DeploymentStatusRunning" "v_deps (mem_abs w2) (dep_ID d) = Some d'"
    "v_apps (mem_abs w2) (app_ID a) = Some (a\<lparr>app_CurrentDeploymentID := dep_ID d\<rparr>)"
    "live (mq_bag w2) = {#}" "graves (mq_bag w2) = graves (mq_bag w)"
proof -
  note t = take_only [OF turn(1) only]
  note j = t(1) [unfolded job_for_def]
  have dj: "v_deps (mem_abs w1) (job_DeploymentID j) = Some d" "dep_TenantID d = job_TenantID j"
    "dep_Status d \<notin> {DeploymentStatusCancelled, DeploymentStatusDeleted}"
    "v_apps (mem_abs w1) (job_AppID j) = Some a" "app_TenantID a = job_TenantID j"
    using d t(4) j app status by simp_all
  have ok1: "ok_view (mem_abs w1)" using ok t(4) by simp
  obtain d' where r: "r = Inr ()" "same_request d' d" "dep_Status d' = DeploymentStatusRunning" "v_deps (mem_abs w2) (dep_ID d) = Some d'"
    and a': "v_apps (mem_abs w2) = (v_apps (mem_abs w1))(job_AppID j \<mapsto> a\<lparr>app_CurrentDeploymentID := dep_ID d\<rparr>)"
    and q: "mq_bag w2 = b_ack j (mq_bag w1)"
    by (rule sync_job_running [OF ok1 conjunct1 [OF j] dj turn(2) ready])
  have "job_AppID j = app_ID a" using j app(3) by simp
  then have "v_apps (mem_abs w2) (app_ID a) = Some (a\<lparr>app_CurrentDeploymentID := dep_ID d\<rparr>)" unfolding a' by simp
  moreover have "live (mq_bag w2) = {#}" "graves (mq_bag w2) = graves (mq_bag w)" unfolding q using t(2,3) by (simp_all add: b_ack_def)
  ultimately show ?thesis using r by (intro that [of d'])
qed


section \<open>An instance\<close>

text \<open>A cluster on which every deployment is ready.\<close>

definition ready_deployment :: KDeployment where
  "ready_deployment =
     \<lparr>kd_Meta = \<lparr>meta_Name = [], meta_Namespace = [], meta_Labels = [], meta_ResourceVersion = []\<rparr>, kd_Replicas = Some 1,
      kd_Selector = [], kd_PodLabels = [],
      kd_PodSpec = \<lparr>pod_Container = \<lparr>ctr_Name = [], ctr_Image = [], ctr_Requests = [], ctr_Limits = [], ctr_Ports = [], ctr_Env = [],
        ctr_ReadinessProbe = None, ctr_LivenessProbe = None, ctr_VolumeMounts = []\<rparr>, pod_ServiceAccountName = [], pod_Volumes = []\<rparr>,
      kd_Generation = 1, kd_ObservedGeneration = 1, kd_Conditions = [], kd_ReadyReplicas = 1, kd_UpdatedReplicas = 1, kd_AvailableReplicas = 1\<rparr>"

definition ready_kube :: "((string \<times> string) \<times> KIngress) list kube" where
  "ready_kube = demo_kube\<lparr>k_Deployments := null_api\<lparr>kget := (\<lambda>_ _ c. (Inr ready_deployment, c))\<rparr>\<rparr>"

definition succeeds :: "('b, 'w) op \<Rightarrow> bool" where
  "succeeds f \<longleftrightarrow> (\<forall>w. \<exists>a w'. f w = (Inr a, w'))"

lemma succeeds_ret: "succeeds (ret a)"
  by (simp add: succeeds_def ret_def)

lemma succeeds_bind:
  assumes "succeeds f" "\<And>a. succeeds (k a)"
  shows "succeeds (bindE f k)"
  unfolding succeeds_def
proof
  fix w
  obtain a w1 where "f w = (Inr a, w1)" using assms(1) unfolding succeeds_def by blast
  moreover obtain b w2 where "k a w1 = (Inr b, w2)" using assms(2) unfolding succeeds_def by blast
  ultimately show "\<exists>b w'. bindE f k w = (Inr b, w')" by (simp add: bindE_def)
qed

lemma succeeds_wrap: "succeeds f \<Longrightarrow> succeeds (wrapE s f)"
proof -
  assume f: "succeeds f"
  have "\<exists>a w'. wrapE s f w = (Inr a, w')" for w
  proof -
    obtain a w1 where "f w = (Inr a, w1)" using f unfolding succeeds_def by blast
    then show ?thesis by (simp add: wrapE_def catchE_def ret_def)
  qed
  then show ?thesis by (simp add: succeeds_def)
qed

lemma ready_accepts:
  fixes w :: "(((string \<times> string) \<times> KIngress) list, 'z) kube_world_scheme"
  shows "\<exists>st w'. Submit ready_kube demo_app d w = (Inr st, w')"
proof -
  have demo: "openClawEnabled (app_Config demo_app) = None" "cfg_OpenClaw (app_Config demo_app) = None" "\<not> cfg_Public (app_Config demo_app)" by code_simp+
  note defs = succeeds_def ready_kube_def demo_kube_def null_api_def ingress_api_def notFound_def bindE_def catchE_def onCluster_def ret_def fail_def Let_def is_panic_def
  have "succeeds (ensureNamespace ready_kube ns :: (_, (_, 'z) kube_world_scheme) op)" for ns
    by (simp add: defs ensureNamespace_def)
  moreover have "succeeds (ensureBaselineEgressPolicy ready_kube ns :: (_, (_, 'z) kube_world_scheme) op)" for ns
    by (simp add: defs ensureBaselineEgressPolicy_def upsert_defs upsert_def)
  moreover have "succeeds (reconcileOpenClawConfig ready_kube demo_app ns n ls :: (_, (_, 'z) kube_world_scheme) op)" for ns n ls
    using demo by (simp add: reconcileOpenClawConfig_def succeeds_ret)
  moreover have "succeeds (MustParse ready_kube s :: (_, (_, 'z) kube_world_scheme) op)" for s
    by (simp add: defs MustParse_def)
  moreover have "succeeds (upsertDeployment ready_kube x :: (_, (_, 'z) kube_world_scheme) op)" for x
    by (simp add: defs upsert_defs upsert_def)
  moreover have "succeeds (upsertService ready_kube x :: (_, (_, 'z) kube_world_scheme) op)" for x
    by (simp add: defs upsert_defs upsert_def)
  moreover have "succeeds (ignoreE (onCluster (kdelete (k_Ingresses ready_kube) ns n)) (ret []) :: (_, (_, 'z) kube_world_scheme) op)" for ns n
    by (simp add: defs ignoreE_def)
  ultimately have "succeeds (Submit ready_kube demo_app d :: (_, (_, 'z) kube_world_scheme) op)"
    using demo unfolding Submit_def buildDeployment_def Let_def
    by (intro succeeds_bind succeeds_wrap succeeds_ret; simp)
  then show ?thesis by (simp add: succeeds_def)
qed

lemma ready_runs:
  fixes w :: "(((string \<times> string) \<times> KIngress) list, 'z) kube_world_scheme"
  shows "\<exists>st w'. GetStatus ready_kube ref w = (Inr st, w') \<and> bs_Status st = DeploymentStatusRunning"
  by (simp add: GetStatus_def ready_kube_def demo_kube_def catchE_def onCluster_def ret_def ready_deployment_def mapDeploymentStatus_def statusOf_def
      desiredReplicas_def Let_def)

definition demo_site_of :: "DeploymentStatus \<Rightarrow> ((string \<times> string) \<times> KIngress) list kube_world" where
  "demo_site_of st = on_cluster (demo_plane st 0) []"

definition demo_work :: "JobType \<Rightarrow> Job" where
  "demo_work typ = (demo_job ''j'' 0 0)\<lparr>job_Type := typ, job_TenantID := ''t'', job_AppID := ''a'', job_DeploymentID := ''d''\<rparr>"

lemma demo_site_of:
  "ok_view (mem_abs (demo_site_of st))" "v_apps (mem_abs (demo_site_of st)) = [''a'' \<mapsto> demo_app]"
  "v_deps (mem_abs (demo_site_of st)) = [''d'' \<mapsto> demo_dep st 0]" "live (mq_bag (demo_site_of st)) = {#}"
  "never_done (demo_site_of st)" "clock_advances (demo_site_of st)"
proof -
  have "mem_abs (demo_site_of st) = mem_abs (demo_plane st 0)"
    by (simp add: demo_site_of_def on_cluster_def store_world.defs mem_abs_def demo_plane_def demo_store_world_def event_list_def)
  then show "ok_view (mem_abs (demo_site_of st))" "v_apps (mem_abs (demo_site_of st)) = [''a'' \<mapsto> demo_app]"
    "v_deps (mem_abs (demo_site_of st)) = [''d'' \<mapsto> demo_dep st 0]"
    using demo_plane_ok(1) demo_plane_view by metis+
  show "live (mq_bag (demo_site_of st)) = {#}" "never_done (demo_site_of st)"
    by (simp_all add: demo_site_of_def on_cluster_def store_world.defs demo_plane_def demo_store_world_def mq_bag_def mq_NewClient_def never_done_def)
  have "t \<le> unixEpoch + int m * second" if "nat t \<le> m" for t m using that by (simp add: unixEpoch_def)
  then show "clock_advances (demo_site_of st)"
    by (auto simp: demo_site_of_def on_cluster_def store_world.defs demo_plane_def demo_store_world_def clock_advances_def)
qed

lemma demo_work_simps:
  "job_Type (demo_work typ) = typ" "job_TenantID (demo_work typ) = ''t''" "job_AppID (demo_work typ) = ''a''" "job_DeploymentID (demo_work typ) = ''d''"
  "app_TenantID demo_app = ''t''" "dep_TenantID (demo_dep st n) = ''t''" "dep_Status (demo_dep st n) = st"
  by (simp_all add: demo_work_def demo_app_def demo_dep_def)


theorem sync_job_outcome_witness:
  "\<exists>r w'. processJob (Worker ready_kube 3 second) (demo_work JobTypeDeploymentSync) (demo_site_of DeploymentStatusProvisioning) = (r, w') \<and> r = Inr ()"
proof -
  obtain r w' where run: "processJob (Worker ready_kube 3 second) (demo_work JobTypeDeploymentSync) (demo_site_of DeploymentStatusProvisioning) = (r, w')" by fastforce
  obtain st w1 where st: "GetStatus ready_kube (dep_BackendRef (demo_dep DeploymentStatusProvisioning 0)) (demo_site_of DeploymentStatusProvisioning) = (Inr st, w1)"
    using ready_runs by blast
  have "r = Inr ()"
    using sync_job_outcome [OF demo_site_of(1) demo_work_simps(1) _ _ _ _ _ run st, of demo_app] unfolding demo_site_of demo_work_simps by simp
  with run show ?thesis by blast
qed


end
