(* ===== verification/Migrate.thy ===== *)
theory Migrate
  imports Bootstrap
begin

text \<open>
  \<^verbatim>\<open>cmd/migrate/main.go\<close> and \<^verbatim>\<open>migrations/\<close>: the command that applies every migration each time it runs, and the five migrations as changes of a
  catalogue of tables and indexes. The directory, the files and the database are parameters of the command. The theorem is that over these migrations it leads from every
  earlier state of the catalogue to the schema on which \<open>Sql\<close> and \<open>PgRepos\<close> work.
\<close>

section \<open>The command\<close>

text \<open>\<^verbatim>\<open>filepath.Ext\<close>: what follows the last dot of the last element, with the dot.\<close>

definition filepath_Ext :: "string \<Rightarrow> string" where
  "filepath_Ext path =
     (let tail = takeWhile (\<lambda>c. c \<noteq> CHR ''.'' \<and> c \<noteq> CHR ''/'') (rev path); rest = drop (length tail) (rev path)
      in if rest \<noteq> [] \<and> hd rest = CHR ''.'' then CHR ''.'' # rev tail else [])"

text \<open>\<^verbatim>\<open>filepath.Join\<close> of a directory and the name of an entry, which has no slash in it.\<close>

definition filepath_Join :: "string \<Rightarrow> string \<Rightarrow> string" where
  "filepath_Join dir name = dir @ ''/'' @ name"

text \<open>The directory entries (with whether they are directories), the contents of files, and the execution of a script.\<close>

record 'w migration_host =
  mh_ReadDir :: "string \<Rightarrow> error + (string \<times> bool) list"
  mh_ReadFile :: "string \<Rightarrow> error + string"
  mh_Exec :: "'w sql_DB \<Rightarrow> string \<Rightarrow> (unit, 'w) op"

definition migration_files :: "(string \<times> bool) list \<Rightarrow> string list" where
  "migration_files dir =
     sort (map (\<lambda>(name, _). filepath_Join ''migrations'' name)
       (filter (\<lambda>(name, isDir). \<not> isDir \<and> filepath_Ext name = ''.sql'') dir))"

text \<open>The loop, with the files it applied; the error is the one the process ends with.\<close>

fun apply_files ::
  "(string \<Rightarrow> error + string) \<Rightarrow> (string \<Rightarrow> (unit, 'w) op) \<Rightarrow> string list \<Rightarrow> 'w \<Rightarrow> (error option \<times> string list) \<times> 'w" where
  "apply_files readFile exec [] w = ((None, []), w)"
| "apply_files readFile exec (path # paths) w =
     (case readFile path of
        Inl err \<Rightarrow> ((Some err, []), w)
      | Inr sqlBytes \<Rightarrow>
          (let stmt = TrimSpace sqlBytes
           in if stmt = [] then apply_files readFile exec paths w
              else case exec stmt w of
                     (Inl err, w) \<Rightarrow> ((Some (Errorf (''apply '' @ path) err), []), w)
                   | (Inr _, w) \<Rightarrow>
                       (case apply_files readFile exec paths w of ((err, applied), w) \<Rightarrow> ((err, path # applied), w))))"

text \<open>The exit code and the files applied; \<^verbatim>\<open>log.Fatal\<close> ends the process with 1 and skips the deferred close.\<close>

definition migrate_main ::
  "'w sql_library \<Rightarrow> 'w migration_host \<Rightarrow> dotfile \<Rightarrow> environ \<Rightarrow> 'w \<Rightarrow> ((int \<times> string list) \<times> 'w) option" where
  "migrate_main lib H file e w =
     (case LoadDotEnv ''.env'' file e of
        (Some err, _) \<Rightarrow> Some ((1, []), w)
      | (None, e) \<Rightarrow>
          (case LoadConfig e of
             None \<Rightarrow> None
           | Some cfg \<Rightarrow>
               if cf_DatabaseURL cfg = [] then Some ((1, []), w)
               else
                 case database_Open lib \<lparr>dc_URL = cf_DatabaseURL cfg, dc_MaxOpenConns = 2, dc_MaxIdleConns = 1,
                        dc_ConnMaxLifetime = cf_DBConnMaxLifetime cfg, dc_ConnMaxIdleTime = 0\<rparr> w of
                   (Inl err, w) \<Rightarrow> Some ((1, []), w)
                 | (Inr db, w) \<Rightarrow>
                     (case mh_ReadDir H ''migrations'' of
                        Inl err \<Rightarrow> Some ((1, []), w)
                      | Inr dir \<Rightarrow>
                          (case apply_files (mh_ReadFile H) (mh_Exec H db) (migration_files dir) w of
                             ((Some err, applied), w) \<Rightarrow> Some ((1, applied), w)
                           | ((None, applied), w) \<Rightarrow> Some ((0, applied), snd (sq_Close lib db w))))))"

section \<open>The catalogue\<close>

record catalogue =
  ct_tables :: "(string \<times> table_def) list"
  ct_indexes :: "string list"

text \<open>\<^verbatim>\<open>create table if not exists\<close>, \<^verbatim>\<open>create [unique] index if not exists\<close> and \<^verbatim>\<open>alter table ... add column if not exists\<close>\<close>

datatype ddl =
    CreateTable string table_def
  | CreateIndex bool string string "string list"
  | AddColumn string "string \<times> coltype \<times> bool"

text \<open>A table, and a column, that does not exist has the error codes 42P01 and 42703. The rows of a new unique index are not looked at.\<close>

fun exec_ddl :: "ddl \<Rightarrow> catalogue \<Rightarrow> error + catalogue" where
  "exec_ddl (CreateTable t td) c =
     (if t \<in> fst ` set (ct_tables c) then Inr c
      else if \<not> list_all (\<lambda>(_, t'). t' \<in> fst ` set (ct_tables c)) (td_refs td) then Inl (pgError ''42P01'')
      else Inr (c\<lparr>ct_tables := ct_tables c @ [(t, td)]\<rparr>))"
| "exec_ddl (CreateIndex uniq i t cols) c =
     (if i \<in> set (ct_indexes c) then Inr c
      else case map_of (ct_tables c) t of
             None \<Rightarrow> Inl (pgError ''42P01'')
           | Some td \<Rightarrow>
               if \<not> list_all (\<lambda>col. col \<in> fst ` set (td_cols td)) cols then Inl (pgError ''42703'')
               else
                 let td = (if uniq \<and> cols \<notin> set (td_unique td) then td\<lparr>td_unique := td_unique td @ [cols]\<rparr> else td)
                 in Inr (c\<lparr>ct_tables := AList.update t td (ct_tables c), ct_indexes := ct_indexes c @ [i]\<rparr>))"
| "exec_ddl (AddColumn t col) c =
     (case map_of (ct_tables c) t of
        None \<Rightarrow> Inl (pgError ''42P01'')
      | Some td \<Rightarrow>
          if fst col \<in> fst ` set (td_cols td) then Inr c
          else Inr (c\<lparr>ct_tables := AList.update t (td\<lparr>td_cols := td_cols td @ [col]\<rparr>) (ct_tables c)\<rparr>))"

text \<open>A script is one implicit transaction: an error undoes all of it.\<close>

fun exec_script :: "ddl list \<Rightarrow> catalogue \<Rightarrow> error + catalogue" where
  "exec_script [] c = Inr c"
| "exec_script (s # ss) c = (case exec_ddl s c of Inl e \<Rightarrow> Inl e | Inr c \<Rightarrow> exec_script ss c)"

section \<open>The migrations\<close>

text \<open>The deployments as the first migration makes them, without the repair attempts.\<close>

definition migration_0001 :: "ddl list" where
  "migration_0001 =
     [CreateTable ''users''
        \<lparr>td_cols = [(''id'', TUuid, True), (''email'', TText, True), (''display_name'', TText, True),
           (''default_tenant_id'', TUuid, False), (''created_at'', TTime, True), (''updated_at'', TTime, True)],
           td_unique = [[''id''], [''email'']], td_refs = []\<rparr>,
      CreateTable ''tenants''
        \<lparr>td_cols = [(''id'', TUuid, True), (''slug'', TText, True), (''name'', TText, True), (''plan'', TText, True),
           (''status'', TText, True), (''created_at'', TTime, True), (''updated_at'', TTime, True)],
           td_unique = [[''id''], [''slug'']], td_refs = []\<rparr>,
      CreateTable ''tenant_members''
        \<lparr>td_cols = [(''tenant_id'', TUuid, True), (''user_id'', TUuid, True), (''role'', TText, True), (''created_at'', TTime, True)],
           td_unique = [[''tenant_id'', ''user_id'']], td_refs = [(''tenant_id'', ''tenants''), (''user_id'', ''users'')]\<rparr>,
      CreateTable ''apps''
        \<lparr>td_cols = [(''id'', TUuid, True), (''tenant_id'', TUuid, True), (''name'', TText, True), (''slug'', TText, True),
           (''desired_state'', TText, True), (''current_deployment_id'', TUuid, False), (''config'', TJson, True),
           (''created_by'', TUuid, True), (''created_at'', TTime, True), (''updated_at'', TTime, True)],
           td_unique = [[''id''], [''tenant_id'', ''slug'']], td_refs = [(''tenant_id'', ''tenants''), (''created_by'', ''users'')]\<rparr>,
      CreateTable ''deployments''
        \<lparr>td_cols = [(''id'', TUuid, True), (''tenant_id'', TUuid, True), (''app_id'', TUuid, True), (''version'', TInt, True),
           (''image_ref'', TText, True), (''config_snapshot'', TJson, True), (''status'', TText, True), (''status_reason'', TText, False),
           (''backend'', TText, True), (''backend_ref'', TJson, True), (''requested_by'', TUuid, True),
           (''started_at'', TTime, False), (''finished_at'', TTime, False), (''created_at'', TTime, True), (''updated_at'', TTime, True)],
         td_unique = [[''id''], [''app_id'', ''version'']],
         td_refs = [(''tenant_id'', ''tenants''), (''app_id'', ''apps''), (''requested_by'', ''users'')]\<rparr>,
      CreateTable ''deployment_events''
        \<lparr>td_cols = [(''id'', TUuid, True), (''deployment_id'', TUuid, True), (''tenant_id'', TUuid, True), (''type'', TText, True),
           (''message'', TText, True), (''created_at'', TTime, True)],
           td_unique = [[''id'']], td_refs = [(''deployment_id'', ''deployments''), (''tenant_id'', ''tenants'')]\<rparr>]"

definition migration_0002 :: "ddl list" where
  "migration_0002 =
     [CreateTable ''auth_identities''
        \<lparr>td_cols = [(''id'', TUuid, True), (''user_id'', TUuid, True), (''provider'', TText, True), (''provider_user_id'', TText, True),
           (''access_token_encrypted'', TText, False), (''refresh_token_encrypted'', TText, False), (''metadata'', TJson, True),
           (''created_at'', TTime, True), (''updated_at'', TTime, True)],
           td_unique = [[''id''], [''provider'', ''provider_user_id'']], td_refs = [(''user_id'', ''users'')]\<rparr>,
      CreateTable ''api_keys''
        \<lparr>td_cols = [(''id'', TUuid, True), (''tenant_id'', TUuid, True), (''user_id'', TUuid, True), (''name'', TText, True),
           (''key_prefix'', TText, True), (''key_hash'', TText, True), (''last_used_at'', TTime, False), (''expires_at'', TTime, False),
           (''revoked_at'', TTime, False), (''created_at'', TTime, True)],
           td_unique = [[''id'']], td_refs = [(''tenant_id'', ''tenants''), (''user_id'', ''users'')]\<rparr>,
      CreateIndex False ''idx_api_keys_tenant_id'' ''api_keys'' [''tenant_id''],
      CreateIndex False ''idx_deployments_tenant_app'' ''deployments'' [''tenant_id'', ''app_id''],
      CreateIndex False ''idx_deployment_events_lookup'' ''deployment_events'' [''tenant_id'', ''deployment_id'', ''created_at'']]"

definition migration_0003 :: "ddl list" where
  "migration_0003 =
     [CreateTable ''audit_logs''
        \<lparr>td_cols = [(''id'', TUuid, True), (''tenant_id'', TUuid, True), (''actor_user_id'', TUuid, False),
           (''actor_api_key_id'', TUuid, False), (''action'', TText, True), (''resource_type'', TText, True),
           (''resource_id'', TText, True), (''message'', TText, True), (''created_at'', TTime, True)],
           td_unique = [[''id'']],
           td_refs = [(''tenant_id'', ''tenants''), (''actor_user_id'', ''users''), (''actor_api_key_id'', ''api_keys'')]\<rparr>,
      CreateIndex False ''idx_audit_logs_tenant_created_at'' ''audit_logs'' [''tenant_id'', ''created_at'']]"

definition migration_0004 :: "ddl list" where
  "migration_0004 =
     [CreateIndex False ''idx_apps_tenant_id'' ''apps'' [''tenant_id''],
      CreateIndex True ''uidx_apps_tenant_slug'' ''apps'' [''tenant_id'', ''slug''],
      CreateIndex False ''idx_deployments_app_id'' ''deployments'' [''app_id''],
      CreateIndex False ''idx_deployments_tenant_id'' ''deployments'' [''tenant_id''],
      CreateIndex False ''idx_deployments_status'' ''deployments'' [''status''],
      CreateIndex False ''idx_deployment_events_deployment_id'' ''deployment_events'' [''deployment_id'', ''created_at''],
      CreateIndex False ''idx_api_keys_key_hash'' ''api_keys'' [''key_hash''],
      CreateIndex False ''idx_api_keys_tenant_id'' ''api_keys'' [''tenant_id''],
      CreateIndex False ''idx_audit_logs_tenant_created'' ''audit_logs'' [''tenant_id'', ''created_at''],
      CreateIndex True ''uidx_auth_identities_provider_uid'' ''auth_identities'' [''provider'', ''provider_user_id'']]"

definition migration_0005 :: "ddl list" where
  "migration_0005 =
     [AddColumn ''deployments'' (''repair_attempts'', TInt, True),
      CreateIndex False ''idx_deployments_active_reconcile'' ''deployments'' [''updated_at'']]"

definition migrations :: "(string \<times> ddl list) list" where
  "migrations =
     [(''0001_init.sql'', migration_0001), (''0002_auth_and_keys.sql'', migration_0002), (''0003_audit_logs.sql'', migration_0003),
      (''0004_indexes.sql'', migration_0004), (''0005_reliability.sql'', migration_0005)]"

definition empty_catalogue :: catalogue where
  "empty_catalogue = \<lparr>ct_tables = [], ct_indexes = []\<rparr>"

definition final_catalogue :: catalogue where
  "final_catalogue = (case exec_script (concat (map snd migrations)) empty_catalogue of Inl e \<Rightarrow> empty_catalogue | Inr c \<Rightarrow> c)"

section \<open>Migrating\<close>

lemma exec_script_append: "exec_script (a @ b) c = (case exec_script a c of Inl e \<Rightarrow> Inl e | Inr c \<Rightarrow> exec_script b c)"
  by (induction a arbitrary: c) (simp_all split: sum.split)

text \<open>A statement whose object exists changes nothing, every statement makes its object exist, and none removes one.\<close>

fun exists_object :: "catalogue \<Rightarrow> ddl \<Rightarrow> bool" where
  "exists_object c (CreateTable t td) \<longleftrightarrow> t \<in> fst ` set (ct_tables c)"
| "exists_object c (CreateIndex uniq i t cols) \<longleftrightarrow> i \<in> set (ct_indexes c)"
| "exists_object c (AddColumn t col) \<longleftrightarrow> (case map_of (ct_tables c) t of None \<Rightarrow> False | Some td \<Rightarrow> fst col \<in> fst ` set (td_cols td))"

lemma exec_ddl_idle: "exists_object c s \<Longrightarrow> exec_ddl s c = Inr c"
  by (cases s) (auto split: option.splits)

lemma exec_ddl_makes: "exec_ddl s c = Inr c' \<Longrightarrow> exists_object c' s"
  by (cases s) (auto simp: Let_def update_conv split: option.splits if_splits)

lemma exec_ddl_keeps: "exec_ddl s c = Inr c' \<Longrightarrow> exists_object c s' \<Longrightarrow> exists_object c' s'"
  by (cases s; cases s')
    (auto simp: Let_def update_conv map_add_Some_iff dom_map_of_conv_image_fst [symmetric] map_of_eq_None_iff split: option.splits if_splits)

lemma exec_script_keeps: "exec_script ss c = Inr c' \<Longrightarrow> exists_object c s \<Longrightarrow> exists_object c' s"
  by (induction ss arbitrary: c) (auto dest: exec_ddl_keeps split: sum.splits)

lemma exec_script_makes: "exec_script ss c = Inr c' \<Longrightarrow> list_all (exists_object c') ss"
  by (induction ss arbitrary: c) (auto dest: exec_script_keeps exec_ddl_makes split: sum.splits)

lemma exec_script_idle: "list_all (exists_object c) ss \<Longrightarrow> exec_script ss c = Inr c"
  by (induction ss) (simp_all add: exec_ddl_idle)

text \<open>So whatever migrations were applied before, applying all of them leads to the same catalogue.\<close>

lemma exec_script_again:
  assumes "exec_script a c = Inr c'"
  shows "exec_script (a @ b) c' = exec_script (a @ b) c"
  using exec_script_idle [OF exec_script_makes [OF assms]] assms by (simp add: exec_script_append)

lemma final_catalogue_reached: "exec_script (concat (map snd migrations)) empty_catalogue = Inr final_catalogue"
proof -
  have "\<not> isl (exec_script (concat (map snd migrations)) empty_catalogue)" by code_simp
  then show ?thesis by (auto simp: final_catalogue_def split: sum.splits)
qed

lemma migrate_again:
  assumes "exec_script (concat (map snd (take k migrations))) empty_catalogue = Inr c"
  shows "exec_script (concat (map snd migrations)) c = Inr final_catalogue"
  using exec_script_again [OF assms, of "concat (map snd (drop k migrations))"] final_catalogue_reached
  by (simp flip: concat_append map_append)

text \<open>The catalogue has the tables that the repositories work on; the order of columns and keys is of no matter.\<close>

definition same_table :: "table_def \<Rightarrow> table_def \<Rightarrow> bool" where
  "same_table a b \<longleftrightarrow> set (td_cols a) = set (td_cols b) \<and> set (td_unique a) = set (td_unique b) \<and> set (td_refs a) = set (td_refs b)"

definition has_schema :: "catalogue \<Rightarrow> bool" where
  "has_schema c \<longleftrightarrow>
     list_all (\<lambda>t. case map_of (ct_tables c) t of None \<Rightarrow> False | Some td \<Rightarrow> same_table td (schema t))
       [''users'', ''tenants'', ''tenant_members'', ''apps'', ''deployments'', ''deployment_events'', ''auth_identities'', ''api_keys'', ''audit_logs'']"

lemma final_has_schema: "has_schema final_catalogue"
  by code_simp

text \<open>A host on which the scripts of the migrations do what they say.\<close>

definition runs_migrations :: "catalogue migration_host \<Rightarrow> catalogue sql_DB \<Rightarrow> bool" where
  "runs_migrations H db \<longleftrightarrow>
     (\<forall>(name, script) \<in> set migrations. \<exists>body. mh_ReadFile H (filepath_Join ''migrations'' name) = Inr body \<and> TrimSpace body \<noteq> [] \<and>
        (\<forall>c. mh_Exec H db (TrimSpace body) c = (case exec_script script c of Inl e \<Rightarrow> (Inl e, c) | Inr c' \<Rightarrow> (Inr (), c'))))"

lemma apply_migrations:
  assumes "runs_migrations H db" "set ms \<subseteq> set migrations" "exec_script (concat (map snd ms)) c = Inr c'"
  shows "apply_files (mh_ReadFile H) (mh_Exec H db) (map (filepath_Join ''migrations'' \<circ> fst) ms) c =
    ((None, map (filepath_Join ''migrations'' \<circ> fst) ms), c')"
  using assms(2,3)
proof (induction ms arbitrary: c)
  case (Cons m ms)
  obtain name script where m: "m = (name, script)" by (cases m)
  obtain body where t: "mh_ReadFile H (filepath_Join ''migrations'' name) = Inr body" "TrimSpace body \<noteq> []"
    "\<And>c. mh_Exec H db (TrimSpace body) c = (case exec_script script c of Inl e \<Rightarrow> (Inl e, c) | Inr c' \<Rightarrow> (Inr (), c'))"
    using assms(1) Cons.prems(1) unfolding runs_migrations_def m by fastforce
  obtain c1 where c1: "exec_script script c = Inr c1" "exec_script (concat (map snd ms)) c1 = Inr c'"
    using Cons.prems(2) by (auto simp: m exec_script_append split: sum.splits)
  then show ?case using Cons.IH [of c1] Cons.prems(1) t by (simp add: m)
qed simp

lemma migration_files_sorted:
  assumes "mset (map fst (filter (\<lambda>(name, isDir). \<not> isDir \<and> filepath_Ext name = ''.sql'') dir)) = mset (map fst migrations)"
  shows "migration_files dir = map (filepath_Join ''migrations'' \<circ> fst) migrations"
proof -
  let ?sql = "filter (\<lambda>(name, isDir). \<not> isDir \<and> filepath_Ext name = ''.sql'') dir"
  have "mset (map (\<lambda>(name, _). filepath_Join ''migrations'' name) ?sql) = image_mset (filepath_Join ''migrations'') (mset (map fst ?sql))"
    by (simp add: case_prod_unfold image_mset.compositionality comp_def)
  also have "\<dots> = mset (map (filepath_Join ''migrations'' \<circ> fst) migrations)"
    unfolding assms by (simp add: image_mset.compositionality)
  finally show ?thesis
    unfolding migration_files_def by (intro properties_for_sort) (simp_all, code_simp)
qed

text \<open>
  C18: The migration command leads to the schema. Whatever number of the migrations an earlier version had applied, and in whatever order the directory lists
  its entries, the command ends with code 0, has applied all five files in the order of their names, and leaves exactly the
  tables, column types, keys and references on which the repositories work; running it again changes nothing.
\<close>

theorem migrate_reaches_schema:
  assumes "LoadDotEnv ''.env'' file e = (None, e')" "LoadConfig e' = Some cfg" "cf_DatabaseURL cfg \<noteq> []"
    and opens: "\<And>conf c. database_Open lib conf c = (Inr db, c)" and closes: "\<And>c. snd (sq_Close lib db c) = c"
    and "mh_ReadDir H ''migrations'' = Inr dir"
    and "mset (map fst (filter (\<lambda>(name, isDir). \<not> isDir \<and> filepath_Ext name = ''.sql'') dir)) = mset (map fst migrations)"
    and "runs_migrations H db"
    and "exec_script (concat (map snd (take k migrations))) empty_catalogue = Inr c"
  shows "migrate_main lib H file e c = Some ((0, map (filepath_Join ''migrations'' \<circ> fst) migrations), final_catalogue) \<and>
    has_schema final_catalogue \<and>
    migrate_main lib H file e final_catalogue = Some ((0, map (filepath_Join ''migrations'' \<circ> fst) migrations), final_catalogue)"
proof -
  have run: "migrate_main lib H file e c0 = Some ((0, map (filepath_Join ''migrations'' \<circ> fst) migrations), final_catalogue)"
    if "exec_script (concat (map snd (take j migrations))) empty_catalogue = Inr c0" for j c0
    using assms(1-3,6) apply_migrations [OF assms(8) subset_refl migrate_again [OF that]]
    by (simp add: migrate_main_def opens closes migration_files_sorted [OF assms(7)])
  have "exec_script (concat (map snd (take (length migrations) migrations))) empty_catalogue = Inr final_catalogue"
    by (simp add: final_catalogue_reached)
  from run [OF this] run [OF assms(9)] final_has_schema show ?thesis by blast
qed

section \<open>An instance\<close>

text \<open>A database that opens, a directory in another order with other entries in it, and files whose text is their path.\<close>

definition demo_database :: "catalogue sql_DB" where
  "demo_database = \<lparr>db_PingContext = \<lambda>c. (Inr (), c), db_OpenConnections = \<lambda>_. 0, db_InUse = \<lambda>_. 0\<rparr>"

definition demo_sql :: "catalogue sql_library" where
  "demo_sql =
     \<lparr>sq_Open = \<lambda>_ c. (Inr demo_database, c), sq_SetMaxOpenConns = \<lambda>_ _ c. c, sq_SetMaxIdleConns = \<lambda>_ _ c. c,
      sq_SetConnMaxLifetime = \<lambda>_ _ c. c, sq_SetConnMaxIdleTime = \<lambda>_ _ c. c, sq_Close = \<lambda>_ c. (Inr (), c)\<rparr>"

definition demo_host :: "catalogue migration_host" where
  "demo_host =
     \<lparr>mh_ReadDir = \<lambda>_. Inr ((''README.md'', False) # (''old.sql'', True) # rev (map (\<lambda>(name, _). (name, False)) migrations)),
      mh_ReadFile = Inr,
      mh_Exec = \<lambda>_ stmt c.
        case map_of (map (map_prod (filepath_Join ''migrations'') id) migrations) stmt of
          None \<Rightarrow> (Inl (pgError ''42601''), c)
        | Some script \<Rightarrow> (case exec_script script c of Inl e \<Rightarrow> (Inl e, c) | Inr c' \<Rightarrow> (Inr (), c'))\<rparr>"

lemma demo_opens: "database_Open demo_sql conf c = (Inr demo_database, c)"
  by (simp add: database_Open_def demo_sql_def demo_database_def catchE_def ret_def Let_def)

lemma demo_runs_migrations: "runs_migrations demo_host demo_database"
proof -
  have "list_all (\<lambda>(name, _). TrimSpace (filepath_Join ''migrations'' name) = filepath_Join ''migrations'' name \<and>
      filepath_Join ''migrations'' name \<noteq> []) migrations" by code_simp
  moreover have "map_of (map (map_prod (filepath_Join ''migrations'') id) migrations) (filepath_Join ''migrations'' name) = Some script"
    if "(name, script) \<in> set migrations" for name script
    using that by (auto simp: migrations_def filepath_Join_def)
  ultimately show ?thesis
    by (auto simp: runs_migrations_def demo_host_def list_all_iff)
qed

lemma demo_directory:
  "mset (map fst (filter (\<lambda>(name, isDir). \<not> isDir \<and> filepath_Ext name = ''.sql'')
     ((''README.md'', False) # (''old.sql'', True) # rev (map (\<lambda>(name, _). (name, False)) migrations)))) = mset (map fst migrations)"
  by code_simp

theorem migrate_reaches_schema_witness:
  "\<exists>c. exec_script (migration_0001 @ migration_0002 @ migration_0003) empty_catalogue = Inr c \<and> \<not> has_schema c \<and>
     migrate_main demo_sql demo_host Absent [''DATABASE_URL'' \<mapsto> ''postgres://db''] c =
       Some ((0, map (filepath_Join ''migrations'' \<circ> fst) migrations), final_catalogue)"
proof -
  obtain cfg where cfg: "LoadConfig [''DATABASE_URL'' \<mapsto> ''postgres://db''] = Some cfg" "cf_DatabaseURL cfg \<noteq> []"
    by (simp add: LoadConfig_def envDuration_def env_def Getenv_def)
  have "case exec_script (migration_0001 @ migration_0002 @ migration_0003) empty_catalogue of Inl e \<Rightarrow> False | Inr c \<Rightarrow> \<not> has_schema c"
    by code_simp
  then obtain c where c: "exec_script (migration_0001 @ migration_0002 @ migration_0003) empty_catalogue = Inr c" "\<not> has_schema c"
    by (auto split: sum.splits)
  have "exec_script (concat (map snd (take 3 migrations))) empty_catalogue = Inr c"
    using c(1) by (simp add: migrations_def)
  note reached = migrate_reaches_schema [OF _ cfg demo_opens _ _ demo_directory demo_runs_migrations this, of Absent]
  show ?thesis
    by (intro exI [of _ c] conjI c reached [THEN conjunct1]) (simp_all add: LoadDotEnv_def demo_sql_def demo_host_def)
qed

end
