(* ===== verification/Manifests.thy ===== *)
theory Manifests
  imports Bootstrap
begin

text \<open>
  The rest of \<^verbatim>\<open>internal/backends/kubernetes\<close> and of \<^verbatim>\<open>internal/platform/observability\<close>: loading the client configuration, the manifests as YAML text, and the
  choice of the log level. The client libraries are parameters. The lemmas are that the backend which loads is the one the drivers of \<open>Bootstrap\<close> have, and
  that no value of the environment of an app can break out of its line of the manifest.
\<close>

section \<open>Loading the client\<close>

record 'r kube_config =
  kc_InClusterConfig :: "error + 'r"
  kc_HomeDir :: string
  kc_BuildConfigFromFlags :: "string \<Rightarrow> string \<Rightarrow> error + 'r"

text \<open>The configurations, and the client made of one; the path is \<^verbatim>\<open>filepath.Join(home, ".kube", "config")\<close> for a clean home directory.\<close>

definition NewBackend :: "'r kube_config \<Rightarrow> ('r \<Rightarrow> error + 'c kube) \<Rightarrow> (('c, 'z) kube_world_scheme DeploymentBackend, ('c, 'z) kube_world_scheme) op" where
  "NewBackend L newForConfig w =
     (let config =
        (case kc_InClusterConfig L of
           Inr config \<Rightarrow> Inr config
         | Inl _ \<Rightarrow>
             if kc_HomeDir L = [] then Inl (ErrText ''unable to determine home directory for kubeconfig'')
             else case kc_BuildConfigFromFlags L [] (kc_HomeDir L @ ''/.kube/config'') of
                    Inl err \<Rightarrow> Inl (ErrWrap (''load kubeconfig: '' @ Error err) err)
                  | Inr config \<Rightarrow> Inr config)
      in case config of
           Inl err \<Rightarrow> (Inl err, w)
         | Inr config \<Rightarrow>
             (case newForConfig config of
                Inl err \<Rightarrow> (Inl (ErrWrap (''create kubernetes client: '' @ Error err) err), w)
              | Inr client \<Rightarrow> (Inr (kube_backend client), w)))"

text \<open>The configuration of the cluster wins over the file, and the file is looked for only without it.\<close>

lemma NewBackend_in_cluster: "kc_InClusterConfig L = Inr r \<Longrightarrow> newForConfig r = Inr K \<Longrightarrow> NewBackend L newForConfig = ret (kube_backend K)"
  by (simp add: NewBackend_def ret_def fun_eq_iff)

lemma NewBackend_from_file:
  assumes "kc_InClusterConfig L = Inl err" "kc_HomeDir L \<noteq> []" "kc_BuildConfigFromFlags L [] (kc_HomeDir L @ ''/.kube/config'') = Inr r"
    and "newForConfig r = Inr K"
  shows "NewBackend L newForConfig = ret (kube_backend K)"
  using assms by (simp add: NewBackend_def ret_def fun_eq_iff)

text \<open>So wherever a client can be made, the drivers of \<open>Bootstrap\<close> are the real ones, and a backend that does not load changes nothing.\<close>

lemma memory_drivers_NewBackend:
  "kc_InClusterConfig L = Inr r \<Longrightarrow> newForConfig r = Inr K \<Longrightarrow>
   (memory_drivers K redis lib postgres)\<lparr>dv_NewBackend := NewBackend L newForConfig\<rparr> = memory_drivers K redis lib postgres"
  by (simp add: NewBackend_in_cluster memory_drivers_def)

lemma NewBackend_fails:
  assumes "NewBackend L newForConfig w = (Inl err, w')"
  shows "w' = w" and "kc_InClusterConfig L = Inr r \<Longrightarrow> \<exists>e. newForConfig r = Inl e"
  using assms by (auto simp: NewBackend_def Let_def split: sum.splits if_splits)

section \<open>The log level\<close>

text \<open>A logger is its level and its service; what it prints is left out.\<close>

definition levelFromEnv :: "environ \<Rightarrow> Level" where
  "levelFromEnv e = parseLevel (Getenv e ''LOG_LEVEL'')"

definition NewLogger :: "environ \<Rightarrow> string \<Rightarrow> Level \<times> string" where
  "NewLogger e service = (levelFromEnv e, service)"

definition NewLoggerWithLevel :: "string \<Rightarrow> string \<Rightarrow> Level \<times> string" where
  "NewLoggerWithLevel service levelStr = (parseLevel levelStr, service)"

text \<open>The two ways to make a logger agree, since \<^verbatim>\<open>LoadConfig\<close> reads the same variable and an unset one means the information level.\<close>

lemma loggers_agree:
  assumes "LoadConfig e = Some cfg"
  shows "NewLoggerWithLevel service (cf_LogLevel cfg) = NewLogger e service"
proof -
  have "cf_LogLevel cfg = env e ''LOG_LEVEL'' ''info''"
    using assms unfolding LoadConfig_def bind_eq_Some_conv by clarsimp
  moreover have "parseLevel ''info'' = parseLevel []" by code_simp
  ultimately show ?thesis by (simp add: NewLoggerWithLevel_def NewLogger_def levelFromEnv_def env_def)
qed

section \<open>Manifests as text\<close>

record ManifestSet =
  ms_Namespace :: string
  ms_Deployment :: string
  ms_Service :: string
  ms_Ingress :: string

definition line :: "string \<Rightarrow> string" where
  "line s = s @ [CHR 0x0A]"

definition namespaceYAML :: "string \<Rightarrow> string" where
  "namespaceYAML namespace = concat (map line [''apiVersion: v1'', ''kind: Namespace'', ''metadata:'', ''  name: '' @ namespace])"

definition renderEnv :: "gomap \<Rightarrow> string" where
  "renderEnv envs =
     (if entries envs = [] then []
      else line ''        env:'' @
        concat (map (\<lambda>key. line (''        - name: '' @ key) @ line (''          value: '' @ Quote (lookup envs key))) (sortedKeys envs)))"

definition RenderManifestSet :: "App \<Rightarrow> Deployment \<Rightarrow> ManifestSet" where
  "RenderManifestSet app deployment =
     (let namespace = namespaceForTenant (app_TenantID app);
          name = resourceName (app_Slug app) (dep_Version deployment);
          cfg = app_Config app;
          deploymentYAML = concat (map line
            [''apiVersion: apps/v1'',
             ''kind: Deployment'',
             ''metadata:'',
             ''  name: '' @ name, ''  namespace: '' @ namespace,
             ''spec:'',
             ''  replicas: '' @ Itoa (cfg_Replicas cfg),
             ''  selector:'', ''    matchLabels:'',
             ''      app.kubernetes.io/name: '' @ trimForKubeName (app_Slug app),
             ''  template:'', ''    metadata:'', ''      labels:'',
             ''        app.kubernetes.io/name: '' @ trimForKubeName (app_Slug app),
             ''    spec:'',
             ''      containers:'',
             ''      - name: openclaw'', ''        image: '' @ dep_ImageRef deployment,
             ''        ports:'', ''        - containerPort: '' @ Itoa (cfg_Port cfg),
             ''        resources:'',
             ''          requests:'',
             ''            cpu: '' @ cfg_CPURequest cfg, ''            memory: '' @ cfg_MemoryRequest cfg,
             ''          limits:'',
             ''            cpu: '' @ cfg_CPULimit cfg, ''            memory: '' @ cfg_MemoryLimit cfg]) @
            renderEnv (cfg_Env cfg);
          serviceYAML = concat (map line
            [''apiVersion: v1'', ''kind: Service'', ''metadata:'',
             ''  name: '' @ name, ''  namespace: '' @ namespace,
             ''spec:'', ''  selector:'',
             ''    app.kubernetes.io/name: '' @ trimForKubeName (app_Slug app),
             ''  ports:'',
             ''  - port: 80'', ''    targetPort: '' @ Itoa (cfg_Port cfg)]);
          host = (if cfg_Domain cfg = [] then trimForKubeName (app_Slug app) @ ''.example.local'' else cfg_Domain cfg);
          ingressYAML =
            (if cfg_Public cfg then concat (map line
               [''apiVersion: networking.k8s.io/v1'', ''kind: Ingress'', ''metadata:'',
                ''  name: '' @ trimForKubeName (app_Slug app), ''  namespace: '' @ namespace,
                ''spec:'', ''  rules:'',
                ''  - host: '' @ host, ''    http:'', ''      paths:'',
                ''      - path: /'', ''        pathType: Prefix'', ''        backend:'', ''          service:'',
                ''            name: '' @ name, ''            port:'', ''              number: 80''])
             else [])
      in \<lparr>ms_Namespace = namespaceYAML namespace, ms_Deployment = deploymentYAML, ms_Service = serviceYAML, ms_Ingress = ingressYAML\<rparr>)"

section \<open>Reading the environment back\<close>

fun splitLines :: "string \<Rightarrow> string list" where
  "splitLines [] = []"
| "splitLines (c # s) =
     (if c = CHR 0x0A then [] # splitLines s
      else case splitLines s of [] \<Rightarrow> [[c]] | l # ls \<Rightarrow> (c # l) # ls)"

text \<open>A double-quoted scalar as YAML reads it, for the escapes that \<^verbatim>\<open>%q\<close> writes for ASCII text.\<close>

definition unhex_digit :: "char \<Rightarrow> nat" where
  "unhex_digit c = (let n = of_char c in if n < 58 then n - 48 else n - 87)"

definition escapes :: "(char \<times> char) list" where
  "escapes = [(CHR 0x22, CHR 0x22), (CHR 0x5C, CHR 0x5C), (CHR ''a'', CHR 0x07), (CHR ''b'', CHR 0x08), (CHR ''f'', CHR 0x0C),
     (CHR ''n'', CHR 0x0A), (CHR ''r'', CHR 0x0D), (CHR ''t'', CHR 0x09), (CHR ''v'', CHR 0x0B)]"

fun unescape :: "string \<Rightarrow> string option" where
  "unescape [] = None"
| "unescape [c] = (if c = CHR 0x22 then Some [] else None)"
| "unescape (c # d # s) =
     (if c = CHR 0x22 then None
      else if c \<noteq> CHR 0x5C then map_option (Cons c) (unescape (d # s))
      else if d = CHR ''x'' then
        (case s of
           h # l # s' \<Rightarrow> map_option (Cons (char_of (16 * unhex_digit h + unhex_digit l))) (unescape s')
         | _ \<Rightarrow> None)
      else case map_of escapes d of None \<Rightarrow> None | Some e \<Rightarrow> map_option (Cons e) (unescape s))"

definition Unquote :: "string \<Rightarrow> string option" where
  "Unquote s = (case s of [] \<Rightarrow> None | c # s \<Rightarrow> if c = CHR 0x22 then unescape s else None)"

lemma splitLines_line: "CHR 0x0A \<notin> set l \<Longrightarrow> splitLines (line l @ s) = l # splitLines s"
  unfolding line_def by (induction l) (auto split: list.split)

lemma quote_char_no_newline: "CHR 0x0A \<notin> set (quote_char c)"
proof -
  have "\<not> is_hex (CHR 0x0A)" by (simp add: is_hex_def)
  then have "CHR 0x0A \<notin> set (hex_byte b)" for b using hex_byte_is_hex by blast
  then show ?thesis by (simp add: quote_char_def)
qed

lemma Quote_no_newline: "CHR 0x0A \<notin> set (Quote s)"
  by (simp add: Quote_def quoted_def quote_char_no_newline)

text \<open>Reading undoes quoting, one byte at a time.\<close>

lemma unhex_hex_digit: "n < 16 \<Longrightarrow> unhex_digit (hex_digit n) = n"
  by (simp add: hex_digit_def unhex_digit_def)

lemma nibbles: "16 * unat (drop_bit 4 (b :: 8 word)) + unat (b AND 0x0F) = unat b"
proof -
  have "b AND 0x0F = take_bit 4 b" by (simp only: take_bit_eq_mask mask_eq_exp_minus_1) simp
  then have "unat (b AND 0x0F) = take_bit 4 (unat b)" by (simp only: unsigned_take_bit_eq)
  then have "unat (b AND 0x0F) = unat b mod 16" by (simp only: take_bit_eq_mod) simp
  moreover have "unat (drop_bit 4 b) = unat b div 16" by (simp only: unat_drop_bit_eq) (simp add: drop_bit_eq_div)
  ultimately show ?thesis by simp
qed

lemma unhex_hex_byte:
  obtains h l where "hex_byte (of_char c) = [h, l]" "char_of (16 * unhex_digit h + unhex_digit l) = c"
proof -
  have "unat (of_nat (of_char c) :: 8 word) = of_char c" by (simp add: unsigned_of_nat take_bit_eq_mod del: of_nat_of_char)
  then have "unat (of_char c :: 8 word) = of_char c" by (simp only: of_nat_of_char)
  then show ?thesis
    using nibble_bounds [of "of_char c"] nibbles [of "of_char c"]
    by (intro that [of "hex_digit (unat (drop_bit 4 (of_char c :: 8 word)))" "hex_digit (unat (of_char c AND (0x0F :: 8 word)))"])
      (simp_all add: hex_byte_def unhex_hex_digit)
qed

lemma unescape_quote_char: "unescape (quote_char c @ s) = map_option (Cons c) (unescape s)"
proof (cases "c \<in> {CHR 0x22, CHR 0x5C, CHR 0x07, CHR 0x08, CHR 0x0C, CHR 0x0A, CHR 0x0D, CHR 0x09, CHR 0x0B}")
  case True
  then show ?thesis by (elim insertE emptyE) (simp_all add: quote_char_def escapes_def)
next
  case False
  show ?thesis
  proof (cases "(of_char c :: nat) < 32 \<or> c = CHR 0x7F")
    case True
    then have "quote_char c = CHR 0x5C # CHR ''x'' # hex_byte (of_char c)" using False by (simp add: quote_char_def)
    moreover obtain h l where "hex_byte (of_char c) = [h, l]" "char_of (16 * unhex_digit h + unhex_digit l) = c"
      by (rule unhex_hex_byte)
    ultimately show ?thesis by simp
  next
    case plain: False
    then have "quote_char c = [c]" using False by (simp add: quote_char_def)
    then show ?thesis using False by (cases s) simp_all
  qed
qed

lemma Unquote_Quote: "Unquote (Quote s) = Some s"
proof -
  have "unescape (concat (map quote_char s) @ [CHR 0x22]) = Some s"
    by (induction s) (simp_all add: unescape_quote_char)
  then show ?thesis by (simp add: Unquote_def Quote_def quoted_def)
qed

text \<open>
  The block has two lines for each variable, in the order of the names, whatever bytes the values have: a value is read back from its own line and cannot add
  others. A name is written as it is, so a name with a newline in it would.
\<close>

lemma splitLines_renderEnv:
  assumes "\<forall>key \<in> set (sortedKeys envs). CHR 0x0A \<notin> set key" "entries envs \<noteq> []"
  shows "splitLines (renderEnv envs) =
    ''        env:'' # concat (map (\<lambda>key. [''        - name: '' @ key, ''          value: '' @ Quote (lookup envs key)]) (sortedKeys envs))"
proof -
  have "splitLines (concat (map (\<lambda>key. line (''        - name: '' @ key) @ line (''          value: '' @ Quote (lookup envs key))) keys)) =
      concat (map (\<lambda>key. [''        - name: '' @ key, ''          value: '' @ Quote (lookup envs key)]) keys)"
    if "\<forall>key \<in> set keys. CHR 0x0A \<notin> set key" for keys
    using that by (induction keys) (simp_all add: splitLines_line Quote_no_newline)
  with assms show ?thesis by (simp add: renderEnv_def splitLines_line)
qed

lemma renderEnv_breaks:
  "splitLines (renderEnv (Some [(''A'' @ [CHR 0x0A] @ ''        image: evil'', ''1'')])) ! 2 = ''        image: evil''"
  by code_simp

end
