(* ===== verification/PgExamples.thy ===== *)
theory PgExamples
  imports PgProps
begin

text \<open>
  A small database, with a tenant, its owner and an app, on which the theorems of \<open>PgProps\<close> are applied: their hypotheses hold there.
\<close>

definition demo_tenant :: string where "demo_tenant = ''00000000-0000-4000-8000-000000000001''"
definition demo_other :: string where "demo_other = ''00000000-0000-4000-8000-000000000002''"
definition demo_user :: string where "demo_user = ''00000000-0000-4000-8000-0000000000a1''"
definition demo_app :: string where "demo_app = ''00000000-0000-4000-8000-0000000000b1''"

definition demo_codec :: jcodec where
  "demo_codec =
     \<lparr>jc_config = \<lambda>_. Inr ''{}'', jc_unconfig = \<lambda>_. Inr zeroAppConfig, jc_ref = \<lambda>_. Inr ''{}'', jc_unref = \<lambda>_. Inr zeroBackendRef,
      jc_metadata = \<lambda>_. Inr ''{}''\<rparr>"

definition demo_tables :: tables where
  "demo_tables t =
     (if t = ''tenants'' then
        [[(''id'', VText demo_tenant), (''slug'', VText ''a-b-x-org''), (''name'', VText ''A''), (''plan'', VText ''free''),
          (''status'', VText ''active''), (''created_at'', VTime 0), (''updated_at'', VTime 0)]]
      else if t = ''users'' then
        [[(''id'', VText demo_user), (''email'', VText ''a.b@x.org''), (''display_name'', VText ''A''),
          (''default_tenant_id'', VText demo_tenant), (''created_at'', VTime 0), (''updated_at'', VTime 0)]]
      else if t = ''apps'' then
        [[(''id'', VText demo_app), (''tenant_id'', VText demo_tenant), (''name'', VText ''web''), (''slug'', VText ''web''),
          (''desired_state'', VText ''active''), (''current_deployment_id'', VNull), (''config'', VBytes ''{}''),
          (''created_by'', VText demo_user), (''created_at'', VTime 0), (''updated_at'', VTime 0)]]
      else [])"

definition demo_pg :: pg_world where
  "demo_pg =
     \<lparr>clk = (\<lambda>n. int n * 1000000), ticks = 0, rnd = (\<lambda>_ _. 7), rnd_ok = (\<lambda>_. True), draws = 0, sel = (\<lambda>_. None), sels = 0,
      rank = (\<lambda>_ _. 0), ranges = 0, mq = mq_NewClient, pg_tables = demo_tables, pg_calls = 0, pg_down = (\<lambda>_. None), pg_jsonb = Some\<rparr>"

definition demo_deployment :: "string \<Rightarrow> Deployment" where
  "demo_deployment i =
     \<lparr>dep_ID = i, dep_TenantID = demo_tenant, dep_AppID = demo_app, dep_Version = 1, dep_ImageRef = ''nginx'',
      dep_ConfigSnapshot = zeroAppConfig, dep_Status = DeploymentStatusQueued, dep_StatusReason = [], dep_Backend = ''kubernetes'',
      dep_BackendRef = zeroBackendRef, dep_RequestedBy = demo_user, dep_RepairAttempts = 0, dep_StartedAt = None,
      dep_FinishedAt = Some 1500, dep_CreatedAt = 1000000, dep_UpdatedAt = 1000001\<rparr>"

definition demo_d1 :: Deployment where "demo_d1 = demo_deployment ''00000000-0000-4000-8000-0000000000d1''"
definition demo_d2 :: Deployment where "demo_d2 = demo_deployment ''00000000-0000-4000-8000-0000000000d2''"

lemma demo_holds:
  "connected demo_pg" "wfDeployment demo_codec (pg_jsonb demo_pg) demo_d1" "wfDeployment demo_codec (pg_jsonb demo_pg) demo_d2"
  "storable demo_d1" "storable demo_d2" "fits (pg_tables demo_pg) demo_d1"
proof -
  show "connected demo_pg" by (simp add: demo_pg_def)
  show "wfDeployment demo_codec (pg_jsonb demo_pg) demo_d1" by code_simp
  show "wfDeployment demo_codec (pg_jsonb demo_pg) demo_d2" by code_simp
  show "storable demo_d1" "storable demo_d2" by code_simp+
  show "fits (pg_tables demo_pg) demo_d1" by code_simp
qed

theorem pg_deployment_roundtrip_witness:
  "\<exists>w1. pg_Dep_Create demo_codec demo_d1 demo_pg = (Inr (), w1) \<and>
    (\<exists>w2. pg_Dep_GetByID demo_codec demo_tenant (dep_ID demo_d1) w1 = (Inr (stored demo_d1), w2)) \<and>
    (\<exists>w2. pg_Dep_GetByID demo_codec demo_other (dep_ID demo_d1) w1 = (Inl ErrNotFound, w2))"
proof -
  have "dep_TenantID demo_d1 = demo_tenant" by (simp add: demo_d1_def demo_deployment_def)
  moreover have "uuid_in demo_other = Some demo_other" by code_simp
  moreover have "demo_other \<noteq> demo_tenant" by code_simp
  ultimately show ?thesis using pg_deployment_roundtrip [OF demo_holds(1,2,4,6)] by metis
qed

text \<open>Two requests, one after the other up to the reading of the version.\<close>

definition demo_read1 :: pg_world where
  "demo_read1 = snd (pg_NextVersion (dep_TenantID demo_d1) (dep_AppID demo_d1) demo_pg)"

definition demo_read2 :: pg_world where
  "demo_read2 = snd (pg_NextVersion (dep_TenantID demo_d1) (dep_AppID demo_d1) demo_read1)"

definition demo_created :: pg_world where
  "demo_created = snd (pg_Dep_Create demo_codec demo_d1 demo_read2)"

lemma demo_runs:
  "pg_NextVersion (dep_TenantID demo_d1) (dep_AppID demo_d1) demo_pg = (Inr (dep_Version demo_d1), demo_read1)"
  "pg_NextVersion (dep_TenantID demo_d1) (dep_AppID demo_d1) demo_read1 = (Inr (dep_Version demo_d2), demo_read2)"
  "pg_Dep_Create demo_codec demo_d1 demo_read2 = (Inr (), demo_created)"
proof -
  have "fst (pg_NextVersion (dep_TenantID demo_d1) (dep_AppID demo_d1) demo_pg) = Inr (dep_Version demo_d1)"
    "fst (pg_NextVersion (dep_TenantID demo_d1) (dep_AppID demo_d1) demo_read1) = Inr (dep_Version demo_d2)"
    "fst (pg_Dep_Create demo_codec demo_d1 demo_read2) = Inr ()"
    by code_simp+
  then show
    "pg_NextVersion (dep_TenantID demo_d1) (dep_AppID demo_d1) demo_pg = (Inr (dep_Version demo_d1), demo_read1)"
    "pg_NextVersion (dep_TenantID demo_d1) (dep_AppID demo_d1) demo_read1 = (Inr (dep_Version demo_d2), demo_read2)"
    "pg_Dep_Create demo_codec demo_d1 demo_read2 = (Inr (), demo_created)"
    unfolding demo_read1_def demo_read2_def demo_created_def by (metis prod.collapse)+
qed

theorem pg_version_race_witness:
  "dep_Version demo_d2 = dep_Version demo_d1 \<and>
   (\<exists>e w4. pg_Dep_Create demo_codec demo_d2 demo_created = (Inl e, w4) \<and> errors_Is e ErrConflict \<and> pg_tables w4 = pg_tables demo_created)"
proof -
  have "dep_TenantID demo_d2 = dep_TenantID demo_d1" "dep_AppID demo_d2 = dep_AppID demo_d1"
    by (simp_all add: demo_d1_def demo_d2_def demo_deployment_def)
  from pg_version_race [OF demo_holds(1,2,3,5) this demo_runs] show ?thesis by (elim conjE) (intro conjI)
qed

theorem pg_reads_confined_witness:
  "\<exists>app w'. pg_App_GetByID demo_codec demo_tenant demo_app demo_pg = (Inr app, w') \<and> uuid_in demo_tenant = Some (app_TenantID app)"
proof -
  have "\<not> isl (fst (pg_App_GetByID demo_codec demo_tenant demo_app demo_pg))" by code_simp
  then obtain app where "fst (pg_App_GetByID demo_codec demo_tenant demo_app demo_pg) = Inr app"
    by (cases "fst (pg_App_GetByID demo_codec demo_tenant demo_app demo_pg)") auto
  then obtain w' where r: "pg_App_GetByID demo_codec demo_tenant demo_app demo_pg = (Inr app, w')" by (metis prod.collapse)
  with pg_reads_confined [THEN conjunct1, THEN mp, OF r] show ?thesis by (intro exI conjI)
qed

definition demo_user2 :: User where
  "demo_user2 =
     \<lparr>user_ID = ''00000000-0000-4000-8000-0000000000a2'', user_Email = ''a_b@x.org'', user_DisplayName = ''B'', user_DefaultTenantID = [],
      user_CreatedAt = 0, user_UpdatedAt = 0\<rparr>"

theorem pg_personal_tenant_slug_taken_witness:
  "\<exists>e w'. pg_CreatePersonalTenant demo_user2 demo_pg = (Inl e, w') \<and> \<not> errors_Is e ErrConflict \<and> pg_tables w' = pg_tables demo_pg"
proof (rule pg_personal_tenant_slug_taken [OF demo_holds(1)])
  have "cell (hd (demo_tables ''tenants'')) ''slug'' = VText (pg_sanitizeSlug (user_Email demo_user2))" by code_simp
  then show "cell (hd (pg_tables demo_pg ''tenants'')) ''slug'' = VText (pg_sanitizeSlug (user_Email demo_user2))"
    by (simp add: demo_pg_def)
  show "hd (pg_tables demo_pg ''tenants'') \<in> set (pg_tables demo_pg ''tenants'')" by (simp add: demo_pg_def demo_tables_def)
qed

end
