(* ===== verification/Spec2Isabelle.thy ===== *)
theory Spec2Isabelle
  imports SystemRun Rollout Migrate Manifests PgExamples
begin

text \<open>
  Clawflux is a control plane for agent workloads on Kubernetes. A request creates an app and asks for a
  deployment of it; the service stores a snapshot and puts a job on a queue; a worker takes the job,
  drives the cluster through the backend, and keeps synchronising the stored status with the cluster; a
  reconciler puts active deployments back on the queue. This library models the program from its Go sources
  under \<^verbatim>\<open>src/\<close> and proves what makes its parts correct.

  \<^bold>\<open>Conventions.\<close> A struct is a record, an enumeration a datatype, an interface a record of calls. A call that
  may fail is a function from the world to an error or a value and the new world (\<open>op\<close> in \<open>Prelude\<close>), so what
  was written before a failure stays written. The world of every component extends \<open>env\<close>, the oracle for the
  clock, the random source, the choice of a \<^verbatim>\<open>select\<close> and the order of a map iteration: theorems hold for every
  clock, source, cancellation and order. A panic ends a call with \<open>Panic\<close> or \<open>NilDereference\<close> and no error
  handler sees it. Loops that may not end (\<^verbatim>\<open>Dequeue\<close>, \<^verbatim>\<open>Run\<close>, \<^verbatim>\<open>RunReconciler\<close>, \<^verbatim>\<open>ParseDuration\<close>) are partial functions into
  \<open>option\<close>; there is no fuel anywhere, all other recursion is structural or has a measure. Durations and the
  integers of Go are unbounded except where wrap-around matters: the doubling of the retry delay, the 32-bit
  fields of Kubernetes objects and the parsing of numbers wrap or are bounded as in the code.

  \<^bold>\<open>Theories.\<close>
  \<^item> \<open>Prelude\<close>, \<open>GoLib\<close>: errors, calls, the oracle; strings, decimal, hexadecimal and JSON text, string maps.
  \<^item> \<open>Domain\<close> (\<^verbatim>\<open>internal/domain\<close>): the data model and the interfaces. \<open>Idgen\<close> (\<^verbatim>\<open>internal/platform/idgen\<close>): the
    identifiers and their shape.
  \<^item> \<open>Contracts\<close>: what the parts promise each other, as locales. \<open>reliable_queue\<close> abstracts a job queue to a bag of
    waiting jobs, leases and dead letters; \<open>records\<close> abstracts the repositories to maps; \<open>control_plane\<close> puts both
    over one world; \<open>hosted_plane\<close> adds a backend. The theorems about services, handlers and the worker loop are
    proved in these locales once.
  \<^item> \<open>MemQueue\<close> (\<^verbatim>\<open>internal/queue/memory\<close>) and \<open>MemStore\<close> (\<^verbatim>\<open>internal/repositories/memory\<close>): the memory drivers, shown
    to satisfy the contracts by interpretation; no job is lost over any run, promotion and reclaiming against
    their reference definitions, first in first out, liveness of \<^verbatim>\<open>Dequeue\<close>; the invariant of the store.
  \<^item> \<open>AppService\<close>, \<open>DeploymentService\<close> (with the scheduler), \<open>AuthServices\<close> (\<^verbatim>\<open>internal/services\<close>, \<^verbatim>\<open>internal/auth\<close>): the
    services on every branch; versions, guards, idempotence; API keys and sign-in.
  \<^item> \<open>Handlers\<close> (\<^verbatim>\<open>internal/worker/handlers\<close>, \<^verbatim>\<open>reliability_service.go\<close>): the job handlers, with a small program logic for
    tenant isolation. \<open>Consumer\<close> (\<^verbatim>\<open>internal/worker/consumer.go\<close>): the worker loop.
  \<^item> \<open>KubeNames\<close>, \<open>KubeBackend\<close> (\<^verbatim>\<open>internal/backends/kubernetes\<close>): names, plans and status; manifests and the calls made
    of the cluster, whose client library is a parameter. The backend is interpreted as a \<open>hosted_plane\<close>.
  \<^item> \<open>RedisResp\<close>, \<open>RedisClient\<close> (\<^verbatim>\<open>internal/queue/redis\<close>): the protocol and its round trip; the connection pool and every call of the
    queue over a network given as a parameter, what they do to the pool, and how failed dials exhaust it.
  \<^item> \<open>Runtime\<close> (\<^verbatim>\<open>internal/app/bootstrap.go\<close>): the composed worker and its safety over one turn. \<open>Rollout\<close>: what it achieves, as the outcome of a
    create and of a sync job on every branch; so an accepted request leads to a running deployment on a cluster that does its part.
  \<^item> \<open>Http\<close>, \<open>HttpApi\<close> (\<^verbatim>\<open>internal/api/http\<close>): requests, the response writer, the middleware and the multiplexer; every handler and route over the
    services. A handler works on the response and the world; a panic ends it with \<open>Inl\<close>.
  \<^item> \<open>HttpGuards\<close>: what holds of the interface over any services: every request is answered once and with the security headers, requests
    without credentials are refused, the platform routes are closed to everyone else. \<open>HttpRuntime\<close>: over the memory drivers, a
    request shows and changes only what belongs to the tenant of its actor; and a header makes anyone a platform administrator.
  \<^item> \<open>Config\<close> (\<^verbatim>\<open>internal/app/config.go\<close>, \<^verbatim>\<open>dotenv.go\<close>): the settings of a process, with the duration parser on 64-bit words: it ends on every text,
    reads back what is written, and the environment wins over the file and the file over the defaults.
  \<^item> \<open>Sql\<close>, \<open>PgRepos\<close> (\<^verbatim>\<open>migrations\<close>, \<^verbatim>\<open>internal/repositories/postgres\<close>): the schema and the statements as operations on tables, with the checks and errors of the
    database and connections that fail; every repository method. \<open>PgProps\<close>: reads and writes stay within a tenant, a deployment is read back as it was
    stored, versions read twice end in a conflict, a slug that is taken keeps a user out, and no audit entry is ever written. \<open>PgExamples\<close>: a database
    where the hypotheses hold.
  \<^item> \<open>Bootstrap\<close> (\<^verbatim>\<open>bootstrap.go\<close>, \<^verbatim>\<open>internal/platform/database\<close>): building the runtime from a configuration. With the memory drivers it is the system the theorems are
    about, in a state where their hypotheses hold.
  \<^item> \<open>Manifests\<close> (\<^verbatim>\<open>manifests.go\<close>, \<^verbatim>\<open>backend.go\<close>, \<^verbatim>\<open>internal/observability\<close>): loading the client of the cluster, the manifests as text, the log level; the values
    of an environment are read back from their own lines of the manifest.
  \<^item> \<open>EntryPoints\<close> (\<^verbatim>\<open>cmd/api\<close>, \<^verbatim>\<open>cmd/worker\<close>): starting a process, and a process as a step relation: its goroutines serve requests, take turns of the worker and
    pass the reconciler in any order, until one of them ends the process. The loops \<^verbatim>\<open>Run\<close> and \<^verbatim>\<open>RunReconciler\<close> are the iterations of these turns. \<open>SystemRun\<close>: over the memory
    drivers, every run of the API process keeps its records well formed and its jobs accounted for, and leaves alone what belongs to a tenant for whom
    nothing is done.
  \<^item> \<open>Migrate\<close> (\<^verbatim>\<open>cmd/migrate\<close>, \<^verbatim>\<open>migrations\<close>): the migration command and the migrations as changes of a catalogue; from every earlier version it leads to the schema
    of \<open>Sql\<close>, and a second run changes nothing.

  \<^bold>\<open>Not modelled.\<close> The generated Swagger documentation, which is data; log lines and JSON as text: the decoders are parameters and a body is the value that is
  encoded. The HTTP server, signals, the file system, the database library and the client library of the cluster are parameters. A request, a turn
  of the worker and a pass of the reconciler is one step of a process: the interleavings within them, which the locks of the memory drivers and the
  transactions of the database order, are not. The database
  runs one statement at a time, which is what its unique keys guarantee of concurrent ones; collations, the texts of its errors, the defaults and delete rules of its columns are not modelled. Unicode beyond
  ASCII in the string functions, percent-escapes in
  paths, timeouts of connections and sizes beyond memory are not modelled. With the Postgres repositories the theorems are about each
  call and not about a run of the process: the laws of \<open>records\<close> do not hold of repositories whose every call can fail.
\<close>

end
